(* ===== verification/Prelude.thy ===== *)
theory Prelude
  imports Main "HOL-Library.Word"
begin

text \<open>
  Names and lemmas every component shares: the integer widths of the C++ code, byte vectors,
  \<open>slice\<close> for an iterator range \<^verbatim>\<open>[begin + i, begin + i + n)\<close>, the state
  \<open>(object, iterator)\<close> in which the \<^verbatim>\<open>insert\<close> methods of the quote structures
  run, and \<open>run_steps\<close>, which is a chain of
  \<^verbatim>\<open>if (!step) return false;\<close> statements ending in \<^verbatim>\<open>return true;\<close>.
\<close>

unbundle bit_operations_syntax

section \<open>Types\<close>

type_synonym u8 = "8 word"
type_synonym u16 = "16 word"
type_synonym u32 = "32 word"
type_synonym u64 = "64 word"
type_synonym bytes = "u8 list"
type_synonym time_t = int

text \<open>A C string ends at the first null character.\<close>

definition c_str :: "string \<Rightarrow> string" where
  "c_str s = takeWhile (\<lambda>c. c \<noteq> CHR 0x00) s"

named_theorems byte_layout \<open>facts about offsets, slices and fixed-width fields\<close>

section \<open>Iterator ranges over a byte vector\<close>

definition slice :: "nat \<Rightarrow> nat \<Rightarrow> 'a list \<Rightarrow> 'a list" where
  "slice i n xs = take n (drop i xs)"

lemma length_slice [byte_layout]: "i + n \<le> length xs \<Longrightarrow> length (slice i n xs) = n"
  by (simp add: slice_def)

lemma slice_append [byte_layout]: "slice i m xs @ slice (i + m) n xs = slice i (m + n) xs"
  by (simp add: slice_def take_add add.commute)

lemma slice_append_rest:
  "slice i m xs @ slice (i + m) n xs @ ys = slice i (m + n) xs @ ys"
  by (metis append.assoc slice_append)

lemma slice_0 [simp]: "slice i 0 xs = []"
  by (simp add: slice_def)

lemma slice_all [simp]: "slice 0 (length xs) xs = xs"
  by (simp add: slice_def)

lemma slice_slice [byte_layout]:
  "j + n \<le> m \<Longrightarrow> slice j n (slice i m xs) = slice (i + j) n xs"
  by (simp add: slice_def drop_take min_def add.commute)

lemma slice_nth: "j < n \<Longrightarrow> i + n \<le> length xs \<Longrightarrow> slice i n xs ! j = xs ! (i + j)"
  by (simp add: slice_def)

lemma slice_1: "i < length xs \<Longrightarrow> slice i 1 xs = [xs ! i]"
  by (simp add: slice_def take_Suc_conv_app_nth)

lemma slice_2 [byte_layout]: "i + 2 \<le> length xs \<Longrightarrow> slice i 2 xs = [xs ! i, xs ! (i + 1)]"
  by (simp add: slice_def numeral_eq_Suc take_Suc_conv_app_nth)

lemma slice_4 [byte_layout]:
  "i + 4 \<le> length xs \<Longrightarrow> slice i 4 xs = [xs ! i, xs ! (i + 1), xs ! (i + 2), xs ! (i + 3)]"
  by (simp add: slice_def numeral_eq_Suc take_Suc_conv_app_nth)

lemma slice_append_left: "i + n \<le> length xs \<Longrightarrow> slice i n (xs @ ys) = slice i n xs"
  by (simp add: slice_def)

lemma slice_append_right:
  "length xs \<le> i \<Longrightarrow> slice i n (xs @ ys) = slice (i - length xs) n ys"
  by (simp add: slice_def)

section \<open>Early-return chains over an object and an iterator\<close>

type_synonym 's step = "'s \<times> nat \<Rightarrow> bool \<times> 's \<times> nat"

fun run_steps :: "'s step list \<Rightarrow> 's step" where
  "run_steps [] st = (True, st)"
| "run_steps (f # fs) st = (case f st of (ok, st') \<Rightarrow> if ok then run_steps fs st' else (False, st'))"

text \<open>Read a value at the iterator into a member; on failure nothing is written.\<close>

definition read_field ::
  "(('a \<Rightarrow> 'a) \<Rightarrow> 's \<Rightarrow> 's) \<Rightarrow> (nat \<Rightarrow> ('a \<times> nat) option) \<Rightarrow> 's step" where
  "read_field upd rd = (\<lambda>(s, from). case rd from of
      None \<Rightarrow> (False, s, from)
    | Some (v, from') \<Rightarrow> (True, upd (\<lambda>_. v) s, from'))"

text \<open>Run a step of a member object inside the object that holds it.\<close>

definition on_member ::
  "('s \<Rightarrow> 'a) \<Rightarrow> (('a \<Rightarrow> 'a) \<Rightarrow> 's \<Rightarrow> 's) \<Rightarrow> 'a step \<Rightarrow> 's step" where
  "on_member get upd f = (\<lambda>(s, from). case f (get s, from) of
      (ok, a, from') \<Rightarrow> (ok, upd (\<lambda>_. a) s, from'))"

lemma run_steps_append:
  "run_steps (fs @ gs) st =
     (case run_steps fs st of (ok, st') \<Rightarrow> if ok then run_steps gs st' else (False, st'))"
  by (induction fs arbitrary: st) (auto split: prod.splits if_splits)

lemma run_steps_Cons_ok: "f st = (True, st') \<Longrightarrow> run_steps (f # fs) st = run_steps fs st'"
  by simp

lemma run_steps_Cons_fail: "f st = (False, st') \<Longrightarrow> run_steps (f # fs) st = (False, st')"
  by simp

end
