(* ===== verification/Statuses.thy ===== *)
theory Statuses
  imports Main
begin

text \<open>
  The status codes of the library's C interface (\<^verbatim>\<open>QuoteVerification.h\<close>, enum
  \<^verbatim>\<open>_status\<close>), the C++ exceptions its code throws and catches, and the two printing
  functions of \<^verbatim>\<open>Utils/StatusPrinter.cpp\<close>.  A function that may throw returns
  a value of \<^typ>\<open>'e + 'a\<close>, \<open>Inl\<close> for the exception; \<open>bindE\<close> runs the rest of
  the function body when nothing was thrown, and \<open>vec_at\<close> is \<^verbatim>\<open>std::vector::at\<close>.
\<close>

section \<open>The status enumeration\<close>

datatype (plugins only: size) status =
    STATUS_OK
  | STATUS_UNSUPPORTED_CERT_FORMAT
  | STATUS_SGX_ROOT_CA_MISSING
  | STATUS_SGX_ROOT_CA_INVALID
  | STATUS_SGX_ROOT_CA_INVALID_EXTENSIONS
  | STATUS_SGX_ROOT_CA_INVALID_ISSUER
  | STATUS_SGX_ROOT_CA_UNTRUSTED
  | STATUS_SGX_INTERMEDIATE_CA_MISSING
  | STATUS_SGX_INTERMEDIATE_CA_INVALID
  | STATUS_SGX_INTERMEDIATE_CA_INVALID_EXTENSIONS
  | STATUS_SGX_INTERMEDIATE_CA_INVALID_ISSUER
  | STATUS_SGX_INTERMEDIATE_CA_REVOKED
  | STATUS_SGX_PCK_MISSING
  | STATUS_SGX_PCK_INVALID
  | STATUS_SGX_PCK_INVALID_EXTENSIONS
  | STATUS_SGX_PCK_INVALID_ISSUER
  | STATUS_SGX_PCK_REVOKED
  | STATUS_TRUSTED_ROOT_CA_INVALID
  | STATUS_SGX_PCK_CERT_CHAIN_UNTRUSTED
  | STATUS_SGX_TCB_INFO_UNSUPPORTED_FORMAT
  | STATUS_SGX_TCB_INFO_INVALID
  | STATUS_TCB_INFO_INVALID_SIGNATURE
  | STATUS_SGX_TCB_SIGNING_CERT_MISSING
  | STATUS_SGX_TCB_SIGNING_CERT_INVALID
  | STATUS_SGX_TCB_SIGNING_CERT_INVALID_EXTENSIONS
  | STATUS_SGX_TCB_SIGNING_CERT_INVALID_ISSUER
  | STATUS_SGX_TCB_SIGNING_CERT_CHAIN_UNTRUSTED
  | STATUS_SGX_TCB_SIGNING_CERT_REVOKED
  | STATUS_SGX_CRL_UNSUPPORTED_FORMAT
  | STATUS_SGX_CRL_UNKNOWN_ISSUER
  | STATUS_SGX_CRL_INVALID
  | STATUS_SGX_CRL_INVALID_EXTENSIONS
  | STATUS_SGX_CRL_INVALID_SIGNATURE
  | STATUS_SGX_CA_CERT_UNSUPPORTED_FORMAT
  | STATUS_SGX_CA_CERT_INVALID
  | STATUS_TRUSTED_ROOT_CA_UNSUPPORTED_FORMAT
  | STATUS_MISSING_PARAMETERS
  | STATUS_UNSUPPORTED_QUOTE_FORMAT
  | STATUS_UNSUPPORTED_PCK_CERT_FORMAT
  | STATUS_INVALID_PCK_CERT
  | STATUS_UNSUPPORTED_PCK_RL_FORMAT
  | STATUS_INVALID_PCK_CRL
  | STATUS_UNSUPPORTED_TCB_INFO_FORMAT
  | STATUS_PCK_REVOKED
  | STATUS_TCB_INFO_MISMATCH
  | STATUS_TCB_OUT_OF_DATE
  | STATUS_TCB_REVOKED
  | STATUS_TCB_CONFIGURATION_NEEDED
  | STATUS_TCB_OUT_OF_DATE_CONFIGURATION_NEEDED
  | STATUS_TCB_NOT_SUPPORTED
  | STATUS_TCB_UNRECOGNIZED_STATUS
  | STATUS_UNSUPPORTED_QE_CERTIFICATION
  | STATUS_INVALID_QE_CERTIFICATION_DATA_SIZE
  | STATUS_UNSUPPORTED_QE_CERTIFICATION_DATA_TYPE
  | STATUS_PCK_CERT_MISMATCH
  | STATUS_INVALID_QE_REPORT_SIGNATURE
  | STATUS_INVALID_QE_REPORT_DATA
  | STATUS_INVALID_QUOTE_SIGNATURE
  | STATUS_SGX_QE_IDENTITY_UNSUPPORTED_FORMAT
  | STATUS_SGX_QE_IDENTITY_INVALID
  | STATUS_SGX_QE_IDENTITY_INVALID_SIGNATURE
  | STATUS_SGX_ENCLAVE_REPORT_UNSUPPORTED_FORMAT
  | STATUS_SGX_ENCLAVE_IDENTITY_UNSUPPORTED_FORMAT
  | STATUS_SGX_ENCLAVE_IDENTITY_INVALID
  | STATUS_SGX_ENCLAVE_IDENTITY_UNSUPPORTED_VERSION
  | STATUS_SGX_ENCLAVE_IDENTITY_OUT_OF_DATE
  | STATUS_SGX_ENCLAVE_REPORT_MISCSELECT_MISMATCH
  | STATUS_SGX_ENCLAVE_REPORT_ATTRIBUTES_MISMATCH
  | STATUS_SGX_ENCLAVE_REPORT_MRENCLAVE_MISMATCH
  | STATUS_SGX_ENCLAVE_REPORT_MRSIGNER_MISMATCH
  | STATUS_SGX_ENCLAVE_REPORT_ISVPRODID_MISMATCH
  | STATUS_SGX_ENCLAVE_REPORT_ISVSVN_OUT_OF_DATE
  | STATUS_UNSUPPORTED_QE_IDENTITY_FORMAT
  | STATUS_QE_IDENTITY_OUT_OF_DATE
  | STATUS_QE_IDENTITY_MISMATCH
  | STATUS_SGX_TCB_INFO_EXPIRED
  | STATUS_SGX_ENCLAVE_IDENTITY_INVALID_SIGNATURE
  | STATUS_INVALID_PARAMETER
  | STATUS_SGX_PCK_CERT_CHAIN_EXPIRED
  | STATUS_SGX_CRL_EXPIRED
  | STATUS_SGX_SIGNING_CERT_CHAIN_EXPIRED
  | STATUS_SGX_ENCLAVE_IDENTITY_EXPIRED
  | STATUS_TCB_SW_HARDENING_NEEDED
  | STATUS_TCB_CONFIGURATION_AND_SW_HARDENING_NEEDED
  | STATUS_SGX_ENCLAVE_REPORT_ISVSVN_REVOKED
  | STATUS_TDX_MODULE_MISMATCH
  | STATUS_SGX_ENCLAVE_REPORT_ISVSVN_NOT_SUPPORTED
  | STATUS_TCB_TD_RELAUNCH_ADVISED
  | STATUS_TCB_TD_RELAUNCH_ADVISED_CONFIGURATION_NEEDED

definition status_list :: "status list" where
  "status_list = [
     STATUS_OK, STATUS_UNSUPPORTED_CERT_FORMAT, STATUS_SGX_ROOT_CA_MISSING,
     STATUS_SGX_ROOT_CA_INVALID, STATUS_SGX_ROOT_CA_INVALID_EXTENSIONS,
     STATUS_SGX_ROOT_CA_INVALID_ISSUER, STATUS_SGX_ROOT_CA_UNTRUSTED,
     STATUS_SGX_INTERMEDIATE_CA_MISSING, STATUS_SGX_INTERMEDIATE_CA_INVALID,
     STATUS_SGX_INTERMEDIATE_CA_INVALID_EXTENSIONS,
     STATUS_SGX_INTERMEDIATE_CA_INVALID_ISSUER, STATUS_SGX_INTERMEDIATE_CA_REVOKED,
     STATUS_SGX_PCK_MISSING, STATUS_SGX_PCK_INVALID, STATUS_SGX_PCK_INVALID_EXTENSIONS,
     STATUS_SGX_PCK_INVALID_ISSUER, STATUS_SGX_PCK_REVOKED, STATUS_TRUSTED_ROOT_CA_INVALID,
     STATUS_SGX_PCK_CERT_CHAIN_UNTRUSTED, STATUS_SGX_TCB_INFO_UNSUPPORTED_FORMAT,
     STATUS_SGX_TCB_INFO_INVALID, STATUS_TCB_INFO_INVALID_SIGNATURE,
     STATUS_SGX_TCB_SIGNING_CERT_MISSING, STATUS_SGX_TCB_SIGNING_CERT_INVALID,
     STATUS_SGX_TCB_SIGNING_CERT_INVALID_EXTENSIONS,
     STATUS_SGX_TCB_SIGNING_CERT_INVALID_ISSUER,
     STATUS_SGX_TCB_SIGNING_CERT_CHAIN_UNTRUSTED, STATUS_SGX_TCB_SIGNING_CERT_REVOKED,
     STATUS_SGX_CRL_UNSUPPORTED_FORMAT, STATUS_SGX_CRL_UNKNOWN_ISSUER,
     STATUS_SGX_CRL_INVALID, STATUS_SGX_CRL_INVALID_EXTENSIONS,
     STATUS_SGX_CRL_INVALID_SIGNATURE, STATUS_SGX_CA_CERT_UNSUPPORTED_FORMAT,
     STATUS_SGX_CA_CERT_INVALID, STATUS_TRUSTED_ROOT_CA_UNSUPPORTED_FORMAT,
     STATUS_MISSING_PARAMETERS, STATUS_UNSUPPORTED_QUOTE_FORMAT,
     STATUS_UNSUPPORTED_PCK_CERT_FORMAT, STATUS_INVALID_PCK_CERT,
     STATUS_UNSUPPORTED_PCK_RL_FORMAT, STATUS_INVALID_PCK_CRL,
     STATUS_UNSUPPORTED_TCB_INFO_FORMAT, STATUS_PCK_REVOKED, STATUS_TCB_INFO_MISMATCH,
     STATUS_TCB_OUT_OF_DATE, STATUS_TCB_REVOKED, STATUS_TCB_CONFIGURATION_NEEDED,
     STATUS_TCB_OUT_OF_DATE_CONFIGURATION_NEEDED, STATUS_TCB_NOT_SUPPORTED,
     STATUS_TCB_UNRECOGNIZED_STATUS, STATUS_UNSUPPORTED_QE_CERTIFICATION,
     STATUS_INVALID_QE_CERTIFICATION_DATA_SIZE,
     STATUS_UNSUPPORTED_QE_CERTIFICATION_DATA_TYPE, STATUS_PCK_CERT_MISMATCH,
     STATUS_INVALID_QE_REPORT_SIGNATURE, STATUS_INVALID_QE_REPORT_DATA,
     STATUS_INVALID_QUOTE_SIGNATURE, STATUS_SGX_QE_IDENTITY_UNSUPPORTED_FORMAT,
     STATUS_SGX_QE_IDENTITY_INVALID, STATUS_SGX_QE_IDENTITY_INVALID_SIGNATURE,
     STATUS_SGX_ENCLAVE_REPORT_UNSUPPORTED_FORMAT,
     STATUS_SGX_ENCLAVE_IDENTITY_UNSUPPORTED_FORMAT, STATUS_SGX_ENCLAVE_IDENTITY_INVALID,
     STATUS_SGX_ENCLAVE_IDENTITY_UNSUPPORTED_VERSION,
     STATUS_SGX_ENCLAVE_IDENTITY_OUT_OF_DATE, STATUS_SGX_ENCLAVE_REPORT_MISCSELECT_MISMATCH,
     STATUS_SGX_ENCLAVE_REPORT_ATTRIBUTES_MISMATCH,
     STATUS_SGX_ENCLAVE_REPORT_MRENCLAVE_MISMATCH,
     STATUS_SGX_ENCLAVE_REPORT_MRSIGNER_MISMATCH,
     STATUS_SGX_ENCLAVE_REPORT_ISVPRODID_MISMATCH,
     STATUS_SGX_ENCLAVE_REPORT_ISVSVN_OUT_OF_DATE, STATUS_UNSUPPORTED_QE_IDENTITY_FORMAT,
     STATUS_QE_IDENTITY_OUT_OF_DATE, STATUS_QE_IDENTITY_MISMATCH,
     STATUS_SGX_TCB_INFO_EXPIRED, STATUS_SGX_ENCLAVE_IDENTITY_INVALID_SIGNATURE,
     STATUS_INVALID_PARAMETER, STATUS_SGX_PCK_CERT_CHAIN_EXPIRED, STATUS_SGX_CRL_EXPIRED,
     STATUS_SGX_SIGNING_CERT_CHAIN_EXPIRED, STATUS_SGX_ENCLAVE_IDENTITY_EXPIRED,
     STATUS_TCB_SW_HARDENING_NEEDED, STATUS_TCB_CONFIGURATION_AND_SW_HARDENING_NEEDED,
     STATUS_SGX_ENCLAVE_REPORT_ISVSVN_REVOKED, STATUS_TDX_MODULE_MISMATCH,
     STATUS_SGX_ENCLAVE_REPORT_ISVSVN_NOT_SUPPORTED, STATUS_TCB_TD_RELAUNCH_ADVISED,
     STATUS_TCB_TD_RELAUNCH_ADVISED_CONFIGURATION_NEEDED]"

definition status_code :: "status \<Rightarrow> nat" where
  "status_code s = length (takeWhile (\<lambda>t. t \<noteq> s) status_list)"

section \<open>Exceptions\<close>

datatype exn =
    FormatException
  | InvalidExtensionException
  | InvalidVersionException
  | StatusNotSupportedException
  | RuntimeException status
  | VerCollInfoSizeException
  | InvalidArgument
  | OutOfRange
  | StdRuntimeError

type_synonym 'a outcome = "exn + 'a"

definition bindE :: "'a outcome \<Rightarrow> ('a \<Rightarrow> 'b outcome) \<Rightarrow> 'b outcome" where
  "bindE m k = (case m of Inl e \<Rightarrow> Inl e | Inr a \<Rightarrow> k a)"

definition throw_if :: "bool \<Rightarrow> exn \<Rightarrow> unit outcome" where
  "throw_if b e = (if b then Inl e else Inr ())"

definition vec_at :: "'a list \<Rightarrow> nat \<Rightarrow> 'a outcome" where
  "vec_at xs i = (if i < length xs then Inr (xs ! i) else Inl OutOfRange)"

lemma bindE_simps [simp]:
  "bindE (Inl e) k = Inl e"
  "bindE (Inr a) k = k a"
  by (simp_all add: bindE_def)

lemma bindE_eq_Inr [simp]: "(bindE m k = Inr b) = (\<exists>a. m = Inr a \<and> k a = Inr b)"
  by (cases m) auto

lemma bindE_eq_Inl: "(bindE m k = Inl e) = (m = Inl e \<or> (\<exists>a. m = Inr a \<and> k a = Inl e))"
  by (cases m) auto

lemma bindE_cong: "m = m' \<Longrightarrow> (\<And>a. m' = Inr a \<Longrightarrow> k a = k' a) \<Longrightarrow> bindE m k = bindE m' k'"
  by (cases m') auto

lemma throw_if_Inr [simp]: "(throw_if b e = Inr u) = (\<not> b)"
  by (simp add: throw_if_def)

lemma throw_if_Inl [simp]: "(throw_if b e = Inl e') = (b \<and> e' = e)"
  by (auto simp: throw_if_def)

lemma vec_at_Inr [simp]: "(vec_at xs i = Inr x) = (i < length xs \<and> xs ! i = x)"
  by (simp add: vec_at_def)

lemma vec_at_Inl [simp]: "(vec_at xs i = Inl e) = (length xs \<le> i \<and> e = OutOfRange)"
  by (auto simp: vec_at_def)

text \<open>The exceptions a computation may throw.\<close>

definition throws_only :: "exn set \<Rightarrow> 'a outcome \<Rightarrow> bool" where
  "throws_only S m \<longleftrightarrow> (\<forall>e. m = Inl e \<longrightarrow> e \<in> S)"

named_theorems throws \<open>rules for throws_only\<close>

lemma throws_Inr [throws, simp]: "throws_only S (Inr a)"
  by (simp add: throws_only_def)

lemma throws_Inl [simp]: "throws_only S (Inl e) \<longleftrightarrow> e \<in> S"
  by (simp add: throws_only_def)

lemma throws_bindE [throws]:
  "throws_only S m \<Longrightarrow> (\<And>a. m = Inr a \<Longrightarrow> throws_only S (k a)) \<Longrightarrow> throws_only S (bindE m k)"
  by (cases m) (auto simp: throws_only_def)

lemma throws_throw_if [simp]: "throws_only S (throw_if b e) \<longleftrightarrow> (b \<longrightarrow> e \<in> S)"
  by (simp add: throws_only_def)

lemma throws_vec_at [simp]: "OutOfRange \<in> S \<Longrightarrow> throws_only S (vec_at xs i)"
  by (simp add: throws_only_def)

lemma throws_onlyD: "throws_only S m \<Longrightarrow> m = Inl e \<Longrightarrow> e \<in> S"
  by (simp add: throws_only_def)

section \<open>Printing\<close>

definition statusStrs :: "string list" where
  "statusStrs = [
     ''STATUS_OK'', ''STATUS_UNSUPPORTED_CERT_FORMAT'', ''STATUS_SGX_ROOT_CA_MISSING'',
     ''STATUS_SGX_ROOT_CA_INVALID'', ''STATUS_SGX_ROOT_CA_INVALID_EXTENSIONS'',
     ''STATUS_SGX_ROOT_CA_INVALID_ISSUER'', ''STATUS_SGX_ROOT_CA_UNTRUSTED'',
     ''STATUS_SGX_INTERMEDIATE_CA_MISSING'', ''STATUS_SGX_INTERMEDIATE_CA_INVALID'',
     ''STATUS_SGX_INTERMEDIATE_CA_INVALID_EXTENSIONS'',
     ''STATUS_SGX_INTERMEDIATE_CA_INVALID_ISSUER'', ''STATUS_SGX_INTERMEDIATE_CA_REVOKED'',
     ''STATUS_SGX_PCK_MISSING'', ''STATUS_SGX_PCK_INVALID'',
     ''STATUS_SGX_PCK_INVALID_EXTENSIONS'', ''STATUS_SGX_PCK_INVALID_ISSUER'',
     ''STATUS_SGX_PCK_REVOKED'', ''STATUS_TRUSTED_ROOT_CA_INVALID'',
     ''STATUS_SGX_PCK_CERT_CHAIN_UNTRUSTED'', ''STATUS_SGX_TCB_INFO_UNSUPPORTED_FORMAT'',
     ''STATUS_SGX_TCB_INFO_INVALID'', ''STATUS_TCB_INFO_INVALID_SIGNATURE'',
     ''STATUS_SGX_TCB_SIGNING_CERT_MISSING'', ''STATUS_SGX_TCB_SIGNING_CERT_INVALID'',
     ''STATUS_SGX_TCB_SIGNING_CERT_INVALID_EXTENSIONS'',
     ''STATUS_SGX_TCB_SIGNING_CERT_INVALID_ISSUER'',
     ''STATUS_SGX_TCB_SIGNING_CERT_CHAIN_UNTRUSTED'',
     ''STATUS_SGX_TCB_SIGNING_CERT_REVOKED'', ''STATUS_SGX_CRL_UNSUPPORTED_FORMAT'',
     ''STATUS_SGX_CRL_UNKNOWN_ISSUER'', ''STATUS_SGX_CRL_INVALID'',
     ''STATUS_SGX_CRL_INVALID_EXTENSIONS'', ''STATUS_SGX_CRL_INVALID_SIGNATURE'',
     ''STATUS_SGX_CA_CERT_UNSUPPORTED_FORMAT'', ''STATUS_SGX_CA_CERT_INVALID'',
     ''STATUS_TRUSTED_ROOT_CA_UNSUPPORTED_FORMAT'', ''STATUS_MISSING_PARAMETERS'',
     ''STATUS_UNSUPPORTED_QUOTE_FORMAT'', ''STATUS_UNSUPPORTED_PCK_CERT_FORMAT'',
     ''STATUS_INVALID_PCK_CERT'', ''STATUS_UNSUPPORTED_PCK_RL_FORMAT'',
     ''STATUS_INVALID_PCK_CRL'', ''STATUS_UNSUPPORTED_TCB_INFO_FORMAT'',
     ''STATUS_PCK_REVOKED'', ''STATUS_TCB_INFO_MISMATCH'', ''STATUS_TCB_OUT_OF_DATE'',
     ''STATUS_TCB_REVOKED'', ''STATUS_TCB_CONFIGURATION_NEEDED'',
     ''STATUS_TCB_OUT_OF_DATE_CONFIGURATION_NEEDED'', ''STATUS_TCB_NOT_SUPPORTED'',
     ''STATUS_TCB_UNRECOGNIZED_STATUS'', ''STATUS_UNSUPPORTED_QE_CERTIFICATION'',
     ''STATUS_INVALID_QE_CERTIFICATION_DATA_SIZE'',
     ''STATUS_UNSUPPORTED_QE_CERTIFICATION_DATA_TYPE'', ''STATUS_PCK_CERT_MISMATCH'',
     ''STATUS_INVALID_QE_REPORT_SIGNATURE'', ''STATUS_INVALID_QE_REPORT_DATA'',
     ''STATUS_INVALID_QUOTE_SIGNATURE'', ''STATUS_SGX_QE_IDENTITY_UNSUPPORTED_FORMAT'',
     ''STATUS_SGX_QE_IDENTITY_INVALID'', ''STATUS_SGX_QE_IDENTITY_INVALID_SIGNATURE'',
     ''STATUS_SGX_ENCLAVE_REPORT_UNSUPPORTED_FORMAT'',
     ''STATUS_SGX_ENCLAVE_IDENTITY_UNSUPPORTED_FORMAT'',
     ''STATUS_SGX_ENCLAVE_IDENTITY_INVALID'',
     ''STATUS_SGX_ENCLAVE_IDENTITY_UNSUPPORTED_VERSION'',
     ''STATUS_SGX_ENCLAVE_IDENTITY_OUT_OF_DATE'',
     ''STATUS_SGX_ENCLAVE_REPORT_MISCSELECT_MISMATCH'',
     ''STATUS_SGX_ENCLAVE_REPORT_ATTRIBUTES_MISMATCH'',
     ''STATUS_SGX_ENCLAVE_REPORT_MRENCLAVE_MISMATCH'',
     ''STATUS_SGX_ENCLAVE_REPORT_MRSIGNER_MISMATCH'',
     ''STATUS_SGX_ENCLAVE_REPORT_ISVPRODID_MISMATCH'',
     ''STATUS_SGX_ENCLAVE_REPORT_ISVSVN_OUT_OF_DATE'',
     ''STATUS_UNSUPPORTED_QE_IDENTITY_FORMAT'', ''STATUS_QE_IDENTITY_OUT_OF_DATE'',
     ''STATUS_QE_IDENTITY_MISMATCH'', ''STATUS_SGX_TCB_INFO_EXPIRED'',
     ''STATUS_SGX_ENCLAVE_IDENTITY_INVALID_SIGNATURE'', ''STATUS_INVALID_PARAMETER'',
     ''STATUS_SGX_PCK_CERT_CHAIN_EXPIRED'', ''STATUS_SGX_CRL_EXPIRED'',
     ''STATUS_SGX_SIGNING_CERT_CHAIN_EXPIRED'', ''STATUS_SGX_ENCLAVE_IDENTITY_EXPIRED'',
     ''STATUS_TCB_SW_HARDENING_NEEDED'',
     ''STATUS_TCB_CONFIGURATION_AND_SW_HARDENING_NEEDED'',
     ''STATUS_SGX_ENCLAVE_REPORT_ISVSVN_REVOKED'', ''STATUS_TDX_MODULE_MISMATCH'',
     ''STATUS_SGX_ENCLAVE_REPORT_ISVSVN_NOT_SUPPORTED'', ''STATUS_TCB_TD_RELAUNCH_ADVISED'',
     ''STATUS_TCB_TD_RELAUNCH_ADVISED_CONFIGURATION_NEEDED'']"

definition printStatusOnly :: "status \<Rightarrow> string" where
  "printStatusOnly s =
     (if status_code STATUS_TCB_TD_RELAUNCH_ADVISED_CONFIGURATION_NEEDED < status_code s
      then ''Unknown status'' else statusStrs ! status_code s)"

fun digits :: "nat \<Rightarrow> string" where
  "digits n = (if n < 10 then [char_of (48 + n)] else digits (n div 10) @ [char_of (48 + n mod 10)])"

declare digits.simps [simp del]

definition printStatus :: "status \<Rightarrow> string" where
  "printStatus s = printStatusOnly s @ ''('' @ digits (status_code s) @ '')''"

definition STATUS_TO_TCB_STRING_MAP :: "(status \<times> string) list" where
  "STATUS_TO_TCB_STRING_MAP = [
     (STATUS_OK, ''UpToDate''),
     (STATUS_TCB_OUT_OF_DATE, ''OutOfDate''),
     (STATUS_TCB_REVOKED, ''Revoked''),
     (STATUS_TCB_CONFIGURATION_NEEDED, ''ConfigurationNeeded''),
     (STATUS_TCB_OUT_OF_DATE_CONFIGURATION_NEEDED, ''OutOfDateConfigurationNeeded''),
     (STATUS_TCB_SW_HARDENING_NEEDED, ''SWHardeningNeeded''),
     (STATUS_TCB_CONFIGURATION_AND_SW_HARDENING_NEEDED, ''ConfigurationAndSWHardeningNeeded''),
     (STATUS_TCB_TD_RELAUNCH_ADVISED, ''TDRelaunchAdvised''),
     (STATUS_TCB_TD_RELAUNCH_ADVISED_CONFIGURATION_NEEDED, ''TDRelaunchAdvisedConfigurationNeeded'')]"

definition printTCBStatus :: "status \<Rightarrow> string outcome" where
  "printTCBStatus s =
     (case map_of STATUS_TO_TCB_STRING_MAP s of
        None \<Rightarrow> Inl InvalidArgument
      | Some str \<Rightarrow> Inr str)"

end
