(* ===== verification/OrderedSet.thy ===== *)
theory OrderedSet
  imports Main
begin

text \<open>
  \<^verbatim>\<open>std::set\<close> with a comparator, as the list of its elements in iteration order.
  \<open>before x y\<close> is the comparator: \<^verbatim>\<open>std::greater\<close> for the TCB level sets
  (so they iterate from the highest level), the string order for the advisory ids.  The locale
  states what the library relies on, a strict weak order on the elements that occur, and what it
  gives: the set stays sorted, an insertion is refused exactly for an equivalent element, and the
  first element a loop accepts precedes every other accepted one.
\<close>

fun set_emplace :: "('a \<Rightarrow> 'a \<Rightarrow> bool) \<Rightarrow> 'a \<Rightarrow> 'a list \<Rightarrow> 'a list \<times> bool" where
  "set_emplace before x [] = ([x], True)"
| "set_emplace before x (y # ys) =
     (if before x y then (x # y # ys, True)
      else if before y x then
        (case set_emplace before x ys of (zs, inserted) \<Rightarrow> (y # zs, inserted))
      else (y # ys, False))"

definition set_insert_all :: "('a \<Rightarrow> 'a \<Rightarrow> bool) \<Rightarrow> 'a list \<Rightarrow> 'a list \<Rightarrow> 'a list" where
  "set_insert_all before new old = fold (\<lambda>x s. fst (set_emplace before x s)) new old"

locale ordered_set =
  fixes before :: "'a \<Rightarrow> 'a \<Rightarrow> bool" and carrier :: "'a \<Rightarrow> bool"
  assumes before_irrefl: "carrier x \<Longrightarrow> \<not> before x x"
    and before_trans: "carrier x \<Longrightarrow> carrier y \<Longrightarrow> carrier z \<Longrightarrow>
      before x y \<Longrightarrow> before y z \<Longrightarrow> before x z"
    and before_weak: "carrier x \<Longrightarrow> carrier y \<Longrightarrow> carrier z \<Longrightarrow>
      before x z \<Longrightarrow> before x y \<or> before y z"
begin

abbreviation ordered :: "'a list \<Rightarrow> bool" where
  "ordered xs \<equiv> (\<forall>x\<in>set xs. carrier x) \<and> sorted_wrt before xs"

lemma set_emplace_elements:
  "set (fst (set_emplace before x xs)) =
     (if snd (set_emplace before x xs) then insert x (set xs) else set xs)"
  by (induction xs) (auto split: prod.splits)

lemma set_emplace_ordered:
  "ordered xs \<Longrightarrow> carrier x \<Longrightarrow> ordered (fst (set_emplace before x xs))"
proof (induction xs)
  case Nil
  then show ?case by simp
next
  case (Cons y ys)
  have IH: "ordered (fst (set_emplace before x ys))" using Cons by simp
  show ?case
  proof (cases "before x y")
    case True
    moreover have "before x z" if "z \<in> set ys" for z
      using that True Cons.prems before_trans [of x y z] by auto
    ultimately show ?thesis using Cons.prems by auto
  next
    case False
    then show ?thesis
      using IH Cons.prems set_emplace_elements [of x ys] by (auto split: prod.splits if_splits)
  qed
qed

text \<open>An element is refused exactly when an equivalent one is already there.\<close>

lemma set_emplace_refused:
  "ordered xs \<Longrightarrow> carrier x \<Longrightarrow>
   \<not> snd (set_emplace before x xs) \<longleftrightarrow> (\<exists>y\<in>set xs. \<not> before x y \<and> \<not> before y x)"
proof (induction xs)
  case Nil
  then show ?case by simp
next
  case (Cons y ys)
  have tail: "before x z" if "before x y" "z \<in> set ys" for z
    using that Cons.prems before_trans [of x y z] by auto
  show ?case using Cons tail by (auto split: prod.split)
qed

lemma set_insert_all_ordered:
  "ordered old \<Longrightarrow> \<forall>x\<in>set new. carrier x \<Longrightarrow> ordered (set_insert_all before new old)"
  unfolding set_insert_all_def
proof (induction new arbitrary: old)
  case Nil
  then show ?case by simp
next
  case (Cons x xs)
  have "ordered (fst (set_emplace before x old))" using Cons.prems by (intro set_emplace_ordered) auto
  with Cons show ?case by simp
qed

text \<open>The first element a loop accepts precedes every other element it would accept.\<close>

lemma find_first:
  assumes "ordered xs" and "List.find P xs = Some x"
  shows "x \<in> set xs \<and> P x \<and> (\<forall>y\<in>set xs. P y \<longrightarrow> y = x \<or> before x y)"
  using assms
proof (induction xs)
  case Nil
  then show ?case by simp
next
  case (Cons z zs)
  then show ?case by (auto split: if_splits)
qed

lemma ordered_distinct: "ordered xs \<Longrightarrow> distinct xs"
  using before_irrefl by (induction xs) auto

end

end
