(* ===== verification/TcbModel.thy ===== *)
theory TcbModel
  imports Prelude Statuses OrderedSet "HOL-Library.List_Lexorder" "HOL-Library.Product_Lexorder"
begin

text \<open>
  The parsed collateral: TCB info, enclave identity, their TCB levels and the TDX module data
  (\<^verbatim>\<open>AttestationParsers.h\<close>, \<^verbatim>\<open>src/Json\<close>), with the accessors
  that check the version, the comparators of the level sets and the look-up of an identity's level.
  The sets are ordered lists (theory OrderedSet); the last section shows that each comparator is a
  strict weak order on the levels that occur together.
\<close>

section \<open>Data\<close>

record tcb_component =
  comp_svn :: u8
  comp_category :: string
  comp_type :: string

record tdx_module =
  tdxm_mrsigner :: bytes
  tdxm_attributes :: bytes
  tdxm_attributesMask :: bytes

record tdx_module_tcb =
  tdxt_isvsvn :: u16

record tdx_module_tcb_level =
  tdxl_tcb :: tdx_module_tcb
  tdxl_tcbDate :: time_t
  tdxl_tcbStatus :: string
  tdxl_advisoryIDs :: "string list"

record tdx_module_identity =
  tdxi_id :: string
  tdxi_mrsigner :: bytes
  tdxi_attributes :: bytes
  tdxi_attributesMask :: bytes
  tdxi_tcbLevels :: "tdx_module_tcb_level list"

record tcb_level =
  tl_id :: string
  tl_version :: u32
  tl_cpuSvn :: bytes
  tl_cpuSvnComponents :: "tcb_component list"
  tl_sgxTcbComponents :: "tcb_component list"
  tl_tdxTcbComponents :: "tcb_component list"
  tl_pceSvn :: u32
  tl_status :: string
  tl_tcbDate :: time_t
  tl_advisoryIDs :: "string list"

record tcb_info =
  ti_id :: string
  ti_version :: u32
  ti_issueDate :: time_t
  ti_nextUpdate :: time_t
  ti_fmspc :: bytes
  ti_pceId :: bytes
  ti_tcbLevels :: "tcb_level list"
  ti_signature :: bytes
  ti_infoBody :: bytes
  ti_tdxModule :: tdx_module
  ti_tdxModuleIdentities :: "tdx_module_identity list"
  ti_tcbType :: int
  ti_tcbEvaluationDataNumber :: u32

datatype enclave_id = QE | QVE | TD_QE

datatype tcb_status =
    TS_UpToDate
  | TS_ConfigurationNeeded
  | TS_OutOfDate
  | TS_OutOfDateConfigurationNeeded
  | TS_Revoked

record identity_tcb_level =
  il_isvSvn :: u32
  il_tcbDate :: time_t
  il_tcbStatus :: tcb_status
  il_advisoryIds :: "string list"

record enclave_identity =
  ei_id :: enclave_id
  ei_version :: u32
  ei_issueDate :: time_t
  ei_nextUpdate :: time_t
  ei_tcbEvaluationDataNumber :: u32
  ei_attributes :: bytes
  ei_attributesMask :: bytes
  ei_miscselect :: bytes
  ei_miscselectMask :: bytes
  ei_mrSigner :: bytes
  ei_isvProdId :: u32
  ei_identityTcbLevels :: "identity_tcb_level list"
  ei_body :: bytes
  ei_signature :: bytes

definition CPUSVN_BYTE_LEN :: nat where [simp]: "CPUSVN_BYTE_LEN = 16"
definition TcbInfo_V2 :: u32 where [simp]: "TcbInfo_V2 = 2"
definition TcbInfo_V3 :: u32 where [simp]: "TcbInfo_V3 = 3"
definition SGX_ID :: string where "SGX_ID = ''SGX''"
definition TDX_ID :: string where "TDX_ID = ''TDX''"

section \<open>Accessors that check the version\<close>

definition tcbInfo_getId :: "tcb_info \<Rightarrow> string outcome" where
  "tcbInfo_getId t =
     (if ti_version t = TcbInfo_V2 then Inl FormatException
      else if ti_version t = TcbInfo_V3 then Inr (ti_id t)
      else Inl FormatException)"

definition getTdxModule :: "tcb_info \<Rightarrow> tdx_module outcome" where
  "getTdxModule t =
     (if ti_version t < TcbInfo_V3 then Inl FormatException
      else if ti_id t \<noteq> TDX_ID then Inl FormatException
      else Inr (ti_tdxModule t))"

definition getTdxModuleIdentities :: "tcb_info \<Rightarrow> tdx_module_identity list outcome" where
  "getTdxModuleIdentities t =
     (if ti_version t < TcbInfo_V3 then Inl FormatException
      else if ti_id t \<noteq> TDX_ID then Inl FormatException
      else Inr (ti_tdxModuleIdentities t))"

text \<open>
  \<^verbatim>\<open>operator[]\<close> is unchecked: out of range it is undefined in the code, and
  \<open>xs ! i\<close> is unspecified here.
\<close>

definition getSgxTcbComponentSvn :: "tcb_level \<Rightarrow> nat \<Rightarrow> u8 outcome" where
  "getSgxTcbComponentSvn l componentNumber =
     (if CPUSVN_BYTE_LEN \<le> componentNumber then Inl FormatException
      else Inr (tl_cpuSvn l ! componentNumber))"

definition getSgxTcbComponent :: "tcb_level \<Rightarrow> nat \<Rightarrow> tcb_component outcome" where
  "getSgxTcbComponent l componentNumber =
     (if CPUSVN_BYTE_LEN \<le> componentNumber then Inl FormatException
      else if tl_version l < TcbInfo_V2 then Inl FormatException
      else if tl_version l = TcbInfo_V2 then Inr (tl_cpuSvnComponents l ! componentNumber)
      else Inr (tl_sgxTcbComponents l ! componentNumber))"

definition getSgxTcbComponents :: "tcb_level \<Rightarrow> tcb_component list outcome" where
  "getSgxTcbComponents l =
     (if tl_version l < TcbInfo_V2 then Inl FormatException
      else if tl_version l = TcbInfo_V2 then Inr (tl_cpuSvnComponents l)
      else Inr (tl_sgxTcbComponents l))"

definition getTdxTcbComponent :: "tcb_level \<Rightarrow> nat \<Rightarrow> tcb_component outcome" where
  "getTdxTcbComponent l componentNumber =
     (if CPUSVN_BYTE_LEN \<le> componentNumber then Inl FormatException
      else if tl_version l < TcbInfo_V3 then Inl FormatException
      else if tl_id l \<noteq> TDX_ID then Inl FormatException
      else Inr (tl_tdxTcbComponents l ! componentNumber))"

definition getTdxTcbComponents :: "tcb_level \<Rightarrow> tcb_component list outcome" where
  "getTdxTcbComponents l =
     (if tl_version l < TcbInfo_V3 then Inl FormatException
      else if tl_id l \<noteq> TDX_ID then Inl FormatException
      else Inr (tl_tdxTcbComponents l))"

fun first_level :: "u32 \<Rightarrow> identity_tcb_level list \<Rightarrow> identity_tcb_level outcome" where
  "first_level isvSvn [] = Inl StatusNotSupportedException"
| "first_level isvSvn (tcbLevel # rest) =
     (if il_isvSvn tcbLevel \<le> isvSvn then Inr tcbLevel else first_level isvSvn rest)"

definition getTcbLevel :: "enclave_identity \<Rightarrow> u32 \<Rightarrow> identity_tcb_level outcome" where
  "getTcbLevel ident p_isvSvn = first_level p_isvSvn (ei_identityTcbLevels ident)"

section \<open>Constructors\<close>

definition component_of_svn :: "u8 \<Rightarrow> tcb_component" where
  "component_of_svn svn = \<lparr>comp_svn = svn, comp_category = [], comp_type = []\<rparr>"

definition tcbLevel_v2 ::
  "bytes \<Rightarrow> u32 \<Rightarrow> string \<Rightarrow> time_t \<Rightarrow> string list \<Rightarrow> tcb_level" where
  "tcbLevel_v2 cpuSvnComponents pceSvn status tcbDate advisoryIDs = \<lparr>
     tl_id = [], tl_version = TcbInfo_V2, tl_cpuSvn = cpuSvnComponents,
     tl_cpuSvnComponents = map component_of_svn cpuSvnComponents,
     tl_sgxTcbComponents = [], tl_tdxTcbComponents = [],
     tl_pceSvn = pceSvn, tl_status = status, tl_tcbDate = tcbDate, tl_advisoryIDs = advisoryIDs\<rparr>"

definition tcbLevel_v3 ::
  "string \<Rightarrow> tcb_component list \<Rightarrow> tcb_component list \<Rightarrow> u32 \<Rightarrow> string \<Rightarrow> time_t \<Rightarrow>
   string list \<Rightarrow> tcb_level" where
  "tcbLevel_v3 id' sgxTcbComponents tdxTcbComponents pceSvn status tcbDate advisoryIDs = \<lparr>
     tl_id = id', tl_version = TcbInfo_V3, tl_cpuSvn = map comp_svn sgxTcbComponents,
     tl_cpuSvnComponents = sgxTcbComponents,
     tl_sgxTcbComponents = sgxTcbComponents, tl_tdxTcbComponents = tdxTcbComponents,
     tl_pceSvn = pceSvn, tl_status = status, tl_tcbDate = tcbDate, tl_advisoryIDs = advisoryIDs\<rparr>"

section \<open>Comparators\<close>

text \<open>\<^verbatim>\<open>operator<\<close> on vectors: lexicographic in the element comparison.\<close>

fun vec_less :: "('a \<Rightarrow> 'a \<Rightarrow> bool) \<Rightarrow> 'a list \<Rightarrow> 'a list \<Rightarrow> bool" where
  "vec_less lt xs [] = False"
| "vec_less lt [] (y # ys) = True"
| "vec_less lt (x # xs) (y # ys) = (if lt x y then True else if lt y x then False else vec_less lt xs ys)"

definition component_less :: "tcb_component \<Rightarrow> tcb_component \<Rightarrow> bool" where
  "component_less a b \<longleftrightarrow> comp_svn a < comp_svn b"

definition tcbLevel_greater :: "tcb_level \<Rightarrow> tcb_level \<Rightarrow> bool" where
  "tcbLevel_greater l other =
     (if tl_cpuSvn l = tl_cpuSvn other then
        if tl_version l = TcbInfo_V3 \<and> tl_id l = TDX_ID \<and> tl_pceSvn l = tl_pceSvn other
        then vec_less component_less (tl_tdxTcbComponents other) (tl_tdxTcbComponents l)
        else tl_pceSvn l > tl_pceSvn other
      else vec_less (<) (tl_cpuSvn other) (tl_cpuSvn l))"

definition identityTcbLevel_greater :: "identity_tcb_level \<Rightarrow> identity_tcb_level \<Rightarrow> bool" where
  "identityTcbLevel_greater l other =
     (if il_isvSvn l = il_isvSvn other then il_tcbDate l > il_tcbDate other
      else il_isvSvn l > il_isvSvn other)"

definition tdxModuleTcbLevel_greater ::
  "tdx_module_tcb_level \<Rightarrow> tdx_module_tcb_level \<Rightarrow> bool" where
  "tdxModuleTcbLevel_greater l other \<longleftrightarrow> tdxt_isvsvn (tdxl_tcb l) > tdxt_isvsvn (tdxl_tcb other)"

text \<open>\<^verbatim>\<open>std::string\<close> compares its characters as unsigned.\<close>

definition string_less :: "string \<Rightarrow> string \<Rightarrow> bool" where
  "string_less = vec_less (\<lambda>a b. (of_char a :: nat) < of_char b)"

section \<open>The comparators order the sets\<close>

lemma ordered_set_by_key:
  fixes key :: "'a \<Rightarrow> 'k :: linorder"
  assumes "\<And>x y. carrier x \<Longrightarrow> carrier y \<Longrightarrow> before x y \<longleftrightarrow> key y < key x"
  shows "ordered_set before carrier"
  by unfold_locales (auto simp: assms)

lemma vec_less_less: "vec_less (<) xs ys \<longleftrightarrow> xs < (ys :: 'a :: linorder list)"
  by (induction "(<) :: 'a \<Rightarrow> 'a \<Rightarrow> bool" xs ys rule: vec_less.induct) auto

lemma vec_less_map: "vec_less (\<lambda>a b. f a < f b) xs ys \<longleftrightarrow> map f xs < (map f ys :: 'a :: linorder list)"
  by (induction "(\<lambda>a b. f a < f b)" xs ys rule: vec_less.induct) auto

definition tcbLevel_key :: "tcb_level \<Rightarrow> bytes \<times> u32 \<times> bytes" where
  "tcbLevel_key l =
     (tl_cpuSvn l, tl_pceSvn l,
      if tl_version l = TcbInfo_V3 \<and> tl_id l = TDX_ID then map comp_svn (tl_tdxTcbComponents l) else [])"

lemma vec_less_components:
  "vec_less component_less xs ys \<longleftrightarrow> map comp_svn xs < map comp_svn ys"
  using vec_less_map [of comp_svn xs ys] by (simp add: component_less_def [abs_def])

lemma tcbLevel_greater_key:
  "tl_version x = tl_version y \<Longrightarrow> tl_id x = tl_id y \<Longrightarrow>
   tcbLevel_greater x y \<longleftrightarrow> tcbLevel_key y < tcbLevel_key x"
  by (auto simp: tcbLevel_greater_def tcbLevel_key_def vec_less_components vec_less_less)

text \<open>The levels of one TCB info all carry its version and identifier.\<close>

definition level_of :: "u32 \<Rightarrow> string \<Rightarrow> tcb_level \<Rightarrow> bool" where
  "level_of v i l \<longleftrightarrow> tl_version l = v \<and> tl_id l = i"

interpretation tcb_levels: ordered_set tcbLevel_greater "level_of v i" for v i
  by (rule ordered_set_by_key [where key = tcbLevel_key])
    (simp add: level_of_def tcbLevel_greater_key)

interpretation identity_levels: ordered_set identityTcbLevel_greater "\<lambda>_. True"
  by (rule ordered_set_by_key [where key = "\<lambda>l. (il_isvSvn l, il_tcbDate l)"])
    (auto simp: identityTcbLevel_greater_def)

interpretation module_levels: ordered_set tdxModuleTcbLevel_greater "\<lambda>_. True"
  by (rule ordered_set_by_key [where key = "\<lambda>l. tdxt_isvsvn (tdxl_tcb l)"])
    (simp add: tdxModuleTcbLevel_greater_def)

lemma string_less_trans: "string_less x y \<Longrightarrow> string_less y z \<Longrightarrow> string_less x z"
  by (auto simp: string_less_def vec_less_map)

interpretation advisory_ids: ordered_set string_less "\<lambda>_. True"
  by unfold_locales (auto simp: string_less_def vec_less_map)

section \<open>Invariants of the parsed collateral\<close>

definition wf_tcb_info :: "tcb_info \<Rightarrow> bool" where
  "wf_tcb_info t \<longleftrightarrow>
     (\<forall>l\<in>set (ti_tcbLevels t). level_of (ti_version t) (ti_id t) l) \<and>
     sorted_wrt tcbLevel_greater (ti_tcbLevels t) \<and>
     (\<forall>m\<in>set (ti_tdxModuleIdentities t). sorted_wrt tdxModuleTcbLevel_greater (tdxi_tcbLevels m))"

definition wf_enclave_identity :: "enclave_identity \<Rightarrow> bool" where
  "wf_enclave_identity e \<longleftrightarrow> sorted_wrt identityTcbLevel_greater (ei_identityTcbLevels e)"

lemma first_level_find:
  "first_level n ls =
     (case List.find (\<lambda>l. il_isvSvn l \<le> n) ls of None \<Rightarrow> Inl StatusNotSupportedException | Some l \<Rightarrow> Inr l)"
  by (induction ls) auto

text \<open>
  The level \<^verbatim>\<open>EnclaveIdentity::getTcbLevel\<close> returns for an ISV SVN is the
  highest level of the identity not above it, and it throws only if there is no such level.
\<close>

theorem getTcbLevel_highest:
  assumes "wf_enclave_identity e"
  shows "case getTcbLevel e n of
      Inl x \<Rightarrow> x = StatusNotSupportedException \<and> (\<forall>l\<in>set (ei_identityTcbLevels e). n < il_isvSvn l)
    | Inr l \<Rightarrow> l \<in> set (ei_identityTcbLevels e) \<and> il_isvSvn l \<le> n \<and>
        (\<forall>k\<in>set (ei_identityTcbLevels e). il_isvSvn k \<le> n \<longrightarrow> k = l \<or> identityTcbLevel_greater l k)"
proof (cases "List.find (\<lambda>l. il_isvSvn l \<le> n) (ei_identityTcbLevels e)")
  case None
  moreover from None have "\<forall>l\<in>set (ei_identityTcbLevels e). n < il_isvSvn l"
    by (auto simp: find_None_iff not_le)
  ultimately show ?thesis by (simp add: getTcbLevel_def first_level_find)
next
  case (Some l)
  with identity_levels.find_first [OF _ Some] assms show ?thesis
    by (simp add: getTcbLevel_def first_level_find wf_enclave_identity_def)
qed

end
