(* ===== verification/X509Model.thy ===== *)
theory X509Model
  imports TcbModel
begin

text \<open>
  Certificates and revocation lists as the library holds them after parsing
  (\<^verbatim>\<open>AttestationParsers.h\<close>, namespace \<^verbatim>\<open>x509\<close>;
  \<^verbatim>\<open>PckParser.h\<close>, \<^verbatim>\<open>CrlStore.h\<close>), the
  comparisons their classes define, the names and phrases the verifiers look for
  (\<^verbatim>\<open>X509Constants.cpp\<close>), and the cryptographic helpers of
  \<^verbatim>\<open>OpensslHelpers\<close>.  OpenSSL is the record \<open>openssl\<close>, a parameter
  of every definition that calls it; numeric identifiers of OpenSSL are the type \<open>nid\<close>.
\<close>

section \<open>Certificates\<close>

datatype nid =
    NID_undef
  | NID_crl_number
  | NID_authority_key_identifier
  | NID_crl_distribution_points
  | NID_subject_key_identifier
  | NID_key_usage
  | NID_basic_constraints
  | NID_other int

record distinguished_name =
  dn_raw :: string
  dn_commonName :: string
  dn_countryName :: string
  dn_organizationName :: string
  dn_locationName :: string
  dn_stateName :: string

record validity =
  notBeforeTime :: time_t
  notAfterTime :: time_t

record x509_extension =
  ext_nid :: nid
  ext_name :: string
  ext_value :: bytes

record x509_signature =
  sig_rawDer :: bytes
  sig_r :: bytes
  sig_s :: bytes

record certificate =
  cert_version :: u32
  cert_subject :: distinguished_name
  cert_issuer :: distinguished_name
  cert_validity :: validity
  cert_extensions :: "x509_extension list"
  cert_signature :: x509_signature
  cert_serialNumber :: bytes
  cert_pubKey :: bytes
  cert_info :: bytes
  cert_pem :: string
  cert_crlDistributionPoint :: string

record pck_tcb =
  pt_cpuSvn :: bytes
  pt_cpuSvnComponents :: bytes
  pt_pceSvn :: u32

text \<open>
  \<^verbatim>\<open>PckCertificate\<close> derives from \<^verbatim>\<open>Certificate\<close>.  The
  enumeration \<^verbatim>\<open>SgxType\<close> is kept as the integer the code casts into it.
\<close>

record pck_certificate = certificate +
  pck_ppid :: bytes
  pck_pceId :: bytes
  pck_fmspc :: bytes
  pck_tcb' :: pck_tcb
  pck_sgxType :: int

definition pckTcb_new :: pck_tcb where
  "pckTcb_new = \<lparr>pt_cpuSvn = [], pt_cpuSvnComponents = [], pt_pceSvn = 0\<rparr>"

definition tcb_getSgxTcbComponentSvn :: "pck_tcb \<Rightarrow> nat \<Rightarrow> u32 outcome" where
  "tcb_getSgxTcbComponentSvn t componentNumber =
     bindE (vec_at (pt_cpuSvnComponents t) componentNumber) (\<lambda>b. Inr (ucast b))"

text \<open>The comparison of names ignores the raw form, in which the order of parts may differ.\<close>

definition dn_eq :: "distinguished_name \<Rightarrow> distinguished_name \<Rightarrow> bool" where
  "dn_eq a b \<longleftrightarrow>
     dn_commonName a = dn_commonName b \<and>
     dn_countryName a = dn_countryName b \<and>
     dn_organizationName a = dn_organizationName b \<and>
     dn_locationName a = dn_locationName b \<and>
     dn_stateName a = dn_stateName b"

definition cert_eq :: "'a certificate_scheme \<Rightarrow> 'b certificate_scheme \<Rightarrow> bool" where
  "cert_eq a b \<longleftrightarrow>
     cert_version a = cert_version b \<and>
     dn_eq (cert_subject a) (cert_subject b) \<and>
     dn_eq (cert_issuer a) (cert_issuer b) \<and>
     cert_validity a = cert_validity b \<and>
     cert_extensions a = cert_extensions b \<and>
     cert_signature a = cert_signature b \<and>
     cert_serialNumber a = cert_serialNumber b \<and>
     cert_pubKey a = cert_pubKey b \<and>
     cert_info a = cert_info b \<and>
     cert_crlDistributionPoint a = cert_crlDistributionPoint b"

definition pck_eq :: "pck_certificate \<Rightarrow> pck_certificate \<Rightarrow> bool" where
  "pck_eq a b \<longleftrightarrow>
     cert_eq a b \<and>
     pck_ppid a = pck_ppid b \<and>
     pck_pceId a = pck_pceId b \<and>
     pck_fmspc a = pck_fmspc b \<and>
     pck_sgxType a = pck_sgxType b \<and>
     pck_tcb' a = pck_tcb' b"

section \<open>Revocation lists\<close>

record crl_issuer =
  iss_raw :: string
  iss_commonName :: string
  iss_countryName :: string
  iss_organizationName :: string
  iss_locationName :: string
  iss_stateName :: string

record crl_revoked =
  rev_dateStr :: string
  rev_serialNumber :: bytes

text \<open>\<open>crl_object\<close> stands for the OpenSSL object: the encoding OpenSSL checks.\<close>

record crl_store =
  crl_object :: bytes
  crl_issuer' :: crl_issuer
  crl_validity :: validity
  crl_revokedList :: "crl_revoked list"
  crl_extensions :: "x509_extension list"
  crl_signature :: x509_signature
  crl_crlNum :: int

definition issuer_eq :: "crl_issuer \<Rightarrow> crl_issuer \<Rightarrow> bool" where
  "issuer_eq a b \<longleftrightarrow>
     iss_commonName a = iss_commonName b \<and>
     iss_countryName a = iss_countryName b \<and>
     iss_locationName a = iss_locationName b \<and>
     iss_stateName a = iss_stateName b \<and>
     iss_organizationName a = iss_organizationName b"

definition isValid :: "validity \<Rightarrow> time_t \<Rightarrow> bool" where
  "isValid v expirationDate \<longleftrightarrow> expirationDate \<le> notAfterTime v \<and> expirationDate \<ge> notBeforeTime v"

definition crl_expired :: "crl_store \<Rightarrow> time_t \<Rightarrow> bool" where
  "crl_expired crl expirationDate \<longleftrightarrow> \<not> isValid (crl_validity crl) expirationDate"

definition isRevoked :: "crl_store \<Rightarrow> 'a certificate_scheme \<Rightarrow> bool" where
  "isRevoked crl cert \<longleftrightarrow>
     List.find (\<lambda>revoked. rev_serialNumber revoked = cert_serialNumber cert) (crl_revokedList crl) \<noteq> None"

section \<open>Constants\<close>

definition intel_name :: "string \<Rightarrow> string \<Rightarrow> distinguished_name" where
  "intel_name raw commonName = \<lparr>
     dn_raw = raw, dn_commonName = commonName, dn_countryName = ''US'',
     dn_organizationName = ''Intel Corporation'', dn_locationName = ''Santa Clara'',
     dn_stateName = ''CA''\<rparr>"

definition intel_issuer :: "string \<Rightarrow> string \<Rightarrow> crl_issuer" where
  "intel_issuer raw commonName = \<lparr>
     iss_raw = raw, iss_commonName = commonName, iss_countryName = ''US'',
     iss_organizationName = ''Intel Corporation'', iss_locationName = ''Santa Clara'',
     iss_stateName = ''CA''\<rparr>"

definition ROOT_CA_SUBJECT :: distinguished_name where
  "ROOT_CA_SUBJECT = intel_name
     ''CN=Intel SGX Root CA, O=Intel Corporation, L=Santa Clara, ST=CA, C=US''
     ''Intel SGX Root CA''"

definition PLATFORM_CA_SUBJECT :: distinguished_name where
  "PLATFORM_CA_SUBJECT = intel_name
     ''CN=Intel SGX PCK Platform CA, O=Intel Corporation, L=Santa Clara, ST=CA, C=US''
     ''Intel SGX PCK Platform CA''"

definition PROCESSOR_CA_SUBJECT :: distinguished_name where
  "PROCESSOR_CA_SUBJECT = intel_name
     ''CN=Intel SGX PCK Processor CA, O=Intel Corporation, L=Santa Clara, ST=CA, C=US''
     ''Intel SGX PCK Processor CA''"

definition PCK_SUBJECT :: distinguished_name where
  "PCK_SUBJECT = intel_name
     ''CN=Intel SGX PCK Certificate, O=Intel Corporation, L=Santa Clara, ST=CA, C=US''
     ''Intel SGX PCK Certificate''"

definition TCB_SUBJECT :: distinguished_name where
  "TCB_SUBJECT = intel_name
     ''CN=Intel SGX TCB Signing, O=Intel Corporation, L=Santa Clara, ST=CA, C=US''
     ''Intel SGX TCB Signing''"

definition ROOT_CA_CRL_ISSUER :: crl_issuer where
  "ROOT_CA_CRL_ISSUER = intel_issuer
     ''CN=Intel SGX Root CA, O=Intel Corporation, L=Santa Clara, ST=CA, C=US''
     ''Intel SGX Root CA''"

definition PCK_PLATFORM_CRL_ISSUER :: crl_issuer where
  "PCK_PLATFORM_CRL_ISSUER = intel_issuer
     ''CN=Intel SGX PCK Platform CA, O=Intel Corporation, L=Santa Clara, ST=CA, C=US''
     ''Intel SGX PCK Platform CA''"

definition PCK_PROCESSOR_CRL_ISSUER :: crl_issuer where
  "PCK_PROCESSOR_CRL_ISSUER = intel_issuer
     ''CN=Intel SGX PCK Processor CA, O=Intel Corporation, L=Santa Clara, ST=CA, C=US''
     ''Intel SGX PCK Processor CA''"

definition SGX_ROOT_CA_CN_PHRASE :: string where "SGX_ROOT_CA_CN_PHRASE = ''SGX Root CA''"
definition SGX_INTERMEDIATE_CN_PHRASE :: string where "SGX_INTERMEDIATE_CN_PHRASE = ''CA''"
definition SGX_PCK_CN_PHRASE :: string where "SGX_PCK_CN_PHRASE = ''SGX PCK Certificate''"
definition SGX_TCB_SIGNING_CN_PHRASE :: string where "SGX_TCB_SIGNING_CN_PHRASE = ''SGX TCB Signing''"

definition CRL_REQUIRED_EXTENSIONS :: "nid list" where
  "CRL_REQUIRED_EXTENSIONS = [NID_crl_number, NID_authority_key_identifier]"

lemmas name_constants = intel_name_def intel_issuer_def
  ROOT_CA_SUBJECT_def PLATFORM_CA_SUBJECT_def PROCESSOR_CA_SUBJECT_def PCK_SUBJECT_def
  TCB_SUBJECT_def ROOT_CA_CRL_ISSUER_def PCK_PLATFORM_CRL_ISSUER_def PCK_PROCESSOR_CRL_ISSUER_def

lemmas phrase_constants = SGX_ROOT_CA_CN_PHRASE_def SGX_INTERMEDIATE_CN_PHRASE_def
  SGX_PCK_CN_PHRASE_def SGX_TCB_SIGNING_CN_PHRASE_def

section \<open>Searching a string\<close>

text \<open>\<^verbatim>\<open>std::string::find\<close> from a position; \<open>None\<close> is \<^verbatim>\<open>npos\<close>.\<close>

fun is_prefix :: "'a list \<Rightarrow> 'a list \<Rightarrow> bool" where
  "is_prefix [] ys = True"
| "is_prefix (x # xs) [] = False"
| "is_prefix (x # xs) (y # ys) = (x = y \<and> is_prefix xs ys)"

fun str_find :: "'a list \<Rightarrow> 'a list \<Rightarrow> nat option" where
  "str_find pattern [] = (if pattern = [] then Some 0 else None)"
| "str_find pattern (c # cs) =
     (if is_prefix pattern (c # cs) then Some 0 else map_option Suc (str_find pattern cs))"

definition str_find_from :: "'a list \<Rightarrow> 'a list \<Rightarrow> nat \<Rightarrow> nat option" where
  "str_find_from pattern s pos =
     (if pos \<le> length s then map_option (\<lambda>i. pos + i) (str_find pattern (drop pos s)) else None)"

lemma is_prefix_iff: "is_prefix xs ys \<longleftrightarrow> (\<exists>zs. ys = xs @ zs)"
  by (induction xs ys rule: is_prefix.induct) auto

lemma is_prefix_take: "is_prefix xs ys \<longleftrightarrow> take (length xs) ys = xs"
  by (induction xs ys rule: is_prefix.induct) auto

lemma str_find_Some:
  "str_find p s = Some i \<Longrightarrow> i \<le> length s \<and> is_prefix p (drop i s) \<and> (\<forall>j<i. \<not> is_prefix p (drop j s))"
proof (induction p s arbitrary: i rule: str_find.induct)
  case (2 p c cs)
  show ?case
  proof (cases "is_prefix p (c # cs)")
    case False
    with 2(2) obtain k where k: "str_find p cs = Some k" "i = Suc k" by auto
    from 2(1) [OF False k(1)] k(2) False show ?thesis by (auto simp: less_Suc_eq_0_disj)
  qed (use 2(2) in auto)
qed (auto split: if_splits)

lemma str_find_None: "str_find p s = None \<Longrightarrow> \<forall>j\<le>length s. \<not> is_prefix p (drop j s)"
proof (induction p s rule: str_find.induct)
  case (1 p)
  then show ?case by (cases p) (auto split: if_splits)
next
  case (2 p c cs)
  then have head: "\<not> is_prefix p (c # cs)" and tail: "\<forall>j\<le>length cs. \<not> is_prefix p (drop j cs)"
    by (auto split: if_splits)
  show ?case
  proof (intro allI impI)
    fix j assume "j \<le> length (c # cs)"
    with head tail show "\<not> is_prefix p (drop j (c # cs))" by (cases j) auto
  qed
qed

lemma str_find_sublist: "str_find p s = None \<longleftrightarrow> \<not> (\<exists>us vs. s = us @ p @ vs)"
proof
  assume none: "str_find p s = None"
  show "\<not> (\<exists>us vs. s = us @ p @ vs)"
  proof
    assume "\<exists>us vs. s = us @ p @ vs"
    then obtain us vs where s: "s = us @ p @ vs" by blast
    then have "is_prefix p (drop (length us) s)" "length us \<le> length s" by (auto simp: is_prefix_iff)
    with str_find_None [OF none] show False by blast
  qed
next
  assume absent: "\<not> (\<exists>us vs. s = us @ p @ vs)"
  show "str_find p s = None"
  proof (cases "str_find p s")
    case (Some i)
    from str_find_Some [OF Some] obtain zs where "drop i s = p @ zs" by (auto simp: is_prefix_iff)
    with absent show ?thesis by (metis append_take_drop_id)
  qed
qed

text \<open>\<^verbatim>\<open>BaseVerifier::commonNameContains\<close>, for names and issuers.\<close>

definition contains :: "string \<Rightarrow> string \<Rightarrow> bool" where
  "contains s pattern \<longleftrightarrow> str_find pattern s \<noteq> None"

definition commonNameContains :: "distinguished_name \<Rightarrow> string \<Rightarrow> bool" where
  "commonNameContains name pattern \<longleftrightarrow> contains (dn_commonName name) pattern"

definition issuer_commonNameContains :: "crl_issuer \<Rightarrow> string \<Rightarrow> bool" where
  "issuer_commonNameContains issuer pattern \<longleftrightarrow> contains (iss_commonName issuer) pattern"

section \<open>Facts\<close>

lemma dn_eq_refl [simp]: "dn_eq a a"
  by (simp add: dn_eq_def)

lemma dn_eq_sym: "dn_eq a b \<Longrightarrow> dn_eq b a"
  by (simp add: dn_eq_def)

lemma dn_eq_trans: "dn_eq a b \<Longrightarrow> dn_eq b c \<Longrightarrow> dn_eq a c"
  by (simp add: dn_eq_def)

lemma isRevoked_iff: "isRevoked crl cert \<longleftrightarrow> (\<exists>r\<in>set (crl_revokedList crl). rev_serialNumber r = cert_serialNumber cert)"
  by (auto simp: isRevoked_def find_None_iff)

lemma contains_iff: "contains s p \<longleftrightarrow> (\<exists>us vs. s = us @ p @ vs)"
  unfolding contains_def str_find_sublist by blast

end
