(* ===== verification/PckExtensions.thy ===== *)
theory PckExtensions
  imports X509Model
begin

text \<open>
  \<^verbatim>\<open>AttestationParsers/src/X509\<close>: the SGX extensions of a PCK certificate
  (\<^verbatim>\<open>Tcb.cpp\<close>, \<^verbatim>\<open>Configuration.cpp\<close>,
  \<^verbatim>\<open>PckCertificate.cpp\<close>, \<^verbatim>\<open>ProcessorPckCertificate.cpp\<close>,
  \<^verbatim>\<open>PlatformPckCertificate.cpp\<close>) and the helpers of
  \<^verbatim>\<open>OidUtils.cpp\<close>.  OpenSSL's DER decoder is the parameter \<open>asn1_decoder\<close>;
  a decoded value is of type \<open>asn1\<close>, an integer carrying the length of its contents and
  what \<^verbatim>\<open>ASN1_INTEGER_get\<close> returns for it.
\<close>

section \<open>Decoded values\<close>

datatype v_asn1 =
    V_ASN1_BOOLEAN
  | V_ASN1_INTEGER
  | V_ASN1_OCTET_STRING
  | V_ASN1_OBJECT
  | V_ASN1_ENUMERATED
  | V_ASN1_SEQUENCE
  | V_ASN1_OTHER int

datatype asn1 =
    ASN1_Boolean int
  | ASN1_Integer nat int
  | ASN1_Octet_String bytes
  | ASN1_Object string
  | ASN1_Enumerated nat int
  | ASN1_Sequence bytes
  | ASN1_Other int

record asn1_decoder =
  d2i_ASN1_TYPE :: "bytes \<Rightarrow> asn1 option"
  d2i_ASN1_SEQUENCE_ANY :: "bytes \<Rightarrow> asn1 list option"

fun asn1_type :: "asn1 \<Rightarrow> v_asn1" where
  "asn1_type (ASN1_Boolean _) = V_ASN1_BOOLEAN"
| "asn1_type (ASN1_Integer _ _) = V_ASN1_INTEGER"
| "asn1_type (ASN1_Octet_String _) = V_ASN1_OCTET_STRING"
| "asn1_type (ASN1_Object _) = V_ASN1_OBJECT"
| "asn1_type (ASN1_Enumerated _ _) = V_ASN1_ENUMERATED"
| "asn1_type (ASN1_Sequence _) = V_ASN1_SEQUENCE"
| "asn1_type (ASN1_Other t) = V_ASN1_OTHER t"

text \<open>
  Members of the value union: reading one of another type is undefined in the code, and the
  equation is missing here.
\<close>

fun value_boolean :: "asn1 \<Rightarrow> int" where "value_boolean (ASN1_Boolean b) = b"
fun value_integer :: "asn1 \<Rightarrow> int" where "value_integer (ASN1_Integer _ n) = n"
fun value_octets :: "asn1 \<Rightarrow> bytes" where "value_octets (ASN1_Octet_String b) = b"
fun value_object :: "asn1 \<Rightarrow> string" where "value_object (ASN1_Object s) = s"
fun value_enumerated :: "asn1 \<Rightarrow> int" where "value_enumerated (ASN1_Enumerated _ n) = n"
fun value_sequence :: "asn1 \<Rightarrow> bytes" where "value_sequence (ASN1_Sequence b) = b"

definition validateOid :: "asn1 \<Rightarrow> v_asn1 \<Rightarrow> unit outcome" where
  "validateOid oidValue expectedType = throw_if (asn1_type oidValue \<noteq> expectedType) FormatException"

fun value_length :: "asn1 \<Rightarrow> nat outcome" where
  "value_length (ASN1_Integer n _) = Inr n"
| "value_length (ASN1_Octet_String b) = Inr (length b)"
| "value_length (ASN1_Enumerated n _) = Inr n"
| "value_length (ASN1_Sequence b) = Inr (length b)"
| "value_length _ = Inl FormatException"

definition validateOid_length :: "asn1 \<Rightarrow> v_asn1 \<Rightarrow> nat \<Rightarrow> unit outcome" where
  "validateOid_length oidValue expectedType expectedLength =
     bindE (validateOid oidValue expectedType) (\<lambda>_.
     bindE (value_length oidValue) (\<lambda>oidValueLen.
       throw_if (oidValueLen \<noteq> expectedLength) FormatException))"

definition oidToBytes :: "asn1 \<Rightarrow> bytes" where "oidToBytes v = value_octets v"
definition oidToByte :: "asn1 \<Rightarrow> u8" where "oidToByte v = word_of_int (value_integer v)"
definition oidToUInt :: "asn1 \<Rightarrow> u32" where "oidToUInt v = word_of_int (value_integer v)"
definition oidToEnum :: "asn1 \<Rightarrow> int" where
  "oidToEnum v = sint (word_of_int (value_enumerated v) :: 32 word)"

definition oidToStack :: "asn1_decoder \<Rightarrow> asn1 \<Rightarrow> asn1 list outcome" where
  "oidToStack d oidValue =
     (case d2i_ASN1_SEQUENCE_ANY d (value_sequence oidValue) of
        None \<Rightarrow> Inl FormatException
      | Some stack \<Rightarrow> Inr stack)"

section \<open>Object identifiers and extension types\<close>

datatype extension_type =
    EXT_NONE
  | EXT_PPID
  | EXT_CPUSVN
  | EXT_PCESVN
  | EXT_PCEID
  | EXT_FMSPC
  | EXT_SGX_TYPE
  | EXT_DYNAMIC_PLATFORM
  | EXT_CACHED_KEYS
  | EXT_TCB
  | EXT_SGX_TCB_COMP_SVN nat \<comment> \<open>\<^verbatim>\<open>SGX_TCB_COMP01_SVN\<close> to \<^verbatim>\<open>SGX_TCB_COMP16_SVN\<close>\<close>
  | EXT_PLATFORM_INSTANCE_ID
  | EXT_CONFIGURATION
  | EXT_SMT_ENABLED

definition OID_SGX_EXTENSION :: string where "OID_SGX_EXTENSION = ''1.2.840.113741.1.13.1''"
definition OID_TCB :: string where "OID_TCB = OID_SGX_EXTENSION @ ''.2''"
definition OID_PPID :: string where "OID_PPID = OID_SGX_EXTENSION @ ''.1''"
definition OID_SGX_TCB_COMP_SVN :: "nat \<Rightarrow> string" where
  "OID_SGX_TCB_COMP_SVN i = OID_TCB @
     [''.1'', ''.2'', ''.3'', ''.4'', ''.5'', ''.6'', ''.7'', ''.8'', ''.9'', ''.10'', ''.11'',
      ''.12'', ''.13'', ''.14'', ''.15'', ''.16''] ! i"
definition OID_PCESVN :: string where "OID_PCESVN = OID_TCB @ ''.17''"
definition OID_CPUSVN :: string where "OID_CPUSVN = OID_TCB @ ''.18''"
definition OID_PCEID :: string where "OID_PCEID = OID_SGX_EXTENSION @ ''.3''"
definition OID_FMSPC :: string where "OID_FMSPC = OID_SGX_EXTENSION @ ''.4''"
definition OID_SGX_TYPE :: string where "OID_SGX_TYPE = OID_SGX_EXTENSION @ ''.5''"
definition OID_PLATFORM_INSTANCE_ID :: string where
  "OID_PLATFORM_INSTANCE_ID = OID_SGX_EXTENSION @ ''.6''"
definition OID_CONFIGURATION :: string where "OID_CONFIGURATION = OID_SGX_EXTENSION @ ''.7''"
definition OID_DYNAMIC_PLATFORM :: string where "OID_DYNAMIC_PLATFORM = OID_CONFIGURATION @ ''.1''"
definition OID_CACHED_KEYS :: string where "OID_CACHED_KEYS = OID_CONFIGURATION @ ''.2''"
definition OID_SMT_ENABLED :: string where "OID_SMT_ENABLED = OID_CONFIGURATION @ ''.3''"

lemmas oid_defs = OID_SGX_EXTENSION_def OID_TCB_def OID_PPID_def OID_SGX_TCB_COMP_SVN_def
  OID_PCESVN_def OID_CPUSVN_def OID_PCEID_def OID_FMSPC_def OID_SGX_TYPE_def
  OID_PLATFORM_INSTANCE_ID_def OID_CONFIGURATION_def OID_DYNAMIC_PLATFORM_def
  OID_CACHED_KEYS_def OID_SMT_ENABLED_def

definition PCK_REQUIRED_SGX_EXTENSIONS :: "extension_type list" where
  "PCK_REQUIRED_SGX_EXTENSIONS = [EXT_PPID, EXT_PCEID, EXT_FMSPC, EXT_SGX_TYPE, EXT_TCB]"

definition PLATFORM_PCK_REQUIRED_SGX_EXTENSIONS :: "extension_type list" where
  "PLATFORM_PCK_REQUIRED_SGX_EXTENSIONS = [EXT_PLATFORM_INSTANCE_ID, EXT_CONFIGURATION]"

definition TCB_REQUIRED_SGX_EXTENSIONS :: "extension_type list" where
  "TCB_REQUIRED_SGX_EXTENSIONS = EXT_CPUSVN # EXT_PCESVN # map EXT_SGX_TCB_COMP_SVN [0..<16]"

definition CONFIGURATION_REQUIRED_SGX_EXTENSIONS :: "extension_type list" where
  "CONFIGURATION_REQUIRED_SGX_EXTENSIONS = [EXT_DYNAMIC_PLATFORM, EXT_CACHED_KEYS, EXT_SMT_ENABLED]"

definition PPID_BYTE_LEN :: nat where [simp]: "PPID_BYTE_LEN = 16"
definition PCEID_BYTE_LEN :: nat where [simp]: "PCEID_BYTE_LEN = 2"
definition FMSPC_BYTE_LEN :: nat where [simp]: "FMSPC_BYTE_LEN = 6"
definition PLATFORM_INSTANCE_ID_LEN :: nat where [simp]: "PLATFORM_INSTANCE_ID_LEN = 16"
definition TCB_SEQUENCE_LEN :: nat where [simp]: "TCB_SEQUENCE_LEN = 18"
definition PROCESSOR_CA_EXTENSION_COUNT :: nat where [simp]: "PROCESSOR_CA_EXTENSION_COUNT = 5"
definition PLATFORM_CA_EXTENSION_COUNT :: nat where [simp]: "PLATFORM_CA_EXTENSION_COUNT = 7"

section \<open>The loop over identifier and value pairs\<close>

text \<open>One entry: a sequence of two, the identifier and the value.\<close>

definition read_tuple :: "asn1_decoder \<Rightarrow> asn1 \<Rightarrow> (string \<times> asn1) outcome" where
  "read_tuple d oidTupleWrapper =
     bindE (validateOid oidTupleWrapper V_ASN1_SEQUENCE) (\<lambda>_.
     bindE (oidToStack d oidTupleWrapper) (\<lambda>oidTuple.
     bindE (throw_if (length oidTuple \<noteq> 2) InvalidExtensionException) (\<lambda>_.
     bindE (validateOid (oidTuple ! 0) V_ASN1_OBJECT) (\<lambda>_.
       Inr (value_object (oidTuple ! 0), oidTuple ! 1)))))"

text \<open>
  The loops differ only in what an entry does to the object and to the list of extensions still
  expected; \<open>found\<close> erases one.
\<close>

primrec for_tuples ::
  "asn1_decoder \<Rightarrow> (string \<Rightarrow> asn1 \<Rightarrow> 's \<Rightarrow> 's outcome) \<Rightarrow> asn1 list \<Rightarrow> 's \<Rightarrow> 's outcome" where
  "for_tuples d entry [] s = Inr s"
| "for_tuples d entry (e # es) s =
     bindE (read_tuple d e) (\<lambda>tuple.
     bindE (entry (fst tuple) (snd tuple) s) (\<lambda>s'. for_tuples d entry es s'))"

type_synonym 'o loop_state = "'o \<times> extension_type list"

definition found :: "extension_type \<Rightarrow> ('o \<Rightarrow> 'o) \<Rightarrow> 'o loop_state \<Rightarrow> 'o loop_state" where
  "found ty upd = (\<lambda>(obj, expectedExtensions). (upd obj, removeAll ty expectedExtensions))"

definition all_found :: "'o loop_state \<Rightarrow> 'o outcome" where
  "all_found = (\<lambda>(obj, expectedExtensions).
     if expectedExtensions \<noteq> [] then Inl InvalidExtensionException else Inr obj)"

section \<open>The TCB\<close>

definition tcb_entry :: "string \<Rightarrow> asn1 \<Rightarrow> pck_tcb loop_state \<Rightarrow> pck_tcb loop_state outcome" where
  "tcb_entry oidNameStr oidValue st =
     (case List.find (\<lambda>i. oidNameStr = OID_SGX_TCB_COMP_SVN i) [0..<16] of
        Some i \<Rightarrow>
          bindE (validateOid oidValue V_ASN1_INTEGER) (\<lambda>_.
            Inr (found (EXT_SGX_TCB_COMP_SVN i) (\<lambda>t. t\<lparr>
              pt_cpuSvnComponents := (pt_cpuSvnComponents t)[i := oidToByte oidValue]\<rparr>) st))
      | None \<Rightarrow>
          if oidNameStr = OID_PCESVN then
            bindE (validateOid oidValue V_ASN1_INTEGER) (\<lambda>_.
              Inr (found EXT_PCESVN (\<lambda>t. t\<lparr>pt_pceSvn := oidToUInt oidValue\<rparr>) st))
          else if oidNameStr = OID_CPUSVN then
            bindE (validateOid_length oidValue V_ASN1_OCTET_STRING CPUSVN_BYTE_LEN) (\<lambda>_.
              Inr (found EXT_CPUSVN (\<lambda>t. t\<lparr>pt_cpuSvn := oidToBytes oidValue\<rparr>) st))
          else Inr st)"

definition tcb_parse :: "asn1_decoder \<Rightarrow> asn1 \<Rightarrow> pck_tcb outcome" where
  "tcb_parse d tcbSeq =
     bindE (validateOid tcbSeq V_ASN1_SEQUENCE) (\<lambda>_.
     bindE (oidToStack d tcbSeq) (\<lambda>stack.
     bindE (throw_if (length stack \<noteq> TCB_SEQUENCE_LEN) InvalidExtensionException) (\<lambda>_.
     bindE (for_tuples d tcb_entry stack
              (pckTcb_new\<lparr>pt_cpuSvnComponents := replicate CPUSVN_BYTE_LEN 0\<rparr>,
               TCB_REQUIRED_SGX_EXTENSIONS)) all_found)))"

section \<open>The configuration\<close>

record pck_configuration =
  cfg_dynamicPlatform :: bool
  cfg_cachedKeys :: bool
  cfg_smtEnabled :: bool

definition configuration_new :: pck_configuration where
  "configuration_new = \<lparr>cfg_dynamicPlatform = True, cfg_cachedKeys = True, cfg_smtEnabled = True\<rparr>"

definition configuration_entry ::
  "string \<Rightarrow> asn1 \<Rightarrow> pck_configuration loop_state \<Rightarrow> pck_configuration loop_state outcome" where
  "configuration_entry oidNameStr oidValue st =
     (if oidNameStr = OID_DYNAMIC_PLATFORM then
        bindE (validateOid oidValue V_ASN1_BOOLEAN) (\<lambda>_.
          Inr (found EXT_DYNAMIC_PLATFORM
                 (\<lambda>c. c\<lparr>cfg_dynamicPlatform := value_boolean oidValue \<noteq> 0\<rparr>) st))
      else if oidNameStr = OID_CACHED_KEYS then
        bindE (validateOid oidValue V_ASN1_BOOLEAN) (\<lambda>_.
          Inr (found EXT_CACHED_KEYS (\<lambda>c. c\<lparr>cfg_cachedKeys := value_boolean oidValue \<noteq> 0\<rparr>) st))
      else if oidNameStr = OID_SMT_ENABLED then
        bindE (validateOid oidValue V_ASN1_BOOLEAN) (\<lambda>_.
          Inr (found EXT_SMT_ENABLED (\<lambda>c. c\<lparr>cfg_smtEnabled := value_boolean oidValue \<noteq> 0\<rparr>) st))
      else Inr st)"

definition configuration_parse :: "asn1_decoder \<Rightarrow> asn1 \<Rightarrow> pck_configuration outcome" where
  "configuration_parse d configurationSeq =
     bindE (validateOid configurationSeq V_ASN1_SEQUENCE) (\<lambda>_.
     bindE (oidToStack d configurationSeq) (\<lambda>stack.
     bindE (for_tuples d configuration_entry stack
              (configuration_new, CONFIGURATION_REQUIRED_SGX_EXTENSIONS)) all_found))"

section \<open>PCK certificates\<close>

definition getSgxExtensions :: "asn1_decoder \<Rightarrow> 'a certificate_scheme \<Rightarrow> asn1 list outcome" where
  "getSgxExtensions d cert =
     (case List.find (\<lambda>ext. ext_nid ext = NID_undef \<and> ext_name ext = OID_SGX_EXTENSION)
             (cert_extensions cert) of
        None \<Rightarrow> Inl InvalidExtensionException
      | Some sgxExtension \<Rightarrow>
          (case d2i_ASN1_TYPE d (ext_value sgxExtension) of
             None \<Rightarrow> Inl InvalidExtensionException
           | Some topSequence \<Rightarrow>
               bindE (validateOid topSequence V_ASN1_SEQUENCE) (\<lambda>_. oidToStack d topSequence)))"

definition pck_entry ::
  "asn1_decoder \<Rightarrow> string \<Rightarrow> asn1 \<Rightarrow> pck_certificate loop_state \<Rightarrow> pck_certificate loop_state outcome"
where
  "pck_entry d oidNameStr oidValue st =
     (if oidNameStr = OID_PPID then
        bindE (validateOid_length oidValue V_ASN1_OCTET_STRING PPID_BYTE_LEN) (\<lambda>_.
          Inr (found EXT_PPID (\<lambda>c. c\<lparr>pck_ppid := oidToBytes oidValue\<rparr>) st))
      else if oidNameStr = OID_TCB then
        bindE (tcb_parse d oidValue) (\<lambda>tcb.
          Inr (found EXT_TCB (\<lambda>c. c\<lparr>pck_tcb' := tcb\<rparr>) st))
      else if oidNameStr = OID_PCEID then
        bindE (validateOid_length oidValue V_ASN1_OCTET_STRING PCEID_BYTE_LEN) (\<lambda>_.
          Inr (found EXT_PCEID (\<lambda>c. c\<lparr>pck_pceId := oidToBytes oidValue\<rparr>) st))
      else if oidNameStr = OID_FMSPC then
        bindE (validateOid_length oidValue V_ASN1_OCTET_STRING FMSPC_BYTE_LEN) (\<lambda>_.
          Inr (found EXT_FMSPC (\<lambda>c. c\<lparr>pck_fmspc := oidToBytes oidValue\<rparr>) st))
      else if oidNameStr = OID_SGX_TYPE then
        bindE (validateOid oidValue V_ASN1_ENUMERATED) (\<lambda>_.
          Inr (found EXT_SGX_TYPE (\<lambda>c. c\<lparr>pck_sgxType := oidToEnum oidValue\<rparr>) st))
      else Inr st)"

definition setMembers :: "asn1_decoder \<Rightarrow> asn1 list \<Rightarrow> pck_certificate \<Rightarrow> pck_certificate outcome" where
  "setMembers d sgxExtensions cert =
     bindE (throw_if (length sgxExtensions \<noteq> PROCESSOR_CA_EXTENSION_COUNT \<and>
                      length sgxExtensions \<noteq> PLATFORM_CA_EXTENSION_COUNT)
              InvalidExtensionException) (\<lambda>_.
     bindE (for_tuples d (pck_entry d) sgxExtensions (cert, PCK_REQUIRED_SGX_EXTENSIONS)) all_found)"

definition pck_of_certificate :: "certificate \<Rightarrow> pck_certificate" where
  "pck_of_certificate cert = certificate.extend cert
     \<lparr>pck_ppid = [], pck_pceId = [], pck_fmspc = [], pck_tcb' = pckTcb_new, pck_sgxType = 0\<rparr>"

definition pckCertificate :: "asn1_decoder \<Rightarrow> certificate \<Rightarrow> pck_certificate outcome" where
  "pckCertificate d cert =
     bindE (getSgxExtensions d cert) (\<lambda>sgxExtensions. setMembers d sgxExtensions (pck_of_certificate cert))"

definition processor_setMembers ::
  "asn1_decoder \<Rightarrow> asn1 list \<Rightarrow> pck_certificate \<Rightarrow> pck_certificate outcome" where
  "processor_setMembers d sgxExtensions cert =
     bindE (setMembers d sgxExtensions cert) (\<lambda>cert'.
     bindE (throw_if (length sgxExtensions \<noteq> PROCESSOR_CA_EXTENSION_COUNT) InvalidExtensionException)
       (\<lambda>_. Inr cert'))"

record platform_pck_certificate = pck_certificate +
  plat_platformInstanceId :: bytes
  plat_configuration :: pck_configuration

definition platform_entry ::
  "asn1_decoder \<Rightarrow> string \<Rightarrow> asn1 \<Rightarrow> platform_pck_certificate loop_state \<Rightarrow>
   platform_pck_certificate loop_state outcome" where
  "platform_entry d oidNameStr oidValue st =
     (if oidNameStr = OID_PLATFORM_INSTANCE_ID then
        bindE (validateOid_length oidValue V_ASN1_OCTET_STRING PLATFORM_INSTANCE_ID_LEN) (\<lambda>_.
          Inr (found EXT_PLATFORM_INSTANCE_ID
                 (\<lambda>c. c\<lparr>plat_platformInstanceId := oidToBytes oidValue\<rparr>) st))
      else if oidNameStr = OID_CONFIGURATION then
        bindE (configuration_parse d oidValue) (\<lambda>configuration.
          Inr (found EXT_CONFIGURATION (\<lambda>c. c\<lparr>plat_configuration := configuration\<rparr>) st))
      else Inr st)"

text \<open>
  The second pass reads the identifiers without checking their type; the first pass, over the same
  entries, has done so, and \<open>read_tuple\<close> is used for both.
\<close>

definition platform_setMembers ::
  "asn1_decoder \<Rightarrow> asn1 list \<Rightarrow> pck_certificate \<Rightarrow> platform_pck_certificate outcome" where
  "platform_setMembers d sgxExtensions cert =
     bindE (setMembers d sgxExtensions cert) (\<lambda>cert'.
     bindE (throw_if (length sgxExtensions \<noteq> PLATFORM_CA_EXTENSION_COUNT) InvalidExtensionException) (\<lambda>_.
     bindE (for_tuples d (platform_entry d) sgxExtensions
              (pck_certificate.extend cert'
                 \<lparr>plat_platformInstanceId = [], plat_configuration = configuration_new\<rparr>,
               PLATFORM_PCK_REQUIRED_SGX_EXTENSIONS)) all_found))"

section \<open>What a loop computes\<close>

primrec read_tuples :: "asn1_decoder \<Rightarrow> asn1 list \<Rightarrow> (string \<times> asn1) list outcome" where
  "read_tuples d [] = Inr []"
| "read_tuples d (e # es) =
     bindE (read_tuple d e) (\<lambda>p. bindE (read_tuples d es) (\<lambda>ps. Inr (p # ps)))"

primrec run_entries :: "(string \<Rightarrow> asn1 \<Rightarrow> 's \<Rightarrow> 's outcome) \<Rightarrow> (string \<times> asn1) list \<Rightarrow> 's \<Rightarrow> 's outcome" where
  "run_entries entry [] s = Inr s"
| "run_entries entry (p # ps) s = bindE (entry (fst p) (snd p) s) (\<lambda>s'. run_entries entry ps s')"

lemma for_tuples_run:
  "for_tuples d entry es s = Inr s' \<longleftrightarrow>
   (\<exists>ps. read_tuples d es = Inr ps \<and> run_entries entry ps s = Inr s')"
  by (induction es arbitrary: s) auto

lemma length_read_tuples: "read_tuples d es = Inr ps \<Longrightarrow> length ps = length es"
  by (induction es arbitrary: ps) auto

text \<open>Every value is acceptable; the updates of all entries; an entry for a type is present.\<close>

definition entries_ok :: "(string \<Rightarrow> asn1 \<Rightarrow> bool) \<Rightarrow> (string \<times> asn1) list \<Rightarrow> bool" where
  "entries_ok ok ps \<longleftrightarrow> (\<forall>(n, v)\<in>set ps. ok n v)"

definition apply_entries :: "(string \<Rightarrow> asn1 \<Rightarrow> 'o \<Rightarrow> 'o) \<Rightarrow> (string \<times> asn1) list \<Rightarrow> 'o \<Rightarrow> 'o" where
  "apply_entries upd ps obj = fold (\<lambda>(n, v). upd n v) ps obj"

definition present :: "(string \<times> extension_type) list \<Rightarrow> (string \<times> asn1) list \<Rightarrow> extension_type \<Rightarrow> bool" where
  "present table ps ty \<longleftrightarrow> (\<exists>(n, v)\<in>set ps. map_of table n = Some ty)"

text \<open>
  The contract of an entry: it accepts values by \<open>ok\<close>, and an identifier of the table
  updates the object by \<open>upd\<close> and erases its extension type.
\<close>

locale entry_table =
  fixes entry :: "string \<Rightarrow> asn1 \<Rightarrow> 'o loop_state \<Rightarrow> 'o loop_state outcome"
    and ok :: "string \<Rightarrow> asn1 \<Rightarrow> bool"
    and upd :: "string \<Rightarrow> asn1 \<Rightarrow> 'o \<Rightarrow> 'o"
    and table :: "(string \<times> extension_type) list"
  assumes entry_Inr: "\<And>n v obj ex st'. entry n v (obj, ex) = Inr st' \<longleftrightarrow>
      ok n v \<and> st' = (upd n v obj, case map_of table n of None \<Rightarrow> ex | Some ty \<Rightarrow> removeAll ty ex)"
    and distinct_oids: "distinct (map fst table)"
    and distinct_types: "distinct (map snd table)"
begin

lemma run_entries_Inr:
  "run_entries entry ps (obj, ex) = Inr st' \<longleftrightarrow>
   entries_ok ok ps \<and> st' = (apply_entries upd ps obj, filter (\<lambda>ty. \<not> present table ps ty) ex)"
proof (induction ps arbitrary: obj ex)
  case Nil
  then show ?case by (auto simp: entries_ok_def apply_entries_def present_def)
next
  case (Cons p ps)
  obtain n v where p: "p = (n, v)" by force
  show ?case
    by (simp add: p entry_Inr Cons entries_ok_def apply_entries_def)
      (auto simp: present_def removeAll_filter_not_eq p intro!: filter_cong split: option.splits)
qed

lemma map_of_table: "map_of table n = Some ty \<longleftrightarrow> (n, ty) \<in> set table"
  using distinct_oids by simp

lemma all_present:
  "(\<forall>ty\<in>set (map snd table). present table ps ty) \<longleftrightarrow> fst ` set table \<subseteq> fst ` set ps"
proof
  assume all: "\<forall>ty\<in>set (map snd table). present table ps ty"
  show "fst ` set table \<subseteq> fst ` set ps"
  proof
    fix n assume "n \<in> fst ` set table"
    then obtain ty where nt: "(n, ty) \<in> set table" by force
    with all obtain m v where m: "(m, v) \<in> set ps" "map_of table m = Some ty"
      unfolding present_def by force
    then have "(m, ty) \<in> set table" by (simp add: map_of_table)
    with nt distinct_types have "m = n" by (metis distinct_map inj_on_def prod.inject snd_conv)
    with m show "n \<in> fst ` set ps" by force
  qed
next
  assume sub: "fst ` set table \<subseteq> fst ` set ps"
  show "\<forall>ty\<in>set (map snd table). present table ps ty"
  proof
    fix ty assume "ty \<in> set (map snd table)"
    then obtain n where nt: "(n, ty) \<in> set table" by auto
    with sub obtain v where "(n, v) \<in> set ps" by force
    with nt show "present table ps ty" unfolding present_def by (auto simp: map_of_table)
  qed
qed

lemma loop_Inr:
  "bindE (for_tuples d entry es (obj, map snd table)) all_found = Inr obj' \<longleftrightarrow>
   (\<exists>ps. read_tuples d es = Inr ps \<and> entries_ok ok ps \<and> fst ` set table \<subseteq> fst ` set ps \<and> obj' = apply_entries upd ps obj)"
proof -
  have "all_found (apply_entries upd ps obj, filter (\<lambda>ty. \<not> present table ps ty) (map snd table)) = Inr obj' \<longleftrightarrow>
      fst ` set table \<subseteq> fst ` set ps \<and> obj' = apply_entries upd ps obj" for ps
    unfolding all_found_def all_present [symmetric] by (auto simp: filter_empty_conv)
  then show ?thesis by (auto simp: for_tuples_run run_entries_Inr)
qed

text \<open>With as many entries as required extensions, each occurs exactly once.\<close>

lemma exactly_once:
  assumes "fst ` set table \<subseteq> fst ` set ps" "length ps = length table"
  shows "distinct (map fst ps) \<and> fst ` set ps = fst ` set table"
proof -
  have card: "card (fst ` set table) = length ps"
    using distinct_card [OF distinct_oids] assms(2) by simp
  have "card (fst ` set ps) \<le> length ps" using card_length [of "map fst ps"] by simp
  with card have eq: "fst ` set table = fst ` set ps"
    using card_seteq [OF _ assms(1)] by simp
  then have "card (set (map fst ps)) = length (map fst ps)" using card by simp
  then show ?thesis using eq card_distinct by blast
qed

end

lemma map_of_rev_distinct: "distinct (map fst ps) \<Longrightarrow> map_of (rev ps) = map_of ps"
  by (simp add: map_of_inject_set rev_map [symmetric])

section \<open>The tables of the four loops\<close>

definition octets :: "nat \<Rightarrow> asn1 \<Rightarrow> bool" where
  "octets n v \<longleftrightarrow> (\<exists>b. v = ASN1_Octet_String b \<and> length b = n)"

lemma asn1_type_iff:
  "asn1_type v = V_ASN1_BOOLEAN \<longleftrightarrow> (\<exists>b. v = ASN1_Boolean b)"
  "asn1_type v = V_ASN1_INTEGER \<longleftrightarrow> (\<exists>n i. v = ASN1_Integer n i)"
  "asn1_type v = V_ASN1_OCTET_STRING \<longleftrightarrow> (\<exists>b. v = ASN1_Octet_String b)"
  "asn1_type v = V_ASN1_OBJECT \<longleftrightarrow> (\<exists>s. v = ASN1_Object s)"
  "asn1_type v = V_ASN1_ENUMERATED \<longleftrightarrow> (\<exists>n i. v = ASN1_Enumerated n i)"
  "asn1_type v = V_ASN1_SEQUENCE \<longleftrightarrow> (\<exists>b. v = ASN1_Sequence b)"
  by (cases v; simp)+

lemma validateOid_Inr [simp]: "validateOid v ty = Inr u \<longleftrightarrow> asn1_type v = ty"
  by (simp add: validateOid_def)

lemma validateOid_octets [simp]:
  "validateOid_length v V_ASN1_OCTET_STRING n = Inr u \<longleftrightarrow> octets n v"
  by (auto simp: validateOid_length_def octets_def asn1_type_iff)

definition tcb_table :: "(string \<times> extension_type) list" where
  "tcb_table = (OID_CPUSVN, EXT_CPUSVN) # (OID_PCESVN, EXT_PCESVN) #
     map (\<lambda>i. (OID_SGX_TCB_COMP_SVN i, EXT_SGX_TCB_COMP_SVN i)) [0..<16]"

definition comp_index :: "string \<Rightarrow> nat option" where
  "comp_index n = List.find (\<lambda>i. n = OID_SGX_TCB_COMP_SVN i) [0..<16]"

definition tcb_ok :: "string \<Rightarrow> asn1 \<Rightarrow> bool" where
  "tcb_ok n v \<longleftrightarrow>
     (if comp_index n \<noteq> None \<or> n = OID_PCESVN then asn1_type v = V_ASN1_INTEGER
      else n = OID_CPUSVN \<longrightarrow> octets 16 v)"

definition tcb_upd :: "string \<Rightarrow> asn1 \<Rightarrow> pck_tcb \<Rightarrow> pck_tcb" where
  "tcb_upd n v t =
     (case comp_index n of
        Some i \<Rightarrow> t\<lparr>pt_cpuSvnComponents := (pt_cpuSvnComponents t)[i := oidToByte v]\<rparr>
      | None \<Rightarrow>
          if n = OID_PCESVN then t\<lparr>pt_pceSvn := oidToUInt v\<rparr>
          else if n = OID_CPUSVN then t\<lparr>pt_cpuSvn := oidToBytes v\<rparr> else t)"

lemma upt_16: "[0..<16] = [0, 1, 2, 3, 4, 5, 6, 7, 8, 9, 10, 11, 12, 13, 14, 15::nat]"
  by (simp add: upt_rec)

lemma comp_index_Some: "comp_index n = Some i \<longleftrightarrow> i < 16 \<and> n = OID_SGX_TCB_COMP_SVN i"
proof -
  have inj: "i < 16 \<Longrightarrow> j < 16 \<Longrightarrow> OID_SGX_TCB_COMP_SVN i = OID_SGX_TCB_COMP_SVN j \<Longrightarrow> i = j" for i j
    unfolding OID_SGX_TCB_COMP_SVN_def same_append_eq
    by (drule nth_eq_iff_index_eq [THEN iffD1, rotated 3]) simp_all
  show ?thesis
  proof
    assume "comp_index n = Some i"
    then show "i < 16 \<and> n = OID_SGX_TCB_COMP_SVN i"
      unfolding comp_index_def by (auto simp: find_Some_iff)
  next
    assume i: "i < 16 \<and> n = OID_SGX_TCB_COMP_SVN i"
    then obtain j where "comp_index n = Some j"
      unfolding comp_index_def by (cases "List.find (\<lambda>i. n = OID_SGX_TCB_COMP_SVN i) [0..<16]") (auto simp: find_None_iff)
    moreover from this have "j < 16" "n = OID_SGX_TCB_COMP_SVN j"
      unfolding comp_index_def by (auto simp: find_Some_iff)
    ultimately show "comp_index n = Some i" using inj [of i j] i by simp
  qed
qed

lemma comp_oid_nth: "i < 16 \<Longrightarrow> OID_SGX_TCB_COMP_SVN i = map OID_SGX_TCB_COMP_SVN [0..<16] ! i"
  by simp

lemma tcb_oids_distinct: "distinct (map fst tcb_table)"
  by (simp add: tcb_table_def upt_16 oid_defs)

lemma tcb_types_distinct: "distinct (map snd tcb_table)"
  by (simp add: tcb_table_def upt_16)

lemma comp_index_oids [simp]: "comp_index OID_PCESVN = None" "comp_index OID_CPUSVN = None"
  by (simp_all add: comp_index_def upt_16 oid_defs)

lemma pcesvn_cpusvn [simp]: "OID_PCESVN \<noteq> OID_CPUSVN" "OID_CPUSVN \<noteq> OID_PCESVN"
  by (simp_all add: oid_defs)

lemma map_of_tcb_table:
  "map_of tcb_table n =
     (case comp_index n of
        Some i \<Rightarrow> Some (EXT_SGX_TCB_COMP_SVN i)
      | None \<Rightarrow> if n = OID_PCESVN then Some EXT_PCESVN
               else if n = OID_CPUSVN then Some EXT_CPUSVN else None)"
proof (cases "comp_index n")
  case (Some i)
  then have "i < 16" "n = OID_SGX_TCB_COMP_SVN i" by (auto simp: comp_index_Some)
  then have "(n, EXT_SGX_TCB_COMP_SVN i) \<in> set tcb_table" by (auto simp: tcb_table_def)
  then show ?thesis using tcb_oids_distinct Some by simp
next
  case None
  then have "i < 16 \<Longrightarrow> n \<noteq> OID_SGX_TCB_COMP_SVN i" for i
    using comp_index_Some [of n i] by auto
  then have "map_of (map (\<lambda>i. (OID_SGX_TCB_COMP_SVN i, EXT_SGX_TCB_COMP_SVN i)) [0..<16]) n = None"
    by (force simp: map_of_eq_None_iff)
  moreover have "OID_PCESVN \<noteq> OID_CPUSVN" by (simp add: oid_defs)
  ultimately show ?thesis using None by (auto simp: tcb_table_def)
qed

interpretation tcb_loop: entry_table tcb_entry tcb_ok tcb_upd tcb_table
proof
  fix n v obj ex and st' :: "pck_tcb loop_state"
  have "OID_PCESVN \<noteq> OID_CPUSVN" by (simp add: oid_defs)
  then show "tcb_entry n v (obj, ex) = Inr st' \<longleftrightarrow>
      tcb_ok n v \<and> st' = (tcb_upd n v obj,
        case map_of tcb_table n of None \<Rightarrow> ex | Some ty \<Rightarrow> removeAll ty ex)"
    unfolding tcb_entry_def comp_index_def [symmetric]
    by (auto simp: tcb_ok_def tcb_upd_def map_of_tcb_table found_def split: option.split)
qed (fact tcb_oids_distinct tcb_types_distinct)+

definition configuration_table :: "(string \<times> extension_type) list" where
  "configuration_table = [(OID_DYNAMIC_PLATFORM, EXT_DYNAMIC_PLATFORM),
     (OID_CACHED_KEYS, EXT_CACHED_KEYS), (OID_SMT_ENABLED, EXT_SMT_ENABLED)]"

definition configuration_ok :: "string \<Rightarrow> asn1 \<Rightarrow> bool" where
  "configuration_ok n v \<longleftrightarrow> (n \<in> fst ` set configuration_table \<longrightarrow> asn1_type v = V_ASN1_BOOLEAN)"

definition configuration_upd :: "string \<Rightarrow> asn1 \<Rightarrow> pck_configuration \<Rightarrow> pck_configuration" where
  "configuration_upd n v c =
     (if n = OID_DYNAMIC_PLATFORM then c\<lparr>cfg_dynamicPlatform := value_boolean v \<noteq> 0\<rparr>
      else if n = OID_CACHED_KEYS then c\<lparr>cfg_cachedKeys := value_boolean v \<noteq> 0\<rparr>
      else if n = OID_SMT_ENABLED then c\<lparr>cfg_smtEnabled := value_boolean v \<noteq> 0\<rparr> else c)"

lemma configuration_oids_distinct: "distinct (map fst configuration_table)"
  by (simp add: configuration_table_def oid_defs)

interpretation configuration_loop:
  entry_table configuration_entry configuration_ok configuration_upd configuration_table
  using configuration_oids_distinct
  by unfold_locales
    (auto simp: configuration_entry_def configuration_ok_def configuration_upd_def
      configuration_table_def found_def)

definition pck_table :: "(string \<times> extension_type) list" where
  "pck_table = [(OID_PPID, EXT_PPID), (OID_PCEID, EXT_PCEID), (OID_FMSPC, EXT_FMSPC),
     (OID_SGX_TYPE, EXT_SGX_TYPE), (OID_TCB, EXT_TCB)]"

definition pck_ok :: "asn1_decoder \<Rightarrow> string \<Rightarrow> asn1 \<Rightarrow> bool" where
  "pck_ok d n v \<longleftrightarrow>
     (n = OID_PPID \<longrightarrow> octets 16 v) \<and> (n = OID_PCEID \<longrightarrow> octets 2 v) \<and>
     (n = OID_FMSPC \<longrightarrow> octets 6 v) \<and> (n = OID_SGX_TYPE \<longrightarrow> asn1_type v = V_ASN1_ENUMERATED) \<and>
     (n = OID_TCB \<longrightarrow> (\<exists>t. tcb_parse d v = Inr t))"

definition parsed :: "'a outcome \<Rightarrow> 'a" where
  "parsed m = (case m of Inr a \<Rightarrow> a)"

lemma parsed_Inr [simp]: "parsed (Inr a) = a"
  by (simp add: parsed_def)

definition pck_upd :: "asn1_decoder \<Rightarrow> string \<Rightarrow> asn1 \<Rightarrow> pck_certificate \<Rightarrow> pck_certificate" where
  "pck_upd d n v c =
     (if n = OID_PPID then c\<lparr>pck_ppid := oidToBytes v\<rparr>
      else if n = OID_TCB then c\<lparr>pck_tcb' := parsed (tcb_parse d v)\<rparr>
      else if n = OID_PCEID then c\<lparr>pck_pceId := oidToBytes v\<rparr>
      else if n = OID_FMSPC then c\<lparr>pck_fmspc := oidToBytes v\<rparr>
      else if n = OID_SGX_TYPE then c\<lparr>pck_sgxType := oidToEnum v\<rparr> else c)"

lemma pck_oids_distinct: "distinct (map fst pck_table)"
  by (simp add: pck_table_def oid_defs)

lemma pck_oids_differ [simp]:
  "OID_PPID \<noteq> OID_PCEID" "OID_PPID \<noteq> OID_FMSPC" "OID_PPID \<noteq> OID_SGX_TYPE"
  "OID_PPID \<noteq> OID_TCB" "OID_PCEID \<noteq> OID_PPID" "OID_PCEID \<noteq> OID_FMSPC"
  "OID_PCEID \<noteq> OID_SGX_TYPE" "OID_PCEID \<noteq> OID_TCB" "OID_FMSPC \<noteq> OID_PPID"
  "OID_FMSPC \<noteq> OID_PCEID" "OID_FMSPC \<noteq> OID_SGX_TYPE" "OID_FMSPC \<noteq> OID_TCB"
  "OID_SGX_TYPE \<noteq> OID_PPID" "OID_SGX_TYPE \<noteq> OID_PCEID" "OID_SGX_TYPE \<noteq> OID_FMSPC"
  "OID_SGX_TYPE \<noteq> OID_TCB" "OID_TCB \<noteq> OID_PPID" "OID_TCB \<noteq> OID_PCEID"
  "OID_TCB \<noteq> OID_FMSPC" "OID_TCB \<noteq> OID_SGX_TYPE"
  by (simp_all add: oid_defs)

interpretation pck_loop: entry_table "pck_entry d" "pck_ok d" "pck_upd d" pck_table for d
proof
  fix n v obj ex and st' :: "pck_certificate loop_state"
  consider "n = OID_PPID" | "n = OID_PCEID" | "n = OID_FMSPC" | "n = OID_SGX_TYPE" | "n = OID_TCB"
    | "n \<notin> {OID_PPID, OID_PCEID, OID_FMSPC, OID_SGX_TYPE, OID_TCB}" by blast
  then show "pck_entry d n v (obj, ex) = Inr st' \<longleftrightarrow>
      pck_ok d n v \<and> st' = (pck_upd d n v obj,
        case map_of pck_table n of None \<Rightarrow> ex | Some ty \<Rightarrow> removeAll ty ex)"
    by cases (auto simp: pck_entry_def pck_ok_def pck_upd_def pck_table_def found_def)
qed (simp_all add: pck_table_def)

definition platform_table :: "(string \<times> extension_type) list" where
  "platform_table = [(OID_PLATFORM_INSTANCE_ID, EXT_PLATFORM_INSTANCE_ID),
     (OID_CONFIGURATION, EXT_CONFIGURATION)]"

definition platform_ok :: "asn1_decoder \<Rightarrow> string \<Rightarrow> asn1 \<Rightarrow> bool" where
  "platform_ok d n v \<longleftrightarrow>
     (n = OID_PLATFORM_INSTANCE_ID \<longrightarrow> octets 16 v) \<and>
     (n = OID_CONFIGURATION \<longrightarrow> (\<exists>c. configuration_parse d v = Inr c))"

definition platform_upd ::
  "asn1_decoder \<Rightarrow> string \<Rightarrow> asn1 \<Rightarrow> platform_pck_certificate \<Rightarrow> platform_pck_certificate" where
  "platform_upd d n v c =
     (if n = OID_PLATFORM_INSTANCE_ID then c\<lparr>plat_platformInstanceId := oidToBytes v\<rparr>
      else if n = OID_CONFIGURATION then c\<lparr>plat_configuration := parsed (configuration_parse d v)\<rparr>
      else c)"

interpretation platform_loop:
  entry_table "platform_entry d" "platform_ok d" "platform_upd d" platform_table for d
  by unfold_locales
    (auto simp: platform_entry_def platform_ok_def platform_upd_def platform_table_def found_def oid_defs)

section \<open>The fields after a loop\<close>

text \<open>The last entry with an identifier wins.\<close>

definition last_value :: "(string \<times> asn1) list \<Rightarrow> string \<Rightarrow> asn1 option" where
  "last_value ps = map_of (rev ps)"

lemma last_value_Nil [simp]: "last_value [] n = None"
  by (simp add: last_value_def)

lemma last_value_snoc [simp]:
  "last_value (ps @ [(m, v)]) n = (if n = m then Some v else last_value ps n)"
  by (simp add: last_value_def)

lemma last_value_present:
  assumes "n \<in> fst ` set ps"
  shows "\<exists>v. last_value ps n = Some v \<and> (n, v) \<in> set ps"
proof (cases "last_value ps n")
  case None
  then show ?thesis using assms by (simp add: last_value_def map_of_eq_None_iff)
next
  case (Some v)
  then show ?thesis using map_of_SomeD [of "rev ps" n v] by (simp add: last_value_def)
qed

lemma apply_entries_snoc [simp]: "apply_entries upd (ps @ [(n, v)]) obj = upd n v (apply_entries upd ps obj)"
  by (simp add: apply_entries_def)

definition tcb_of :: "(string \<Rightarrow> asn1 option) \<Rightarrow> pck_tcb" where
  "tcb_of m = \<lparr>
     pt_cpuSvn = oidToBytes (the (m OID_CPUSVN)),
     pt_cpuSvnComponents = map (\<lambda>i. oidToByte (the (m (OID_SGX_TCB_COMP_SVN i)))) [0..<16],
     pt_pceSvn = oidToUInt (the (m OID_PCESVN))\<rparr>"

lemma apply_tcb_entries:
  "apply_entries tcb_upd ps (pckTcb_new\<lparr>pt_cpuSvnComponents := replicate 16 0\<rparr>) = \<lparr>
     pt_cpuSvn = (case last_value ps OID_CPUSVN of None \<Rightarrow> [] | Some v \<Rightarrow> oidToBytes v),
     pt_cpuSvnComponents = map (\<lambda>i. case last_value ps (OID_SGX_TCB_COMP_SVN i) of
         None \<Rightarrow> 0 | Some v \<Rightarrow> oidToByte v) [0..<16],
     pt_pceSvn = (case last_value ps OID_PCESVN of None \<Rightarrow> 0 | Some v \<Rightarrow> oidToUInt v)\<rparr>"
proof (induction ps rule: rev_induct)
  case Nil
  show ?case by (simp add: apply_entries_def pckTcb_new_def upt_16 numeral_eq_Suc)
next
  case (snoc p ps)
  obtain n v where p: "p = (n, v)" by force
  show ?case
  proof (cases "comp_index n")
    case (Some i)
    then have n: "i < 16" "n = OID_SGX_TCB_COMP_SVN i" by (auto simp: comp_index_Some)
    have other: "j < 16 \<Longrightarrow> OID_SGX_TCB_COMP_SVN j = n \<longleftrightarrow> j = i" for j
      using comp_index_Some [of n i] comp_index_Some [of n j] Some by auto
    have "OID_CPUSVN \<noteq> n" "OID_PCESVN \<noteq> n" using Some by auto
    moreover have "(map (\<lambda>j. case last_value ps (OID_SGX_TCB_COMP_SVN j) of
          None \<Rightarrow> 0 | Some v \<Rightarrow> oidToByte v) [0..<16])[i := oidToByte v] =
        map (\<lambda>j. case last_value (ps @ [(n, v)]) (OID_SGX_TCB_COMP_SVN j) of
          None \<Rightarrow> 0 | Some v \<Rightarrow> oidToByte v) [0..<16]"
      by (rule nth_equalityI) (use n(1) other in \<open>auto simp: nth_list_update\<close>)
    moreover have "tcb_upd n v t = t\<lparr>pt_cpuSvnComponents := (pt_cpuSvnComponents t)[i := oidToByte v]\<rparr>" for t
      by (simp add: tcb_upd_def Some)
    ultimately show ?thesis by (simp add: p snoc)
  next
    case None
    then have "i < 16 \<Longrightarrow> OID_SGX_TCB_COMP_SVN i \<noteq> n" for i
      using comp_index_Some [of n i] by auto
    moreover have "OID_PCESVN \<noteq> OID_CPUSVN" by (simp add: oid_defs)
    moreover have "tcb_upd n v t =
        (if n = OID_PCESVN then t\<lparr>pt_pceSvn := oidToUInt v\<rparr>
         else if n = OID_CPUSVN then t\<lparr>pt_cpuSvn := oidToBytes v\<rparr> else t)" for t
      by (simp add: tcb_upd_def None)
    ultimately show ?thesis by (auto simp: p snoc)
  qed
qed

lemma last_value_distinct: "distinct (map fst ps) \<Longrightarrow> last_value ps = map_of ps"
  unfolding last_value_def by (rule map_of_rev_distinct)

lemma tcb_required: "TCB_REQUIRED_SGX_EXTENSIONS = map snd tcb_table"
  by (simp add: TCB_REQUIRED_SGX_EXTENSIONS_def tcb_table_def)

lemma length_tcb_table: "length tcb_table = 18"
  by (simp add: tcb_table_def)

lemma tcb_table_oids:
  "OID_CPUSVN \<in> fst ` set tcb_table" "OID_PCESVN \<in> fst ` set tcb_table"
  "i < 16 \<Longrightarrow> OID_SGX_TCB_COMP_SVN i \<in> fst ` set tcb_table"
  by (auto simp: tcb_table_def image_iff)

lemma case_the: "x \<noteq> None \<Longrightarrow> (case x of None \<Rightarrow> z | Some v \<Rightarrow> f v) = f (the x)"
  by auto

lemma tcb_of_entries:
  assumes "fst ` set tcb_table \<subseteq> fst ` set ps"
  shows "apply_entries tcb_upd ps (pckTcb_new\<lparr>pt_cpuSvnComponents := replicate 16 0\<rparr>) = tcb_of (last_value ps)"
proof -
  have "last_value ps n \<noteq> None" if "n \<in> fst ` set tcb_table" for n
    using last_value_present [of n ps] assms that by auto
  note some = this [OF tcb_table_oids(1)] this [OF tcb_table_oids(2)] this [OF tcb_table_oids(3)]
  show ?thesis unfolding apply_tcb_entries tcb_of_def
    by (simp add: case_the [OF some(1)] case_the [OF some(2)] case_the [OF some(3)] cong: map_cong)
qed

lemma oidToStack_Inr:
  "asn1_type v = V_ASN1_SEQUENCE \<and> oidToStack d v = Inr es \<longleftrightarrow>
   (\<exists>b. v = ASN1_Sequence b \<and> d2i_ASN1_SEQUENCE_ANY d b = Some es)"
  by (auto simp: asn1_type_iff oidToStack_def split: option.splits)

lemma tcb_parse_accepts_eq:
  "tcb_parse d v = Inr t \<longleftrightarrow>
   (\<exists>contents es ps. v = ASN1_Sequence contents \<and> d2i_ASN1_SEQUENCE_ANY d contents = Some es \<and>
      read_tuples d es = Inr ps \<and> length ps = 18 \<and> distinct (map fst ps) \<and>
      fst ` set ps = fst ` set tcb_table \<and> entries_ok tcb_ok ps \<and> t = tcb_of (map_of ps))"
  (is "?code \<longleftrightarrow> ?spec")
proof -
  have "?code \<longleftrightarrow> (\<exists>es. (asn1_type v = V_ASN1_SEQUENCE \<and> oidToStack d v = Inr es) \<and> length es = 18 \<and>
      bindE (for_tuples d tcb_entry es
        (pckTcb_new\<lparr>pt_cpuSvnComponents := replicate 16 0\<rparr>, map snd tcb_table)) all_found = Inr t)"
    by (auto simp: tcb_parse_def tcb_required)
  also have "\<dots> \<longleftrightarrow> (\<exists>es ps contents. (v = ASN1_Sequence contents \<and> d2i_ASN1_SEQUENCE_ANY d contents = Some es) \<and>
      read_tuples d es = Inr ps \<and> length ps = 18 \<and> entries_ok tcb_ok ps \<and>
      fst ` set tcb_table \<subseteq> fst ` set ps \<and>
      t = apply_entries tcb_upd ps (pckTcb_new\<lparr>pt_cpuSvnComponents := replicate 16 0\<rparr>))"
    unfolding oidToStack_Inr tcb_loop.loop_Inr by (metis length_read_tuples)
  also have "\<dots> \<longleftrightarrow> ?spec"
    using tcb_loop.exactly_once tcb_of_entries last_value_distinct
    by (metis length_tcb_table order_refl)
  finally show ?thesis .
qed

text \<open>
  C14: the TCB of a PCK certificate is accepted exactly when it is a sequence of 18 pairs in which
  every one of the 18 TCB identifiers occurs exactly once, in any order, with a value of its type;
  each component is then read from the pair with its identifier.
\<close>

theorem tcb_parse_accepts:
  "tcb_parse d v = Inr t \<longleftrightarrow>
   (\<exists>contents es ps. v = ASN1_Sequence contents \<and> d2i_ASN1_SEQUENCE_ANY d contents = Some es \<and>
      read_tuples d es = Inr ps \<and> length ps = 18 \<and> distinct (map fst ps) \<and>
      fst ` set ps = fst ` set tcb_table \<and> entries_ok tcb_ok ps \<and> t = tcb_of (map_of ps))"
  by (rule tcb_parse_accepts_eq)

lemma pck_required: "PCK_REQUIRED_SGX_EXTENSIONS = map snd pck_table"
  by (simp add: PCK_REQUIRED_SGX_EXTENSIONS_def pck_table_def)

lemma apply_entries_field:
  assumes "\<And>n v c. get (upd n v c) = (if n = oid then conv v else get c)"
  shows "get (apply_entries upd ps c) =
    (case last_value ps oid of None \<Rightarrow> get c | Some v \<Rightarrow> conv v)"
proof (induction ps rule: rev_induct)
  case (snoc p ps)
  then show ?case by (cases p) (simp add: assms)
qed (simp add: apply_entries_def)

lemma apply_entries_keeps:
  "(\<And>n v c. get (upd n v c) = get c) \<Longrightarrow> get (apply_entries upd ps c) = get c"
  unfolding apply_entries_def by (induction ps arbitrary: c) (auto split: prod.splits)

lemma apply_pck_entries:
  "pck_ppid (apply_entries (pck_upd d) ps c) =
     (case last_value ps OID_PPID of None \<Rightarrow> pck_ppid c | Some v \<Rightarrow> oidToBytes v)"
  "pck_pceId (apply_entries (pck_upd d) ps c) =
     (case last_value ps OID_PCEID of None \<Rightarrow> pck_pceId c | Some v \<Rightarrow> oidToBytes v)"
  "pck_fmspc (apply_entries (pck_upd d) ps c) =
     (case last_value ps OID_FMSPC of None \<Rightarrow> pck_fmspc c | Some v \<Rightarrow> oidToBytes v)"
  "pck_sgxType (apply_entries (pck_upd d) ps c) =
     (case last_value ps OID_SGX_TYPE of None \<Rightarrow> pck_sgxType c | Some v \<Rightarrow> oidToEnum v)"
  "pck_tcb' (apply_entries (pck_upd d) ps c) =
     (case last_value ps OID_TCB of None \<Rightarrow> pck_tcb' c | Some v \<Rightarrow> parsed (tcb_parse d v))"
  "certificate.truncate (apply_entries (pck_upd d) ps c) = certificate.truncate c"
  by (rule apply_entries_field apply_entries_keeps, simp add: pck_upd_def certificate.defs)+

lemma setMembers_accepts_eq:
  "setMembers d es cert = Inr pck \<longleftrightarrow>
   (\<exists>ps. read_tuples d es = Inr ps \<and> length ps \<in> {5, 7} \<and>
      {OID_PPID, OID_PCEID, OID_FMSPC, OID_SGX_TYPE, OID_TCB} \<subseteq> fst ` set ps \<and>
      entries_ok (pck_ok d) ps \<and>
      certificate.truncate pck = certificate.truncate cert \<and>
      pck_ppid pck = oidToBytes (the (last_value ps OID_PPID)) \<and>
      pck_pceId pck = oidToBytes (the (last_value ps OID_PCEID)) \<and>
      pck_fmspc pck = oidToBytes (the (last_value ps OID_FMSPC)) \<and>
      pck_sgxType pck = oidToEnum (the (last_value ps OID_SGX_TYPE)) \<and>
      Inr (pck_tcb' pck) = tcb_parse d (the (last_value ps OID_TCB)))"
  (is "_ \<longleftrightarrow> (\<exists>ps. ?spec ps)")
proof -
  let ?required = "{OID_PPID, OID_PCEID, OID_FMSPC, OID_SGX_TYPE, OID_TCB}"
  have table: "fst ` set pck_table = ?required" by (auto simp: pck_table_def)
  have fields: "pck = apply_entries (pck_upd d) ps cert \<longleftrightarrow> ?spec ps"
    if "?required \<subseteq> fst ` set ps" "entries_ok (pck_ok d) ps" "read_tuples d es = Inr ps"
      "length ps \<in> {5, 7}" for ps
  proof -
    have some: "last_value ps n \<noteq> None" if "n \<in> ?required" for n
      using last_value_present [of n ps] \<open>?required \<subseteq> fst ` set ps\<close> that by auto
    obtain w where w: "last_value ps OID_TCB = Some w" "(OID_TCB, w) \<in> set ps"
      using last_value_present [of OID_TCB ps] \<open>?required \<subseteq> fst ` set ps\<close> by auto
    then obtain t where t: "tcb_parse d w = Inr t"
      using \<open>entries_ok (pck_ok d) ps\<close> by (auto simp: entries_ok_def pck_ok_def)
    note all = apply_pck_entries [of d ps cert] case_the [OF some]
    have "pck = c \<longleftrightarrow> certificate.truncate pck = certificate.truncate c \<and> pck_ppid pck = pck_ppid c \<and>
        pck_pceId pck = pck_pceId c \<and> pck_fmspc pck = pck_fmspc c \<and>
        pck_sgxType pck = pck_sgxType c \<and> pck_tcb' pck = pck_tcb' c" for c
      by (cases pck; cases c) (auto simp: certificate.defs)
    then show ?thesis using that t w
      by (simp add: all)
  qed
  have "setMembers d es cert = Inr pck \<longleftrightarrow> length es \<in> {5, 7} \<and>
      bindE (for_tuples d (pck_entry d) es (cert, map snd pck_table)) all_found = Inr pck"
    by (auto simp: setMembers_def pck_required)
  also have "\<dots> \<longleftrightarrow> (\<exists>ps. read_tuples d es = Inr ps \<and> length ps \<in> {5, 7} \<and> ?required \<subseteq> fst ` set ps \<and>
      entries_ok (pck_ok d) ps \<and> pck = apply_entries (pck_upd d) ps cert)"
    unfolding pck_loop.loop_Inr table by (metis length_read_tuples)
  also have "\<dots> \<longleftrightarrow> (\<exists>ps. ?spec ps)"
  proof (rule ex_cong1)
    fix ps
    show "(read_tuples d es = Inr ps \<and> length ps \<in> {5, 7} \<and> ?required \<subseteq> fst ` set ps \<and>
      entries_ok (pck_ok d) ps \<and> pck = apply_entries (pck_upd d) ps cert) \<longleftrightarrow> ?spec ps"
      using fields [of ps] by argo
  qed
  finally show ?thesis .
qed

text \<open>
  C15: the SGX extensions of a PCK certificate.  They are accepted exactly when there are five or
  seven pairs with every required identifier among them and every value of its type and length;
  the members are then read from the last pair with their identifier, and the rest of the
  certificate is unchanged.
\<close>

theorem setMembers_accepts:
  "setMembers d es cert = Inr pck \<longleftrightarrow>
   (\<exists>ps. read_tuples d es = Inr ps \<and> length ps \<in> {5, 7} \<and>
      {OID_PPID, OID_PCEID, OID_FMSPC, OID_SGX_TYPE, OID_TCB} \<subseteq> fst ` set ps \<and>
      entries_ok (pck_ok d) ps \<and>
      certificate.truncate pck = certificate.truncate cert \<and>
      pck_ppid pck = oidToBytes (the (last_value ps OID_PPID)) \<and>
      pck_pceId pck = oidToBytes (the (last_value ps OID_PCEID)) \<and>
      pck_fmspc pck = oidToBytes (the (last_value ps OID_FMSPC)) \<and>
      pck_sgxType pck = oidToEnum (the (last_value ps OID_SGX_TYPE)) \<and>
      Inr (pck_tcb' pck) = tcb_parse d (the (last_value ps OID_TCB)))"
  by (rule setMembers_accepts_eq)

lemma entries_okD: "entries_ok ok ps \<Longrightarrow> (n, v) \<in> set ps \<Longrightarrow> ok n v"
  by (auto simp: entries_ok_def)

lemma last_value_ok:
  "entries_ok ok ps \<Longrightarrow> n \<in> fst ` set ps \<Longrightarrow> \<exists>v. last_value ps n = Some v \<and> ok n v"
  using last_value_present entries_okD by metis

lemma tcb_parse_lengths:
  assumes "tcb_parse d v = Inr t"
  shows "length (pt_cpuSvnComponents t) = 16 \<and> length (pt_cpuSvn t) = 16"
proof -
  from assms [unfolded tcb_parse_accepts_eq] obtain ps where ps: "distinct (map fst ps)"
    "fst ` set ps = fst ` set tcb_table" "entries_ok tcb_ok ps" "t = tcb_of (map_of ps)"
    by blast
  from ps(2) tcb_table_oids(1) have "OID_CPUSVN \<in> fst ` set ps" by simp
  then obtain v where "(OID_CPUSVN, v) \<in> set ps" by force
  moreover from entries_okD [OF ps(3) this] have "octets 16 v"
    by (simp add: tcb_ok_def)
  ultimately show ?thesis using ps(1,4)
    by (auto simp: tcb_of_def octets_def oidToBytes_def)
qed

text \<open>
  What the rest of the library relies on in an accepted PCK certificate: the underlying
  certificate is the one it was made from, PPID, PCEID, FMSPC and CPUSVN have their sizes, and there
  are sixteen TCB components, one for each index the TCB evaluation reads.
\<close>

theorem pckCertificate_sizes:
  assumes "pckCertificate d cert = Inr pck"
  shows "certificate.truncate pck = cert \<and> length (pck_ppid pck) = 16 \<and> length (pck_pceId pck) = 2 \<and>
    length (pck_fmspc pck) = 6 \<and> length (pt_cpuSvn (pck_tcb' pck)) = 16 \<and>
    length (pt_cpuSvnComponents (pck_tcb' pck)) = 16"
proof -
  from assms obtain es where es: "setMembers d es (pck_of_certificate cert) = Inr pck"
    by (auto simp: pckCertificate_def)
  from es [unfolded setMembers_accepts_eq] obtain ps where ps:
    "{OID_PPID, OID_PCEID, OID_FMSPC, OID_SGX_TYPE, OID_TCB} \<subseteq> fst ` set ps" "entries_ok (pck_ok d) ps"
    "certificate.truncate pck = certificate.truncate (pck_of_certificate cert)"
    "pck_ppid pck = oidToBytes (the (last_value ps OID_PPID))"
    "pck_pceId pck = oidToBytes (the (last_value ps OID_PCEID))"
    "pck_fmspc pck = oidToBytes (the (last_value ps OID_FMSPC))"
    "Inr (pck_tcb' pck) = tcb_parse d (the (last_value ps OID_TCB))" by blast
  have ok: "\<exists>v. last_value ps n = Some v \<and> pck_ok d n v"
    if "n \<in> {OID_PPID, OID_PCEID, OID_FMSPC, OID_TCB}" for n
    using last_value_ok [OF ps(2), of n] ps(1) that by blast
  have "certificate.truncate (pck_of_certificate cert) = cert"
    by (simp add: pck_of_certificate_def certificate.defs)
  moreover have "length (pck_ppid pck) = 16" "length (pck_pceId pck) = 2" "length (pck_fmspc pck) = 6"
    using ok [of OID_PPID] ok [of OID_PCEID] ok [of OID_FMSPC]
    by (auto simp: ps(4-6) pck_ok_def octets_def oidToBytes_def)
  ultimately show ?thesis using ps(3) tcb_parse_lengths [OF ps(7) [symmetric]] by simp
qed

text \<open>
  A platform PCK certificate: the five members every PCK certificate has, the platform instance
  identifier and the configuration are each given exactly once.
\<close>

theorem platform_exactly_once:
  assumes "platform_setMembers d es cert = Inr plat"
  shows "\<exists>ps. read_tuples d es = Inr ps \<and> distinct (map fst ps) \<and>
    fst ` set ps = fst ` set (pck_table @ platform_table) \<and>
    length (plat_platformInstanceId plat) = 16 \<and>
    configuration_parse d (the (map_of ps OID_CONFIGURATION)) = Inr (plat_configuration plat)"
proof -
  let ?base = "\<lambda>c. pck_certificate.extend c
    \<lparr>plat_platformInstanceId = [], plat_configuration = configuration_new\<rparr>"
  have required: "PLATFORM_PCK_REQUIRED_SGX_EXTENSIONS = map snd platform_table"
    by (simp add: PLATFORM_PCK_REQUIRED_SGX_EXTENSIONS_def platform_table_def)
  from assms obtain c where c: "setMembers d es cert = Inr c" "length es = 7"
    "bindE (for_tuples d (platform_entry d) es (?base c, map snd platform_table)) all_found = Inr plat"
    by (auto simp: platform_setMembers_def required)
  from c(3) [unfolded platform_loop.loop_Inr] obtain ps where ps: "read_tuples d es = Inr ps"
    "entries_ok (platform_ok d) ps" "fst ` set platform_table \<subseteq> fst ` set ps"
    "plat = apply_entries (platform_upd d) ps (?base c)" by blast
  from c(1) [unfolded setMembers_accepts_eq] ps(1)
  have "{OID_PPID, OID_PCEID, OID_FMSPC, OID_SGX_TYPE, OID_TCB} \<subseteq> fst ` set ps" by auto
  moreover have "fst ` set pck_table = {OID_PPID, OID_PCEID, OID_FMSPC, OID_SGX_TYPE, OID_TCB}"
    by (auto simp: pck_table_def)
  ultimately have all: "set (map fst (pck_table @ platform_table)) \<subseteq> set (map fst ps)"
    using ps(3) by simp
  have "distinct (map fst (pck_table @ platform_table))"
    by (simp add: pck_table_def platform_table_def oid_defs)
  then have card: "card (set (map fst (pck_table @ platform_table))) = 7"
    by (simp only: distinct_card) (simp add: pck_table_def platform_table_def)
  have len: "length (map fst ps) = 7" using length_read_tuples [OF ps(1)] c(2) by simp
  have eq: "set (map fst (pck_table @ platform_table)) = set (map fst ps)"
    using card_seteq [OF _ all] card len card_length [of "map fst ps"] by simp
  have distinct: "distinct (map fst ps)"
    by (rule card_distinct) (simp only: eq [symmetric] card len)
  have last: "last_value ps = map_of ps" by (rule last_value_distinct [OF distinct])
  have given: "\<exists>v. map_of ps n = Some v \<and> platform_ok d n v" if "n \<in> fst ` set platform_table" for n
    using last_value_ok [OF ps(2), of n] ps(3) that unfolding last by blast
  from given obtain v where v: "map_of ps OID_CONFIGURATION = Some v" "platform_ok d OID_CONFIGURATION v"
    by (auto simp: platform_table_def)
  from given obtain w where w: "map_of ps OID_PLATFORM_INSTANCE_ID = Some w"
    "platform_ok d OID_PLATFORM_INSTANCE_ID w" by (auto simp: platform_table_def)
  have differ: "OID_CONFIGURATION \<noteq> OID_PLATFORM_INSTANCE_ID" by (simp add: oid_defs)
  have "plat_configuration (apply_entries (platform_upd d) ps c') =
      (case last_value ps OID_CONFIGURATION of
         None \<Rightarrow> plat_configuration c' | Some v \<Rightarrow> parsed (configuration_parse d v))" for c'
    by (rule apply_entries_field) (simp add: platform_upd_def differ)
  moreover have "plat_platformInstanceId (apply_entries (platform_upd d) ps c') =
      (case last_value ps OID_PLATFORM_INSTANCE_ID of
         None \<Rightarrow> plat_platformInstanceId c' | Some v \<Rightarrow> oidToBytes v)" for c'
    by (rule apply_entries_field) (simp add: platform_upd_def)
  ultimately show ?thesis
    using ps(1,4) distinct eq v w
    by (auto simp: last platform_ok_def octets_def oidToBytes_def)
qed

section \<open>Exceptions\<close>

abbreviation parser_exceptions :: "exn set" where
  "parser_exceptions \<equiv> {FormatException, InvalidExtensionException}"

lemma throws_oid [throws]:
  "throws_only parser_exceptions (validateOid v ty)"
  "throws_only parser_exceptions (value_length v)"
  "throws_only parser_exceptions (oidToStack d v)"
  by (cases v; auto simp: validateOid_def oidToStack_def split: option.split)+

lemma throws_oid_length [throws]: "throws_only parser_exceptions (validateOid_length v ty n)"
  unfolding validateOid_length_def by (auto intro!: throws)

lemma throws_for_tuples [throws]:
  "(\<And>n v s. throws_only parser_exceptions (entry n v s)) \<Longrightarrow>
   throws_only parser_exceptions (for_tuples d entry es s)"
  by (induction es arbitrary: s) (auto simp: read_tuple_def intro!: throws)

lemma throws_all_found [throws]: "throws_only parser_exceptions (all_found st)"
  by (auto simp: all_found_def split: prod.split)

lemma throws_tcb_parse [throws]: "throws_only parser_exceptions (tcb_parse d v)"
  unfolding tcb_parse_def tcb_entry_def by (auto intro!: throws split: option.split)

lemma throws_pckCertificate [throws]: "throws_only parser_exceptions (pckCertificate d cert)"
  unfolding pckCertificate_def getSgxExtensions_def setMembers_def pck_entry_def
  by (auto intro!: throws split: option.split)

section \<open>An example\<close>

text \<open>A decoder that knows one platform certificate: the contents of each sequence are a number.\<close>

definition sample_pair :: "u8 \<Rightarrow> asn1 list option" where
  "sample_pair k =
     (if k = 0 then Some (map (\<lambda>i. ASN1_Sequence [i]) [2, 3, 4, 5, 6, 7, 8])
      else if k = 1 then Some (map (\<lambda>i. ASN1_Sequence [of_nat i]) [32..<50])
      else if k = 2 then Some [ASN1_Object OID_PPID, ASN1_Octet_String (replicate 16 11)]
      else if k = 3 then Some [ASN1_Object OID_TCB, ASN1_Sequence [1]]
      else if k = 4 then Some [ASN1_Object OID_PCEID, ASN1_Octet_String [12, 13]]
      else if k = 5 then Some [ASN1_Object OID_FMSPC, ASN1_Octet_String (replicate 6 14)]
      else if k = 6 then Some [ASN1_Object OID_SGX_TYPE, ASN1_Enumerated 1 1]
      else if k = 7 then
        Some [ASN1_Object OID_PLATFORM_INSTANCE_ID, ASN1_Octet_String (replicate 16 15)]
      else if k = 8 then Some [ASN1_Object OID_CONFIGURATION, ASN1_Sequence [9]]
      else if k = 9 then Some (map (\<lambda>i. ASN1_Sequence [i]) [10, 11, 12])
      else if k = 10 then Some [ASN1_Object OID_DYNAMIC_PLATFORM, ASN1_Boolean 255]
      else if k = 11 then Some [ASN1_Object OID_CACHED_KEYS, ASN1_Boolean 0]
      else if k = 12 then Some [ASN1_Object OID_SMT_ENABLED, ASN1_Boolean 255]
      else if 32 \<le> k \<and> k < 48 then
        Some [ASN1_Object (OID_SGX_TCB_COMP_SVN (unat k - 32)), ASN1_Integer 1 (int (unat k) - 30)]
      else if k = 48 then Some [ASN1_Object OID_PCESVN, ASN1_Integer 1 10]
      else if k = 49 then Some [ASN1_Object OID_CPUSVN, ASN1_Octet_String (replicate 16 16)]
      else None)"

definition sample_decoder :: asn1_decoder where
  "sample_decoder = \<lparr>
     d2i_ASN1_TYPE = (\<lambda>b. if length b = 1 then Some (ASN1_Sequence b) else None),
     d2i_ASN1_SEQUENCE_ANY = (\<lambda>b. if length b = 1 then sample_pair (hd b) else None)\<rparr>"

definition sample_name :: "string \<Rightarrow> distinguished_name" where
  "sample_name commonName = intel_name (''CN='' @ commonName) commonName"

definition sample_certificate :: "string \<Rightarrow> string \<Rightarrow> certificate" where
  "sample_certificate subject issuer = \<lparr>
     cert_version = 3, cert_subject = sample_name subject, cert_issuer = sample_name issuer,
     cert_validity = \<lparr>notBeforeTime = 0, notAfterTime = 1000\<rparr>,
     cert_extensions = [\<lparr>ext_nid = NID_undef, ext_name = OID_SGX_EXTENSION, ext_value = [0]\<rparr>],
     cert_signature = \<lparr>sig_rawDer = [1], sig_r = [], sig_s = []\<rparr>,
     cert_serialNumber = [7], cert_pubKey = 4 # replicate 64 0, cert_info = [2],
     cert_pem = [], cert_crlDistributionPoint = []\<rparr>"

definition sample_stack :: "asn1 list" where
  "sample_stack = map (\<lambda>i. ASN1_Sequence [i]) [2, 3, 4, 5, 6, 7, 8]"

definition sample_tcb :: pck_tcb where
  "sample_tcb = \<lparr>pt_cpuSvn = replicate 16 16,
     pt_cpuSvnComponents = [2, 3, 4, 5, 6, 7, 8, 9, 10, 11, 12, 13, 14, 15, 16, 17],
     pt_pceSvn = 10\<rparr>"

definition sample_pck_fields :: "certificate \<Rightarrow> pck_certificate" where
  "sample_pck_fields cert = certificate.extend cert
     \<lparr>pck_ppid = replicate 16 11, pck_pceId = [12, 13], pck_fmspc = replicate 6 14,
      pck_tcb' = sample_tcb, pck_sgxType = 1\<rparr>"

definition sample_pck_cert :: certificate where
  "sample_pck_cert = sample_certificate ''Intel SGX PCK Certificate'' ''Intel SGX PCK Platform CA''"

definition sample_platform :: platform_pck_certificate where
  "sample_platform = pck_certificate.extend (sample_pck_fields sample_pck_cert)
     \<lparr>plat_platformInstanceId = replicate 16 15,
      plat_configuration =
        \<lparr>cfg_dynamicPlatform = True, cfg_cachedKeys = False, cfg_smtEnabled = True\<rparr>\<rparr>"

lemma case_outcome_eq: "(case m of Inl _ \<Rightarrow> False | Inr a \<Rightarrow> a = b) \<longleftrightarrow> m = Inr b"
  by (auto split: sum.split)

lemma sample_tcb_parse: "tcb_parse sample_decoder (ASN1_Sequence [1]) = Inr sample_tcb"
proof -
  have "case tcb_parse sample_decoder (ASN1_Sequence [1]) of Inl _ \<Rightarrow> False | Inr t \<Rightarrow> t = sample_tcb"
    by code_simp
  then show ?thesis by (simp add: case_outcome_eq)
qed

lemma sample_pckCertificate:
  "pckCertificate sample_decoder sample_pck_cert = Inr (sample_pck_fields sample_pck_cert)"
proof -
  have "case pckCertificate sample_decoder sample_pck_cert of
      Inl _ \<Rightarrow> False | Inr c \<Rightarrow> c = sample_pck_fields sample_pck_cert"
    by code_simp
  then show ?thesis by (simp add: case_outcome_eq)
qed

lemma sample_platform_setMembers:
  "platform_setMembers sample_decoder sample_stack (pck_of_certificate sample_pck_cert) = Inr sample_platform"
proof -
  have "case platform_setMembers sample_decoder sample_stack (pck_of_certificate sample_pck_cert) of
      Inl _ \<Rightarrow> False | Inr c \<Rightarrow> c = sample_platform"
    by code_simp
  then show ?thesis by (simp add: case_outcome_eq)
qed

lemma pckCertificate_sizes_witness:
  "pckCertificate sample_decoder sample_pck_cert = Inr (sample_pck_fields sample_pck_cert) \<and>
   length (pck_ppid (sample_pck_fields sample_pck_cert)) = 16"
  using pckCertificate_sizes [OF sample_pckCertificate] sample_pckCertificate by simp

lemma platform_exactly_once_witness:
  "\<exists>ps. read_tuples sample_decoder sample_stack = Inr ps \<and> distinct (map fst ps)"
  using platform_exactly_once [OF sample_platform_setMembers] by blast

end
