(* ===== verification/CertificateParser.thy ===== *)
theory CertificateParser
  imports PckExtensions
begin

text \<open>
  \<^verbatim>\<open>AttestationParsers/src/X509/Certificate.cpp\<close>: from the object OpenSSL makes
  of a PEM text to a \<open>certificate\<close>, with the constructors of
  \<^verbatim>\<open>DistinguishedName\<close>, \<^verbatim>\<open>Extension\<close> and
  \<^verbatim>\<open>Signature\<close> and the helpers of \<^verbatim>\<open>ParserUtils.cpp\<close>.
  The record \<open>x509_object\<close> holds what OpenSSL's accessors return for an object, with
  \<open>None\<close> for a null pointer or a failed conversion; PEM reading and the decoding of an ECDSA
  signature are parameters.
\<close>

section \<open>What OpenSSL returns\<close>

text \<open>An entry of a name: its kind, its estimated length and its text in UTF-8.\<close>

datatype name_nid =
    NID_commonName
  | NID_countryName
  | NID_organizationName
  | NID_localityName
  | NID_stateOrProvinceName
  | NID_name_other int

record name_entry =
  ne_nid :: name_nid
  ne_estimatedLen :: int
  ne_utf8 :: "string option"

record name_object =
  no_rfc2253 :: string
  no_entries :: "name_entry list"

record extension_object =
  eo_nid :: nid
  eo_oidText :: string
  eo_data :: "bytes option"
  eo_printed :: "bytes option"
  eo_longName :: string

text \<open>A time is the difference to 1 January 1970 in days and seconds.\<close>

type_synonym asn1_time = "(int \<times> int) option"

record x509_object =
  xo_pubkey :: "bytes option"
  xo_tbs :: bytes
  xo_sig :: "bytes option"
  xo_alg :: bool
  xo_version :: int
  xo_serial :: bytes
  xo_subject :: "name_object option"
  xo_issuer :: "name_object option"
  xo_notBefore :: "asn1_time option"
  xo_notAfter :: "asn1_time option"
  xo_ext_count :: int
  xo_extensions :: "extension_object list"

record x509_reader =
  PEM_read_bio_X509 :: "string \<Rightarrow> x509_object option"
  d2i_ECDSA_SIG :: "bytes \<Rightarrow> (bytes \<times> bytes) option"

section \<open>Names\<close>

definition getNameEntry :: "name_object \<Rightarrow> name_nid \<Rightarrow> string" where
  "getNameEntry name n =
     (if no_entries name = [] then ''''
      else case List.find (\<lambda>e. ne_nid e = n) (no_entries name) of
        None \<Rightarrow> ''''
      | Some entry \<Rightarrow>
          if ne_estimatedLen entry \<le> 0 then ''''
          else case ne_utf8 entry of
            None \<Rightarrow> ''''
          | Some s \<Rightarrow> if ne_estimatedLen entry \<noteq> int (length s) then '''' else s)"

definition distinguishedName :: "name_object \<Rightarrow> distinguished_name" where
  "distinguishedName name = \<lparr>
     dn_raw = no_rfc2253 name,
     dn_commonName = getNameEntry name NID_commonName,
     dn_countryName = getNameEntry name NID_countryName,
     dn_organizationName = getNameEntry name NID_organizationName,
     dn_locationName = getNameEntry name NID_localityName,
     dn_stateName = getNameEntry name NID_stateOrProvinceName\<rparr>"

section \<open>Times\<close>

definition SECONDS_IN_A_DAY :: int where [simp]: "SECONDS_IN_A_DAY = 24 * 60 * 60"

definition asn1TimeToTimet :: "asn1_time \<Rightarrow> time_t outcome" where
  "asn1TimeToTimet t =
     (case t of
        None \<Rightarrow> Inl FormatException
      | Some (pday, psec) \<Rightarrow> Inr (0 + pday * SECONDS_IN_A_DAY + psec))"

definition asn1TimePeriodToCTime :: "asn1_time \<Rightarrow> asn1_time \<Rightarrow> (time_t \<times> time_t) outcome" where
  "asn1TimePeriodToCTime validityBegin validityEnd =
     bindE (asn1TimeToTimet validityBegin) (\<lambda>notBefore.
     bindE (asn1TimeToTimet validityEnd) (\<lambda>notAfter. Inr (notBefore, notAfter)))"

section \<open>Extensions\<close>

text \<open>
  A printed extension keeps its length: the new-line characters are dropped and as many zero bytes
  follow.
\<close>

definition noNewLines :: "bytes \<Rightarrow> bytes" where
  "noNewLines b = (let kept = filter (\<lambda>chr. chr \<noteq> 13 \<and> chr \<noteq> 10) b
                   in kept @ replicate (length b - length kept) 0)"

definition extension_of :: "extension_object \<Rightarrow> x509_extension outcome" where
  "extension_of e =
     (if eo_nid e = NID_undef then
        (case eo_data e of
           None \<Rightarrow> Inl FormatException
         | Some val \<Rightarrow> Inr \<lparr>ext_nid = eo_nid e, ext_name = eo_oidText e, ext_value = val\<rparr>)
      else
        (case eo_printed e of
           None \<Rightarrow> Inr \<lparr>ext_nid = eo_nid e, ext_name = eo_longName e, ext_value = the (eo_data e)\<rparr>
         | Some printed \<Rightarrow>
             Inr \<lparr>ext_nid = eo_nid e, ext_name = eo_longName e, ext_value = noNewLines printed\<rparr>))"

primrec extensions_of :: "extension_object list \<Rightarrow> x509_extension list outcome" where
  "extensions_of [] = Inr []"
| "extensions_of (e # es) =
     bindE (extension_of e) (\<lambda>ext. bindE (extensions_of es) (\<lambda>exts. Inr (ext # exts)))"

definition REQUIRED_X509_EXTENSIONS :: "nid list" where
  "REQUIRED_X509_EXTENSIONS = [NID_authority_key_identifier, NID_crl_distribution_points,
     NID_subject_key_identifier, NID_key_usage, NID_basic_constraints]"

section \<open>Signatures\<close>

definition signature_of :: "x509_reader \<Rightarrow> bytes \<Rightarrow> x509_signature outcome" where
  "signature_of rd pSig =
     (case d2i_ECDSA_SIG rd pSig of
        None \<Rightarrow> Inl FormatException
      | Some (r, s) \<Rightarrow> Inr \<lparr>sig_rawDer = pSig, sig_r = r, sig_s = s\<rparr>)"

section \<open>The constructor\<close>

definition certificate_new :: certificate where
  "certificate_new = \<lparr>
     cert_version = 0,
     cert_subject = \<lparr>dn_raw = [], dn_commonName = [], dn_countryName = [],
       dn_organizationName = [], dn_locationName = [], dn_stateName = []\<rparr>,
     cert_issuer = \<lparr>dn_raw = [], dn_commonName = [], dn_countryName = [],
       dn_organizationName = [], dn_locationName = [], dn_stateName = []\<rparr>,
     cert_validity = \<lparr>notBeforeTime = 0, notAfterTime = 0\<rparr>,
     cert_extensions = [],
     cert_signature = \<lparr>sig_rawDer = [], sig_r = [], sig_s = []\<rparr>,
     cert_serialNumber = [], cert_pubKey = [], cert_info = [], cert_pem = [],
     cert_crlDistributionPoint = []\<rparr>"

definition setPublicKey :: "x509_object \<Rightarrow> certificate \<Rightarrow> certificate outcome" where
  "setPublicKey x c =
     (case xo_pubkey x of None \<Rightarrow> Inl FormatException | Some k \<Rightarrow> Inr (c\<lparr>cert_pubKey := k\<rparr>))"

definition setInfo :: "x509_object \<Rightarrow> certificate \<Rightarrow> certificate outcome" where
  "setInfo x c = Inr (c\<lparr>cert_info := xo_tbs x\<rparr>)"

definition setSignature :: "x509_reader \<Rightarrow> x509_object \<Rightarrow> certificate \<Rightarrow> certificate outcome" where
  "setSignature rd x c =
     (case xo_sig x of
        None \<Rightarrow> Inl FormatException
      | Some psig \<Rightarrow>
          if \<not> xo_alg x then Inl FormatException
          else if length psig = 0 then Inl FormatException
          else bindE (signature_of rd psig) (\<lambda>s. Inr (c\<lparr>cert_signature := s\<rparr>)))"

definition setVersion :: "x509_object \<Rightarrow> certificate \<Rightarrow> certificate outcome" where
  "setVersion x c = Inr (c\<lparr>cert_version := word_of_int (xo_version x + 1)\<rparr>)"

definition setSerialNumber :: "x509_object \<Rightarrow> certificate \<Rightarrow> certificate outcome" where
  "setSerialNumber x c = Inr (c\<lparr>cert_serialNumber := xo_serial x\<rparr>)"

definition setSubject :: "x509_object \<Rightarrow> certificate \<Rightarrow> certificate outcome" where
  "setSubject x c =
     (case xo_subject x of
        None \<Rightarrow> Inl FormatException
      | Some n \<Rightarrow> Inr (c\<lparr>cert_subject := distinguishedName n\<rparr>))"

definition setIssuer :: "x509_object \<Rightarrow> certificate \<Rightarrow> certificate outcome" where
  "setIssuer x c =
     (case xo_issuer x of
        None \<Rightarrow> Inl FormatException
      | Some n \<Rightarrow> Inr (c\<lparr>cert_issuer := distinguishedName n\<rparr>))"

definition setValidity :: "x509_object \<Rightarrow> certificate \<Rightarrow> certificate outcome" where
  "setValidity x c =
     (case xo_notBefore x of
        None \<Rightarrow> Inl FormatException
      | Some notBefore \<Rightarrow>
          (case xo_notAfter x of
             None \<Rightarrow> Inl FormatException
           | Some notAfter \<Rightarrow>
               bindE (asn1TimePeriodToCTime notBefore notAfter) (\<lambda>period.
                 Inr (c\<lparr>cert_validity :=
                   \<lparr>notBeforeTime = fst period, notAfterTime = snd period\<rparr>\<rparr>))))"

definition setExtensions :: "x509_object \<Rightarrow> certificate \<Rightarrow> certificate outcome" where
  "setExtensions x c =
     (if xo_ext_count x < 0 then Inl FormatException
      else
        bindE (extensions_of (xo_extensions x)) (\<lambda>extensions.
          let expectedExtensions =
                fold (\<lambda>extension. removeAll (ext_nid extension)) extensions REQUIRED_X509_EXTENSIONS
          in if expectedExtensions \<noteq> [] then Inl InvalidExtensionException
             else Inr (c\<lparr>cert_extensions := extensions\<rparr>)))"

definition setCrlDistributionPoint :: "x509_object \<Rightarrow> certificate \<Rightarrow> certificate outcome" where
  "setCrlDistributionPoint x c =
     (case List.find (\<lambda>e. eo_nid e = NID_crl_distribution_points) (xo_extensions x) of
        None \<Rightarrow> Inl InvalidExtensionException
      | Some e \<Rightarrow>
          bindE (extension_of e) (\<lambda>ext.
            Inr (c\<lparr>cert_crlDistributionPoint :=
                   map (\<lambda>b. char_of (unat b)) (takeWhile (\<lambda>b. b \<noteq> 0) (ext_value ext))\<rparr>)))"

definition certificate_parse :: "x509_reader \<Rightarrow> string \<Rightarrow> certificate outcome" where
  "certificate_parse rd pem =
     (case PEM_read_bio_X509 rd pem of
        None \<Rightarrow> Inl FormatException
      | Some x509 \<Rightarrow>
          bindE (setPublicKey x509 (certificate_new\<lparr>cert_pem := pem\<rparr>)) (\<lambda>c.
          bindE (setInfo x509 c) (\<lambda>c.
          bindE (setSignature rd x509 c) (\<lambda>c.
          bindE (setVersion x509 c) (\<lambda>c.
          bindE (setSerialNumber x509 c) (\<lambda>c.
          bindE (setSubject x509 c) (\<lambda>c.
          bindE (setIssuer x509 c) (\<lambda>c.
          bindE (setValidity x509 c) (\<lambda>c.
          bindE (setExtensions x509 c) (\<lambda>c.
            setCrlDistributionPoint x509 c))))))))))"

section \<open>What an accepted certificate is\<close>

lemma fold_removeAll: "fold (\<lambda>e. removeAll (f e)) xs ys = filter (\<lambda>y. y \<notin> f ` set xs) ys"
  by (induction xs arbitrary: ys) (auto simp: removeAll_filter_not_eq intro: filter_cong)

lemma extensions_of_nids:
  "extensions_of es = Inr exts \<Longrightarrow> map ext_nid exts = map eo_nid es"
  by (induction es arbitrary: exts)
    (auto simp: extension_of_def split: if_splits option.splits)

lemma throws_extension_of [throws]: "throws_only parser_exceptions (extension_of e)"
  by (auto simp: extension_of_def split: option.splits)

lemma throws_extensions_of [throws]: "throws_only parser_exceptions (extensions_of es)"
  by (induction es) (auto intro!: throws)

lemmas certificate_setters = setPublicKey_def setInfo_def setSignature_def setVersion_def
  setSerialNumber_def setSubject_def setIssuer_def setValidity_def asn1TimePeriodToCTime_def
  asn1TimeToTimet_def signature_of_def

lemma setPublicKey_Inr:
  "setPublicKey x c = Inr c' \<longleftrightarrow> (\<exists>k. xo_pubkey x = Some k \<and> c' = c\<lparr>cert_pubKey := k\<rparr>)"
  by (auto simp: setPublicKey_def split: option.split)

lemma setInfo_Inr:
  "setInfo x c = Inr c' \<longleftrightarrow> c' = c\<lparr>cert_info := xo_tbs x\<rparr>"
  by (auto simp: setInfo_def split: option.split)

lemma setSignature_Inr:
  "setSignature rd x c = Inr c' \<longleftrightarrow> (\<exists>p r s. xo_sig x = Some p \<and> p \<noteq> [] \<and> xo_alg x \<and>
     d2i_ECDSA_SIG rd p = Some (r, s) \<and>
     c' = c\<lparr>cert_signature := \<lparr>sig_rawDer = p, sig_r = r, sig_s = s\<rparr>\<rparr>)"
  by (auto simp: setSignature_def signature_of_def split: option.split)

lemma setVersion_Inr:
  "setVersion x c = Inr c' \<longleftrightarrow> c' = c\<lparr>cert_version := word_of_int (xo_version x + 1)\<rparr>"
  by (auto simp: setVersion_def split: option.split)

lemma setSerialNumber_Inr:
  "setSerialNumber x c = Inr c' \<longleftrightarrow> c' = c\<lparr>cert_serialNumber := xo_serial x\<rparr>"
  by (auto simp: setSerialNumber_def split: option.split)

lemma setSubject_Inr:
  "setSubject x c = Inr c' \<longleftrightarrow>
     (\<exists>n. xo_subject x = Some n \<and> c' = c\<lparr>cert_subject := distinguishedName n\<rparr>)"
  by (auto simp: setSubject_def split: option.split)

lemma setIssuer_Inr:
  "setIssuer x c = Inr c' \<longleftrightarrow>
     (\<exists>n. xo_issuer x = Some n \<and> c' = c\<lparr>cert_issuer := distinguishedName n\<rparr>)"
  by (auto simp: setIssuer_def split: option.split)

lemma setValidity_Inr:
  "setValidity x c = Inr c' \<longleftrightarrow> (\<exists>d s d' s'. xo_notBefore x = Some (Some (d, s)) \<and>
     xo_notAfter x = Some (Some (d', s')) \<and>
     c' = c\<lparr>cert_validity :=
       \<lparr>notBeforeTime = 86400 * d + s, notAfterTime = 86400 * d' + s'\<rparr>\<rparr>)"
  by (auto simp: setValidity_def asn1TimePeriodToCTime_def asn1TimeToTimet_def mult.commute split: option.split)

lemma setExtensions_Inr:
  "setExtensions x c = Inr c' \<longleftrightarrow> (\<exists>exts. 0 \<le> xo_ext_count x \<and>
     extensions_of (xo_extensions x) = Inr exts \<and>
     set REQUIRED_X509_EXTENSIONS \<subseteq> ext_nid ` set exts \<and> c' = c\<lparr>cert_extensions := exts\<rparr>)"
  by (auto simp: setExtensions_def Let_def fold_removeAll filter_empty_conv subset_iff)

lemma setCrlDistributionPoint_Inr:
  "setCrlDistributionPoint x c = Inr c' \<longleftrightarrow> (\<exists>e ext.
     List.find (\<lambda>e. eo_nid e = NID_crl_distribution_points) (xo_extensions x) = Some e \<and>
     extension_of e = Inr ext \<and> c' = c\<lparr>cert_crlDistributionPoint :=
       map (\<lambda>b. char_of (unat b)) (takeWhile (\<lambda>b. b \<noteq> 0) (ext_value ext))\<rparr>)"
  by (auto simp: setCrlDistributionPoint_def split: option.split)

lemmas setters_Inr = setPublicKey_Inr setInfo_Inr setSignature_Inr setVersion_Inr setSerialNumber_Inr
  setSubject_Inr setIssuer_Inr setValidity_Inr setExtensions_Inr setCrlDistributionPoint_Inr

text \<open>
  C16: an accepted certificate is that of its PEM text: its signed part, key and signature bytes are
  those OpenSSL found, the validity is in seconds since 1970, and every required X.509 extension is
  among its extensions.
\<close>

theorem certificate_parse_accepted:
  assumes "certificate_parse rd pem = Inr c"
  shows "\<exists>x. PEM_read_bio_X509 rd pem = Some x \<and> cert_pem c = pem \<and> cert_info c = xo_tbs x \<and>
    xo_pubkey x = Some (cert_pubKey c) \<and> xo_sig x = Some (sig_rawDer (cert_signature c)) \<and>
    sig_rawDer (cert_signature c) \<noteq> [] \<and>
    map_option distinguishedName (xo_subject x) = Some (cert_subject c) \<and>
    map_option distinguishedName (xo_issuer x) = Some (cert_issuer c) \<and>
    (\<exists>d s d' s'. xo_notBefore x = Some (Some (d, s)) \<and> xo_notAfter x = Some (Some (d', s')) \<and>
       notBeforeTime (cert_validity c) = 86400 * d + s \<and>
       notAfterTime (cert_validity c) = 86400 * d' + s') \<and>
    set REQUIRED_X509_EXTENSIONS \<subseteq> ext_nid ` set (cert_extensions c)"
  using assms
  by (auto simp: certificate_parse_def setters_Inr certificate_new_def split: option.splits)

lemma throws_setters [throws]:
  "throws_only parser_exceptions (setPublicKey x c)" "throws_only parser_exceptions (setInfo x c)"
  "throws_only parser_exceptions (setSignature rd x c)" "throws_only parser_exceptions (setVersion x c)"
  "throws_only parser_exceptions (setSerialNumber x c)" "throws_only parser_exceptions (setSubject x c)"
  "throws_only parser_exceptions (setIssuer x c)" "throws_only parser_exceptions (setValidity x c)"
  "throws_only parser_exceptions (setExtensions x c)"
  "throws_only parser_exceptions (setCrlDistributionPoint x c)"
  by (auto simp: certificate_setters setExtensions_def setCrlDistributionPoint_def Let_def
      intro!: throws split: option.split prod.split)

lemma throws_certificate_parse [throws]: "throws_only parser_exceptions (certificate_parse rd pem)"
  unfolding certificate_parse_def by (auto intro!: throws split: option.split)

section \<open>An example\<close>

definition sample_name_object :: "string \<Rightarrow> name_object" where
  "sample_name_object commonName = \<lparr>no_rfc2253 = ''CN='' @ commonName, no_entries =
     map (\<lambda>(n, s). \<lparr>ne_nid = n, ne_estimatedLen = int (length s), ne_utf8 = Some s\<rparr>)
       [(NID_commonName, commonName), (NID_countryName, ''US''),
        (NID_organizationName, ''Intel Corporation''), (NID_localityName, ''Santa Clara''),
        (NID_stateOrProvinceName, ''CA'')]\<rparr>"

definition sample_standard_extension :: "nid \<Rightarrow> extension_object" where
  "sample_standard_extension n =
     \<lparr>eo_nid = n, eo_oidText = [], eo_data = Some [], eo_printed = Some [85, 10], eo_longName = ''X509v3''\<rparr>"

definition sample_x509_object :: "string \<Rightarrow> string \<Rightarrow> x509_object" where
  "sample_x509_object subject issuer = \<lparr>
     xo_pubkey = Some (4 # replicate 64 0), xo_tbs = [2], xo_sig = Some [1], xo_alg = True,
     xo_version = 2, xo_serial = [7],
     xo_subject = Some (sample_name_object subject), xo_issuer = Some (sample_name_object issuer),
     xo_notBefore = Some (Some (0, 0)), xo_notAfter = Some (Some (1, 1000)),
     xo_ext_count = 6,
     xo_extensions = map sample_standard_extension REQUIRED_X509_EXTENSIONS @
       [\<lparr>eo_nid = NID_undef, eo_oidText = OID_SGX_EXTENSION, eo_data = Some [0],
         eo_printed = None, eo_longName = []\<rparr>]\<rparr>"

definition sample_parsed :: "string \<Rightarrow> string \<Rightarrow> string \<Rightarrow> certificate" where
  "sample_parsed pem subject issuer = \<lparr>
     cert_version = 3, cert_subject = sample_name subject, cert_issuer = sample_name issuer,
     cert_validity = \<lparr>notBeforeTime = 0, notAfterTime = 87400\<rparr>,
     cert_extensions =
       map (\<lambda>n. \<lparr>ext_nid = n, ext_name = ''X509v3'', ext_value = [85, 0]\<rparr>) REQUIRED_X509_EXTENSIONS @
       [\<lparr>ext_nid = NID_undef, ext_name = OID_SGX_EXTENSION, ext_value = [0]\<rparr>],
     cert_signature = \<lparr>sig_rawDer = [1], sig_r = [], sig_s = []\<rparr>,
     cert_serialNumber = [7], cert_pubKey = 4 # replicate 64 0, cert_info = [2],
     cert_pem = pem, cert_crlDistributionPoint = ''U''\<rparr>"

text \<open>A reader that knows four texts: a root, an intermediate, a PCK and a TCB signing certificate.\<close>

definition sample_pem :: "string \<Rightarrow> string" where
  "sample_pem body = ''-----BEGIN CERTIFICATE-----'' @ body @ ''-----END CERTIFICATE-----''"

definition sample_reader :: x509_reader where
  "sample_reader = \<lparr>
     PEM_read_bio_X509 = (\<lambda>pem.
       if pem = sample_pem ''r'' then
         Some (sample_x509_object ''Intel SGX Root CA'' ''Intel SGX Root CA'')
       else if pem = sample_pem ''i'' then
         Some (sample_x509_object ''Intel SGX PCK Platform CA'' ''Intel SGX Root CA'')
       else if pem = sample_pem ''p'' then
         Some (sample_x509_object ''Intel SGX PCK Certificate'' ''Intel SGX PCK Platform CA'')
       else if pem = sample_pem ''t'' then
         Some (sample_x509_object ''Intel SGX TCB Signing'' ''Intel SGX Root CA'')
       else None),
     d2i_ECDSA_SIG = (\<lambda>b. Some ([], []))\<rparr>"

lemma sample_certificate_parse:
  "certificate_parse sample_reader (sample_pem ''p'') =
     Inr (sample_parsed (sample_pem ''p'') ''Intel SGX PCK Certificate'' ''Intel SGX PCK Platform CA'')"
proof -
  have "case certificate_parse sample_reader (sample_pem ''p'') of Inl _ \<Rightarrow> False
    | Inr c \<Rightarrow> c = sample_parsed (sample_pem ''p'') ''Intel SGX PCK Certificate'' ''Intel SGX PCK Platform CA''"
    by code_simp
  then show ?thesis by (simp only: case_outcome_eq)
qed

lemma certificate_parse_accepted_witness:
  "\<exists>x. PEM_read_bio_X509 sample_reader (sample_pem ''p'') = Some x \<and> xo_sig x = Some [1]"
  using certificate_parse_accepted [OF sample_certificate_parse] by (auto simp: sample_parsed_def)

end
