(* ===== verification/CertChain.thy ===== *)
theory CertChain
  imports CertificateParser
begin

text \<open>
  \<^verbatim>\<open>CertVerification/CertificateChain.cpp\<close>: splitting a text of concatenated
  PEM certificates, parsing each, and picking the root, the topmost and the PCK certificate.
\<close>

section \<open>State\<close>

record cert_chain =
  ch_certs :: "certificate list"
  ch_rootCert :: "certificate option"
  ch_topmostCert :: "certificate option"
  ch_pckCert :: "pck_certificate option"

definition chain_new :: cert_chain where
  "chain_new = \<lparr>ch_certs = [], ch_rootCert = None, ch_topmostCert = None, ch_pckCert = None\<rparr>"

definition chain_length :: "cert_chain \<Rightarrow> nat" where
  "chain_length ch = length (ch_certs ch)"

definition chain_get :: "cert_chain \<Rightarrow> distinguished_name \<Rightarrow> certificate option" where
  "chain_get ch subject = List.find (\<lambda>cert. dn_eq (cert_subject cert) subject) (ch_certs ch)"

definition getIntermediateCert :: "cert_chain \<Rightarrow> certificate option" where
  "getIntermediateCert ch = List.find (\<lambda>cert.
     \<not> dn_eq (cert_subject cert) (cert_issuer cert) \<and>
     commonNameContains (cert_subject cert) SGX_INTERMEDIATE_CN_PHRASE) (ch_certs ch)"

section \<open>Splitting\<close>

definition begCert :: string where "begCert = ''-----BEGIN CERTIFICATE-----''"
definition endCert :: string where "endCert = ''-----END CERTIFICATE-----''"

text \<open>\<^verbatim>\<open>while (pemChain.at(newStartPos) != '-') ++newStartPos;\<close>\<close>

function skip_to_dash :: "string \<Rightarrow> nat \<Rightarrow> nat outcome" where
  "skip_to_dash pemChain newStartPos =
     (if length pemChain \<le> newStartPos then Inl OutOfRange
      else if pemChain ! newStartPos \<noteq> CHR ''-'' then skip_to_dash pemChain (newStartPos + 1)
      else Inr newStartPos)"
  by pat_completeness auto
termination
  by (relation "measure (\<lambda>(pemChain, pos). length pemChain - pos)") simp_all

declare skip_to_dash.simps [simp del]

text \<open>
  \<^verbatim>\<open>substr(start, count)\<close> throws behind the end and otherwise clips the count;
  the difference of two positions wraps to a huge count when it is negative.
\<close>

definition substr_between :: "string \<Rightarrow> nat \<Rightarrow> nat \<Rightarrow> string outcome" where
  "substr_between s start end_pos =
     (if length s < start then Inl OutOfRange
      else if end_pos < start then Inr (drop start s)
      else Inr (slice start (end_pos - start) s))"

lemma str_find_from_bound: "str_find_from p s pos = Some i \<Longrightarrow> pos \<le> i \<and> i \<le> length s"
  by (auto simp: str_find_from_def split: if_splits dest!: str_find_Some)

function split_loop :: "string \<Rightarrow> nat \<Rightarrow> nat option \<Rightarrow> string list \<Rightarrow> string list outcome" where
  "split_loop pemChain newStartPos None ret = Inr ret"
| "split_loop pemChain newStartPos (Some foundEndPos) ret =
     (case skip_to_dash pemChain newStartPos of
        Inl e \<Rightarrow> Inl e
      | Inr start \<Rightarrow>
          (case substr_between pemChain start (foundEndPos + length endCert) of
             Inl e \<Rightarrow> Inl e
           | Inr cert \<Rightarrow>
               (let newEndPos = foundEndPos + length endCert;
                    ret' = (if str_find begCert cert \<noteq> None then ret @ [cert] else ret);
                    nextPos = str_find_from endCert pemChain newEndPos
                in if nextPos \<noteq> None \<and> the nextPos \<le> newEndPos then Inr []
                   else split_loop pemChain newEndPos nextPos ret')))"
  by pat_completeness auto
termination
proof (relation "measure (\<lambda>(pemChain, _, found, _).
    case found of None \<Rightarrow> 0 | Some p \<Rightarrow> Suc (length pemChain - p))", goal_cases)
  case (2 pemChain newStartPos foundEndPos ret start cert newEndPos ret' nextPos)
  show ?case
  proof (cases nextPos)
    case (Some q)
    with 2(5) have q: "str_find_from endCert pemChain newEndPos = Some q" by simp
    from 2(6) Some have "newEndPos < q" by simp
    with 2(3) Some str_find_from_bound [OF q] show ?thesis by simp
  qed simp
qed simp

definition splitChain :: "string \<Rightarrow> string list outcome" where
  "splitChain pemChain =
     (if pemChain = [] then Inr []
      else
        let begPos = str_find begCert pemChain; endPos = str_find endCert pemChain
        in if begPos = None \<or> endPos = None \<or> the begPos \<ge> the endPos then Inr []
           else split_loop pemChain (the begPos) endPos [])"

section \<open>Parsing\<close>

text \<open>A failed certificate: which one it was is guessed from those already parsed.\<close>

definition extension_failure :: "nat \<Rightarrow> nat \<Rightarrow> status" where
  "extension_failure parsedCerts totalCerts =
     (if parsedCerts = 0 then STATUS_SGX_ROOT_CA_INVALID_EXTENSIONS
      else if parsedCerts = 1 then
        (if totalCerts = 2 then STATUS_SGX_TCB_SIGNING_CERT_INVALID_EXTENSIONS
         else STATUS_SGX_INTERMEDIATE_CA_INVALID_EXTENSIONS)
      else STATUS_SGX_PCK_INVALID_EXTENSIONS)"

text \<open>A parsed certificate joins the chain, as its root when it is self-issued.\<close>

definition self_issued :: "certificate \<Rightarrow> bool" where
  "self_issued cert \<longleftrightarrow> dn_eq (cert_subject cert) (cert_issuer cert)"

definition add_cert :: "certificate \<Rightarrow> cert_chain \<Rightarrow> cert_chain" where
  "add_cert cert ch = ch\<lparr>
     ch_rootCert := (if self_issued cert then Some cert else ch_rootCert ch),
     ch_certs := ch_certs ch @ [cert]\<rparr>"

text \<open>The two loops; \<open>Some status\<close> is an early return.\<close>

primrec parse_certs ::
  "x509_reader \<Rightarrow> nat \<Rightarrow> string list \<Rightarrow> cert_chain \<Rightarrow> (status option \<times> cert_chain) outcome" where
  "parse_certs rd certCount [] ch = Inr (None, ch)"
| "parse_certs rd certCount (certPem # rest) ch =
     (case certificate_parse rd certPem of
        Inr cert \<Rightarrow> parse_certs rd certCount rest (add_cert cert ch)
      | Inl e \<Rightarrow>
          if e = FormatException then Inr (Some STATUS_UNSUPPORTED_CERT_FORMAT, ch)
          else if e = InvalidExtensionException then
            Inr (Some (extension_failure (length (ch_certs ch)) certCount), ch)
          else Inl e)"

definition signs_another :: "certificate list \<Rightarrow> certificate \<Rightarrow> bool" where
  "signs_another certs cert \<longleftrightarrow> List.find (\<lambda>found.
     \<not> dn_eq (cert_subject found) (cert_subject cert) \<and>
     dn_eq (cert_issuer found) (cert_subject cert)) certs \<noteq> None"

primrec classify_certs ::
  "asn1_decoder \<Rightarrow> certificate list \<Rightarrow> cert_chain \<Rightarrow> (status option \<times> cert_chain) outcome" where
  "classify_certs d [] ch = Inr (None, ch)"
| "classify_certs d (cert # rest) ch =
     (let ch' = (if signs_another (ch_certs ch) cert then ch else ch\<lparr>ch_topmostCert := Some cert\<rparr>)
      in if contains (dn_commonName (cert_subject cert)) SGX_PCK_CN_PHRASE then
           (case pckCertificate d cert of
              Inr pck \<Rightarrow> classify_certs d rest (ch'\<lparr>ch_pckCert := Some pck\<rparr>)
            | Inl e \<Rightarrow>
                if e = FormatException then Inr (Some STATUS_UNSUPPORTED_CERT_FORMAT, ch')
                else if e = InvalidExtensionException then
                  Inr (Some STATUS_SGX_PCK_INVALID_EXTENSIONS, ch')
                else Inl e)
         else classify_certs d rest ch')"

definition chain_parse ::
  "x509_reader \<Rightarrow> asn1_decoder \<Rightarrow> string \<Rightarrow> cert_chain \<Rightarrow> (status \<times> cert_chain) outcome" where
  "chain_parse rd d pemCertChain ch =
     bindE (splitChain pemCertChain) (\<lambda>certStrs.
     bindE (parse_certs rd (length certStrs) certStrs ch) (\<lambda>(early, ch1).
       case early of
         Some s \<Rightarrow> Inr (s, ch1)
       | None \<Rightarrow>
           bindE (classify_certs d (ch_certs ch1) ch1) (\<lambda>(early2, ch2).
             case early2 of
               Some s \<Rightarrow> Inr (s, ch2)
             | None \<Rightarrow>
                 if chain_length ch2 = 0 then Inr (STATUS_UNSUPPORTED_CERT_FORMAT, ch2)
                 else Inr (STATUS_OK, ch2))))"

section \<open>The pieces of a text\<close>

lemma skip_to_dash_found:
  "newStartPos \<le> k \<Longrightarrow> k < length s \<Longrightarrow> s ! k = CHR ''-'' \<Longrightarrow>
   \<exists>i. skip_to_dash s newStartPos = Inr i \<and> newStartPos \<le> i \<and> i \<le> k \<and> s ! i = CHR ''-''"
proof (induction s newStartPos rule: skip_to_dash.induct)
  case (1 s pos)
  show ?case
  proof (cases "s ! pos = CHR ''-''")
    case True
    then show ?thesis using 1(2,3) by (auto simp: skip_to_dash.simps [of s pos])
  next
    case False
    with 1(2,4) have "pos + 1 \<le> k" by (metis Suc_eq_plus1 Suc_leI le_neq_implies_less)
    from 1(1) [OF _ False this 1(3,4)] 1(2,3) False show ?thesis
      by (auto simp: skip_to_dash.simps [of s pos])
  qed
qed

lemma str_find_from_prefix: "str_find_from p s pos = Some i \<Longrightarrow> is_prefix p (drop i s)"
  by (auto simp: str_find_from_def add.commute split: if_splits dest!: str_find_Some)

lemma endCert_at:
  assumes "is_prefix endCert (drop p s)"
  shows "p + length endCert \<le> length s \<and> s ! p = CHR ''-'' \<and> slice p (length endCert) s = endCert"
proof -
  from assms obtain v where v: "drop p s = endCert @ v" by (auto simp: is_prefix_iff)
  then have "length s - p = length endCert + length v" by (metis length_append length_drop)
  moreover have "0 < length endCert" by (simp add: endCert_def)
  moreover from calculation have "p < length s" by linarith
  then have "s ! p = drop p s ! 0" by simp
  ultimately show ?thesis using v by (simp add: slice_def endCert_def)
qed

definition piece :: "string \<Rightarrow> string \<Rightarrow> bool" where
  "piece pem c \<longleftrightarrow> contains pem c \<and> contains c begCert \<and> hd c = CHR ''-'' \<and> (\<exists>u. c = u @ endCert)"

lemma split_loop_pieces:
  "(\<forall>p. at_end = Some p \<longrightarrow> pos \<le> p \<and> is_prefix endCert (drop p s)) \<Longrightarrow> list_all (piece s) ret \<Longrightarrow>
   \<exists>ps. split_loop s pos at_end ret = Inr ps \<and> list_all (piece s) ps"
proof (induction s pos at_end ret rule: split_loop.induct)
  case (1 s pos ret)
  then show ?case by simp
next
  case (2 s pos p ret)
  from 2(2) have p: "pos \<le> p" "is_prefix endCert (drop p s)" by simp_all
  note at = endCert_at [OF p(2)]
  have "p < length s" using at by (simp add: endCert_def)
  from skip_to_dash_found [OF p(1) this] at obtain i where
    i: "skip_to_dash s pos = Inr i" "pos \<le> i" "i \<le> p" "s ! i = CHR ''-''" by blast
  let ?e = "p + length endCert"
  let ?c = "slice i (?e - i) s"
  have sub: "substr_between s i ?e = Inr ?c"
    using i(3) at by (simp add: substr_between_def)
  have "?c = slice i (p - i) s @ slice p (length endCert) s"
    using slice_append [of i "p - i" s "length endCert"] i(3) by (simp add: add.commute)
  then have c_end: "?c = slice i (p - i) s @ endCert" using at by simp
  have "?c \<noteq> []" using c_end by (simp add: endCert_def)
  then have c_hd: "hd ?c = CHR ''-''"
    using slice_nth [of 0 "?e - i" i s] i(3,4) at by (simp add: hd_conv_nth endCert_def)
  have "s = take i s @ ?c @ drop (i + (?e - i)) s"
    by (simp add: slice_def) (metis add.commute append_take_drop_id drop_drop)
  then have "contains s ?c" unfolding contains_iff by blast
  with c_end c_hd have piece: "str_find begCert ?c \<noteq> None \<Longrightarrow> piece s ?c"
    unfolding piece_def contains_def by blast
  let ?ret = "if str_find begCert ?c \<noteq> None then ret @ [?c] else ret"
  have ret: "list_all (piece s) ?ret" using 2(3) piece by auto
  let ?next = "str_find_from endCert s ?e"
  show ?case
  proof (cases "?next \<noteq> None \<and> the ?next \<le> ?e")
    case True
    then show ?thesis by (simp add: i(1) sub)
  next
    case False
    have "\<forall>q. ?next = Some q \<longrightarrow> ?e \<le> q \<and> is_prefix endCert (drop q s)"
      using str_find_from_bound str_find_from_prefix by blast
    from 2(1) [OF i(1) sub refl refl refl False this ret]
    show ?thesis using False by (auto simp: i(1) sub Let_def)
  qed
qed

lemma splitChain_pieces: "\<exists>ps. splitChain s = Inr ps \<and> list_all (piece s) ps"
proof (cases "s = [] \<or> str_find begCert s = None \<or> str_find endCert s = None \<or>
    the (str_find begCert s) \<ge> the (str_find endCert s)")
  case True
  then show ?thesis by (auto simp: splitChain_def Let_def)
next
  case False
  then obtain b e where be: "str_find begCert s = Some b" "str_find endCert s = Some e" "b < e"
    by auto
  then have "\<forall>p. Some e = Some p \<longrightarrow> b \<le> p \<and> is_prefix endCert (drop p s)"
    using str_find_Some [OF be(2)] by auto
  from split_loop_pieces [OF this, of "[]"] show ?thesis
    using False be by (simp add: splitChain_def)
qed

text \<open>
  C17: splitting never throws, and each piece is a part of the text that starts with a dash, holds
  the begin marker and ends with the end marker.
\<close>

theorem splitChain_total:
  "\<exists>ps. splitChain pem = Inr ps \<and>
     list_all (\<lambda>c. contains pem c \<and> contains c begCert \<and> hd c = CHR ''-'' \<and> (\<exists>u. c = u @ endCert)) ps"
  using splitChain_pieces [of pem] by (simp add: piece_def [abs_def])

section \<open>Splitting what was joined\<close>

text \<open>
  A PEM body: no dash (there is none in the Base64 alphabet), and a first character other than the
  one of the end marker (a line break).
\<close>

definition pem_body :: "string \<Rightarrow> bool" where
  "pem_body b \<longleftrightarrow> b \<noteq> [] \<and> hd b \<noteq> CHR ''E'' \<and> CHR ''-'' \<notin> set b"

definition pem_text :: "string \<Rightarrow> string" where
  "pem_text body = begCert @ body @ endCert"

definition pem_join :: "(string \<times> string) list \<Rightarrow> string" where
  "pem_join xs = concat (map (\<lambda>(separator, body). separator @ pem_text body) xs)"

definition pem_parts :: "(string \<times> string) list \<Rightarrow> bool" where
  "pem_parts xs \<longleftrightarrow> (\<forall>(separator, body)\<in>set xs. CHR ''-'' \<notin> set separator \<and> pem_body body)"

lemma str_find_skip:
  "CHR ''-'' \<notin> set u \<Longrightarrow> str_find (CHR ''-'' # q) (u @ r) = map_option ((+) (length u)) (str_find (CHR ''-'' # q) r)"
  by (cases "str_find (CHR ''-'' # q) r"; induction u; auto)

lemma marker_dash:
  "endCert = CHR ''-'' # tl endCert" "begCert = CHR ''-'' # tl begCert"
  by (simp_all add: endCert_def begCert_def)

lemmas find_skip_end = str_find_skip [of _ "tl endCert", folded marker_dash(1)]
lemmas find_skip_beg = str_find_skip [of _ "tl begCert", folded marker_dash(2)]

lemma find_no_dash: "CHR ''-'' \<notin> set u \<Longrightarrow> str_find endCert u = None"
  using find_skip_end [of u "[]"] by (simp add: endCert_def)

lemma find_no_dash_beg: "CHR ''-'' \<notin> set u \<Longrightarrow> str_find begCert u = None"
  using find_skip_beg [of u "[]"] by (simp add: begCert_def)

lemma find_end_here: "str_find endCert (endCert @ r) = Some 0"
  by (simp add: endCert_def)

lemma find_beg_here: "str_find begCert (begCert @ r) = Some 0"
  by (simp add: begCert_def)

lemma find_end_begin:
  assumes "pem_body body"
  shows "str_find endCert (begCert @ body @ r) = map_option ((+) 27) (str_find endCert (body @ r))"
proof -
  from assms obtain b bs where body: "body = b # bs" "b \<noteq> CHR ''E''" "b \<noteq> CHR ''-''"
    by (cases body) (auto simp: pem_body_def)
  show ?thesis
    unfolding body(1) begCert_def endCert_def
    using body(2,3) by (cases "str_find ''-----END CERTIFICATE-----'' (bs @ r)") simp_all
qed

lemma find_end_text:
  assumes "CHR ''-'' \<notin> set separator" "pem_body body"
  shows "str_find endCert (separator @ pem_text body @ r) = Some (length separator + 27 + length body)"
proof -
  have "CHR ''-'' \<notin> set body" using assms(2) by (simp add: pem_body_def)
  from find_skip_end [OF this, of "endCert @ r"]
  have "str_find endCert (body @ endCert @ r) = Some (length body)" by (simp add: find_end_here)
  then show ?thesis
    using find_skip_end [OF assms(1)] find_end_begin [OF assms(2), of "endCert @ r"]
    by (simp add: pem_text_def)
qed

lemma skip_separator:
  "CHR ''-'' \<notin> set u \<Longrightarrow> skip_to_dash (pre @ u @ CHR ''-'' # v) (length pre) = Inr (length pre + length u)"
proof (induction u arbitrary: pre)
  case Nil
  then show ?case by (simp add: skip_to_dash.simps nth_append)
next
  case (Cons c u)
  then have "c \<noteq> CHR ''-''" by auto
  with Cons(1) [of "pre @ [c]"] Cons(2) show ?case
    by (simp add: skip_to_dash.simps [of _ "length pre"] nth_append)
qed

declare split_loop.simps(2) [simp del]

lemma split_step:
  fixes pre separator body r :: string
  defines "pem \<equiv> pre @ separator @ pem_text body @ r"
    and "n \<equiv> length pre + length separator + length (pem_text body)"
  assumes "CHR ''-'' \<notin> set separator"
    and "case str_find endCert r of None \<Rightarrow> True | Some k \<Rightarrow> 0 < k"
  shows "split_loop pem (length pre) (Some (length pre + (length separator + 27 + length body))) ret =
    split_loop pem n (map_option ((+) n) (str_find endCert r)) (ret @ [pem_text body])"
proof -
  let ?found = "length pre + (length separator + 27 + length body)"
  have n: "?found + length endCert = n"
    by (simp add: n_def pem_text_def begCert_def endCert_def)
  have "pem = pre @ separator @ CHR ''-'' # (tl begCert @ body @ endCert @ r)"
    by (simp add: pem_def pem_text_def begCert_def)
  with skip_separator [OF assms(3)]
  have skip: "skip_to_dash pem (length pre) = Inr (length pre + length separator)" by simp
  have "slice (length pre + length separator) (length (pem_text body)) pem = pem_text body"
    by (simp add: pem_def slice_def)
  then have sub: "substr_between pem (length pre + length separator) n = Inr (pem_text body)"
    by (simp add: substr_between_def n_def pem_def)
  have next_end: "str_find_from endCert pem n = map_option ((+) n) (str_find endCert r)"
    by (simp add: str_find_from_def n_def pem_def)
  have "str_find begCert (pem_text body) \<noteq> None" by (simp add: pem_text_def find_beg_here)
  then show ?thesis
    using assms(4)
    by (simp add: split_loop.simps(2) skip n sub Let_def next_end split: option.splits)
qed

lemma split_loop_join:
  "pem_parts ((separator, body) # xs) \<Longrightarrow> CHR ''-'' \<notin> set rest \<Longrightarrow>
   split_loop (pre @ separator @ pem_text body @ pem_join xs @ rest) (length pre)
     (Some (length pre + (length separator + 27 + length body))) ret =
   Inr (ret @ pem_text body # map (\<lambda>(s, b). pem_text b) xs)"
proof (induction xs arbitrary: separator body pre ret)
  case Nil
  then have "CHR ''-'' \<notin> set separator" by (simp add: pem_parts_def)
  from split_step [OF this, of rest] find_no_dash [OF Nil(2)] show ?case
    by (simp add: pem_join_def)
next
  case (Cons y ys)
  obtain sep2 body2 where y: "y = (sep2, body2)" by force
  from Cons(2) y have parts: "CHR ''-'' \<notin> set separator" "CHR ''-'' \<notin> set sep2" "pem_body body2"
    "pem_parts ((sep2, body2) # ys)" by (simp_all add: pem_parts_def)
  let ?r = "sep2 @ pem_text body2 @ pem_join ys @ rest"
  let ?pre = "pre @ separator @ pem_text body"
  have "str_find endCert ?r = Some (length sep2 + 27 + length body2)"
    by (rule find_end_text [OF parts(2,3)])
  with split_step [OF parts(1), of ?r pre body ret]
  have "split_loop (pre @ separator @ pem_text body @ ?r) (length pre)
      (Some (length pre + (length separator + 27 + length body))) ret =
    split_loop (?pre @ ?r) (length ?pre) (Some (length ?pre + (length sep2 + 27 + length body2)))
      (ret @ [pem_text body])" by (simp add: add.assoc)
  also have "\<dots> = Inr ((ret @ [pem_text body]) @ pem_text body2 # map (\<lambda>(s, b). pem_text b) ys)"
    by (rule Cons(1) [OF parts(4) Cons(3)])
  finally show ?case by (simp add: y pem_join_def)
qed

lemma splitChain_join_eq:
  assumes "pem_parts xs" "CHR ''-'' \<notin> set rest"
  shows "splitChain (pem_join xs @ rest) = Inr (map (\<lambda>(s, b). pem_text b) xs)"
proof (cases xs)
  case Nil
  then show ?thesis using find_no_dash_beg [OF assms(2)]
    by (simp add: splitChain_def pem_join_def)
next
  case (Cons y ys)
  obtain separator body where y: "y = (separator, body)" by force
  from assms(1) Cons y have parts: "CHR ''-'' \<notin> set separator" "pem_body body"
    "pem_parts ((separator, body) # ys)" by (simp_all add: pem_parts_def)
  let ?pem = "separator @ pem_text body @ pem_join ys @ rest"
  have "str_find endCert ?pem = Some (length separator + 27 + length body)"
    by (rule find_end_text [OF parts(1,2)])
  moreover have "str_find begCert ?pem = Some (length separator)"
    using find_skip_beg [OF parts(1)] find_beg_here by (simp add: pem_text_def)
  moreover have "?pem = [] \<longleftrightarrow> False" by (simp add: pem_text_def begCert_def)
  ultimately have start: "splitChain ?pem =
      split_loop ?pem (length separator) (Some (length separator + 27 + length body)) []"
    by (simp add: splitChain_def del: append_is_Nil_conv)
  have "split_loop (separator @ [] @ pem_text body @ pem_join ys @ rest) (length separator)
      (Some (length separator + (length ([] :: string) + 27 + length body))) [] =
    Inr ([] @ pem_text body # map (\<lambda>(s, b). pem_text b) ys)"
    by (rule split_loop_join) (use parts assms(2) in \<open>auto simp: pem_parts_def\<close>)
  then show ?thesis using start by (simp add: Cons y pem_join_def add.assoc)
qed

text \<open>
  C18: splitting is the inverse of joining: from certificates in PEM form, with any text free of
  dashes between and around them, \<^verbatim>\<open>splitChain\<close> returns those certificates
  in their order.
\<close>

theorem splitChain_join:
  assumes "pem_parts xs" "CHR ''-'' \<notin> set rest"
  shows "splitChain (pem_join xs @ rest) = Inr (map (\<lambda>(s, b). pem_text b) xs)"
  using assms by (rule splitChain_join_eq)

lemma splitChain_join_witness:
  "splitChain (pem_join [([], [CHR 0x0A, CHR ''M'']), ([CHR 0x0A], [CHR 0x0A, CHR ''N''])] @ [CHR 0x0A]) =
     Inr [pem_text [CHR 0x0A, CHR ''M''], pem_text [CHR 0x0A, CHR ''N'']]"
  by (subst splitChain_join) (simp_all add: pem_parts_def pem_body_def)

section \<open>The certificates a parsed chain picks\<close>

text \<open>The last element with a property.\<close>

definition find_last :: "('a \<Rightarrow> bool) \<Rightarrow> 'a list \<Rightarrow> 'a option" where
  "find_last P xs = List.find P (rev xs)"

lemma find_append: "List.find P (xs @ ys) = (case List.find P xs of None \<Rightarrow> List.find P ys | Some x \<Rightarrow> Some x)"
  by (induction xs) auto

lemma find_last_Nil [simp]: "find_last P [] = None"
  by (simp add: find_last_def)

lemma find_last_snoc [simp]: "find_last P (xs @ [x]) = (if P x then Some x else find_last P xs)"
  by (simp add: find_last_def)

lemma find_last_Cons:
  "find_last P (x # xs) = (case find_last P xs of None \<Rightarrow> if P x then Some x else None | Some y \<Rightarrow> Some y)"
  by (simp add: find_last_def find_append split: option.split)

lemma find_last_Some: "find_last P xs = Some x \<Longrightarrow> x \<in> set xs \<and> P x"
  unfolding find_last_def find_Some_iff by (metis nth_mem set_rev)

lemma find_last_None: "find_last P xs = None \<longleftrightarrow> (\<forall>x\<in>set xs. \<not> P x)"
  by (auto simp: find_last_def find_None_iff)

definition named_pck :: "certificate \<Rightarrow> bool" where
  "named_pck cert \<longleftrightarrow> contains (dn_commonName (cert_subject cert)) SGX_PCK_CN_PHRASE"

lemma parse_certs_ok:
  "parse_certs rd n pems ch = Inr (None, ch') \<longleftrightarrow>
   (\<exists>certs. map (certificate_parse rd) pems = map Inr certs \<and> ch' = fold add_cert certs ch)"
proof (induction pems arbitrary: ch)
  case (Cons pem pems)
  show ?case
    by (cases "certificate_parse rd pem") (auto simp: Cons Cons_eq_map_conv)
qed auto

lemma fold_add_cert:
  "ch_certs (fold add_cert certs ch) = ch_certs ch @ certs"
  "ch_topmostCert (fold add_cert certs ch) = ch_topmostCert ch"
  "ch_pckCert (fold add_cert certs ch) = ch_pckCert ch"
  "ch_rootCert (fold add_cert certs ch) =
     (case find_last self_issued certs of None \<Rightarrow> ch_rootCert ch | Some c \<Rightarrow> Some c)"
  by (induction certs arbitrary: ch) (simp_all add: add_cert_def find_last_Cons split: option.split)

lemma classify_certs_ok:
  "classify_certs d certs ch = Inr (None, ch') \<Longrightarrow>
   ch_certs ch' = ch_certs ch \<and> ch_rootCert ch' = ch_rootCert ch \<and>
   ch_topmostCert ch' = (case find_last (\<lambda>c. \<not> signs_another (ch_certs ch) c) certs of
     None \<Rightarrow> ch_topmostCert ch | Some c \<Rightarrow> Some c) \<and>
   (case find_last named_pck certs of
      None \<Rightarrow> ch_pckCert ch' = ch_pckCert ch
    | Some c \<Rightarrow> map_option Inr (ch_pckCert ch') = Some (pckCertificate d c))"
proof (induction certs arbitrary: ch)
  case Nil
  then show ?case by simp
next
  case (Cons cert certs)
  let ?ch = "if signs_another (ch_certs ch) cert then ch else ch\<lparr>ch_topmostCert := Some cert\<rparr>"
  show ?case
  proof (cases "named_pck cert")
    case True
    with Cons(2) obtain pck where pck: "pckCertificate d cert = Inr pck"
      "classify_certs d certs (?ch\<lparr>ch_pckCert := Some pck\<rparr>) = Inr (None, ch')"
      by (auto simp: named_pck_def Let_def split: sum.splits if_splits)
    from Cons(1) [OF pck(2)] True show ?thesis
      by (auto simp: find_last_Cons pck(1) split: option.split_asm option.split)
  next
    case False
    with Cons(2) have "classify_certs d certs ?ch = Inr (None, ch')"
      by (simp add: named_pck_def Let_def)
    from Cons(1) [OF this] False show ?thesis
      by (auto simp: find_last_Cons split: option.split_asm option.split)
  qed
qed

definition chain_statuses :: "status set" where
  "chain_statuses = {STATUS_OK, STATUS_UNSUPPORTED_CERT_FORMAT, STATUS_SGX_ROOT_CA_INVALID_EXTENSIONS,
     STATUS_SGX_TCB_SIGNING_CERT_INVALID_EXTENSIONS, STATUS_SGX_INTERMEDIATE_CA_INVALID_EXTENSIONS,
     STATUS_SGX_PCK_INVALID_EXTENSIONS}"

text \<open>
  C19: an accepted chain.  Its certificates are those of the pieces of the text, in order, and there
  is at least one; the root is the last self-issued one, the topmost the last one that issued no
  other, and the PCK certificate comes from the last one whose name holds the PCK phrase.
\<close>

theorem chain_parse_accepted:
  assumes "chain_parse rd d pem chain_new = Inr (STATUS_OK, ch)"
  shows "ch_certs ch \<noteq> [] \<and>
    (\<exists>pems. splitChain pem = Inr pems \<and> map (certificate_parse rd) pems = map Inr (ch_certs ch)) \<and>
    ch_rootCert ch = find_last self_issued (ch_certs ch) \<and>
    ch_topmostCert ch = find_last (\<lambda>c. \<not> signs_another (ch_certs ch) c) (ch_certs ch) \<and>
    map_option Inr (ch_pckCert ch) = map_option (pckCertificate d) (find_last named_pck (ch_certs ch))"
proof -
  obtain pems where pems: "splitChain pem = Inr pems" using splitChain_pieces by blast
  have early: "s \<noteq> STATUS_OK" if "parse_certs rd n ps c = Inr (Some s, c')" for n ps c s c'
    using that by (induction ps arbitrary: c) (auto simp: extension_failure_def split: sum.splits if_splits)
  have early2: "s \<noteq> STATUS_OK" if "classify_certs d cs c = Inr (Some s, c')" for cs c s c'
    using that by (induction cs arbitrary: c) (auto simp: Let_def split: sum.splits if_splits)
  obtain r ch1 where r: "parse_certs rd (length pems) pems chain_new = Inr (r, ch1)"
    using assms pems by (auto simp: chain_parse_def)
  have "r = None" using assms pems r early [of "length pems" pems chain_new]
    by (cases r) (auto simp: chain_parse_def)
  then obtain r2 where r2: "classify_certs d (ch_certs ch1) ch1 = Inr (r2, ch)"
    using assms pems r
    by (auto simp: chain_parse_def split: option.splits if_splits)
  have "r2 = None" using assms pems r \<open>r = None\<close> r2 early2 [of "ch_certs ch1" ch1] by (cases r2) (auto simp: chain_parse_def)
  then have ch1: "parse_certs rd (length pems) pems chain_new = Inr (None, ch1)"
    "classify_certs d (ch_certs ch1) ch1 = Inr (None, ch)" "ch_certs ch \<noteq> []"
    using assms pems r \<open>r = None\<close> r2
    by (auto simp: chain_parse_def chain_length_def split: if_splits)
  from ch1(1) obtain certs where certs: "map (certificate_parse rd) pems = map Inr certs"
    "ch1 = fold add_cert certs chain_new" by (auto simp: parse_certs_ok)
  have ch1_fields: "ch_certs ch1 = certs" "ch_rootCert ch1 = find_last self_issued certs"
    "ch_topmostCert ch1 = None" "ch_pckCert ch1 = None"
    by (auto simp: certs(2) fold_add_cert chain_new_def split: option.split)
  from classify_certs_ok [OF ch1(2)] show ?thesis
    using pems certs(1) ch1(3)
    by (auto simp: ch1_fields split: option.split_asm option.split)
qed

text \<open>
  Parsing a chain never throws, and its status is one of six.
\<close>

lemma chain_parse_returns:
  "\<exists>s ch'. chain_parse rd d pem ch = Inr (s, ch') \<and> s \<in> chain_statuses"
proof -
  obtain pems where pems: "splitChain pem = Inr pems" using splitChain_pieces by blast
  have one: "\<exists>r c'. parse_certs rd n ps c = Inr (r, c') \<and> set_option r \<subseteq> chain_statuses" for n ps c
  proof (induction ps arbitrary: c)
    case (Cons p ps)
    then show ?case using throws_certificate_parse [of rd p]
      by (auto simp: throws_only_def chain_statuses_def extension_failure_def split: sum.split)
  qed simp
  have two: "\<exists>r c'. classify_certs d cs c = Inr (r, c') \<and> set_option r \<subseteq> chain_statuses" for cs c
  proof (induction cs arbitrary: c)
    case (Cons x xs)
    then show ?case using throws_pckCertificate [of d x]
      by (auto simp: throws_only_def chain_statuses_def Let_def split: sum.split)
  qed simp
  from one obtain r c where r: "parse_certs rd (length pems) pems ch = Inr (r, c)" "set_option r \<subseteq> chain_statuses"
    by blast
  from two obtain r2 c2 where r2: "classify_certs d (ch_certs c) c = Inr (r2, c2)" "set_option r2 \<subseteq> chain_statuses"
    by blast
  from r r2 show ?thesis
    by (auto simp: chain_parse_def pems chain_statuses_def split: option.split)
qed

section \<open>An example\<close>

definition sample_root :: certificate where
  "sample_root = sample_parsed (sample_pem ''r'') ''Intel SGX Root CA'' ''Intel SGX Root CA''"

definition sample_intermediate :: certificate where
  "sample_intermediate =
     sample_parsed (sample_pem ''i'') ''Intel SGX PCK Platform CA'' ''Intel SGX Root CA''"

definition sample_leaf :: certificate where
  "sample_leaf =
     sample_parsed (sample_pem ''p'') ''Intel SGX PCK Certificate'' ''Intel SGX PCK Platform CA''"

definition sample_chain_text :: string where
  "sample_chain_text = pem_join [([], ''r''), ([CHR 0x0A], ''i''), ([CHR 0x0A], ''p'')] @ [CHR 0x0A]"

definition sample_chain :: cert_chain where
  "sample_chain = \<lparr>
     ch_certs = [sample_root, sample_intermediate, sample_leaf], ch_rootCert = Some sample_root,
     ch_topmostCert = Some sample_leaf, ch_pckCert = Some (sample_pck_fields sample_leaf)\<rparr>"

lemma sample_split:
  "splitChain sample_chain_text = Inr [sample_pem ''r'', sample_pem ''i'', sample_pem ''p'']"
proof -
  have "splitChain sample_chain_text = Inr (map (\<lambda>(s, b). pem_text b) [([], ''r''), ([CHR 0x0A], ''i''), ([CHR 0x0A], ''p'')])"
    unfolding sample_chain_text_def by (rule splitChain_join_eq) (simp_all add: pem_parts_def pem_body_def)
  then show ?thesis by (simp add: pem_text_def sample_pem_def begCert_def endCert_def)
qed

lemma sample_certificates:
  "certificate_parse sample_reader (sample_pem ''r'') = Inr sample_root"
  "certificate_parse sample_reader (sample_pem ''i'') = Inr sample_intermediate"
  "certificate_parse sample_reader (sample_pem ''p'') = Inr sample_leaf"
proof -
  have "case certificate_parse sample_reader (sample_pem ''r'') of Inl _ \<Rightarrow> False | Inr c \<Rightarrow> c = sample_root"
    by code_simp
  then show "certificate_parse sample_reader (sample_pem ''r'') = Inr sample_root"
    by (simp only: case_outcome_eq)
  have "case certificate_parse sample_reader (sample_pem ''i'') of Inl _ \<Rightarrow> False | Inr c \<Rightarrow> c = sample_intermediate"
    by code_simp
  then show "certificate_parse sample_reader (sample_pem ''i'') = Inr sample_intermediate"
    by (simp only: case_outcome_eq)
  show "certificate_parse sample_reader (sample_pem ''p'') = Inr sample_leaf"
    by (simp add: sample_certificate_parse sample_leaf_def)
qed

lemma sample_leaf_pck: "pckCertificate sample_decoder sample_leaf = Inr (sample_pck_fields sample_leaf)"
proof -
  have "case pckCertificate sample_decoder sample_leaf of
      Inl _ \<Rightarrow> False | Inr c \<Rightarrow> c = sample_pck_fields sample_leaf"
    by code_simp
  then show ?thesis by (simp only: case_outcome_eq)
qed

lemma sample_classes:
  "self_issued sample_root" "\<not> self_issued sample_intermediate" "\<not> self_issued sample_leaf"
  "\<not> named_pck sample_root" "\<not> named_pck sample_intermediate" "named_pck sample_leaf"
  "signs_another [sample_root, sample_intermediate, sample_leaf] sample_root"
  "signs_another [sample_root, sample_intermediate, sample_leaf] sample_intermediate"
  "\<not> signs_another [sample_root, sample_intermediate, sample_leaf] sample_leaf"
  by code_simp+

lemma sample_chain_parse:
  "chain_parse sample_reader sample_decoder sample_chain_text chain_new = Inr (STATUS_OK, sample_chain)"
  using sample_classes
  by (simp add: chain_parse_def sample_split sample_certificates add_cert_def chain_new_def
      named_pck_def sample_leaf_pck Let_def chain_length_def sample_chain_def)

lemma chain_parse_accepted_witness:
  "ch_rootCert sample_chain = find_last self_issued (ch_certs sample_chain) \<and>
   ch_topmostCert sample_chain = Some sample_leaf"
  using chain_parse_accepted [OF sample_chain_parse] by (simp add: sample_chain_def)

end
