(* ===== verification/OpensslHelpers.thy ===== *)
theory OpensslHelpers
  imports X509Model
begin

text \<open>
  \<^verbatim>\<open>src/OpensslHelpers\<close>: keys, signatures and digests.  The record
  \<open>openssl\<close> holds the functions of OpenSSL the helpers call; the type of keys is a
  parameter.  A null pointer is \<open>None\<close>.
\<close>

record 'key openssl =
  d2i_PublicKey :: "bytes \<Rightarrow> 'key option"
  i2d_ECDSA_SIG :: "bytes \<Rightarrow> bytes \<Rightarrow> bytes option"
  EVP_DigestVerify :: "'key \<Rightarrow> bytes \<Rightarrow> bytes \<Rightarrow> bool"
  X509_CRL_verify :: "bytes \<Rightarrow> 'key \<Rightarrow> bool"
  EVP_Digest :: "bytes \<Rightarrow> bytes option"

definition POINT_CONVERSION_UNCOMPRESSED :: u8 where [simp]: "POINT_CONVERSION_UNCOMPRESSED = 4"

text \<open>
  \<open>d2i_PublicKey\<close> reads a point of the curve P-256; it is also \<open>None\<close> where the
  parameter objects around the call could not be made.
\<close>

definition rawToP256PubKey_array :: "'key openssl \<Rightarrow> bytes \<Rightarrow> 'key option" where
  "rawToP256PubKey_array ssl rawKey = d2i_PublicKey ssl (POINT_CONVERSION_UNCOMPRESSED # rawKey)"

definition rawToP256PubKey :: "'key openssl \<Rightarrow> bytes \<Rightarrow> 'key option" where
  "rawToP256PubKey ssl rawKey =
     (if length rawKey \<noteq> 1 + 64 \<or> rawKey ! 0 \<noteq> POINT_CONVERSION_UNCOMPRESSED then None
      else rawToP256PubKey_array ssl (slice 1 64 rawKey))"

definition verifySha256Signature :: "'key openssl \<Rightarrow> bytes \<Rightarrow> bytes \<Rightarrow> 'key \<Rightarrow> bool" where
  "verifySha256Signature ssl signature message pubKey = EVP_DigestVerify ssl pubKey message signature"

definition rawEcdsaSignatureToDER :: "'key openssl \<Rightarrow> bytes \<Rightarrow> bytes" where
  "rawEcdsaSignatureToDER ssl sig =
     (case i2d_ECDSA_SIG ssl (slice 0 32 sig) (slice 32 32 sig) of None \<Rightarrow> [] | Some der \<Rightarrow> der)"

text \<open>The three overloads of \<^verbatim>\<open>verifySha256EcdsaSignature\<close>.\<close>

definition verifySha256EcdsaSignature_array ::
  "'key openssl \<Rightarrow> bytes \<Rightarrow> bytes \<Rightarrow> 'key \<Rightarrow> bool" where
  "verifySha256EcdsaSignature_array ssl signature message publicKey =
     verifySha256Signature ssl (rawEcdsaSignatureToDER ssl signature) message publicKey"

definition verifySha256EcdsaSignature_bytes ::
  "'key openssl \<Rightarrow> bytes \<Rightarrow> bytes \<Rightarrow> 'key \<Rightarrow> bool" where
  "verifySha256EcdsaSignature_bytes ssl signature message publicKey =
     (if length signature \<noteq> 64 then False
      else verifySha256EcdsaSignature_array ssl (slice 0 64 signature) message publicKey)"

definition verifySha256EcdsaSignature_x509 ::
  "'key openssl \<Rightarrow> x509_signature \<Rightarrow> bytes \<Rightarrow> bytes \<Rightarrow> bool" where
  "verifySha256EcdsaSignature_x509 ssl signature message publicKey =
     (case rawToP256PubKey ssl publicKey of
        None \<Rightarrow> False
      | Some pubKey \<Rightarrow> verifySha256Signature ssl (sig_rawDer signature) message pubKey)"

definition verifySignature_crl :: "'key openssl \<Rightarrow> crl_store \<Rightarrow> bytes \<Rightarrow> bool" where
  "verifySignature_crl ssl crl pubKey =
     (case rawToP256PubKey ssl pubKey of
        None \<Rightarrow> False
      | Some publicKey \<Rightarrow> X509_CRL_verify ssl (crl_object crl) publicKey)"

definition SHA256_DIGEST_LENGTH :: nat where [simp]: "SHA256_DIGEST_LENGTH = 32"

definition sha256Digest :: "'key openssl \<Rightarrow> bytes \<Rightarrow> bytes" where
  "sha256Digest ssl bytes =
     (case EVP_Digest ssl bytes of
        None \<Rightarrow> []
      | Some hash \<Rightarrow> if length hash = SHA256_DIGEST_LENGTH then hash else [])"

section \<open>What a successful check means\<close>

text \<open>A signature by the holder of the key whose uncompressed point is \<open>pub\<close>.\<close>

definition signed_by :: "'key openssl \<Rightarrow> bytes \<Rightarrow> bytes \<Rightarrow> bytes \<Rightarrow> bool" where
  "signed_by ssl pub message der \<longleftrightarrow>
     (\<exists>key. length pub = 65 \<and> hd pub = 4 \<and> d2i_PublicKey ssl pub = Some key \<and>
        EVP_DigestVerify ssl key message der)"

definition crl_signed_by :: "'key openssl \<Rightarrow> bytes \<Rightarrow> crl_store \<Rightarrow> bool" where
  "crl_signed_by ssl pub crl \<longleftrightarrow>
     (\<exists>key. length pub = 65 \<and> hd pub = 4 \<and> d2i_PublicKey ssl pub = Some key \<and>
        X509_CRL_verify ssl (crl_object crl) key)"

lemma rawToP256PubKey_eq:
  "rawToP256PubKey ssl pub = (if length pub = 65 \<and> hd pub = 4 then d2i_PublicKey ssl pub else None)"
proof (cases "length pub = 65 \<and> hd pub = 4")
  case True
  then obtain b rest where pub: "pub = b # rest" by (cases pub) auto
  with True have "slice 1 64 pub = rest" by (simp add: slice_def)
  with True pub show ?thesis by (simp add: rawToP256PubKey_def rawToP256PubKey_array_def)
next
  case False
  then show ?thesis by (cases pub) (auto simp: rawToP256PubKey_def hd_conv_nth)
qed

lemma verify_x509_signed_by:
  "verifySha256EcdsaSignature_x509 ssl s message pub \<longleftrightarrow> signed_by ssl pub message (sig_rawDer s)"
  by (auto simp: verifySha256EcdsaSignature_x509_def rawToP256PubKey_eq signed_by_def
      verifySha256Signature_def split: option.splits)

lemma verifySignature_crl_signed_by: "verifySignature_crl ssl crl pub \<longleftrightarrow> crl_signed_by ssl pub crl"
  by (auto simp: verifySignature_crl_def rawToP256PubKey_eq crl_signed_by_def split: option.splits)

lemma verify_bytes_key:
  "length s = 64 \<Longrightarrow>
   verifySha256EcdsaSignature_bytes ssl s m key = EVP_DigestVerify ssl key m (rawEcdsaSignatureToDER ssl s)"
  using slice_all [of s] by (simp add: verifySha256EcdsaSignature_bytes_def
      verifySha256EcdsaSignature_array_def verifySha256Signature_def)

lemma length_sha256Digest: "sha256Digest ssl b \<noteq> [] \<Longrightarrow> length (sha256Digest ssl b) = 32"
  by (auto simp: sha256Digest_def split: option.splits if_splits)

end
