(* ===== verification/ChainVerifiers.thy ===== *)
theory ChainVerifiers
  imports CertChain OpensslHelpers
begin

text \<open>
  \<^verbatim>\<open>Verifiers/CommonVerifier.cpp\<close>, \<^verbatim>\<open>PckCrlVerifier.cpp\<close>,
  \<^verbatim>\<open>PckCertVerifier.cpp\<close> and \<^verbatim>\<open>TCBSigningChain.cpp\<close>: the
  checks on certificates, revocation lists and the two chains of certificates.  A verifier returns
  the status of the first check that fails.  The second half says what an accepted chain is:
  \<open>issued_by\<close> and \<open>crl_of\<close> are the relations between a certificate (a revocation
  list) and its issuer, and each verifier returns \<open>STATUS_OK\<close> exactly if the relations
  and the dates hold.
\<close>

section \<open>Checks both chains share\<close>

primrec all_required :: "x509_extension list \<Rightarrow> nid list \<Rightarrow> bool" where
  "all_required presentExtensions [] = True"
| "all_required presentExtensions (requiredNid # rest) =
     (if List.find (\<lambda>ext. ext_nid ext = requiredNid) presentExtensions = None then False
      else all_required presentExtensions rest)"

definition checkStandardExtensions :: "x509_extension list \<Rightarrow> nid list \<Rightarrow> bool" where
  "checkStandardExtensions presentExtensions opensslExtensionNids =
     (if length opensslExtensionNids > length presentExtensions then False
      else all_required presentExtensions opensslExtensionNids)"

definition checkSignature ::
  "'key openssl \<Rightarrow> 'a certificate_scheme \<Rightarrow> 'b certificate_scheme \<Rightarrow> bool" where
  "checkSignature ssl cert issuer =
     verifySha256EcdsaSignature_x509 ssl (cert_signature cert) (cert_info cert) (cert_pubKey issuer)"

definition checkSignature_crl :: "'key openssl \<Rightarrow> crl_store \<Rightarrow> 'a certificate_scheme \<Rightarrow> bool" where
  "checkSignature_crl ssl crl crlIssuer = verifySignature_crl ssl crl (cert_pubKey crlIssuer)"

definition checkSha256EcdsaSignature :: "'key openssl \<Rightarrow> bytes \<Rightarrow> bytes \<Rightarrow> bytes \<Rightarrow> bool" where
  "checkSha256EcdsaSignature ssl signature message publicKey =
     (case rawToP256PubKey ssl publicKey of
        None \<Rightarrow> False
      | Some pubKey \<Rightarrow> verifySha256EcdsaSignature_bytes ssl signature message pubKey)"

definition verifyRootCACert :: "'key openssl \<Rightarrow> 'a certificate_scheme \<Rightarrow> status" where
  "verifyRootCACert ssl rootCa =
     (if \<not> dn_eq (cert_issuer rootCa) (cert_subject rootCa) then STATUS_SGX_ROOT_CA_INVALID_ISSUER
      else if \<not> verifySha256EcdsaSignature_x509 ssl
                  (cert_signature rootCa) (cert_info rootCa) (cert_pubKey rootCa) then
        STATUS_SGX_ROOT_CA_INVALID_ISSUER
      else STATUS_OK)"

definition verifyIntermediate ::
  "'key openssl \<Rightarrow> 'a certificate_scheme \<Rightarrow> 'b certificate_scheme \<Rightarrow> status" where
  "verifyIntermediate ssl intermediate root =
     (if \<not> dn_eq (cert_issuer intermediate) (cert_subject root) then
        STATUS_SGX_INTERMEDIATE_CA_INVALID_ISSUER
      else if \<not> verifySha256EcdsaSignature_x509 ssl
                  (cert_signature intermediate) (cert_info intermediate) (cert_pubKey root) then
        STATUS_SGX_INTERMEDIATE_CA_INVALID_ISSUER
      else STATUS_OK)"

section \<open>Revocation lists\<close>

text \<open>\<^verbatim>\<open>PckCrlVerifier::verify\<close> against the issuing certificate.\<close>

definition crl_verify :: "'key openssl \<Rightarrow> crl_store \<Rightarrow> 'a certificate_scheme \<Rightarrow> status" where
  "crl_verify ssl crl cert =
     (let crlIssuer = crl_issuer' crl; certSubject = cert_subject cert in
      if iss_raw crlIssuer \<noteq> dn_raw certSubject \<or>
         iss_commonName crlIssuer \<noteq> dn_commonName certSubject \<or>
         iss_countryName crlIssuer \<noteq> dn_countryName certSubject \<or>
         iss_organizationName crlIssuer \<noteq> dn_organizationName certSubject \<or>
         iss_locationName crlIssuer \<noteq> dn_locationName certSubject \<or>
         iss_stateName crlIssuer \<noteq> dn_stateName certSubject then STATUS_SGX_CRL_UNKNOWN_ISSUER
      else if \<not> checkStandardExtensions (crl_extensions crl) CRL_REQUIRED_EXTENSIONS then
        STATUS_SGX_CRL_INVALID_EXTENSIONS
      else if \<not> checkSignature_crl ssl crl cert then STATUS_SGX_CRL_INVALID_SIGNATURE
      else STATUS_OK)"

definition verifyCRLIssuerCertChain :: "'key openssl \<Rightarrow> cert_chain \<Rightarrow> crl_store \<Rightarrow> status" where
  "verifyCRLIssuerCertChain ssl chain crl =
     (case chain_get chain ROOT_CA_SUBJECT of
        None \<Rightarrow> STATUS_SGX_ROOT_CA_INVALID
      | Some rootCertFromChain \<Rightarrow>
          if verifyRootCACert ssl rootCertFromChain \<noteq> STATUS_OK then STATUS_SGX_CA_CERT_INVALID
          else if issuer_eq (crl_issuer' crl) ROOT_CA_CRL_ISSUER then
            (if chain_length chain \<noteq> 1 then STATUS_SGX_CA_CERT_UNSUPPORTED_FORMAT else STATUS_OK)
          else if issuer_eq (crl_issuer' crl) PCK_PLATFORM_CRL_ISSUER \<or>
                  issuer_eq (crl_issuer' crl) PCK_PROCESSOR_CRL_ISSUER then
            (if chain_length chain \<noteq> 2 then STATUS_SGX_CA_CERT_UNSUPPORTED_FORMAT
             else case ch_topmostCert chain of
                None \<Rightarrow> STATUS_SGX_INTERMEDIATE_CA_MISSING
              | Some topmostCert \<Rightarrow>
                  (let processorCa = dn_eq (cert_subject topmostCert) PROCESSOR_CA_SUBJECT;
                       platformCa = dn_eq (cert_subject topmostCert) PLATFORM_CA_SUBJECT
                   in if \<not> processorCa \<and> \<not> platformCa then STATUS_SGX_CA_CERT_INVALID
                      else if verifyIntermediate ssl topmostCert rootCertFromChain \<noteq> STATUS_OK then
                        STATUS_SGX_CA_CERT_INVALID
                      else STATUS_OK))
          else STATUS_SGX_CRL_UNKNOWN_ISSUER)"

text \<open>\<^verbatim>\<open>PckCrlVerifier::verify\<close> against a chain and a trusted root.\<close>

definition crl_verify_chain ::
  "'key openssl \<Rightarrow> crl_store \<Rightarrow> cert_chain \<Rightarrow> certificate \<Rightarrow> status" where
  "crl_verify_chain ssl crl chain trustedRoot =
     (let chainVerificationStatus = verifyCRLIssuerCertChain ssl chain crl in
      if chainVerificationStatus \<noteq> STATUS_OK then chainVerificationStatus
      else case ch_topmostCert chain of
        None \<Rightarrow> STATUS_SGX_CRL_UNKNOWN_ISSUER
      | Some topmostCert \<Rightarrow>
          (let basicVerificationStatus = crl_verify ssl crl topmostCert in
           if basicVerificationStatus \<noteq> STATUS_OK then basicVerificationStatus
           else if \<not> dn_eq (cert_subject trustedRoot) ROOT_CA_SUBJECT then STATUS_TRUSTED_ROOT_CA_INVALID
           else if verifyRootCACert ssl trustedRoot \<noteq> STATUS_OK then STATUS_TRUSTED_ROOT_CA_INVALID
           else case ch_rootCert chain of
             None \<Rightarrow> STATUS_SGX_ROOT_CA_MISSING
           | Some chainRootCert \<Rightarrow>
               if sig_rawDer (cert_signature chainRootCert) \<noteq> sig_rawDer (cert_signature trustedRoot)
               then STATUS_SGX_ROOT_CA_UNTRUSTED
               else STATUS_OK))"

definition crl_checkIssuer :: "crl_store \<Rightarrow> bool" where
  "crl_checkIssuer crl = issuer_commonNameContains (crl_issuer' crl) SGX_INTERMEDIATE_CN_PHRASE"

section \<open>The PCK certificate chain\<close>

definition verifyPCKCert ::
  "'key openssl \<Rightarrow> pck_certificate \<Rightarrow> certificate \<Rightarrow> status" where
  "verifyPCKCert ssl pckCert intermediate =
     (if \<not> dn_eq (cert_issuer pckCert) (cert_subject intermediate) then STATUS_SGX_PCK_INVALID_ISSUER
      else if \<not> checkSignature ssl pckCert intermediate then STATUS_SGX_PCK_INVALID_ISSUER
      else STATUS_OK)"

text \<open>\<^verbatim>\<open>PckCertVerifier::verify\<close>, from the revocation lists on.\<close>

definition pckCert_verify_crls ::
  "'key openssl \<Rightarrow> certificate \<Rightarrow> certificate \<Rightarrow> pck_certificate \<Rightarrow> crl_store \<Rightarrow> crl_store \<Rightarrow> time_t \<Rightarrow>
   status" where
  "pckCert_verify_crls ssl root intermediate pck rootCaCrl intermediateCrl expirationDate =
     (let checkRootCaCrlCorrectness = crl_verify ssl rootCaCrl root in
      if checkRootCaCrlCorrectness \<noteq> STATUS_OK then checkRootCaCrlCorrectness
      else
      let checkIntermediateCrlCorrectness = crl_verify ssl intermediateCrl intermediate in
      if checkIntermediateCrlCorrectness \<noteq> STATUS_OK then checkIntermediateCrlCorrectness
      else if isRevoked rootCaCrl intermediate then STATUS_SGX_INTERMEDIATE_CA_REVOKED
      else if isRevoked intermediateCrl pck then STATUS_SGX_PCK_REVOKED
      else if expirationDate > notAfterTime (cert_validity root) then STATUS_SGX_PCK_CERT_CHAIN_EXPIRED
      else if expirationDate > notAfterTime (cert_validity intermediate) then
        STATUS_SGX_PCK_CERT_CHAIN_EXPIRED
      else if expirationDate > notAfterTime (cert_validity pck) then STATUS_SGX_PCK_CERT_CHAIN_EXPIRED
      else if crl_expired rootCaCrl expirationDate then STATUS_SGX_CRL_EXPIRED
      else if crl_expired intermediateCrl expirationDate then STATUS_SGX_CRL_EXPIRED
      else STATUS_OK)"

definition pckCert_verify ::
  "'key openssl \<Rightarrow> cert_chain \<Rightarrow> crl_store \<Rightarrow> crl_store \<Rightarrow> certificate \<Rightarrow> time_t \<Rightarrow> status" where
  "pckCert_verify ssl chain rootCaCrl intermediateCrl rootCa expirationDate =
     (case ch_rootCert chain of
        None \<Rightarrow> STATUS_SGX_ROOT_CA_MISSING
      | Some root \<Rightarrow>
      if \<not> commonNameContains (cert_subject root) SGX_ROOT_CA_CN_PHRASE then STATUS_SGX_ROOT_CA_MISSING
      else case getIntermediateCert chain of
        None \<Rightarrow> STATUS_SGX_INTERMEDIATE_CA_MISSING
      | Some intermediate \<Rightarrow>
      if \<not> commonNameContains (cert_subject intermediate) SGX_INTERMEDIATE_CN_PHRASE then
        STATUS_SGX_INTERMEDIATE_CA_MISSING
      else case ch_pckCert chain of
        None \<Rightarrow> STATUS_SGX_PCK_MISSING
      | Some pck \<Rightarrow>
      if \<not> commonNameContains (cert_subject pck) SGX_PCK_CN_PHRASE then STATUS_SGX_PCK_MISSING
      else
      let rootVerificationStatus = verifyRootCACert ssl root in
      if rootVerificationStatus \<noteq> STATUS_OK then rootVerificationStatus
      else
      let intermediateVerificationStatus = verifyIntermediate ssl intermediate root in
      if intermediateVerificationStatus \<noteq> STATUS_OK then intermediateVerificationStatus
      else
      let pckVerificationStatus = verifyPCKCert ssl pck intermediate in
      if pckVerificationStatus \<noteq> STATUS_OK then pckVerificationStatus
      else if \<not> dn_eq (cert_subject rootCa) (cert_issuer rootCa) then STATUS_TRUSTED_ROOT_CA_INVALID
      else if sig_rawDer (cert_signature root) \<noteq> sig_rawDer (cert_signature rootCa) then
        STATUS_SGX_PCK_CERT_CHAIN_UNTRUSTED
      else pckCert_verify_crls ssl root intermediate pck rootCaCrl intermediateCrl expirationDate)"

section \<open>The TCB signing chain\<close>

definition verifyTCBCert :: "'key openssl \<Rightarrow> certificate \<Rightarrow> certificate \<Rightarrow> status" where
  "verifyTCBCert ssl tcbCert rootCaCert =
     (if \<not> dn_eq (cert_issuer tcbCert) (cert_subject rootCaCert) then
        STATUS_SGX_TCB_SIGNING_CERT_INVALID_ISSUER
      else if \<not> checkSignature ssl tcbCert rootCaCert then STATUS_SGX_TCB_SIGNING_CERT_INVALID_ISSUER
      else STATUS_OK)"

definition tcbSigningChain_verify ::
  "'key openssl \<Rightarrow> cert_chain \<Rightarrow> crl_store \<Rightarrow> certificate \<Rightarrow> status" where
  "tcbSigningChain_verify ssl chain rootCaCrl trustedRoot =
     (case ch_rootCert chain of
        None \<Rightarrow> STATUS_SGX_ROOT_CA_MISSING
      | Some rootCert \<Rightarrow>
      if \<not> commonNameContains (cert_subject rootCert) SGX_ROOT_CA_CN_PHRASE then
        STATUS_SGX_ROOT_CA_MISSING
      else
      let rootVerificationStatus = verifyRootCACert ssl rootCert in
      if rootVerificationStatus \<noteq> STATUS_OK then rootVerificationStatus
      else case ch_topmostCert chain of
        None \<Rightarrow> STATUS_SGX_TCB_SIGNING_CERT_MISSING
      | Some tcbSigningCert \<Rightarrow>
      if \<not> commonNameContains (cert_subject tcbSigningCert) SGX_TCB_SIGNING_CN_PHRASE then
        STATUS_SGX_TCB_SIGNING_CERT_MISSING
      else
      let tcbCertVerificationStatus = verifyTCBCert ssl tcbSigningCert rootCert in
      if tcbCertVerificationStatus \<noteq> STATUS_OK then tcbCertVerificationStatus
      else
      let crlVerificationStatus = crl_verify ssl rootCaCrl rootCert in
      if crlVerificationStatus \<noteq> STATUS_OK then crlVerificationStatus
      else if isRevoked rootCaCrl tcbSigningCert then STATUS_SGX_TCB_SIGNING_CERT_REVOKED
      else if \<not> dn_eq (cert_subject trustedRoot) (cert_issuer trustedRoot) then
        STATUS_TRUSTED_ROOT_CA_INVALID
      else if sig_rawDer (cert_signature rootCert) \<noteq> sig_rawDer (cert_signature trustedRoot) then
        STATUS_SGX_TCB_SIGNING_CERT_CHAIN_UNTRUSTED
      else STATUS_OK)"

section \<open>What the checks establish\<close>

text \<open>A certificate (a revocation list) its issuer signed.\<close>

definition issued_by ::
  "'key openssl \<Rightarrow> 'a certificate_scheme \<Rightarrow> 'b certificate_scheme \<Rightarrow> bool" where
  "issued_by ssl cert issuer \<longleftrightarrow>
     dn_eq (cert_issuer cert) (cert_subject issuer) \<and>
     signed_by ssl (cert_pubKey issuer) (cert_info cert) (sig_rawDer (cert_signature cert))"

definition crl_named :: "crl_store \<Rightarrow> distinguished_name \<Rightarrow> bool" where
  "crl_named crl n \<longleftrightarrow> crl_issuer' crl = \<lparr>
     iss_raw = dn_raw n, iss_commonName = dn_commonName n, iss_countryName = dn_countryName n,
     iss_organizationName = dn_organizationName n, iss_locationName = dn_locationName n,
     iss_stateName = dn_stateName n\<rparr>"

definition crl_of :: "'key openssl \<Rightarrow> crl_store \<Rightarrow> 'a certificate_scheme \<Rightarrow> bool" where
  "crl_of ssl crl issuer \<longleftrightarrow>
     crl_named crl (cert_subject issuer) \<and>
     {NID_crl_number, NID_authority_key_identifier} \<subseteq> ext_nid ` set (crl_extensions crl) \<and>
     crl_signed_by ssl (cert_pubKey issuer) crl"

lemma all_required_iff: "all_required exts nids \<longleftrightarrow> set nids \<subseteq> ext_nid ` set exts"
  by (induction nids) (auto simp: find_None_iff)

lemma two_extensions:
  assumes "a \<noteq> b" "a \<in> f ` set xs" "b \<in> f ` set xs"
  shows "2 \<le> length xs"
proof -
  have "card {a, b} \<le> card (f ` set xs)" using assms by (intro card_mono) auto
  also have "\<dots> \<le> length xs" using card_image_le card_length le_trans by blast
  finally show ?thesis using assms(1) by simp
qed

lemma required_extensions_iff:
  "checkStandardExtensions exts CRL_REQUIRED_EXTENSIONS \<longleftrightarrow>
     {NID_crl_number, NID_authority_key_identifier} \<subseteq> ext_nid ` set exts"
  using two_extensions [of NID_crl_number NID_authority_key_identifier ext_nid exts]
  by (auto simp: checkStandardExtensions_def all_required_iff CRL_REQUIRED_EXTENSIONS_def)

lemma verifyRootCACert_ok: "verifyRootCACert ssl c = STATUS_OK \<longleftrightarrow> issued_by ssl c c"
  by (simp add: verifyRootCACert_def issued_by_def verify_x509_signed_by)

lemma verifyIntermediate_ok: "verifyIntermediate ssl c i = STATUS_OK \<longleftrightarrow> issued_by ssl c i"
  by (simp add: verifyIntermediate_def issued_by_def verify_x509_signed_by)

lemma verifyPCKCert_ok: "verifyPCKCert ssl c i = STATUS_OK \<longleftrightarrow> issued_by ssl c i"
  by (simp add: verifyPCKCert_def checkSignature_def issued_by_def verify_x509_signed_by)

lemma verifyTCBCert_ok: "verifyTCBCert ssl c i = STATUS_OK \<longleftrightarrow> issued_by ssl c i"
  by (simp add: verifyTCBCert_def checkSignature_def issued_by_def verify_x509_signed_by)

lemma crl_verify_ok: "crl_verify ssl crl c = STATUS_OK \<longleftrightarrow> crl_of ssl crl c"
  by (cases "crl_issuer' crl")
    (auto simp: crl_verify_def crl_of_def crl_named_def required_extensions_iff
      checkSignature_crl_def verifySignature_crl_signed_by Let_def)

lemmas verdicts = verifyRootCACert_ok verifyIntermediate_ok verifyPCKCert_ok verifyTCBCert_ok crl_verify_ok

text \<open>A chain of statements \<^verbatim>\<open>if (s != STATUS_OK) return s;\<close> and
  \<^verbatim>\<open>if (bad) return s;\<close> returns OK when all of them pass.\<close>

lemma pass_status: "((if s \<noteq> STATUS_OK then s else t) = STATUS_OK) = (s = STATUS_OK \<and> t = STATUS_OK)"
  by simp

lemma pass_check: "s \<noteq> STATUS_OK \<Longrightarrow> ((if bad then s else t) = STATUS_OK) = (\<not> bad \<and> t = STATUS_OK)"
  by simp

lemma pass_option:
  "s \<noteq> STATUS_OK \<Longrightarrow>
   ((case m of None \<Rightarrow> s | Some x \<Rightarrow> f x) = STATUS_OK) = (\<exists>x. m = Some x \<and> f x = STATUS_OK)"
  by (cases m) auto

lemmas passes = pass_status pass_check pass_option Let_def not_not

definition not_revoked :: "crl_store \<Rightarrow> 'a certificate_scheme \<Rightarrow> bool" where
  "not_revoked crl cert \<longleftrightarrow> cert_serialNumber cert \<notin> rev_serialNumber ` set (crl_revokedList crl)"

lemma isRevoked_not: "isRevoked crl cert \<longleftrightarrow> \<not> not_revoked crl cert"
  by (auto simp: isRevoked_iff not_revoked_def image_iff) (metis)

lemma crl_expired_not:
  "crl_expired crl t \<longleftrightarrow> \<not> (notBeforeTime (crl_validity crl) \<le> t \<and> t \<le> notAfterTime (crl_validity crl))"
  by (auto simp: crl_expired_def isValid_def)

lemma pckCert_verify_crls_ok:
  "pckCert_verify_crls ssl root intermediate pck rootCaCrl intermediateCrl t = STATUS_OK \<longleftrightarrow>
     crl_of ssl rootCaCrl root \<and> crl_of ssl intermediateCrl intermediate \<and>
     not_revoked rootCaCrl intermediate \<and> not_revoked intermediateCrl pck \<and>
     t \<le> notAfterTime (cert_validity root) \<and> t \<le> notAfterTime (cert_validity intermediate) \<and>
     t \<le> notAfterTime (cert_validity pck) \<and>
     \<not> crl_expired rootCaCrl t \<and> \<not> crl_expired intermediateCrl t"
  by (simp add: pckCert_verify_crls_def passes verdicts isRevoked_not not_less)

text \<open>
  C23: \<^verbatim>\<open>PckCertVerifier::verify\<close> returns OK exactly when the chain holds a
  root, an intermediate and a PCK certificate with the expected names, each signed by the one
  before it and the root by itself, the root carries the signature of the (self-issued) trusted
  root, the two revocation lists are signed by the two authorities and revoke neither the
  intermediate nor the PCK certificate, no certificate has run out and both lists are in force.
\<close>

theorem pckCert_verify_accepts:
  "pckCert_verify ssl chain rootCaCrl intermediateCrl rootCa t = STATUS_OK \<longleftrightarrow>
     (\<exists>root intermediate pck.
        ch_rootCert chain = Some root \<and> commonNameContains (cert_subject root) SGX_ROOT_CA_CN_PHRASE \<and>
        getIntermediateCert chain = Some intermediate \<and>
        commonNameContains (cert_subject intermediate) SGX_INTERMEDIATE_CN_PHRASE \<and>
        ch_pckCert chain = Some pck \<and> commonNameContains (cert_subject pck) SGX_PCK_CN_PHRASE \<and>
        issued_by ssl root root \<and> issued_by ssl intermediate root \<and> issued_by ssl pck intermediate \<and>
        dn_eq (cert_subject rootCa) (cert_issuer rootCa) \<and>
        sig_rawDer (cert_signature root) = sig_rawDer (cert_signature rootCa) \<and>
        crl_of ssl rootCaCrl root \<and> crl_of ssl intermediateCrl intermediate \<and>
        cert_serialNumber intermediate \<notin> rev_serialNumber ` set (crl_revokedList rootCaCrl) \<and>
        cert_serialNumber pck \<notin> rev_serialNumber ` set (crl_revokedList intermediateCrl) \<and>
        t \<le> notAfterTime (cert_validity root) \<and> t \<le> notAfterTime (cert_validity intermediate) \<and>
        t \<le> notAfterTime (cert_validity pck) \<and>
        notBeforeTime (crl_validity rootCaCrl) \<le> t \<and> t \<le> notAfterTime (crl_validity rootCaCrl) \<and>
        notBeforeTime (crl_validity intermediateCrl) \<le> t \<and> t \<le> notAfterTime (crl_validity intermediateCrl))"
  by (simp add: pckCert_verify_def passes verdicts pckCert_verify_crls_ok not_revoked_def
      crl_expired_not) blast

lemma tcbSigningChain_verify_ok:
  "tcbSigningChain_verify ssl chain rootCaCrl trustedRoot = STATUS_OK \<longleftrightarrow>
     (\<exists>root signing.
        ch_rootCert chain = Some root \<and> commonNameContains (cert_subject root) SGX_ROOT_CA_CN_PHRASE \<and>
        ch_topmostCert chain = Some signing \<and>
        commonNameContains (cert_subject signing) SGX_TCB_SIGNING_CN_PHRASE \<and>
        issued_by ssl root root \<and> issued_by ssl signing root \<and>
        crl_of ssl rootCaCrl root \<and>
        cert_serialNumber signing \<notin> rev_serialNumber ` set (crl_revokedList rootCaCrl) \<and>
        dn_eq (cert_subject trustedRoot) (cert_issuer trustedRoot) \<and>
        sig_rawDer (cert_signature root) = sig_rawDer (cert_signature trustedRoot))"
  by (simp add: tcbSigningChain_verify_def passes verdicts isRevoked_not not_revoked_def) blast

lemma verifyCRLIssuerCertChain_ok:
  "verifyCRLIssuerCertChain ssl chain crl = STATUS_OK \<longleftrightarrow>
     (\<exists>root. chain_get chain ROOT_CA_SUBJECT = Some root \<and> issued_by ssl root root \<and>
        (issuer_eq (crl_issuer' crl) ROOT_CA_CRL_ISSUER \<and> chain_length chain = 1 \<or>
         (issuer_eq (crl_issuer' crl) PCK_PLATFORM_CRL_ISSUER \<or>
          issuer_eq (crl_issuer' crl) PCK_PROCESSOR_CRL_ISSUER) \<and>
         chain_length chain = 2 \<and>
         (\<exists>top. ch_topmostCert chain = Some top \<and>
            (dn_eq (cert_subject top) PROCESSOR_CA_SUBJECT \<or> dn_eq (cert_subject top) PLATFORM_CA_SUBJECT) \<and>
            issued_by ssl top root)))"
proof -
  have "\<not> issuer_eq i PCK_PLATFORM_CRL_ISSUER \<and> \<not> issuer_eq i PCK_PROCESSOR_CRL_ISSUER"
    if "issuer_eq i ROOT_CA_CRL_ISSUER" for i
    using that by (simp add: issuer_eq_def name_constants)
  then show ?thesis
    by (auto simp: verifyCRLIssuerCertChain_def verdicts Let_def split: option.splits if_splits)
qed

text \<open>
  C24: \<^verbatim>\<open>PckCrlVerifier::verify\<close> accepts a list with its issuer chain exactly
  when the chain's Intel root signed itself and carries the signature of the trusted root (Intel's,
  self-signed), and the last certificate of the chain issued the list: the root in a chain of
  one for the root's list, a platform or processor authority signed by the root in a chain of two
  for its own.
\<close>

theorem crl_verify_chain_accepts:
  "crl_verify_chain ssl crl chain trustedRoot = STATUS_OK \<longleftrightarrow>
     (\<exists>intelRoot root top.
        chain_get chain ROOT_CA_SUBJECT = Some intelRoot \<and> issued_by ssl intelRoot intelRoot \<and>
        ch_topmostCert chain = Some top \<and> crl_of ssl crl top \<and>
        (dn_eq (cert_subject top) ROOT_CA_SUBJECT \<and> chain_length chain = 1 \<or>
         (dn_eq (cert_subject top) PROCESSOR_CA_SUBJECT \<or> dn_eq (cert_subject top) PLATFORM_CA_SUBJECT) \<and>
         chain_length chain = 2 \<and> issued_by ssl top intelRoot) \<and>
        dn_eq (cert_subject trustedRoot) ROOT_CA_SUBJECT \<and> issued_by ssl trustedRoot trustedRoot \<and>
        ch_rootCert chain = Some root \<and>
        sig_rawDer (cert_signature root) = sig_rawDer (cert_signature trustedRoot))"
proof -
  have names:
    "issuer_eq (crl_issuer' crl) ROOT_CA_CRL_ISSUER \<longleftrightarrow> dn_eq (cert_subject top) ROOT_CA_SUBJECT"
    "issuer_eq (crl_issuer' crl) PCK_PLATFORM_CRL_ISSUER \<longleftrightarrow> dn_eq (cert_subject top) PLATFORM_CA_SUBJECT"
    "issuer_eq (crl_issuer' crl) PCK_PROCESSOR_CRL_ISSUER \<longleftrightarrow> dn_eq (cert_subject top) PROCESSOR_CA_SUBJECT"
    if "crl_of ssl crl top" for top :: certificate
    using that by (auto simp: crl_of_def crl_named_def issuer_eq_def dn_eq_def name_constants)
  show ?thesis
    by (auto simp: crl_verify_chain_def passes verdicts verifyCRLIssuerCertChain_ok names)
qed

end
