(* ===== verification/ByteOperands.thy ===== *)
theory ByteOperands
  imports Prelude Statuses
begin

text \<open>
  \<^verbatim>\<open>AttestationCommons\<close>: the byte-order helpers of \<^verbatim>\<open>Utils/ByteOperands.cpp\<close>
  at their machine widths, and the hexadecimal and mask helpers of
  \<^verbatim>\<open>OpensslHelpers/Bytes.h\<close>.  The lemmas state that the helpers read and write
  little-endian integers and that hexadecimal printing and parsing are inverse.
\<close>

section \<open>Byte order\<close>

definition swapBytes16 :: "u16 \<Rightarrow> u16" where
  "swapBytes16 val = push_bit 8 val OR drop_bit 8 val"

definition swapBytes32 :: "u32 \<Rightarrow> u32" where
  "swapBytes32 val =
     (push_bit 24 val AND 0xff000000) OR
     (push_bit 8 val AND 0x00ff0000) OR
     (drop_bit 8 val AND 0x0000ff00) OR
     (drop_bit 24 val AND 0x000000ff)"

definition toUint16 :: "u8 \<Rightarrow> u8 \<Rightarrow> u16" where
  "toUint16 leftMostByte rightMostByte =
     (let ret0 = (0 :: u32);
          ret1 = ret0 OR ucast rightMostByte;
          ret2 = ret1 OR (push_bit 8 (ucast leftMostByte) AND 0xff00)
      in ucast ret2)"

definition toUint32_halves :: "u16 \<Rightarrow> u16 \<Rightarrow> u32" where
  "toUint32_halves msBytes lsBytes =
     (let ret0 = (0 :: u32);
          ret1 = ret0 OR ucast lsBytes
      in ret1 OR (push_bit 16 (ucast msBytes) AND 0xffff0000))"

definition toUint32 :: "u8 \<Rightarrow> u8 \<Rightarrow> u8 \<Rightarrow> u8 \<Rightarrow> u32" where
  "toUint32 leftMostByte leftByte rightByte rightMostByte =
     toUint32_halves (toUint16 leftMostByte leftByte) (toUint16 rightByte rightMostByte)"

definition toArray16 :: "u16 \<Rightarrow> bytes" where
  "toArray16 val = [ucast (drop_bit 8 val), ucast val]"

definition toArray32 :: "u32 \<Rightarrow> bytes" where
  "toArray32 val =
     [ucast (drop_bit 24 val AND 0x000000FF),
      ucast (drop_bit 16 val AND 0x000000FF),
      ucast (drop_bit 8 val AND 0x000000FF),
      ucast (val AND 0x000000FF)]"

subsection \<open>Bit views\<close>

lemma bit_u8_ge: "8 \<le> n \<Longrightarrow> \<not> bit (w :: u8) n"
  by (auto dest: bit_imp_le_length)

lemma bit_u16_ge: "16 \<le> n \<Longrightarrow> \<not> bit (w :: u16) n"
  by (auto dest: bit_imp_le_length)

lemma bit_u32_ge: "32 \<le> n \<Longrightarrow> \<not> bit (w :: u32) n"
  by (auto dest: bit_imp_le_length)

lemmas bit_word_ge = bit_u8_ge bit_u16_ge bit_u32_ge

lemma byte_masks:
  "(0xff :: u32) = mask 8"
  "(0xff00 :: u32) = push_bit 8 (mask 8)"
  "(0xff0000 :: u32) = push_bit 16 (mask 8)"
  "(0xff000000 :: u32) = push_bit 24 (mask 8)"
  "(0xffff0000 :: u32) = push_bit 16 (mask 16)"
  by (simp_all add: mask_eq_exp_minus_1 push_bit_eq_mult)

lemma bit_toUint16: "bit (toUint16 a b) n = (if n < 8 then bit b n else n < 16 \<and> bit a (n - 8))"
  unfolding toUint16_def Let_def byte_masks
  by (auto simp: bit_simps bit_word_ge)

lemma bit_swapBytes16:
  "bit (swapBytes16 v) n = (if n < 8 then bit v (8 + n) else n < 16 \<and> bit v (n - 8))"
  unfolding swapBytes16_def by (auto simp: bit_simps bit_word_ge)

lemma bit_toUint32:
  "bit (toUint32 a b c d) n =
     (if n < 8 then bit d n else if n < 16 then bit c (n - 8)
      else if n < 24 then bit b (n - 16) else n < 32 \<and> bit a (n - 24))"
  unfolding toUint32_def toUint32_halves_def Let_def byte_masks
  by (auto simp: bit_simps bit_word_ge bit_toUint16)

lemma bit_swapBytes32:
  "bit (swapBytes32 v) n =
     (if n < 8 then bit v (24 + n) else if n < 16 then bit v (8 + n)
      else if n < 24 then bit v (n - 8) else n < 32 \<and> bit v (n - 24))"
  unfolding swapBytes32_def byte_masks
  by (auto simp: bit_simps bit_word_ge)

lemma swapBytes16_involution [simp]: "swapBytes16 (swapBytes16 v) = v"
  by (rule bit_word_eqI) (auto simp: bit_swapBytes16)

lemma swapBytes32_involution [simp]: "swapBytes32 (swapBytes32 v) = v"
  by (rule bit_word_eqI) (auto simp: bit_swapBytes32)

lemma toArray16_toUint16 [simp, byte_layout]: "toArray16 (toUint16 a b) = [a, b]"
  unfolding toArray16_def
  by (auto intro!: bit_word_eqI simp: bit_simps bit_toUint16)

lemma toArray32_toUint32 [simp, byte_layout]: "toArray32 (toUint32 a b c d) = [a, b, c, d]"
  unfolding toArray32_def byte_masks
  by (auto intro!: bit_word_eqI simp: bit_simps bit_toUint32)

lemma length_toArray [simp]: "length (toArray16 v) = 2" "length (toArray32 w) = 4"
  by (simp_all add: toArray16_def toArray32_def)

lemma toUint16_toArray16 [simp]: "toUint16 (ucast (drop_bit 8 v)) (ucast v) = (v :: u16)"
  by (rule bit_word_eqI) (auto simp: bit_simps bit_toUint16)

text \<open>The helpers at their numeric meaning: the value on the wire is little-endian.\<close>

lemma unat_u8_less: "unat (b :: u8) < 256"
  using unsigned_less [of b, where 'a = nat] by simp

lemma toUint16_value: "toUint16 a b = word_of_nat (256 * unat a + unat b)"
proof (rule bit_word_eqI)
  fix n assume n: "n < LENGTH(16)"
  have "unat b + push_bit 8 (unat a) = unat b OR push_bit 8 (unat a)"
  proof (rule disjunctive_add_eq_or, rule bit_eqI)
    fix m
    have "bit (unat b) m \<Longrightarrow> m < 8"
      by (metis bit_unsigned_iff bit_word_ge(1) linorder_not_less)
    then show "bit (unat b AND push_bit 8 (unat a)) m = bit 0 m"
      by (auto simp: bit_and_iff bit_push_bit_iff_nat)
  qed
  then have "256 * unat a + unat b = unat b OR push_bit 8 (unat a)"
    by (simp add: push_bit_eq_mult)
  then show "bit (toUint16 a b) n = bit (word_of_nat (256 * unat a + unat b) :: u16) n"
    using n by (auto simp: bit_toUint16 bit_simps bit_word_ge)
qed

section \<open>Hexadecimal strings\<close>

definition isxdigit :: "char \<Rightarrow> bool" where
  "isxdigit c = (let n = (of_char c :: nat)
     in 48 \<le> n \<and> n \<le> 57 \<or> 65 \<le> n \<and> n \<le> 70 \<or> 97 \<le> n \<and> n \<le> 102)"

definition asciiToValue :: "char \<Rightarrow> u8 outcome" where
  "asciiToValue c = (let n = (of_char c :: nat) in
     if isxdigit c then
       if 48 \<le> n \<and> n \<le> 57 then Inr (word_of_nat (n - 48))
       else if 65 \<le> n \<and> n \<le> 70 then Inr (word_of_nat (n - 65 + 10))
       else if 97 \<le> n \<and> n \<le> 102 then Inr (word_of_nat (n - 97 + 10))
       else Inl InvalidArgument
     else Inl InvalidArgument)"

fun hexLoop :: "string \<Rightarrow> bytes outcome" where
  "hexLoop [] = Inr []"
| "hexLoop [c] = Inl InvalidArgument"
| "hexLoop (c # d # rest) =
     bindE (asciiToValue d) (\<lambda>lo. bindE (asciiToValue c) (\<lambda>hi.
       bindE (hexLoop rest) (\<lambda>out. Inr ((lo + push_bit 4 hi) # out))))"

definition hexStringToBytes :: "string \<Rightarrow> bytes" where
  "hexStringToBytes hexEncoded =
     (if length hexEncoded mod 2 = 1 then []
      else case hexLoop hexEncoded of Inl _ \<Rightarrow> [] | Inr out \<Rightarrow> out)"

definition hexDigits :: string where
  "hexDigits = ''0123456789ABCDEF''"

definition bytesToHexString :: "bytes \<Rightarrow> string" where
  "bytesToHexString vector =
     concat (map (\<lambda>c. [hexDigits ! (unat c div 16), hexDigits ! (unat c mod 16)]) vector)"

definition applyMask :: "bytes \<Rightarrow> bytes \<Rightarrow> bytes" where
  "applyMask base mask' =
     (if length base \<noteq> length mask' then [] else map2 (\<lambda>b m. b AND m) base mask')"

lemma length_applyMask [simp]:
  "length (applyMask base m) = (if length base = length m then length base else 0)"
  by (simp add: applyMask_def)

lemma asciiToValue_hexDigits:
  assumes "n < 16"
  shows "asciiToValue (hexDigits ! n) = Inr (word_of_nat n)"
proof -
  have "\<forall>k\<in>set [0..<16]. asciiToValue (hexDigits ! k) = Inr (word_of_nat k)"
    by (simp add: hexDigits_def asciiToValue_def isxdigit_def upt_rec)
  with assms show ?thesis by simp
qed

lemma nibbles_join:
  "(word_of_nat (unat b mod 16) + push_bit 4 (word_of_nat (unat b div 16))) = (b :: u8)"
proof -
  have "push_bit 4 (word_of_nat (unat b div 16) :: u8) = word_of_nat (unat b div 16 * 16)"
    by (simp add: push_bit_eq_mult)
  then have "word_of_nat (unat b mod 16) + push_bit 4 (word_of_nat (unat b div 16) :: u8)
      = word_of_nat (unat b mod 16 + unat b div 16 * 16)"
    by (simp only: of_nat_add)
  also have "unat b mod 16 + unat b div 16 * 16 = unat b"
    by (rule mod_div_mult_eq)
  finally show ?thesis by simp
qed

lemma hexLoop_bytesToHexString: "hexLoop (bytesToHexString bs) = Inr bs"
proof (induction bs)
  case Nil
  then show ?case by (simp add: bytesToHexString_def)
next
  case (Cons b bs)
  have "asciiToValue (hexDigits ! (unat b div 16)) = Inr (word_of_nat (unat b div 16))"
    and "asciiToValue (hexDigits ! (unat b mod 16)) = Inr (word_of_nat (unat b mod 16))"
    using unat_u8_less [of b] by (intro asciiToValue_hexDigits; simp)+
  with Cons show ?case
    by (simp add: bytesToHexString_def nibbles_join)
qed

lemma length_bytesToHexString [simp]: "length (bytesToHexString bs) = 2 * length bs"
  by (induction bs) (simp_all add: bytesToHexString_def)

end
