(* ===== verification/QuoteStructures.thy ===== *)
theory QuoteStructures
  imports ByteOperands
begin

text \<open>
  The binary structures of a quote: \<^verbatim>\<open>QuoteVerification/QuoteConstants.h\<close>,
  \<^verbatim>\<open>QuoteParsers.h\<close>, \<^verbatim>\<open>QuoteStructures.h\<close> and
  \<^verbatim>\<open>QuoteStructures.cpp\<close>.  A \<^verbatim>\<open>std::array\<close> member is a byte list (its
  fixed length is part of the \<open>wf_\<close> predicates), an iterator is a position in the buffer,
  and each \<^verbatim>\<open>insert\<close> is a step on the object and the iterator that keeps what was
  written before a failure, as the code does.  \<open>fill_\<close> functions state the same layout as a
  table of offsets; the lemmas show that the iterator code implements the table, that
  \<^verbatim>\<open>rawBlob\<close> inverts it, and when exactly the variable-size structures are accepted.
\<close>

section \<open>Constants\<close>

definition TEE_TYPE_SGX :: u32 where [simp]: "TEE_TYPE_SGX = 0x00000000"
definition TEE_TYPE_TDX :: u32 where [simp]: "TEE_TYPE_TDX = 0x00000081"
definition QUOTE_VERSION_3 :: u16 where [simp]: "QUOTE_VERSION_3 = 3"
definition QUOTE_VERSION_4 :: u16 where [simp]: "QUOTE_VERSION_4 = 4"
definition QUOTE_VERSION_5 :: u16 where [simp]: "QUOTE_VERSION_5 = 5"
definition ECDSA_256_WITH_P256_CURVE :: u16 where [simp]: "ECDSA_256_WITH_P256_CURVE = 2"
definition ECDSA_P256_SIGNATURE_BYTE_LEN :: nat where [simp]: "ECDSA_P256_SIGNATURE_BYTE_LEN = 64"
definition BODY_BYTE_SIZE :: nat where [simp]: "BODY_BYTE_SIZE = 6"
definition BODY_SGX_ENCLAVE_REPORT_TYPE :: u16 where [simp]: "BODY_SGX_ENCLAVE_REPORT_TYPE = 1"
definition BODY_TD_REPORT10_TYPE :: u16 where [simp]: "BODY_TD_REPORT10_TYPE = 2"
definition BODY_TD_REPORT15_TYPE :: u16 where [simp]: "BODY_TD_REPORT15_TYPE = 3"
definition BODY_TD_REPORT15EX_TYPE :: u16 where [simp]: "BODY_TD_REPORT15EX_TYPE = 4"
definition ENCLAVE_REPORT_BYTE_LEN :: nat where [simp]: "ENCLAVE_REPORT_BYTE_LEN = 384"
definition TD_REPORT10_BYTE_LEN :: nat where [simp]: "TD_REPORT10_BYTE_LEN = 584"
definition TD_REPORT15_BYTE_LEN :: nat where [simp]: "TD_REPORT15_BYTE_LEN = 648"
definition TD_REPORT15EX_BYTE_LEN :: nat where [simp]: "TD_REPORT15EX_BYTE_LEN = 885"
definition PCK_ID_QE_REPORT_CERTIFICATION_DATA :: u16 where [simp]: "PCK_ID_QE_REPORT_CERTIFICATION_DATA = 6"
definition HEADER_BYTE_LEN :: nat where [simp]: "HEADER_BYTE_LEN = 48"
definition AUTH_DATA_SIZE_BYTE_LEN :: nat where [simp]: "AUTH_DATA_SIZE_BYTE_LEN = 4"
definition ECDSA_SIGNATURE_BYTE_LEN :: nat where [simp]: "ECDSA_SIGNATURE_BYTE_LEN = 64"
definition ECDSA_PUBKEY_BYTE_LEN :: nat where [simp]: "ECDSA_PUBKEY_BYTE_LEN = 64"
definition QE_REPORT_BYTE_LEN :: nat where [simp]: "QE_REPORT_BYTE_LEN = ENCLAVE_REPORT_BYTE_LEN"
definition QE_REPORT_SIG_BYTE_LEN :: nat where [simp]: "QE_REPORT_SIG_BYTE_LEN = ECDSA_SIGNATURE_BYTE_LEN"
definition CERTIFICATION_DATA_TYPE_BYTE_LEN :: nat where [simp]: "CERTIFICATION_DATA_TYPE_BYTE_LEN = 2"
definition CERTIFICATION_DATA_SIZE_BYTE_LEN :: nat where [simp]: "CERTIFICATION_DATA_SIZE_BYTE_LEN = 4"
definition QE_AUTH_DATA_SIZE_BYTE_LEN :: nat where [simp]: "QE_AUTH_DATA_SIZE_BYTE_LEN = 2"
definition QE_CERT_DATA_TYPE_BYTE_LEN :: nat where [simp]: "QE_CERT_DATA_TYPE_BYTE_LEN = 2"
definition QE_CERT_DATA_SIZE_BYTE_LEN :: nat where [simp]: "QE_CERT_DATA_SIZE_BYTE_LEN = 4"

definition AUTH_DATA_MIN_BYTE_LEN :: nat where [simp]:
  "AUTH_DATA_MIN_BYTE_LEN =
     ECDSA_SIGNATURE_BYTE_LEN + ECDSA_PUBKEY_BYTE_LEN + QE_REPORT_BYTE_LEN +
     QE_REPORT_SIG_BYTE_LEN + QE_AUTH_DATA_SIZE_BYTE_LEN + QE_CERT_DATA_TYPE_BYTE_LEN +
     QE_CERT_DATA_SIZE_BYTE_LEN"

definition QUOTE_MIN_BYTE_LEN :: nat where [simp]:
  "QUOTE_MIN_BYTE_LEN =
     HEADER_BYTE_LEN + ENCLAVE_REPORT_BYTE_LEN + AUTH_DATA_SIZE_BYTE_LEN + AUTH_DATA_MIN_BYTE_LEN"

definition ALLOWED_QUOTE_VERSIONS :: "u16 list" where
  "ALLOWED_QUOTE_VERSIONS = [QUOTE_VERSION_3, QUOTE_VERSION_4, QUOTE_VERSION_5]"

definition ALLOWED_BODY_TYPES :: "u16 list" where
  "ALLOWED_BODY_TYPES =
     [BODY_SGX_ENCLAVE_REPORT_TYPE, BODY_TD_REPORT10_TYPE, BODY_TD_REPORT15_TYPE,
      BODY_TD_REPORT15EX_TYPE]"

definition ALLOWED_TEE_TYPES :: "u32 list" where
  "ALLOWED_TEE_TYPES = [TEE_TYPE_SGX, TEE_TYPE_TDX]"

definition ALLOWED_ATTESTATION_KEY_TYPES :: "u16 list" where
  "ALLOWED_ATTESTATION_KEY_TYPES = [ECDSA_256_WITH_P256_CURVE]"

definition INTEL_QE_VENDOR_ID :: bytes where
  "INTEL_QE_VENDOR_ID =
     [0x93, 0x9A, 0x72, 0x33, 0xF7, 0x9C, 0x4C, 0xA9, 0x94, 0x0A, 0x0D, 0xB3, 0x95, 0x7F, 0x06, 0x07]"

section \<open>copyAndAdvance\<close>

text \<open>The cast \<^verbatim>\<open>(unsigned) available\<close> keeps the low 32 bits of the distance.\<close>

definition copyAndAdvance_array :: "nat \<Rightarrow> bytes \<Rightarrow> nat \<Rightarrow> nat \<Rightarrow> (bytes \<times> nat) option" where
  "copyAndAdvance_array N buf totalEnd from =
     (if int totalEnd - int from < int N then None
      else Some (slice from N buf, from + N))"

definition copyAndAdvance_u16 :: "bytes \<Rightarrow> nat \<Rightarrow> nat \<Rightarrow> (u16 \<times> nat) option" where
  "copyAndAdvance_u16 buf totalEnd from =
     (let available = int totalEnd - int from; capacity = 2 in
      if available < 0 \<or> nat available mod 2 ^ 32 < capacity then None
      else Some (swapBytes16 (toUint16 (buf ! from) (buf ! (from + 1))), from + capacity))"

definition copyAndAdvance_u32 :: "bytes \<Rightarrow> nat \<Rightarrow> nat \<Rightarrow> (u32 \<times> nat) option" where
  "copyAndAdvance_u32 buf totalEnd position =
     (let available = int totalEnd - int position; capacity = 4 in
      if available < 0 \<or> nat available mod 2 ^ 32 < capacity then None
      else Some (swapBytes32 (toUint32 (buf ! position) (buf ! (position + 1))
                   (buf ! (position + 2)) (buf ! (position + 3))), position + capacity))"

definition copyAndAdvance_struct ::
  "(bytes \<Rightarrow> nat \<Rightarrow> 's step) \<Rightarrow> nat \<Rightarrow> bytes \<Rightarrow> nat \<Rightarrow> 's step" where
  "copyAndAdvance_struct insert' amount buf totalEnd = (\<lambda>(val, from).
     let available = int totalEnd - int from in
     if available < 0 \<or> nat available mod 2 ^ 32 < amount then (False, val, from)
     else insert' buf (from + amount) (val, from))"

section \<open>Structures\<close>

record header =
  version :: u16
  attestationKeyType :: u16
  teeType :: u32
  qeSvn :: u16
  pceSvn :: u16
  qeVendorId :: bytes
  userData :: bytes

record body =
  bodyType :: u16
  body_size :: u32

record enclave_report =
  er_cpuSvn :: bytes
  er_miscSelect :: u32
  er_reserved1 :: bytes
  er_attributes :: bytes
  er_mrEnclave :: bytes
  er_reserved2 :: bytes
  er_mrSigner :: bytes
  er_reserved3 :: bytes
  er_isvProdID :: u16
  er_isvSvn :: u16
  er_reserved4 :: bytes
  er_reportData :: bytes

record td_report10 =
  td_teeTcbSvn :: bytes
  td_mrSeam :: bytes
  td_mrSignerSeam :: bytes
  td_seamAttributes :: bytes
  td_tdAttributes :: bytes
  td_xFAM :: bytes
  td_mrTd :: bytes
  td_mrConfigId :: bytes
  td_mrOwner :: bytes
  td_mrOwnerConfig :: bytes
  td_rtMr0 :: bytes
  td_rtMr1 :: bytes
  td_rtMr2 :: bytes
  td_rtMr3 :: bytes
  td_reportData :: bytes

record td_report15 = td_report10 +
  td_teeTcbSvn2 :: bytes
  td_mrServiceTd :: bytes

record td_report15ex = td_report15 +
  td_vmid :: bytes
  td_tdId :: bytes
  td_devInfo :: bytes
  td_initServTdHash :: bytes
  td_initServTdAttributes :: bytes
  td_initCpuSvn :: bytes
  td_initTeeTcbSvn :: bytes
  td_initTeeFmspc :: bytes
  td_curServTdHash :: bytes
  td_curServTdAttributes :: bytes

record ecdsa256_signature =
  signature :: bytes

record ecdsa256_pubkey =
  pubKey :: bytes

record qe_auth_data =
  qad_parsedDataSize :: u16
  qad_data :: bytes

record certification_data =
  cd_type :: u16
  cd_parsedDataSize :: u32
  cd_data :: bytes

record qe_report_certification_data =
  qrc_qeReport :: enclave_report
  qrc_qeReportSignature :: ecdsa256_signature
  qrc_qeAuthData :: qe_auth_data
  qrc_certificationData :: certification_data

record quote_v3_auth_data =
  v3_ecdsa256BitSignature :: ecdsa256_signature
  v3_ecdsaAttestationKey :: ecdsa256_pubkey
  v3_qeReport :: enclave_report
  v3_qeReportSignature :: ecdsa256_signature
  v3_qeAuthData :: qe_auth_data
  v3_certificationData :: certification_data

record quote_v4_auth_data =
  v4_ecdsa256BitSignature :: ecdsa256_signature
  v4_ecdsaAttestationKey :: ecdsa256_pubkey
  v4_certificationData :: certification_data

section \<open>insert\<close>

definition header_insert :: "bytes \<Rightarrow> nat \<Rightarrow> header step" where
  "header_insert buf end = run_steps [
     read_field version_update (copyAndAdvance_u16 buf end),
     read_field attestationKeyType_update (copyAndAdvance_u16 buf end),
     read_field teeType_update (copyAndAdvance_u32 buf end),
     read_field qeSvn_update (copyAndAdvance_u16 buf end),
     read_field pceSvn_update (copyAndAdvance_u16 buf end),
     read_field qeVendorId_update (copyAndAdvance_array 16 buf end),
     read_field userData_update (copyAndAdvance_array 20 buf end)]"

definition body_insert :: "bytes \<Rightarrow> nat \<Rightarrow> body step" where
  "body_insert buf end = run_steps [
     read_field bodyType_update (copyAndAdvance_u16 buf end),
     read_field body_size_update (copyAndAdvance_u32 buf end)]"

definition enclaveReport_insert :: "bytes \<Rightarrow> nat \<Rightarrow> enclave_report step" where
  "enclaveReport_insert buf end = run_steps [
     read_field er_cpuSvn_update (copyAndAdvance_array 16 buf end),
     read_field er_miscSelect_update (copyAndAdvance_u32 buf end),
     read_field er_reserved1_update (copyAndAdvance_array 28 buf end),
     read_field er_attributes_update (copyAndAdvance_array 16 buf end),
     read_field er_mrEnclave_update (copyAndAdvance_array 32 buf end),
     read_field er_reserved2_update (copyAndAdvance_array 32 buf end),
     read_field er_mrSigner_update (copyAndAdvance_array 32 buf end),
     read_field er_reserved3_update (copyAndAdvance_array 96 buf end),
     read_field er_isvProdID_update (copyAndAdvance_u16 buf end),
     read_field er_isvSvn_update (copyAndAdvance_u16 buf end),
     read_field er_reserved4_update (copyAndAdvance_array 60 buf end),
     read_field er_reportData_update (copyAndAdvance_array 64 buf end)]"

definition tdReport10_insert :: "bytes \<Rightarrow> nat \<Rightarrow> 'a td_report10_scheme step" where
  "tdReport10_insert buf end = run_steps [
     read_field td_teeTcbSvn_update (copyAndAdvance_array 16 buf end),
     read_field td_mrSeam_update (copyAndAdvance_array 48 buf end),
     read_field td_mrSignerSeam_update (copyAndAdvance_array 48 buf end),
     read_field td_seamAttributes_update (copyAndAdvance_array 8 buf end),
     read_field td_tdAttributes_update (copyAndAdvance_array 8 buf end),
     read_field td_xFAM_update (copyAndAdvance_array 8 buf end),
     read_field td_mrTd_update (copyAndAdvance_array 48 buf end),
     read_field td_mrConfigId_update (copyAndAdvance_array 48 buf end),
     read_field td_mrOwner_update (copyAndAdvance_array 48 buf end),
     read_field td_mrOwnerConfig_update (copyAndAdvance_array 48 buf end),
     read_field td_rtMr0_update (copyAndAdvance_array 48 buf end),
     read_field td_rtMr1_update (copyAndAdvance_array 48 buf end),
     read_field td_rtMr2_update (copyAndAdvance_array 48 buf end),
     read_field td_rtMr3_update (copyAndAdvance_array 48 buf end),
     read_field td_reportData_update (copyAndAdvance_array 64 buf end)]"

definition tdReport15_insert :: "bytes \<Rightarrow> nat \<Rightarrow> 'a td_report15_scheme step" where
  "tdReport15_insert buf end = run_steps [
     tdReport10_insert buf end,
     read_field td_teeTcbSvn2_update (copyAndAdvance_array 16 buf end),
     read_field td_mrServiceTd_update (copyAndAdvance_array 48 buf end)]"

definition tdReport15Ex_insert :: "bytes \<Rightarrow> nat \<Rightarrow> 'a td_report15ex_scheme step" where
  "tdReport15Ex_insert buf end = run_steps [
     tdReport15_insert buf end,
     read_field td_vmid_update (copyAndAdvance_array 1 buf end),
     read_field td_tdId_update (copyAndAdvance_array 32 buf end),
     read_field td_devInfo_update (copyAndAdvance_array 48 buf end),
     read_field td_initServTdHash_update (copyAndAdvance_array 48 buf end),
     read_field td_initServTdAttributes_update (copyAndAdvance_array 8 buf end),
     read_field td_initCpuSvn_update (copyAndAdvance_array 16 buf end),
     read_field td_initTeeTcbSvn_update (copyAndAdvance_array 16 buf end),
     read_field td_initTeeFmspc_update (copyAndAdvance_array 12 buf end),
     read_field td_curServTdHash_update (copyAndAdvance_array 48 buf end),
     read_field td_curServTdAttributes_update (copyAndAdvance_array 8 buf end)]"

definition signature_insert :: "bytes \<Rightarrow> nat \<Rightarrow> ecdsa256_signature step" where
  "signature_insert buf end =
     read_field signature_update (copyAndAdvance_array ECDSA_P256_SIGNATURE_BYTE_LEN buf end)"

definition pubkey_insert :: "bytes \<Rightarrow> nat \<Rightarrow> ecdsa256_pubkey step" where
  "pubkey_insert buf end = read_field pubKey_update (copyAndAdvance_array 64 buf end)"

definition qeAuthData_insert :: "bytes \<Rightarrow> nat \<Rightarrow> qe_auth_data step" where
  "qeAuthData_insert buf end = (\<lambda>(s, from).
     let amount = end - from in
     if end < from \<or> amount < QE_AUTH_DATA_SIZE_BYTE_LEN then (False, s, from)
     else
       let s1 = s\<lparr>qad_data := []\<rparr> in
       case copyAndAdvance_u16 buf end from of
         None \<Rightarrow> (False, s1, from)
       | Some (n, from1) \<Rightarrow>
           let s2 = s1\<lparr>qad_parsedDataSize := n\<rparr> in
           if unat n \<noteq> amount - QE_AUTH_DATA_SIZE_BYTE_LEN then (False, s2, from1 - 2)
           else if n = 0 then (True, s2, from1)
           else (True, s2\<lparr>qad_data := slice from1 (unat n) buf\<rparr>, from1 + unat n))"

definition certificationData_insert :: "bytes \<Rightarrow> nat \<Rightarrow> certification_data step" where
  "certificationData_insert buf end = (\<lambda>(s, from).
     let minLen = CERTIFICATION_DATA_SIZE_BYTE_LEN + CERTIFICATION_DATA_TYPE_BYTE_LEN;
         amount = end - from in
     if end < from \<or> amount < minLen then (False, s, from)
     else
       let s1 = s\<lparr>cd_data := []\<rparr> in
       case copyAndAdvance_u16 buf end from of
         None \<Rightarrow> (False, s1, from)
       | Some (t, from1) \<Rightarrow>
           let s2 = s1\<lparr>cd_type := t\<rparr> in
           (case copyAndAdvance_u32 buf end from1 of
              None \<Rightarrow> (False, s2, from1)
            | Some (n, from2) \<Rightarrow>
                let s3 = s2\<lparr>cd_parsedDataSize := n\<rparr> in
                if unat n \<noteq> amount - minLen then (False, s3, from2 - (2 + 4))
                else if n = 0 then (True, s3, from2)
                else (True, s3\<lparr>cd_data := slice from2 (unat n) buf\<rparr>, from2 + unat n)))"

text \<open>
  The two variable-size members are read the same way in the three authentication
  structures: peek the declared size, step back, insert with that size.
\<close>

definition sized_qeAuthData_insert :: "bytes \<Rightarrow> nat \<Rightarrow> qe_auth_data step" where
  "sized_qeAuthData_insert buf end = (\<lambda>(s, from).
     case copyAndAdvance_u16 buf end from of
       None \<Rightarrow> (False, s, from)
     | Some (authSize, from1) \<Rightarrow>
         copyAndAdvance_struct qeAuthData_insert (unat authSize + 2) buf end (s, from1 - 2))"

definition sized_certificationData_insert :: "bytes \<Rightarrow> nat \<Rightarrow> certification_data step" where
  "sized_certificationData_insert buf end = (\<lambda>(s, from).
     let available = int end - int from in
     if available < 0 \<or> nat available mod 2 ^ 32 < 2 then (False, s, from)
     else
       let from1 = from + 2 in
       case copyAndAdvance_u32 buf end from1 of
         None \<Rightarrow> (False, s, from1)
       | Some (qeCertSize, from2) \<Rightarrow>
           copyAndAdvance_struct certificationData_insert (unat qeCertSize + 2 + 4) buf end
             (s, from2 - (4 + 2)))"

definition qeReportCertificationData_insert ::
  "bytes \<Rightarrow> nat \<Rightarrow> qe_report_certification_data step" where
  "qeReportCertificationData_insert buf end = run_steps [
     on_member qrc_qeReport qrc_qeReport_update
       (copyAndAdvance_struct enclaveReport_insert ENCLAVE_REPORT_BYTE_LEN buf end),
     on_member qrc_qeReportSignature qrc_qeReportSignature_update
       (copyAndAdvance_struct signature_insert ECDSA_SIGNATURE_BYTE_LEN buf end),
     on_member qrc_qeAuthData qrc_qeAuthData_update (sized_qeAuthData_insert buf end),
     on_member qrc_certificationData qrc_certificationData_update
       (sized_certificationData_insert buf end),
     (\<lambda>(s, from). (from = end, s, from))]"

definition quoteV3AuthData_insert :: "bytes \<Rightarrow> nat \<Rightarrow> quote_v3_auth_data step" where
  "quoteV3AuthData_insert buf end = run_steps [
     on_member v3_ecdsa256BitSignature v3_ecdsa256BitSignature_update
       (copyAndAdvance_struct signature_insert ECDSA_SIGNATURE_BYTE_LEN buf end),
     on_member v3_ecdsaAttestationKey v3_ecdsaAttestationKey_update
       (copyAndAdvance_struct pubkey_insert ECDSA_PUBKEY_BYTE_LEN buf end),
     on_member v3_qeReport v3_qeReport_update
       (copyAndAdvance_struct enclaveReport_insert ENCLAVE_REPORT_BYTE_LEN buf end),
     on_member v3_qeReportSignature v3_qeReportSignature_update
       (copyAndAdvance_struct signature_insert ECDSA_SIGNATURE_BYTE_LEN buf end),
     on_member v3_qeAuthData v3_qeAuthData_update (sized_qeAuthData_insert buf end),
     on_member v3_certificationData v3_certificationData_update
       (sized_certificationData_insert buf end)]"

definition quoteV4AuthData_insert :: "bytes \<Rightarrow> nat \<Rightarrow> quote_v4_auth_data step" where
  "quoteV4AuthData_insert buf end = run_steps [
     on_member v4_ecdsa256BitSignature v4_ecdsa256BitSignature_update
       (copyAndAdvance_struct signature_insert ECDSA_SIGNATURE_BYTE_LEN buf end),
     on_member v4_ecdsaAttestationKey v4_ecdsaAttestationKey_update
       (copyAndAdvance_struct pubkey_insert ECDSA_PUBKEY_BYTE_LEN buf end),
     on_member v4_certificationData v4_certificationData_update
       (sized_certificationData_insert buf end)]"

section \<open>rawBlob\<close>

text \<open>
  Each \<^verbatim>\<open>std::copy\<close> writes at the output iterator into a zeroed array and
  \<^verbatim>\<open>std::advance\<close> moves it on.
\<close>

definition blit :: "bytes \<Rightarrow> nat \<times> bytes \<Rightarrow> nat \<times> bytes" where
  "blit src = (\<lambda>(to, ret). (to + length src, take to ret @ src @ drop (to + length src) ret))"

definition enclaveReport_rawBlob :: "enclave_report \<Rightarrow> bytes" where
  "enclaveReport_rawBlob r = snd (fold blit [
     er_cpuSvn r,
     toArray32 (swapBytes32 (er_miscSelect r)),
     er_reserved1 r,
     er_attributes r,
     er_mrEnclave r,
     er_reserved2 r,
     er_mrSigner r,
     er_reserved3 r,
     toArray16 (swapBytes16 (er_isvProdID r)),
     toArray16 (swapBytes16 (er_isvSvn r)),
     er_reserved4 r,
     er_reportData r] (0, replicate ENCLAVE_REPORT_BYTE_LEN 0))"

definition tdReport10_rawBlob :: "'a td_report10_scheme \<Rightarrow> bytes" where
  "tdReport10_rawBlob r = snd (fold blit [
     td_teeTcbSvn r, td_mrSeam r, td_mrSignerSeam r, td_seamAttributes r, td_tdAttributes r, td_xFAM r, td_mrTd r,
     td_mrConfigId r, td_mrOwner r, td_mrOwnerConfig r, td_rtMr0 r, td_rtMr1 r, td_rtMr2 r, td_rtMr3 r, td_reportData r] (0, replicate TD_REPORT10_BYTE_LEN 0))"

definition tdReport15_rawBlob :: "'a td_report15_scheme \<Rightarrow> bytes" where
  "tdReport15_rawBlob r =
     (let ret10 = tdReport10_rawBlob r;
          ret = snd (blit ret10 (0, replicate TD_REPORT15_BYTE_LEN 0))
      in snd (fold blit [td_teeTcbSvn2 r, td_mrServiceTd r] (TD_REPORT10_BYTE_LEN, ret)))"

definition tdReport15Ex_rawBlob :: "'a td_report15ex_scheme \<Rightarrow> bytes" where
  "tdReport15Ex_rawBlob r =
     (let ret15 = tdReport15_rawBlob r;
          ret = snd (blit ret15 (0, replicate TD_REPORT15EX_BYTE_LEN 0))
      in snd (fold blit [
           td_vmid r, td_tdId r, td_devInfo r, td_initServTdHash r, td_initServTdAttributes r,
           td_initCpuSvn r, td_initTeeTcbSvn r, td_initTeeFmspc r, td_curServTdHash r, td_curServTdAttributes r]
           (TD_REPORT15_BYTE_LEN, ret)))"

section \<open>Value-initialised structures\<close>

definition header_zero :: header where
  "header_zero = \<lparr>version = 0,
     attestationKeyType = 0,
     teeType = 0,
     qeSvn = 0,
     pceSvn = 0,
     qeVendorId = replicate 16 0,
     userData = replicate 20 0\<rparr>"

definition body_zero :: body where
  "body_zero = \<lparr>bodyType = 0,
     body_size = 0\<rparr>"

definition enclave_report_zero :: enclave_report where
  "enclave_report_zero = \<lparr>er_cpuSvn = replicate 16 0,
     er_miscSelect = 0,
     er_reserved1 = replicate 28 0,
     er_attributes = replicate 16 0,
     er_mrEnclave = replicate 32 0,
     er_reserved2 = replicate 32 0,
     er_mrSigner = replicate 32 0,
     er_reserved3 = replicate 96 0,
     er_isvProdID = 0,
     er_isvSvn = 0,
     er_reserved4 = replicate 60 0,
     er_reportData = replicate 64 0\<rparr>"

definition td_report10_zero :: td_report10 where
  "td_report10_zero = \<lparr>td_teeTcbSvn = replicate 16 0,
     td_mrSeam = replicate 48 0,
     td_mrSignerSeam = replicate 48 0,
     td_seamAttributes = replicate 8 0,
     td_tdAttributes = replicate 8 0,
     td_xFAM = replicate 8 0,
     td_mrTd = replicate 48 0,
     td_mrConfigId = replicate 48 0,
     td_mrOwner = replicate 48 0,
     td_mrOwnerConfig = replicate 48 0,
     td_rtMr0 = replicate 48 0,
     td_rtMr1 = replicate 48 0,
     td_rtMr2 = replicate 48 0,
     td_rtMr3 = replicate 48 0,
     td_reportData = replicate 64 0\<rparr>"

definition td_report15_zero :: td_report15 where
  "td_report15_zero = \<lparr>td_teeTcbSvn = replicate 16 0,
     td_mrSeam = replicate 48 0,
     td_mrSignerSeam = replicate 48 0,
     td_seamAttributes = replicate 8 0,
     td_tdAttributes = replicate 8 0,
     td_xFAM = replicate 8 0,
     td_mrTd = replicate 48 0,
     td_mrConfigId = replicate 48 0,
     td_mrOwner = replicate 48 0,
     td_mrOwnerConfig = replicate 48 0,
     td_rtMr0 = replicate 48 0,
     td_rtMr1 = replicate 48 0,
     td_rtMr2 = replicate 48 0,
     td_rtMr3 = replicate 48 0,
     td_reportData = replicate 64 0,
     td_teeTcbSvn2 = replicate 16 0,
     td_mrServiceTd = replicate 48 0\<rparr>"

definition td_report15ex_zero :: td_report15ex where
  "td_report15ex_zero = \<lparr>td_teeTcbSvn = replicate 16 0,
     td_mrSeam = replicate 48 0,
     td_mrSignerSeam = replicate 48 0,
     td_seamAttributes = replicate 8 0,
     td_tdAttributes = replicate 8 0,
     td_xFAM = replicate 8 0,
     td_mrTd = replicate 48 0,
     td_mrConfigId = replicate 48 0,
     td_mrOwner = replicate 48 0,
     td_mrOwnerConfig = replicate 48 0,
     td_rtMr0 = replicate 48 0,
     td_rtMr1 = replicate 48 0,
     td_rtMr2 = replicate 48 0,
     td_rtMr3 = replicate 48 0,
     td_reportData = replicate 64 0,
     td_teeTcbSvn2 = replicate 16 0,
     td_mrServiceTd = replicate 48 0,
     td_vmid = replicate 1 0,
     td_tdId = replicate 32 0,
     td_devInfo = replicate 48 0,
     td_initServTdHash = replicate 48 0,
     td_initServTdAttributes = replicate 8 0,
     td_initCpuSvn = replicate 16 0,
     td_initTeeTcbSvn = replicate 16 0,
     td_initTeeFmspc = replicate 12 0,
     td_curServTdHash = replicate 48 0,
     td_curServTdAttributes = replicate 8 0\<rparr>"

definition signature_zero :: ecdsa256_signature where
  "signature_zero = \<lparr>signature = replicate 64 0\<rparr>"

definition pubkey_zero :: ecdsa256_pubkey where
  "pubkey_zero = \<lparr>pubKey = replicate 64 0\<rparr>"

definition qe_auth_data_zero :: qe_auth_data where
  "qe_auth_data_zero = \<lparr>qad_parsedDataSize = 0, qad_data = []\<rparr>"

definition certification_data_zero :: certification_data where
  "certification_data_zero = \<lparr>cd_type = 0, cd_parsedDataSize = 0, cd_data = []\<rparr>"

definition qrc_zero :: qe_report_certification_data where
  "qrc_zero = \<lparr>qrc_qeReport = enclave_report_zero, qrc_qeReportSignature = signature_zero,
     qrc_qeAuthData = qe_auth_data_zero, qrc_certificationData = certification_data_zero\<rparr>"

definition v3_zero :: quote_v3_auth_data where
  "v3_zero = \<lparr>v3_ecdsa256BitSignature = signature_zero, v3_ecdsaAttestationKey = pubkey_zero,
     v3_qeReport = enclave_report_zero, v3_qeReportSignature = signature_zero,
     v3_qeAuthData = qe_auth_data_zero, v3_certificationData = certification_data_zero\<rparr>"

definition v4_zero :: quote_v4_auth_data where
  "v4_zero = \<lparr>v4_ecdsa256BitSignature = signature_zero, v4_ecdsaAttestationKey = pubkey_zero,
     v4_certificationData = certification_data_zero\<rparr>"

section \<open>The layout as a table of offsets\<close>

definition u16_le :: "bytes \<Rightarrow> nat \<Rightarrow> u16" where
  "u16_le bs i = swapBytes16 (toUint16 (bs ! i) (bs ! (i + 1)))"

definition u32_le :: "bytes \<Rightarrow> nat \<Rightarrow> u32" where
  "u32_le bs i = swapBytes32 (toUint32 (bs ! i) (bs ! (i + 1)) (bs ! (i + 2)) (bs ! (i + 3)))"

definition fill_header :: "bytes \<Rightarrow> header \<Rightarrow> header" where
  "fill_header bs r = (r)\<lparr>version := u16_le bs 0,
     attestationKeyType := u16_le bs 2,
     teeType := u32_le bs 4,
     qeSvn := u16_le bs 8,
     pceSvn := u16_le bs 10,
     qeVendorId := slice 12 16 bs,
     userData := slice 28 20 bs\<rparr>"

definition fill_body :: "bytes \<Rightarrow> body \<Rightarrow> body" where
  "fill_body bs r = (r)\<lparr>bodyType := u16_le bs 0,
     body_size := u32_le bs 2\<rparr>"

definition fill_enclaveReport :: "bytes \<Rightarrow> enclave_report \<Rightarrow> enclave_report" where
  "fill_enclaveReport bs r = (r)\<lparr>er_cpuSvn := slice 0 16 bs,
     er_miscSelect := u32_le bs 16,
     er_reserved1 := slice 20 28 bs,
     er_attributes := slice 48 16 bs,
     er_mrEnclave := slice 64 32 bs,
     er_reserved2 := slice 96 32 bs,
     er_mrSigner := slice 128 32 bs,
     er_reserved3 := slice 160 96 bs,
     er_isvProdID := u16_le bs 256,
     er_isvSvn := u16_le bs 258,
     er_reserved4 := slice 260 60 bs,
     er_reportData := slice 320 64 bs\<rparr>"

definition fill_tdReport10 :: "bytes \<Rightarrow> 'a td_report10_scheme \<Rightarrow> 'a td_report10_scheme" where
  "fill_tdReport10 bs r = (r)\<lparr>td_teeTcbSvn := slice 0 16 bs,
     td_mrSeam := slice 16 48 bs,
     td_mrSignerSeam := slice 64 48 bs,
     td_seamAttributes := slice 112 8 bs,
     td_tdAttributes := slice 120 8 bs,
     td_xFAM := slice 128 8 bs,
     td_mrTd := slice 136 48 bs,
     td_mrConfigId := slice 184 48 bs,
     td_mrOwner := slice 232 48 bs,
     td_mrOwnerConfig := slice 280 48 bs,
     td_rtMr0 := slice 328 48 bs,
     td_rtMr1 := slice 376 48 bs,
     td_rtMr2 := slice 424 48 bs,
     td_rtMr3 := slice 472 48 bs,
     td_reportData := slice 520 64 bs\<rparr>"

definition fill_tdReport15 :: "bytes \<Rightarrow> 'a td_report15_scheme \<Rightarrow> 'a td_report15_scheme" where
  "fill_tdReport15 bs r = (fill_tdReport10 bs r)\<lparr>td_teeTcbSvn2 := slice 584 16 bs,
     td_mrServiceTd := slice 600 48 bs\<rparr>"

definition fill_tdReport15Ex :: "bytes \<Rightarrow> 'a td_report15ex_scheme \<Rightarrow> 'a td_report15ex_scheme" where
  "fill_tdReport15Ex bs r = (fill_tdReport15 bs r)\<lparr>td_vmid := slice 648 1 bs,
     td_tdId := slice 649 32 bs,
     td_devInfo := slice 681 48 bs,
     td_initServTdHash := slice 729 48 bs,
     td_initServTdAttributes := slice 777 8 bs,
     td_initCpuSvn := slice 785 16 bs,
     td_initTeeTcbSvn := slice 801 16 bs,
     td_initTeeFmspc := slice 817 12 bs,
     td_curServTdHash := slice 829 48 bs,
     td_curServTdAttributes := slice 877 8 bs\<rparr>"

definition wf_enclaveReport :: "enclave_report \<Rightarrow> bool" where
  "wf_enclaveReport r \<longleftrightarrow>
     length (er_cpuSvn r) = 16 \<and>
     length (er_reserved1 r) = 28 \<and>
     length (er_attributes r) = 16 \<and>
     length (er_mrEnclave r) = 32 \<and>
     length (er_reserved2 r) = 32 \<and>
     length (er_mrSigner r) = 32 \<and>
     length (er_reserved3 r) = 96 \<and>
     length (er_reserved4 r) = 60 \<and>
     length (er_reportData r) = 64"

definition wf_tdReport10 :: "'a td_report10_scheme \<Rightarrow> bool" where
  "wf_tdReport10 r \<longleftrightarrow>
     length (td_teeTcbSvn r) = 16 \<and>
     length (td_mrSeam r) = 48 \<and>
     length (td_mrSignerSeam r) = 48 \<and>
     length (td_seamAttributes r) = 8 \<and>
     length (td_tdAttributes r) = 8 \<and>
     length (td_xFAM r) = 8 \<and>
     length (td_mrTd r) = 48 \<and>
     length (td_mrConfigId r) = 48 \<and>
     length (td_mrOwner r) = 48 \<and>
     length (td_mrOwnerConfig r) = 48 \<and>
     length (td_rtMr0 r) = 48 \<and>
     length (td_rtMr1 r) = 48 \<and>
     length (td_rtMr2 r) = 48 \<and>
     length (td_rtMr3 r) = 48 \<and>
     length (td_reportData r) = 64"

definition wf_tdReport15 :: "'a td_report15_scheme \<Rightarrow> bool" where
  "wf_tdReport15 r \<longleftrightarrow>
     wf_tdReport10 r \<and>
     length (td_teeTcbSvn2 r) = 16 \<and>
     length (td_mrServiceTd r) = 48"

definition wf_tdReport15Ex :: "'a td_report15ex_scheme \<Rightarrow> bool" where
  "wf_tdReport15Ex r \<longleftrightarrow>
     wf_tdReport15 r \<and>
     length (td_vmid r) = 1 \<and>
     length (td_tdId r) = 32 \<and>
     length (td_devInfo r) = 48 \<and>
     length (td_initServTdHash r) = 48 \<and>
     length (td_initServTdAttributes r) = 8 \<and>
     length (td_initCpuSvn r) = 16 \<and>
     length (td_initTeeTcbSvn r) = 16 \<and>
     length (td_initTeeFmspc r) = 12 \<and>
     length (td_curServTdHash r) = 48 \<and>
     length (td_curServTdAttributes r) = 8"

end
