(* ===== verification/CollateralVerifiers.thy ===== *)
theory CollateralVerifiers
  imports ChainVerifiers QuoteStructures
begin

text \<open>
  \<^verbatim>\<open>Verifiers/TCBInfoVerifier.cpp\<close>, \<^verbatim>\<open>EnclaveIdentityVerifier.cpp\<close>
  and \<^verbatim>\<open>EnclaveReportVerifier.cpp\<close>: the signed JSON documents and the comparison
  of an enclave's report with the identity expected of it.  The two document verifiers take the
  shared pointers of the chain after the signing chain was verified; the model reads them with
  \<open>the\<close>, and the lemma \<open>signing_chain_present\<close> shows that they are not null there.
  The locale \<open>signed_document\<close> is the contract both documents have with their users.
\<close>

section \<open>Verifiers\<close>

definition tcbInfo_verify ::
  "'key openssl \<Rightarrow> tcb_info \<Rightarrow> cert_chain \<Rightarrow> crl_store \<Rightarrow> certificate \<Rightarrow> time_t \<Rightarrow> status" where
  "tcbInfo_verify ssl tcbJson chain rootCaCrl trustedRoot expirationDate =
     (let status = tcbSigningChain_verify ssl chain rootCaCrl trustedRoot in
      if status \<noteq> STATUS_OK then status
      else
      let tcbSigningCert = the (ch_topmostCert chain) in
      if \<not> checkSha256EcdsaSignature ssl
             (ti_signature tcbJson) (ti_infoBody tcbJson) (cert_pubKey tcbSigningCert) then
        STATUS_TCB_INFO_INVALID_SIGNATURE
      else
      let rootCa = the (ch_rootCert chain) in
      if expirationDate > notAfterTime (cert_validity rootCa) then STATUS_SGX_SIGNING_CERT_CHAIN_EXPIRED
      else if expirationDate > notAfterTime (cert_validity tcbSigningCert) then
        STATUS_SGX_SIGNING_CERT_CHAIN_EXPIRED
      else if crl_expired rootCaCrl expirationDate then STATUS_SGX_CRL_EXPIRED
      else if expirationDate > ti_nextUpdate tcbJson then STATUS_SGX_TCB_INFO_EXPIRED
      else STATUS_OK)"

definition enclaveIdentity_verify ::
  "'key openssl \<Rightarrow> enclave_identity \<Rightarrow> cert_chain \<Rightarrow> crl_store \<Rightarrow> certificate \<Rightarrow> time_t \<Rightarrow> status" where
  "enclaveIdentity_verify ssl enclaveIdentity chain rootCaCrl trustedRoot expirationDate =
     (let status = tcbSigningChain_verify ssl chain rootCaCrl trustedRoot in
      if status \<noteq> STATUS_OK then status
      else
      let tcbSigningCert = the (ch_topmostCert chain) in
      if \<not> checkSha256EcdsaSignature ssl
             (ei_signature enclaveIdentity) (ei_body enclaveIdentity) (cert_pubKey tcbSigningCert) then
        STATUS_SGX_ENCLAVE_IDENTITY_INVALID_SIGNATURE
      else
      let validityDateTcbSigCert = notAfterTime (cert_validity tcbSigningCert) in
      if expirationDate > validityDateTcbSigCert then STATUS_SGX_SIGNING_CERT_CHAIN_EXPIRED
      else
      let rootCA = the (ch_rootCert chain);
          validityDateRootCA = notAfterTime (cert_validity rootCA) in
      if expirationDate > validityDateRootCA then STATUS_SGX_SIGNING_CERT_CHAIN_EXPIRED
      else if crl_expired rootCaCrl expirationDate then STATUS_SGX_CRL_EXPIRED
      else if expirationDate > ei_nextUpdate enclaveIdentity then STATUS_SGX_ENCLAVE_IDENTITY_EXPIRED
      else STATUS_OK)"

text \<open>The code dereferences four iterators unchecked; the parser only builds vectors of four.\<close>

definition vectorToUint32 :: "bytes \<Rightarrow> u32" where
  "vectorToUint32 input = swapBytes32 (toUint32 (input ! 0) (input ! 1) (input ! 2) (input ! 3))"

definition enclaveReport_verify :: "enclave_identity \<Rightarrow> enclave_report \<Rightarrow> status" where
  "enclaveReport_verify enclaveIdentity enclaveReport =
     (let miscselectMask = vectorToUint32 (ei_miscselectMask enclaveIdentity);
          miscselect = vectorToUint32 (ei_miscselect enclaveIdentity) in
      if er_miscSelect enclaveReport AND miscselectMask \<noteq> miscselect then
        STATUS_SGX_ENCLAVE_REPORT_MISCSELECT_MISMATCH
      else if applyMask (er_attributes enclaveReport) (ei_attributesMask enclaveIdentity) \<noteq>
                ei_attributes enclaveIdentity then
        STATUS_SGX_ENCLAVE_REPORT_ATTRIBUTES_MISMATCH
      else if ei_mrSigner enclaveIdentity \<noteq> [] \<and>
              ei_mrSigner enclaveIdentity \<noteq> er_mrSigner enclaveReport then
        STATUS_SGX_ENCLAVE_REPORT_MRSIGNER_MISMATCH
      else if ucast (er_isvProdID enclaveReport) \<noteq> ei_isvProdId enclaveIdentity then
        STATUS_SGX_ENCLAVE_REPORT_ISVPRODID_MISMATCH
      else case getTcbLevel enclaveIdentity (ucast (er_isvSvn enclaveReport)) of
        Inl _ \<Rightarrow> STATUS_SGX_ENCLAVE_REPORT_ISVSVN_NOT_SUPPORTED
      | Inr matchedTcbLevel \<Rightarrow>
          (let enclaveIdentityStatus = il_tcbStatus matchedTcbLevel in
           if enclaveIdentityStatus \<noteq> TS_UpToDate then
             (if enclaveIdentityStatus = TS_Revoked then STATUS_SGX_ENCLAVE_REPORT_ISVSVN_REVOKED
              else STATUS_SGX_ENCLAVE_REPORT_ISVSVN_OUT_OF_DATE)
           else STATUS_OK))"

text \<open>\<^verbatim>\<open>getTcbLevel\<close> throws nothing but the exception the verifier catches.\<close>

lemma getTcbLevel_throws: "throws_only {StatusNotSupportedException} (getTcbLevel ident n)"
  by (simp add: getTcbLevel_def first_level_find split: option.splits)

section \<open>Signed documents\<close>

lemma signing_chain_present:
  "tcbSigningChain_verify ssl chain crl root = STATUS_OK \<Longrightarrow>
   ch_topmostCert chain \<noteq> None \<and> ch_rootCert chain \<noteq> None"
  by (auto simp: tcbSigningChain_verify_ok)

text \<open>A raw signature of 64 bytes under the key of a certificate.\<close>

definition raw_signed_by :: "'key openssl \<Rightarrow> bytes \<Rightarrow> bytes \<Rightarrow> bytes \<Rightarrow> bool" where
  "raw_signed_by ssl pub message sig \<longleftrightarrow>
     length sig = 64 \<and> signed_by ssl pub message (rawEcdsaSignatureToDER ssl sig)"

lemma checkSha256EcdsaSignature_iff:
  "checkSha256EcdsaSignature ssl sig message pub \<longleftrightarrow> raw_signed_by ssl pub message sig"
proof (cases "length sig = 64")
  case True
  then show ?thesis
    by (auto simp: checkSha256EcdsaSignature_def raw_signed_by_def rawToP256PubKey_eq signed_by_def
        verify_bytes_key split: option.splits)
next
  case False
  then show ?thesis
    by (auto simp: checkSha256EcdsaSignature_def raw_signed_by_def
        verifySha256EcdsaSignature_bytes_def split: option.splits)
qed

text \<open>
  What a document verifier promises: a status of the signing chain is passed on, and otherwise the
  document is accepted exactly when the signing certificate signed its body and nothing has run out.
\<close>

locale signed_document =
  fixes verify :: "'doc \<Rightarrow> cert_chain \<Rightarrow> crl_store \<Rightarrow> certificate \<Rightarrow> time_t \<Rightarrow> status"
    and chain_verify :: "cert_chain \<Rightarrow> crl_store \<Rightarrow> certificate \<Rightarrow> status"
    and signed :: "bytes \<Rightarrow> 'doc \<Rightarrow> bool"
    and nextUpdate :: "'doc \<Rightarrow> time_t"
  assumes chain_status:
      "chain_verify chain crl root \<noteq> STATUS_OK \<Longrightarrow> verify doc chain crl root t = chain_verify chain crl root"
    and chain_present:
      "chain_verify chain crl root = STATUS_OK \<Longrightarrow> ch_topmostCert chain \<noteq> None \<and> ch_rootCert chain \<noteq> None"
    and accepted:
      "chain_verify chain crl root = STATUS_OK \<Longrightarrow>
       verify doc chain crl root t = STATUS_OK \<longleftrightarrow>
         signed (cert_pubKey (the (ch_topmostCert chain))) doc \<and>
         t \<le> notAfterTime (cert_validity (the (ch_rootCert chain))) \<and>
         t \<le> notAfterTime (cert_validity (the (ch_topmostCert chain))) \<and>
         notBeforeTime (crl_validity crl) \<le> t \<and> t \<le> notAfterTime (crl_validity crl) \<and>
         t \<le> nextUpdate doc"
begin

lemma accepts_iff:
  "verify doc chain crl root t = STATUS_OK \<longleftrightarrow>
     chain_verify chain crl root = STATUS_OK \<and>
     (\<exists>ca signing. ch_rootCert chain = Some ca \<and> ch_topmostCert chain = Some signing \<and>
        signed (cert_pubKey signing) doc \<and>
        t \<le> notAfterTime (cert_validity ca) \<and> t \<le> notAfterTime (cert_validity signing) \<and>
        notBeforeTime (crl_validity crl) \<le> t \<and> t \<le> notAfterTime (crl_validity crl) \<and>
        t \<le> nextUpdate doc)"
proof (cases "chain_verify chain crl root = STATUS_OK")
  case True
  with chain_present obtain ca signing where
    "ch_rootCert chain = Some ca" "ch_topmostCert chain = Some signing" by blast
  with True accepted show ?thesis by auto
next
  case False
  with chain_status show ?thesis by simp
qed

text \<open>The dates at which a document is accepted form an interval.\<close>

lemma interval:
  assumes "verify doc chain crl root t1 = STATUS_OK" "verify doc chain crl root t2 = STATUS_OK"
    and "t1 \<le> t" "t \<le> t2"
  shows "verify doc chain crl root t = STATUS_OK"
proof -
  from assms(1) have chain: "chain_verify chain crl root = STATUS_OK" by (simp add: accepts_iff)
  show ?thesis using assms by (simp add: accepted [OF chain])
qed

end

interpretation tcb_document: signed_document "tcbInfo_verify ssl" "tcbSigningChain_verify ssl"
    "\<lambda>pub doc. raw_signed_by ssl pub (ti_infoBody doc) (ti_signature doc)" ti_nextUpdate
  for ssl :: "'key openssl"
proof (unfold_locales, goal_cases)
  case (1 chain crl root doc t)
  then show ?case by (simp add: tcbInfo_verify_def)
next
  case (2 chain crl root)
  then show ?case by (rule signing_chain_present)
next
  case (3 chain crl root doc t)
  then show ?case
    by (auto simp: tcbInfo_verify_def passes checkSha256EcdsaSignature_iff crl_expired_not)
qed

interpretation identity_document: signed_document "enclaveIdentity_verify ssl" "tcbSigningChain_verify ssl"
    "\<lambda>pub doc. raw_signed_by ssl pub (ei_body doc) (ei_signature doc)" ei_nextUpdate
  for ssl :: "'key openssl"
proof (unfold_locales, goal_cases)
  case (1 chain crl root doc t)
  then show ?case by (simp add: enclaveIdentity_verify_def)
next
  case (2 chain crl root)
  then show ?case by (rule signing_chain_present)
next
  case (3 chain crl root doc t)
  then show ?case
    by (auto simp: enclaveIdentity_verify_def passes checkSha256EcdsaSignature_iff crl_expired_not)
qed

text \<open>
  C25: \<^verbatim>\<open>TCBInfoVerifier::verify\<close> accepts a TCB info exactly when the chain's
  root signed itself and the TCB signing certificate, is the trusted root, the root's list is signed
  by it and does not revoke the signing certificate, the signing certificate signed the body of the
  TCB info, and neither the root, the signing certificate, the list nor the TCB info has run out.
\<close>

theorem tcbInfo_verify_accepts:
  "tcbInfo_verify ssl doc chain crl trustedRoot t = STATUS_OK \<longleftrightarrow>
     (\<exists>root signing.
        ch_rootCert chain = Some root \<and> ch_topmostCert chain = Some signing \<and>
        commonNameContains (cert_subject root) SGX_ROOT_CA_CN_PHRASE \<and>
        commonNameContains (cert_subject signing) SGX_TCB_SIGNING_CN_PHRASE \<and>
        issued_by ssl root root \<and> issued_by ssl signing root \<and>
        dn_eq (cert_subject trustedRoot) (cert_issuer trustedRoot) \<and>
        sig_rawDer (cert_signature root) = sig_rawDer (cert_signature trustedRoot) \<and>
        crl_of ssl crl root \<and> cert_serialNumber signing \<notin> rev_serialNumber ` set (crl_revokedList crl) \<and>
        raw_signed_by ssl (cert_pubKey signing) (ti_infoBody doc) (ti_signature doc) \<and>
        t \<le> notAfterTime (cert_validity root) \<and> t \<le> notAfterTime (cert_validity signing) \<and>
        notBeforeTime (crl_validity crl) \<le> t \<and> t \<le> notAfterTime (crl_validity crl) \<and>
        t \<le> ti_nextUpdate doc)"
  unfolding tcb_document.accepts_iff tcbSigningChain_verify_ok by auto

text \<open>
  C26: the two document verifiers, which check the dates in different orders, accept the same
  documents: for equal bodies, signatures and next updates one returns OK exactly when the other
  does, at every date and for every chain.
\<close>

theorem document_verifiers_agree:
  "ti_infoBody info = ei_body ident \<and> ti_signature info = ei_signature ident \<and>
   ti_nextUpdate info = ei_nextUpdate ident \<Longrightarrow>
   tcbInfo_verify ssl info chain crl root t = STATUS_OK \<longleftrightarrow>
   enclaveIdentity_verify ssl ident chain crl root t = STATUS_OK"
  by (simp add: tcb_document.accepts_iff identity_document.accepts_iff)

section \<open>The report of an enclave\<close>

text \<open>The level an identity assigns to a security version, as its highest level not above it.\<close>

lemma highest_level_iff:
  assumes "wf_enclave_identity ident"
  shows "(\<exists>l. getTcbLevel ident n = Inr l \<and> P l) \<longleftrightarrow>
     (\<exists>l\<in>set (ei_identityTcbLevels ident). il_isvSvn l \<le> n \<and> P l \<and>
        (\<forall>k\<in>set (ei_identityTcbLevels ident). il_isvSvn k \<le> n \<longrightarrow> k = l \<or> identityTcbLevel_greater l k))"
proof (cases "List.find (\<lambda>l. il_isvSvn l \<le> n) (ei_identityTcbLevels ident)")
  case None
  then have "\<forall>l\<in>set (ei_identityTcbLevels ident). \<not> il_isvSvn l \<le> n" by (simp add: find_None_iff)
  with None show ?thesis by (auto simp: getTcbLevel_def first_level_find)
next
  case (Some l)
  let ?ls = "ei_identityTcbLevels ident"
  have l: "l \<in> set ?ls" "il_isvSvn l \<le> n" "\<forall>y\<in>set ?ls. il_isvSvn y \<le> n \<longrightarrow> y = l \<or> identityTcbLevel_greater l y"
    using identity_levels.find_first [OF _ Some] assms by (simp_all add: wf_enclave_identity_def)
  have "k = l" if "k \<in> set ?ls" "il_isvSvn k \<le> n"
      "\<forall>y\<in>set ?ls. il_isvSvn y \<le> n \<longrightarrow> y = k \<or> identityTcbLevel_greater k y" for k
    using that l identity_levels.before_irrefl identity_levels.before_trans by blast
  with l have "P l \<longleftrightarrow> (\<exists>k\<in>set ?ls. il_isvSvn k \<le> n \<and> P k \<and>
      (\<forall>y\<in>set ?ls. il_isvSvn y \<le> n \<longrightarrow> y = k \<or> identityTcbLevel_greater k y))"
    by blast
  with Some show ?thesis by (simp add: getTcbLevel_def first_level_find)
qed

lemma vectorToUint32_le: "vectorToUint32 v = u32_le v 0"
  by (simp add: vectorToUint32_def u32_le_def numeral_2_eq_2)

lemma applyMask_eq_iff:
  "length a = n \<Longrightarrow> length x = n \<Longrightarrow> 0 < n \<Longrightarrow>
   applyMask a m = x \<longleftrightarrow> length m = n \<and> (\<forall>i<n. a ! i AND m ! i = x ! i)"
  by (auto simp: applyMask_def list_eq_iff_nth_eq)

lemma enclaveReport_verify_ok:
  "enclaveReport_verify ident report = STATUS_OK \<longleftrightarrow>
     er_miscSelect report AND u32_le (ei_miscselectMask ident) 0 = u32_le (ei_miscselect ident) 0 \<and>
     applyMask (er_attributes report) (ei_attributesMask ident) = ei_attributes ident \<and>
     (ei_mrSigner ident = [] \<or> ei_mrSigner ident = er_mrSigner report) \<and>
     ucast (er_isvProdID report) = ei_isvProdId ident \<and>
     (\<exists>l. getTcbLevel ident (ucast (er_isvSvn report)) = Inr l \<and> il_tcbStatus l = TS_UpToDate)"
  by (auto simp: enclaveReport_verify_def Let_def vectorToUint32_le split: sum.splits)

definition enclave_sizes :: "enclave_identity \<Rightarrow> enclave_report \<Rightarrow> bool" where
  "enclave_sizes ident report \<longleftrightarrow> length (ei_attributes ident) = 16 \<and> length (er_attributes report) = 16"

text \<open>
  C27: a report is accepted against an enclave identity exactly when the masked misc-select and
  every masked byte of the attributes are the expected ones, the signer is the expected one if
  there is one, the product is the expected one, and the highest level of the identity not above
  the report's security version is up to date.
\<close>

theorem enclaveReport_verify_accepts:
  assumes "wf_enclave_identity ident" and "enclave_sizes ident report"
  shows "enclaveReport_verify ident report = STATUS_OK \<longleftrightarrow>
     er_miscSelect report AND u32_le (ei_miscselectMask ident) 0 = u32_le (ei_miscselect ident) 0 \<and>
     length (ei_attributesMask ident) = 16 \<and>
     (\<forall>i<16. er_attributes report ! i AND ei_attributesMask ident ! i = ei_attributes ident ! i) \<and>
     (ei_mrSigner ident = [] \<or> ei_mrSigner ident = er_mrSigner report) \<and>
     unat (er_isvProdID report) = unat (ei_isvProdId ident) \<and>
     (\<exists>l\<in>set (ei_identityTcbLevels ident).
        unat (il_isvSvn l) \<le> unat (er_isvSvn report) \<and> il_tcbStatus l = TS_UpToDate \<and>
        (\<forall>k\<in>set (ei_identityTcbLevels ident).
           unat (il_isvSvn k) \<le> unat (er_isvSvn report) \<longrightarrow> k = l \<or> identityTcbLevel_greater l k))"
proof -
  let ?n = "ucast (er_isvSvn report) :: u32"
  have unat_up: "unat (ucast w :: u32) = unat w" for w :: u16
    using unsigned_less [of w, where 'a = nat] by (simp add: unsigned_ucast_eq take_bit_nat_eq_self)
  have svn: "x \<le> ?n \<longleftrightarrow> unat x \<le> unat (er_isvSvn report)" for x :: u32
    by (simp add: word_le_nat_alt unat_up)
  have prod: "ucast (er_isvProdID report) = ei_isvProdId ident \<longleftrightarrow>
      unat (er_isvProdID report) = unat (ei_isvProdId ident)"
    by (metis unat_up unsigned_word_eqI)
  have level: "(\<exists>l. getTcbLevel ident ?n = Inr l \<and> il_tcbStatus l = TS_UpToDate) \<longleftrightarrow>
     (\<exists>l\<in>set (ei_identityTcbLevels ident). il_isvSvn l \<le> ?n \<and> il_tcbStatus l = TS_UpToDate \<and>
        (\<forall>k\<in>set (ei_identityTcbLevels ident). il_isvSvn k \<le> ?n \<longrightarrow> k = l \<or> identityTcbLevel_greater l k))"
    (is "?code = ?spec")
    by (rule highest_level_iff) (rule assms(1))
  show ?thesis
    using assms(2) by (simp add: enclaveReport_verify_ok prod level svn enclave_sizes_def
        applyMask_eq_iff [where n = 16])
qed

section \<open>Sample\<close>

text \<open>
  An instance of the parameter: the key is its own encoding, and a signature holds the first bytes
  of the message followed by the key's, or is the one of the sample certificates.  Under it a root and a
  signing certificate sign.
\<close>

definition sample_mac :: "bytes \<Rightarrow> bytes \<Rightarrow> bytes" where
  "sample_mac key message = take 64 (message @ tl key)"

definition sample_ssl :: "bytes openssl" where
  "sample_ssl = \<lparr>
     d2i_PublicKey = Some,
     i2d_ECDSA_SIG = (\<lambda>r s. Some (r @ s)),
     EVP_DigestVerify = (\<lambda>key message der. der = sample_mac key message \<or> message = [2] \<and> der = [1]),
     X509_CRL_verify = (\<lambda>crl key. crl = key),
     EVP_Digest = (\<lambda>b. Some (take 32 (b @ replicate 32 0)))\<rparr>"

definition sample_key :: "u8 \<Rightarrow> bytes" where
  "sample_key b = POINT_CONVERSION_UNCOMPRESSED # replicate 64 b"

definition sample_cert :: "distinguished_name \<Rightarrow> distinguished_name \<Rightarrow> u8 \<Rightarrow> u8 \<Rightarrow> certificate" where
  "sample_cert subject issuer key signer = \<lparr>
     cert_version = 3, cert_subject = subject, cert_issuer = issuer,
     cert_validity = \<lparr>notBeforeTime = 0, notAfterTime = 1000\<rparr>, cert_extensions = [],
     cert_signature = \<lparr>sig_rawDer = sample_mac (sample_key signer) [key, signer], sig_r = [], sig_s = []\<rparr>,
     cert_serialNumber = [key], cert_pubKey = sample_key key, cert_info = [key, signer],
     cert_pem = [], cert_crlDistributionPoint = []\<rparr>"

definition sample_ca :: certificate where
  "sample_ca = sample_cert ROOT_CA_SUBJECT ROOT_CA_SUBJECT 1 1"

definition sample_tcb_signing :: certificate where
  "sample_tcb_signing = sample_cert TCB_SUBJECT ROOT_CA_SUBJECT 2 1"

definition sample_signing_chain :: cert_chain where
  "sample_signing_chain = \<lparr>ch_certs = [sample_ca, sample_tcb_signing], ch_rootCert = Some sample_ca,
     ch_topmostCert = Some sample_tcb_signing, ch_pckCert = None\<rparr>"

definition sample_crl :: "crl_issuer \<Rightarrow> u8 \<Rightarrow> crl_store" where
  "sample_crl issuer key = \<lparr>
     crl_object = sample_key key, crl_issuer' = issuer,
     crl_validity = \<lparr>notBeforeTime = 5, notAfterTime = 100\<rparr>,
     crl_revokedList = [\<lparr>rev_dateStr = [], rev_serialNumber = [77]\<rparr>],
     crl_extensions = [\<lparr>ext_nid = NID_crl_number, ext_name = [], ext_value = []\<rparr>,
       \<lparr>ext_nid = NID_authority_key_identifier, ext_name = [], ext_value = []\<rparr>],
     crl_signature = \<lparr>sig_rawDer = [], sig_r = [], sig_s = []\<rparr>, crl_crlNum = 1\<rparr>"

definition sample_root_crl :: crl_store where
  "sample_root_crl = sample_crl ROOT_CA_CRL_ISSUER 1"

definition sample_qe_identity :: enclave_identity where
  "sample_qe_identity = \<lparr>
     ei_id = QE, ei_version = 2, ei_issueDate = 0, ei_nextUpdate = 50,
     ei_tcbEvaluationDataNumber = 1, ei_attributes = replicate 16 1, ei_attributesMask = replicate 16 3,
     ei_miscselect = [1, 0, 0, 0], ei_miscselectMask = [1, 0, 0, 0], ei_mrSigner = [],
     ei_isvProdId = 1,
     ei_identityTcbLevels = [
       \<lparr>il_isvSvn = 5, il_tcbDate = 0, il_tcbStatus = TS_UpToDate, il_advisoryIds = []\<rparr>,
       \<lparr>il_isvSvn = 2, il_tcbDate = 0, il_tcbStatus = TS_OutOfDate, il_advisoryIds = []\<rparr>],
     ei_body = [9, 9], ei_signature = sample_mac (sample_key 2) [9, 9]\<rparr>"

definition sample_qe_report :: enclave_report where
  "sample_qe_report = enclave_report_zero\<lparr>er_miscSelect := 1, er_attributes := replicate 16 5,
     er_isvProdID := 1, er_isvSvn := 6\<rparr>"

definition sample_signed_info :: tcb_info where
  "sample_signed_info = \<lparr>
     ti_id = SGX_ID, ti_version = 3, ti_issueDate = 0, ti_nextUpdate = 50, ti_fmspc = [],
     ti_pceId = [], ti_tcbLevels = [], ti_signature = sample_mac (sample_key 2) [9, 9],
     ti_infoBody = [9, 9],
     ti_tdxModule = \<lparr>tdxm_mrsigner = [], tdxm_attributes = [], tdxm_attributesMask = []\<rparr>,
     ti_tdxModuleIdentities = [], ti_tcbType = 0, ti_tcbEvaluationDataNumber = 1\<rparr>"

lemma sample_signed:
  "rawToP256PubKey sample_ssl (sample_key k) = Some (sample_key k)"
  "signed_by sample_ssl (sample_key k) m s \<longleftrightarrow> s = sample_mac (sample_key k) m \<or> m = [2] \<and> s = [1]"
  "crl_signed_by sample_ssl (sample_key k) crl \<longleftrightarrow> crl_object crl = sample_key k"
  by (simp_all add: rawToP256PubKey_eq sample_key_def signed_by_def crl_signed_by_def sample_ssl_def)

lemma sample_issued:
  "dn_eq issuer issuer' \<Longrightarrow>
   issued_by sample_ssl (sample_cert s issuer k signer) (sample_cert issuer' i signer n)"
  by (simp add: issued_by_def sample_cert_def sample_signed)

lemma sample_crl_of:
  "crl_named (sample_crl i k) s \<Longrightarrow> crl_of sample_ssl (sample_crl i k) (sample_cert s issuer k n)"
  by (simp add: crl_of_def sample_cert_def sample_signed) (simp add: sample_crl_def)

lemma sample_signing_chain_ok:
  "tcbSigningChain_verify sample_ssl sample_signing_chain sample_root_crl sample_ca = STATUS_OK"
proof -
  have "commonNameContains (cert_subject sample_ca) SGX_ROOT_CA_CN_PHRASE"
    "commonNameContains (cert_subject sample_tcb_signing) SGX_TCB_SIGNING_CN_PHRASE"
    "dn_eq (cert_subject sample_ca) (cert_issuer sample_ca)"
    "cert_serialNumber sample_tcb_signing \<notin> rev_serialNumber ` set (crl_revokedList sample_root_crl)"
    "crl_named sample_root_crl ROOT_CA_SUBJECT"
    by code_simp+
  moreover from calculation(5) have "crl_of sample_ssl sample_root_crl sample_ca"
    unfolding sample_root_crl_def sample_ca_def by (rule sample_crl_of)
  moreover have "issued_by sample_ssl sample_ca sample_ca" "issued_by sample_ssl sample_tcb_signing sample_ca"
    unfolding sample_ca_def sample_tcb_signing_def by (simp_all add: sample_issued)
  ultimately show ?thesis by (simp add: tcbSigningChain_verify_ok sample_signing_chain_def)
qed

lemma sample_signed_info_ok: "tcbInfo_verify sample_ssl sample_signed_info sample_signing_chain sample_root_crl sample_ca 20 = STATUS_OK"
proof -
  have "length (ti_signature sample_signed_info) = 64"
    "rawEcdsaSignatureToDER sample_ssl (ti_signature sample_signed_info) =
       sample_mac (sample_key 2) (ti_infoBody sample_signed_info)"
    by code_simp+
  then have "raw_signed_by sample_ssl (sample_key 2) (ti_infoBody sample_signed_info) (ti_signature sample_signed_info)"
    by (simp add: raw_signed_by_def sample_signed)
  then show ?thesis
    by (simp add: tcb_document.accepts_iff sample_signing_chain_ok)
      (simp add: sample_signing_chain_def sample_ca_def sample_tcb_signing_def sample_cert_def
        sample_root_crl_def sample_crl_def sample_signed_info_def)
qed

lemma document_verifiers_agree_witness:
  "tcbInfo_verify sample_ssl sample_signed_info sample_signing_chain sample_root_crl sample_ca 20 = STATUS_OK \<and>
   enclaveIdentity_verify sample_ssl sample_qe_identity sample_signing_chain sample_root_crl sample_ca 20 = STATUS_OK"
  using document_verifiers_agree [of sample_signed_info sample_qe_identity sample_ssl sample_signing_chain
      sample_root_crl sample_ca 20] sample_signed_info_ok
  by (simp add: sample_signed_info_def sample_qe_identity_def)

lemma enclaveReport_verify_accepts_witness:
  "enclaveReport_verify sample_qe_identity sample_qe_report = STATUS_OK"
proof -
  have "wf_enclave_identity sample_qe_identity" "enclave_sizes sample_qe_identity sample_qe_report" by code_simp+
  show ?thesis unfolding enclaveReport_verify_accepts [OF \<open>wf_enclave_identity sample_qe_identity\<close>
      \<open>enclave_sizes sample_qe_identity sample_qe_report\<close>]
    by code_simp
qed

end
