(* ===== verification/EvaluateTcb.thy ===== *)
theory EvaluateTcb
  imports TcbModel ByteOperands
begin

text \<open>
  \<^verbatim>\<open>Verifiers/Checks/EvaluateTcb.cpp\<close>, \<^verbatim>\<open>TdxModuleCheck.cpp\<close>
  and \<^verbatim>\<open>TDRelaunchCheck.cpp\<close>: matching a platform's security version numbers
  against the TCB levels, the QE identity and the TDX module identity, and converging the statuses.
  An exception is the \<open>Inl\<close> of an outcome; the out-parameters of an evaluation are the
  second component of its result, \<open>None\<close> where the code leaves them untouched.
\<close>

section \<open>Statuses\<close>

datatype evaluation_status =
    NotSupported
  | UpToDate
  | OutOfDate
  | ConfigurationNeeded
  | Revoked
  | OutOfDateConfigurationNeeded
  | SWHardeningNeeded
  | ConfigurationAndSWHardeningNeeded
  | TdRelaunchAdvised
  | TdRelaunchAdvisedConfigurationNeeded

definition EVALUATION_STATUS_TO_STATUS_MAP :: "(evaluation_status \<times> status) list" where
  "EVALUATION_STATUS_TO_STATUS_MAP = [
     (NotSupported, STATUS_TCB_NOT_SUPPORTED),
     (UpToDate, STATUS_OK),
     (OutOfDate, STATUS_TCB_OUT_OF_DATE),
     (ConfigurationNeeded, STATUS_TCB_CONFIGURATION_NEEDED),
     (Revoked, STATUS_TCB_REVOKED),
     (OutOfDateConfigurationNeeded, STATUS_TCB_OUT_OF_DATE_CONFIGURATION_NEEDED),
     (SWHardeningNeeded, STATUS_TCB_SW_HARDENING_NEEDED),
     (ConfigurationAndSWHardeningNeeded, STATUS_TCB_CONFIGURATION_AND_SW_HARDENING_NEEDED),
     (TdRelaunchAdvised, STATUS_TCB_TD_RELAUNCH_ADVISED),
     (TdRelaunchAdvisedConfigurationNeeded, STATUS_TCB_TD_RELAUNCH_ADVISED_CONFIGURATION_NEEDED)]"

definition VALID_QE_STATUSES :: "(tcb_status \<times> evaluation_status) list" where
  "VALID_QE_STATUSES = [
     (TS_UpToDate, UpToDate),
     (TS_OutOfDate, OutOfDate),
     (TS_ConfigurationNeeded, ConfigurationNeeded),
     (TS_Revoked, Revoked),
     (TS_OutOfDateConfigurationNeeded, OutOfDateConfigurationNeeded)]"

definition VALID_TCB_INFO_STATUSES :: "(string \<times> evaluation_status) list" where
  "VALID_TCB_INFO_STATUSES = [
     (''UpToDate'', UpToDate),
     (''OutOfDate'', OutOfDate),
     (''ConfigurationNeeded'', ConfigurationNeeded),
     (''Revoked'', Revoked),
     (''OutOfDateConfigurationNeeded'', OutOfDateConfigurationNeeded),
     (''SWHardeningNeeded'', SWHardeningNeeded),
     (''ConfigurationAndSWHardeningNeeded'', ConfigurationAndSWHardeningNeeded)]"

definition VALID_TDX_MODULE_STATUSES :: "(string \<times> evaluation_status) list" where
  "VALID_TDX_MODULE_STATUSES = [
     (''UpToDate'', UpToDate),
     (''OutOfDate'', OutOfDate),
     (''Revoked'', Revoked)]"

definition mapToEvaluationStatusOrThrow ::
  "'k \<Rightarrow> ('k \<times> evaluation_status) list \<Rightarrow> evaluation_status outcome" where
  "mapToEvaluationStatusOrThrow key mapping =
     (case map_of mapping key of
        None \<Rightarrow> Inl (RuntimeException STATUS_TCB_UNRECOGNIZED_STATUS)
      | Some s \<Rightarrow> Inr s)"

definition TDX_MODULE_MAJOR_SVN_INDEX :: nat where [simp]: "TDX_MODULE_MAJOR_SVN_INDEX = 1"
definition TDX_MODULE_MINOR_SVN_INDEX :: nat where [simp]: "TDX_MODULE_MINOR_SVN_INDEX = 0"

section \<open>Comparing version numbers\<close>

function areSvnsHigherOrEqual :: "bytes \<Rightarrow> tcb_component list \<Rightarrow> nat \<Rightarrow> bool outcome" where
  "areSvnsHigherOrEqual tcbComponents tcbLevelComponents index =
     (if index < CPUSVN_BYTE_LEN then
        bindE (vec_at tcbComponents index) (\<lambda>componentValue.
        bindE (vec_at tcbLevelComponents index) (\<lambda>other.
          if componentValue < comp_svn other then Inr False
          else areSvnsHigherOrEqual tcbComponents tcbLevelComponents (index + 1)))
      else Inr True)"
  by pat_completeness auto
termination
  by (relation "measure (\<lambda>(_, _, index). CPUSVN_BYTE_LEN - index)") simp_all

declare areSvnsHigherOrEqual.simps [simp del]

section \<open>The platform level\<close>

type_synonym platform_match = "time_t \<times> evaluation_status \<times> string list"

definition accept_level :: "tcb_level \<Rightarrow> platform_match option outcome" where
  "accept_level tcbLevel =
     bindE (mapToEvaluationStatusOrThrow (tl_status tcbLevel) VALID_TCB_INFO_STATUSES)
       (\<lambda>s. Inr (Some (tl_tcbDate tcbLevel, s, tl_advisoryIDs tcbLevel)))"

primrec sgx_platform_level :: "bytes \<Rightarrow> u32 \<Rightarrow> tcb_level list \<Rightarrow> platform_match option outcome" where
  "sgx_platform_level tcbComponents pceSvn [] = Inr None"
| "sgx_platform_level tcbComponents pceSvn (tcbLevel # rest) =
     bindE (getSgxTcbComponents tcbLevel) (\<lambda>sgx.
     bindE (areSvnsHigherOrEqual tcbComponents sgx 0) (\<lambda>higher.
       if higher \<and> pceSvn \<ge> tl_pceSvn tcbLevel then accept_level tcbLevel
       else sgx_platform_level tcbComponents pceSvn rest))"

primrec tdx_platform_level ::
  "bytes \<Rightarrow> u32 \<Rightarrow> bytes \<Rightarrow> nat \<Rightarrow> tcb_level list \<Rightarrow> platform_match option outcome" where
  "tdx_platform_level tcbComponents pceSvn teeTcbSvns start_index [] = Inr None"
| "tdx_platform_level tcbComponents pceSvn teeTcbSvns start_index (tcbLevel # rest) =
     bindE (getSgxTcbComponents tcbLevel) (\<lambda>sgx.
     bindE (areSvnsHigherOrEqual tcbComponents sgx 0) (\<lambda>higher.
       if higher \<and> pceSvn \<ge> tl_pceSvn tcbLevel then
         bindE (getTdxTcbComponents tcbLevel) (\<lambda>tdx.
         bindE (areSvnsHigherOrEqual teeTcbSvns tdx start_index) (\<lambda>tdxHigher.
           if tdxHigher then accept_level tcbLevel
           else tdx_platform_level tcbComponents pceSvn teeTcbSvns start_index rest))
       else tdx_platform_level tcbComponents pceSvn teeTcbSvns start_index rest))"

section \<open>The QE identity and the TDX module\<close>

type_synonym components = "evaluation_status list \<times> time_t list \<times> string list"

definition applyQeIdentity ::
  "enclave_identity option \<Rightarrow> u16 \<Rightarrow> components \<Rightarrow> components outcome" where
  "applyQeIdentity qeIdentity qeSvn = (\<lambda>(componentStatuses, tcbDates, qeAdvisoryIds).
     case qeIdentity of
       None \<Rightarrow> Inr (componentStatuses, tcbDates, qeAdvisoryIds)
     | Some ident \<Rightarrow>
         bindE (getTcbLevel ident (ucast qeSvn)) (\<lambda>tcbLevel.
         bindE (mapToEvaluationStatusOrThrow (il_tcbStatus tcbLevel) VALID_QE_STATUSES) (\<lambda>s.
           Inr (componentStatuses @ [s], tcbDates @ [il_tcbDate tcbLevel],
                il_advisoryIds tcbLevel))))"

text \<open>\<^verbatim>\<open>::toupper\<close> in the C locale.\<close>

definition toupper :: "char \<Rightarrow> char" where
  "toupper c =
     (let n = (of_char c :: nat) in if 97 \<le> n \<and> n \<le> 122 then char_of (n - 32) else c)"

definition findTdxModuleIdentity ::
  "tdx_module_identity list \<Rightarrow> u8 \<Rightarrow> tdx_module_identity option" where
  "findTdxModuleIdentity tdxModuleIdentities tdxModuleVersion =
     (let tdxModuleIdentityId = ''TDX_'' @ bytesToHexString [tdxModuleVersion]
      in List.find (\<lambda>m. map toupper (tdxi_id m) = tdxModuleIdentityId) tdxModuleIdentities)"

primrec tdx_module_level :: "u8 \<Rightarrow> tdx_module_tcb_level list \<Rightarrow> platform_match option outcome" where
  "tdx_module_level minor [] = Inr None"
| "tdx_module_level minor (tcbLevel # rest) =
     (if ucast minor \<ge> tdxt_isvsvn (tdxl_tcb tcbLevel) then
        bindE (mapToEvaluationStatusOrThrow (tdxl_tcbStatus tcbLevel) VALID_TDX_MODULE_STATUSES)
          (\<lambda>s. Inr (Some (tdxl_tcbDate tcbLevel, s, tdxl_advisoryIDs tcbLevel)))
      else tdx_module_level minor rest)"

section \<open>Convergence\<close>

definition convergeTcbStatuses :: "evaluation_status \<Rightarrow> evaluation_status list \<Rightarrow> status" where
  "convergeTcbStatuses platformTcbStatus componentStatuses =
     (let anyOutOfDate = list_ex (\<lambda>s. s = OutOfDate) componentStatuses;
          anyRevoked = list_ex (\<lambda>s. s = Revoked) componentStatuses;
          effective0 = platformTcbStatus;
          effective1 =
            (if anyOutOfDate then
               let e = (if platformTcbStatus = UpToDate \<or> platformTcbStatus = SWHardeningNeeded
                        then OutOfDate else effective0)
               in if platformTcbStatus = ConfigurationNeeded \<or>
                     platformTcbStatus = ConfigurationAndSWHardeningNeeded
                  then OutOfDateConfigurationNeeded else e
             else effective0);
          effective2 = (if anyRevoked then Revoked else effective1)
      in case map_of EVALUATION_STATUS_TO_STATUS_MAP effective2 of
           None \<Rightarrow> STATUS_TCB_UNRECOGNIZED_STATUS
         | Some s \<Rightarrow> s)"

fun min_element :: "'a :: linorder list \<Rightarrow> 'a" where
  "min_element [x] = x"
| "min_element (x # y # ys) = min x (min_element (y # ys))"

record tcb_evaluation =
  ev_tcbStatus :: status
  ev_tcbDate :: time_t
  ev_advisoryIds :: "string list"

definition concat_copy :: "'a list \<Rightarrow> 'a list \<Rightarrow> 'a list \<Rightarrow> 'a list" where
  "concat_copy a b c = a @ b @ c"

definition finalizeTcbEvaluation ::
  "evaluation_status \<Rightarrow> evaluation_status list \<Rightarrow> time_t list \<Rightarrow> string list \<Rightarrow> string list \<Rightarrow>
   string list \<Rightarrow> status \<times> tcb_evaluation option" where
  "finalizeTcbEvaluation platformTcbStatus componentStatuses tcbDates platformAdvisoryIds
     qeAdvisoryIds extraAdvisoryIds =
     (STATUS_OK, Some \<lparr>
        ev_tcbStatus = convergeTcbStatuses platformTcbStatus componentStatuses,
        ev_tcbDate = min_element tcbDates,
        ev_advisoryIds = concat_copy platformAdvisoryIds qeAdvisoryIds extraAdvisoryIds\<rparr>)"

section \<open>The two evaluations\<close>

type_synonym evaluation = "status \<times> tcb_evaluation option"

text \<open>\<^verbatim>\<open>catch (const std::exception &)\<close>: every modelled exception derives from it.\<close>

definition catch_std :: "evaluation outcome \<Rightarrow> evaluation" where
  "catch_std m = (case m of Inl _ \<Rightarrow> (STATUS_TCB_NOT_SUPPORTED, None) | Inr r \<Rightarrow> r)"

definition sgxEvaluateTCB ::
  "bytes \<Rightarrow> u32 \<Rightarrow> u16 \<Rightarrow> tcb_info \<Rightarrow> enclave_identity option \<Rightarrow> evaluation" where
  "sgxEvaluateTCB tcbComponents pceSvn qeSvn tcbInfo qeIdentity = catch_std
     (bindE (sgx_platform_level tcbComponents pceSvn (ti_tcbLevels tcbInfo)) (\<lambda>level.
        case level of
          None \<Rightarrow> Inr (STATUS_TCB_NOT_SUPPORTED, None)
        | Some (platformTcbDate, platformTcbStatus, platformAdvisoryIds) \<Rightarrow>
            bindE (applyQeIdentity qeIdentity qeSvn ([], [platformTcbDate], []))
              (\<lambda>(componentStatuses, tcbDates, qeAdvisoryIds).
                 Inr (finalizeTcbEvaluation platformTcbStatus componentStatuses tcbDates
                        platformAdvisoryIds qeAdvisoryIds []))))"

text \<open>The TDX module part: \<open>Inr (Inl s)\<close> is \<^verbatim>\<open>return s\<close>.\<close>

definition tdx_module_part ::
  "bytes \<Rightarrow> tcb_info \<Rightarrow> time_t \<Rightarrow> (status + (evaluation_status list \<times> time_t list \<times> string list)) outcome"
where
  "tdx_module_part teeTcbSvns tcbInfo platformTcbDate =
     bindE (vec_at teeTcbSvns TDX_MODULE_MAJOR_SVN_INDEX) (\<lambda>tdxModuleVersion.
       if tdxModuleVersion > 0 then
         bindE (getTdxModuleIdentities tcbInfo) (\<lambda>identities.
           case findTdxModuleIdentity identities tdxModuleVersion of
             None \<Rightarrow> Inr (Inl STATUS_TCB_NOT_SUPPORTED)
           | Some tdxModuleIdentity \<Rightarrow>
               if tdxi_tcbLevels tdxModuleIdentity = [] then Inr (Inl STATUS_TCB_NOT_SUPPORTED)
               else
                 bindE (vec_at teeTcbSvns TDX_MODULE_MINOR_SVN_INDEX) (\<lambda>minor.
                 bindE (tdx_module_level minor (tdxi_tcbLevels tdxModuleIdentity)) (\<lambda>level.
                   case level of
                     None \<Rightarrow> Inr (Inl STATUS_TCB_NOT_SUPPORTED)
                   | Some (tdxModuleTcbDate, tdxModuleTcbStatus, tdxModuleAdvisoryIds) \<Rightarrow>
                       Inr (Inr ([tdxModuleTcbStatus], [platformTcbDate, tdxModuleTcbDate],
                                 tdxModuleAdvisoryIds)))))
       else Inr (Inr ([], [platformTcbDate], [])))"

definition tdxEvaluateTCB ::
  "bytes \<Rightarrow> u32 \<Rightarrow> u16 \<Rightarrow> bytes \<Rightarrow> tcb_info \<Rightarrow> enclave_identity option \<Rightarrow> evaluation" where
  "tdxEvaluateTCB tcbComponents pceSvn qeSvn teeTcbSvns tcbInfo qeIdentity = catch_std
     (bindE (vec_at teeTcbSvns TDX_MODULE_MAJOR_SVN_INDEX) (\<lambda>major.
      bindE (tdx_platform_level tcbComponents pceSvn teeTcbSvns (if major > 0 then 2 else 0)
               (ti_tcbLevels tcbInfo)) (\<lambda>level.
        case level of
          None \<Rightarrow> Inr (STATUS_TCB_NOT_SUPPORTED, None)
        | Some (platformTcbDate, platformTcbStatus, platformAdvisoryIds) \<Rightarrow>
            bindE (tdx_module_part teeTcbSvns tcbInfo platformTcbDate) (\<lambda>part.
              case part of
                Inl s \<Rightarrow> Inr (s, None)
              | Inr (moduleStatuses, moduleDates, tdxModuleAdvisoryIds) \<Rightarrow>
                  bindE (applyQeIdentity qeIdentity qeSvn (moduleStatuses, moduleDates, []))
                    (\<lambda>(componentStatuses, tcbDates, qeAdvisoryIds).
                       Inr (finalizeTcbEvaluation platformTcbStatus componentStatuses tcbDates
                              platformAdvisoryIds qeAdvisoryIds tdxModuleAdvisoryIds))))))"

section \<open>Relaunch\<close>

definition isConfigurationNeeded :: "status \<Rightarrow> bool" where
  "isConfigurationNeeded s =
     (s = STATUS_TCB_CONFIGURATION_NEEDED \<or>
      s = STATUS_TCB_OUT_OF_DATE_CONFIGURATION_NEEDED \<or>
      s = STATUS_TCB_CONFIGURATION_AND_SW_HARDENING_NEEDED \<or>
      s = STATUS_TCB_TD_RELAUNCH_ADVISED_CONFIGURATION_NEEDED)"

definition checkForRelaunch :: "status \<Rightarrow> status \<Rightarrow> status" where
  "checkForRelaunch launchTcbStatus currentTcbStatus =
     (if launchTcbStatus = STATUS_TCB_OUT_OF_DATE \<or>
         launchTcbStatus = STATUS_TCB_OUT_OF_DATE_CONFIGURATION_NEEDED then
        if currentTcbStatus = STATUS_OK \<or> currentTcbStatus = STATUS_TCB_SW_HARDENING_NEEDED \<or>
           currentTcbStatus = STATUS_TCB_CONFIGURATION_NEEDED \<or>
           currentTcbStatus = STATUS_TCB_CONFIGURATION_AND_SW_HARDENING_NEEDED then
          if isConfigurationNeeded launchTcbStatus \<or> isConfigurationNeeded currentTcbStatus
          then STATUS_TCB_TD_RELAUNCH_ADVISED_CONFIGURATION_NEEDED
          else STATUS_TCB_TD_RELAUNCH_ADVISED
        else launchTcbStatus
      else launchTcbStatus)"


section \<open>Which level matches\<close>

definition svns_reach :: "bytes \<Rightarrow> tcb_component list \<Rightarrow> nat \<Rightarrow> bool" where
  "svns_reach t cs i \<longleftrightarrow> (\<forall>j. i \<le> j \<and> j < 16 \<longrightarrow> comp_svn (cs ! j) \<le> t ! j)"

lemma svns_reach_step:
  "svns_reach t cs i \<longleftrightarrow> (i < 16 \<longrightarrow> comp_svn (cs ! i) \<le> t ! i \<and> svns_reach t cs (Suc i))"
  unfolding svns_reach_def by (auto simp: Suc_le_eq) (metis le_neq_implies_less)

lemma areSvnsHigherOrEqual_iff:
  "16 \<le> length t \<Longrightarrow> 16 \<le> length cs \<Longrightarrow> areSvnsHigherOrEqual t cs i = Inr (svns_reach t cs i)"
proof (induction t cs i rule: areSvnsHigherOrEqual.induct)
  case (1 t cs i)
  note split = svns_reach_step [of t cs i]
  show ?case
  proof (cases "i < 16")
    case True
    then have "vec_at t i = Inr (t ! i)" "vec_at cs i = Inr (cs ! i)" using 1(2,3) by auto
    with True 1 show ?thesis
      by (subst areSvnsHigherOrEqual.simps) (auto simp: split not_less not_le)
  next
    case False
    then show ?thesis by (subst areSvnsHigherOrEqual.simps) (simp add: split)
  qed
qed

text \<open>Levels whose component vectors have the 16 entries the parser builds.\<close>

definition wf_level :: "tcb_level \<Rightarrow> bool" where
  "wf_level l \<longleftrightarrow>
     (tl_version l = 2 \<and> length (tl_cpuSvnComponents l) = 16 \<or>
      tl_version l = 3 \<and> length (tl_sgxTcbComponents l) = 16) \<and>
     (tl_version l = 3 \<and> tl_id l = TDX_ID \<longrightarrow> length (tl_tdxTcbComponents l) = 16) \<and>
     tl_status l \<in> fst ` set VALID_TCB_INFO_STATUSES"

definition sgx_components :: "tcb_level \<Rightarrow> tcb_component list" where
  "sgx_components l = (if tl_version l = 2 then tl_cpuSvnComponents l else tl_sgxTcbComponents l)"

definition sgx_matches :: "bytes \<Rightarrow> u32 \<Rightarrow> tcb_level \<Rightarrow> bool" where
  "sgx_matches t pce l \<longleftrightarrow> svns_reach t (sgx_components l) 0 \<and> tl_pceSvn l \<le> pce"

definition tdx_matches :: "bytes \<Rightarrow> u32 \<Rightarrow> bytes \<Rightarrow> nat \<Rightarrow> tcb_level \<Rightarrow> bool" where
  "tdx_matches t pce tee start l \<longleftrightarrow>
     sgx_matches t pce l \<and> svns_reach tee (tl_tdxTcbComponents l) start"

definition level_status :: "tcb_level \<Rightarrow> evaluation_status" where
  "level_status l = the (map_of VALID_TCB_INFO_STATUSES (tl_status l))"

definition level_result :: "tcb_level \<Rightarrow> platform_match" where
  "level_result l = (tl_tcbDate l, level_status l, tl_advisoryIDs l)"

lemma getSgxTcbComponents_wf:
  "wf_level l \<Longrightarrow> getSgxTcbComponents l = Inr (sgx_components l) \<and> length (sgx_components l) = 16"
  by (auto simp: wf_level_def getSgxTcbComponents_def sgx_components_def)

lemma accept_level_wf: "wf_level l \<Longrightarrow> accept_level l = Inr (Some (level_result l))"
  by (auto simp: wf_level_def accept_level_def mapToEvaluationStatusOrThrow_def level_result_def
      level_status_def VALID_TCB_INFO_STATUSES_def)

lemma sgx_platform_level_find:
  assumes "length t = 16" and "\<forall>l\<in>set ls. wf_level l"
  shows "sgx_platform_level t pce ls = Inr (map_option level_result (List.find (sgx_matches t pce) ls))"
  using assms(2)
proof (induction ls)
  case Nil
  then show ?case by simp
next
  case (Cons l ls)
  then show ?case
    using assms(1) getSgxTcbComponents_wf [of l]
    by (auto simp: areSvnsHigherOrEqual_iff accept_level_wf sgx_matches_def)
qed

lemma tdx_platform_level_find:
  assumes "length t = 16" and "length tee = 16"
    and "\<forall>l\<in>set ls. wf_level l \<and> tl_version l = 3 \<and> tl_id l = TDX_ID"
  shows "tdx_platform_level t pce tee start ls =
    Inr (map_option level_result (List.find (tdx_matches t pce tee start) ls))"
  using assms(3)
proof (induction ls)
  case Nil
  then show ?case by simp
next
  case (Cons l ls)
  have l: "wf_level l" using Cons.prems by auto
  have IH: "tdx_platform_level t pce tee start ls =
      Inr (map_option level_result (List.find (tdx_matches t pce tee start) ls))"
    by (rule Cons.IH) (use Cons.prems in auto)
  from Cons.prems have "getTdxTcbComponents l = Inr (tl_tdxTcbComponents l)"
    "length (tl_tdxTcbComponents l) = 16"
    by (simp_all add: getTdxTcbComponents_def wf_level_def)
  with l assms(1,2) IH getSgxTcbComponents_wf [OF l] show ?case
    by (simp add: areSvnsHigherOrEqual_iff accept_level_wf sgx_matches_def [of _ _ l]
        tdx_matches_def [of _ _ _ _ l])
qed


section \<open>What the evaluations guarantee\<close>

definition wf_levels :: "tcb_info \<Rightarrow> bool" where
  "wf_levels ti \<longleftrightarrow> wf_tcb_info ti \<and> (\<forall>l\<in>set (ti_tcbLevels ti). wf_level l)"

lemma find_highest:
  assumes "wf_levels ti" and "List.find P (ti_tcbLevels ti) = Some l"
  shows "l \<in> set (ti_tcbLevels ti) \<and> P l \<and> wf_level l \<and>
    (\<forall>k\<in>set (ti_tcbLevels ti). P k \<longrightarrow> k = l \<or> tcbLevel_greater l k)"
proof -
  have "tcb_levels.ordered (ti_version ti) (ti_id ti) (ti_tcbLevels ti)"
    using assms(1) by (simp add: wf_levels_def wf_tcb_info_def)
  from tcb_levels.find_first [OF this assms(2)] assms(1) show ?thesis
    by (auto simp: wf_levels_def)
qed

text \<open>The contribution of the QE identity; \<open>None\<close> when no level of it applies.\<close>

definition qe_status :: "tcb_status \<Rightarrow> evaluation_status" where
  "qe_status s = the (map_of VALID_QE_STATUSES s)"

definition qe_part :: "enclave_identity option \<Rightarrow> u16 \<Rightarrow> components option" where
  "qe_part qe n = (case qe of
      None \<Rightarrow> Some ([], [], [])
    | Some e \<Rightarrow> (case getTcbLevel e (ucast n) of
          Inl _ \<Rightarrow> None
        | Inr l \<Rightarrow> Some ([qe_status (il_tcbStatus l)], [il_tcbDate l], il_advisoryIds l)))"

lemma map_qe_status: "mapToEvaluationStatusOrThrow s VALID_QE_STATUSES = Inr (qe_status s)"
  by (cases s) (simp_all add: mapToEvaluationStatusOrThrow_def qe_status_def VALID_QE_STATUSES_def)

lemma first_level_error: "first_level n ls = Inl x \<Longrightarrow> x = StatusNotSupportedException"
  by (induction ls) (auto split: if_splits)

lemma applyQeIdentity_part:
  "applyQeIdentity qe n (cs, ds, []) =
     (case qe_part qe n of
        None \<Rightarrow> Inl StatusNotSupportedException
      | Some (c, d, a) \<Rightarrow> Inr (cs @ c, ds @ d, a))"
  using first_level_error
  by (auto simp: applyQeIdentity_def qe_part_def map_qe_status getTcbLevel_def
      split: option.split sum.split)

definition sgx_reference ::
  "bytes \<Rightarrow> u32 \<Rightarrow> u16 \<Rightarrow> tcb_info \<Rightarrow> enclave_identity option \<Rightarrow> evaluation" where
  "sgx_reference t pce qeSvn ti qe =
     (case List.find (sgx_matches t pce) (ti_tcbLevels ti) of
        None \<Rightarrow> (STATUS_TCB_NOT_SUPPORTED, None)
      | Some l \<Rightarrow> (case qe_part qe qeSvn of
            None \<Rightarrow> (STATUS_TCB_NOT_SUPPORTED, None)
          | Some (c, d, a) \<Rightarrow> (STATUS_OK, Some \<lparr>
              ev_tcbStatus = convergeTcbStatuses (level_status l) c,
              ev_tcbDate = min_element (tl_tcbDate l # d),
              ev_advisoryIds = tl_advisoryIDs l @ a\<rparr>)))"

lemma sgxEvaluateTCB_reference:
  assumes "wf_levels ti" and "length t = 16"
  shows "sgxEvaluateTCB t pce qeSvn ti qe = sgx_reference t pce qeSvn ti qe"
proof (cases "List.find (sgx_matches t pce) (ti_tcbLevels ti)")
  case None
  with assms show ?thesis
    by (simp add: sgxEvaluateTCB_def sgx_reference_def sgx_platform_level_find wf_levels_def
        catch_std_def)
next
  case (Some l)
  with assms show ?thesis
    by (simp add: sgxEvaluateTCB_def sgx_reference_def sgx_platform_level_find wf_levels_def
        catch_std_def level_result_def applyQeIdentity_part finalizeTcbEvaluation_def
        concat_copy_def split: option.split prod.split)
qed

lemma sgx_matches_iff:
  "sgx_matches t pce l \<longleftrightarrow> (\<forall>j<16. comp_svn (sgx_components l ! j) \<le> t ! j) \<and> tl_pceSvn l \<le> pce"
  by (auto simp: sgx_matches_def svns_reach_def)

text \<open>
  C8: an SGX evaluation rests on the highest TCB level the platform reaches: every component SVN and
  the PCE SVN are at least the level's, and every other level the platform reaches is lower.  The
  status is that level's converged with the QE identity's, the advisories are those of both, and the
  date is the earlier one.  When the platform reaches no level, or the quoting enclave none of its
  identity, the evaluation reports STATUS_TCB_NOT_SUPPORTED without a result, and otherwise it succeeds.
\<close>

theorem sgxEvaluateTCB_highest_level:
  assumes "wf_levels ti" and "length t = 16"
  shows "(\<forall>ev. sgxEvaluateTCB t pce qeSvn ti qe = (STATUS_OK, Some ev) \<longrightarrow>
     (\<exists>l\<in>set (ti_tcbLevels ti). \<exists>c d a.
       (\<forall>j<16. comp_svn (sgx_components l ! j) \<le> t ! j) \<and> tl_pceSvn l \<le> pce \<and>
       (\<forall>k\<in>set (ti_tcbLevels ti). sgx_matches t pce k \<longrightarrow> k = l \<or> tcbLevel_greater l k) \<and>
       qe_part qe qeSvn = Some (c, d, a) \<and>
       ev_tcbStatus ev = convergeTcbStatuses (level_status l) c \<and>
       ev_advisoryIds ev = tl_advisoryIDs l @ a \<and>
       ev_tcbDate ev = min_element (tl_tcbDate l # d))) \<and>
   (if (\<exists>l\<in>set (ti_tcbLevels ti). (\<forall>j<16. comp_svn (sgx_components l ! j) \<le> t ! j) \<and> tl_pceSvn l \<le> pce) \<and>
       qe_part qe qeSvn \<noteq> None
    then \<exists>ev. sgxEvaluateTCB t pce qeSvn ti qe = (STATUS_OK, Some ev)
    else sgxEvaluateTCB t pce qeSvn ti qe = (STATUS_TCB_NOT_SUPPORTED, None))"
proof (cases "List.find (sgx_matches t pce) (ti_tcbLevels ti)")
  case None
  then have "\<forall>l\<in>set (ti_tcbLevels ti). \<not> sgx_matches t pce l" by (auto simp: find_None_iff)
  with None assms show ?thesis by (simp add: sgxEvaluateTCB_reference sgx_reference_def flip: sgx_matches_iff)
next
  case (Some l)
  note found = Some and high = find_highest [OF assms(1) Some]
  then have l: "l \<in> set (ti_tcbLevels ti)" "\<forall>j<16. comp_svn (sgx_components l ! j) \<le> t ! j" "tl_pceSvn l \<le> pce"
    "\<forall>k\<in>set (ti_tcbLevels ti). sgx_matches t pce k \<longrightarrow> k = l \<or> tcbLevel_greater l k"
    by (simp_all add: sgx_matches_iff)
  show ?thesis
  proof (cases "qe_part qe qeSvn")
    case None
    with found assms show ?thesis by (simp add: sgxEvaluateTCB_reference sgx_reference_def)
  next
    case (Some p)
    moreover obtain c d a where "p = (c, d, a)" by (cases p)
    ultimately have "sgxEvaluateTCB t pce qeSvn ti qe = (STATUS_OK, Some \<lparr>
        ev_tcbStatus = convergeTcbStatuses (level_status l) c,
        ev_tcbDate = min_element (tl_tcbDate l # d), ev_advisoryIds = tl_advisoryIDs l @ a\<rparr>)"
      "qe_part qe qeSvn = Some (c, d, a)"
      using found assms by (simp_all add: sgxEvaluateTCB_reference sgx_reference_def)
    then show ?thesis using l by (auto intro!: bexI [of _ l])
  qed
qed

text \<open>
  C10: raising SVNs never lowers the level: if every component SVN and the PCE SVN of a platform are
  at least another's, the level its evaluation uses is the other's or a higher one.
\<close>

theorem higher_svns_reach_higher_level:
  assumes "wf_levels ti" and "length t = 16" and "length t' = 16"
    and "\<forall>j<16. t ! j \<le> t' ! j" and "pce \<le> pce'"
    and "sgx_platform_level t pce (ti_tcbLevels ti) = Inr (Some r)"
  shows "\<exists>l\<in>set (ti_tcbLevels ti). \<exists>l'\<in>set (ti_tcbLevels ti).
     r = level_result l \<and>
     sgx_platform_level t' pce' (ti_tcbLevels ti) = Inr (Some (level_result l')) \<and>
     (l' = l \<or> tcbLevel_greater l' l)"
proof -
  have wf: "\<forall>l\<in>set (ti_tcbLevels ti). wf_level l" using assms(1) by (simp add: wf_levels_def)
  obtain l where l: "List.find (sgx_matches t pce) (ti_tcbLevels ti) = Some l" "r = level_result l"
    using assms(6) sgx_platform_level_find [OF assms(2) wf, of pce] by auto
  note high = find_highest [OF assms(1) l(1)]
  then have "sgx_matches t' pce' l"
    using assms(4,5) by (auto simp: sgx_matches_def svns_reach_def intro: order_trans)
  with high obtain l' where l': "List.find (sgx_matches t' pce') (ti_tcbLevels ti) = Some l'"
    by (cases "List.find (sgx_matches t' pce') (ti_tcbLevels ti)") (auto simp: find_None_iff)
  from find_highest [OF assms(1) l'] high \<open>sgx_matches t' pce' l\<close> l l'
    sgx_platform_level_find [OF assms(3) wf, of pce']
  show ?thesis by auto
qed


subsection \<open>TDX\<close>

definition module_status :: "tdx_module_tcb_level \<Rightarrow> evaluation_status option" where
  "module_status l = map_of VALID_TDX_MODULE_STATUSES (tdxl_tcbStatus l)"

definition module_matches :: "u8 \<Rightarrow> tdx_module_tcb_level \<Rightarrow> bool" where
  "module_matches minor l \<longleftrightarrow> tdxt_isvsvn (tdxl_tcb l) \<le> ucast minor"

lemma tdx_module_level_find:
  "tdx_module_level minor ls =
     (case List.find (module_matches minor) ls of
        None \<Rightarrow> Inr None
      | Some l \<Rightarrow> (case module_status l of
            None \<Rightarrow> Inl (RuntimeException STATUS_TCB_UNRECOGNIZED_STATUS)
          | Some s \<Rightarrow> Inr (Some (tdxl_tcbDate l, s, tdxl_advisoryIDs l))))"
  by (induction ls)
    (auto simp: module_matches_def module_status_def mapToEvaluationStatusOrThrow_def
      split: option.split)

text \<open>
  What the TDX module part contributes when it does not end the evaluation: nothing for module
  version 0, else the highest level of the matching identity the minor SVN reaches.
\<close>

definition module_part_ok ::
  "bytes \<Rightarrow> tcb_info \<Rightarrow> time_t \<Rightarrow> evaluation_status list \<times> time_t list \<times> string list \<Rightarrow> bool" where
  "module_part_ok tee ti d r \<longleftrightarrow>
     (if tee ! 1 = 0 then r = ([], [d], [])
      else \<exists>m ml s. findTdxModuleIdentity (ti_tdxModuleIdentities ti) (tee ! 1) = Some m \<and>
        List.find (module_matches (tee ! 0)) (tdxi_tcbLevels m) = Some ml \<and>
        module_status ml = Some s \<and> r = ([s], [d, tdxl_tcbDate ml], tdxl_advisoryIDs ml))"

lemma tdx_module_part_ok:
  assumes "length tee = 16" and "ti_version ti = 3" and "ti_id ti = TDX_ID"
  shows "tdx_module_part tee ti d = Inr (Inr r) \<longleftrightarrow> module_part_ok tee ti d r"
proof -
  have at: "vec_at tee 1 = Inr (tee ! 1)" "vec_at tee 0 = Inr (tee ! 0)" using assms(1) by auto
  have ids: "getTdxModuleIdentities ti = Inr (ti_tdxModuleIdentities ti)"
    using assms by (simp add: getTdxModuleIdentities_def)
  show ?thesis
    unfolding tdx_module_part_def module_part_ok_def TDX_MODULE_MAJOR_SVN_INDEX_def
      TDX_MODULE_MINOR_SVN_INDEX_def at ids bindE_simps tdx_module_level_find word_neq_0_conv [symmetric]
    by (auto split: option.split)
qed

lemma tdx_module_part_status:
  "tdx_module_part tee ti d = Inr (Inl s) \<Longrightarrow> s = STATUS_TCB_NOT_SUPPORTED"
  by (auto simp: tdx_module_part_def split: if_splits option.splits)

text \<open>
  C9: a successful TDX evaluation rests on the highest TCB level whose SGX components, PCE SVN and
  TDX components the platform reaches (the first two TDX components are left to the TDX module
  when its version is not 0), and, for such a version, on the highest level of the module identity
  named by it.
\<close>

theorem tdxEvaluateTCB_highest_level:
  assumes "wf_levels ti" and "ti_version ti = TcbInfo_V3" and "ti_id ti = TDX_ID"
    and "length t = 16" and "length tee = 16"
    and "tdxEvaluateTCB t pce qeSvn tee ti qe = (STATUS_OK, Some ev)"
  shows "\<exists>l\<in>set (ti_tcbLevels ti). \<exists>ms ds as c d a.
     (let start = (if tee ! 1 > 0 then 2 else 0) in
      tdx_matches t pce tee start l \<and>
      (\<forall>k\<in>set (ti_tcbLevels ti). tdx_matches t pce tee start k \<longrightarrow> k = l \<or> tcbLevel_greater l k)) \<and>
     module_part_ok tee ti (tl_tcbDate l) (ms, ds, as) \<and>
     qe_part qe qeSvn = Some (c, d, a) \<and>
     ev = \<lparr>ev_tcbStatus = convergeTcbStatuses (level_status l) (ms @ c),
           ev_tcbDate = min_element (ds @ d),
           ev_advisoryIds = tl_advisoryIDs l @ a @ as\<rparr>"
proof -
  let ?start = "if tee ! 1 > 0 then 2 else 0"
  have wf: "\<forall>l\<in>set (ti_tcbLevels ti). wf_level l \<and> tl_version l = 3 \<and> tl_id l = TDX_ID"
    using assms(1-3) by (auto simp: wf_levels_def wf_tcb_info_def level_of_def)
  have at: "vec_at tee 1 = Inr (tee ! 1)" using assms(5) by simp
  note eval = assms(6) [unfolded tdxEvaluateTCB_def TDX_MODULE_MAJOR_SVN_INDEX_def at
      bindE_simps tdx_platform_level_find [OF assms(4,5) wf]]
  then obtain l where l: "List.find (tdx_matches t pce tee ?start) (ti_tcbLevels ti) = Some l"
    by (cases "List.find (tdx_matches t pce tee ?start) (ti_tcbLevels ti)")
      (auto simp: catch_std_def)
  note eval = eval [unfolded l option.map option.case level_result_def prod.case]
  from eval obtain ms ds as where part: "tdx_module_part tee ti (tl_tcbDate l) = Inr (Inr (ms, ds, as))"
    by (cases "tdx_module_part tee ti (tl_tcbDate l)")
      (auto simp: catch_std_def split: sum.splits dest!: tdx_module_part_status)
  note eval = eval [unfolded part bindE_simps sum.case prod.case applyQeIdentity_part]
  from eval obtain c d a where qe: "qe_part qe qeSvn = Some (c, d, a)"
    by (cases "qe_part qe qeSvn")
      (auto simp: catch_std_def)
  from eval part qe have "ev = \<lparr>ev_tcbStatus = convergeTcbStatuses (level_status l) (ms @ c),
      ev_tcbDate = min_element (ds @ d), ev_advisoryIds = tl_advisoryIDs l @ a @ as\<rparr>"
    by (simp add: catch_std_def finalizeTcbEvaluation_def concat_copy_def)
  moreover have "module_part_ok tee ti (tl_tcbDate l) (ms, ds, as)"
    using part tdx_module_part_ok [OF assms(5) _ assms(3)] assms(2) by simp
  ultimately show ?thesis using find_highest [OF assms(1) l] qe
    by (intro bexI [of _ l]) (auto simp: Let_def)
qed


subsection \<open>The converged status\<close>

lemma converge_ok_iff:
  "convergeTcbStatuses p cs = STATUS_OK \<longleftrightarrow>
     p = UpToDate \<and> OutOfDate \<notin> set cs \<and> Revoked \<notin> set cs"
  by (cases p)
    (auto simp: convergeTcbStatuses_def EVALUATION_STATUS_TO_STATUS_MAP_def list_ex_iff Let_def)

lemma converge_revoked_iff:
  "convergeTcbStatuses p cs = STATUS_TCB_REVOKED \<longleftrightarrow> p = Revoked \<or> Revoked \<in> set cs"
  by (cases p)
    (auto simp: convergeTcbStatuses_def EVALUATION_STATUS_TO_STATUS_MAP_def list_ex_iff Let_def)

definition evaluation_statuses :: "status set" where
  "evaluation_statuses = {STATUS_OK, STATUS_TCB_OUT_OF_DATE, STATUS_TCB_CONFIGURATION_NEEDED,
     STATUS_TCB_REVOKED, STATUS_TCB_OUT_OF_DATE_CONFIGURATION_NEEDED,
     STATUS_TCB_SW_HARDENING_NEEDED, STATUS_TCB_CONFIGURATION_AND_SW_HARDENING_NEEDED}"

definition level_statuses :: "evaluation_status set" where
  "level_statuses = snd ` set VALID_TCB_INFO_STATUSES"

lemma converge_range: "p \<in> level_statuses \<Longrightarrow> convergeTcbStatuses p cs \<in> evaluation_statuses"
  by (auto simp: level_statuses_def VALID_TCB_INFO_STATUSES_def evaluation_statuses_def
      convergeTcbStatuses_def EVALUATION_STATUS_TO_STATUS_MAP_def Let_def)

lemma level_status_range: "wf_level l \<Longrightarrow> level_status l \<in> level_statuses"
  by (auto simp: wf_level_def level_status_def level_statuses_def VALID_TCB_INFO_STATUSES_def)

lemma accept_level_range:
  "accept_level l = Inr (Some (d, s, a)) \<Longrightarrow> s \<in> level_statuses"
  by (auto simp: accept_level_def mapToEvaluationStatusOrThrow_def level_statuses_def
      split: option.splits dest!: map_of_SomeD intro: rev_image_eqI)

lemma sgx_platform_level_range:
  "sgx_platform_level t pce ls = Inr (Some (d, s, a)) \<Longrightarrow> s \<in> level_statuses"
  by (induction ls) (auto split: if_splits dest: accept_level_range)

lemma tdx_platform_level_range:
  "tdx_platform_level t pce tee start ls = Inr (Some (d, s, a)) \<Longrightarrow> s \<in> level_statuses"
  by (induction ls) (auto split: if_splits dest: accept_level_range)

lemma evaluation_cases:
  "r = sgxEvaluateTCB t pce qeSvn ti qe \<or> r = tdxEvaluateTCB t pce qeSvn tee ti qe \<Longrightarrow>
   r = (STATUS_TCB_NOT_SUPPORTED, None) \<or>
   (\<exists>ev. r = (STATUS_OK, Some ev) \<and> ev_tcbStatus ev \<in> evaluation_statuses)"
proof (elim disjE)
  assume "r = sgxEvaluateTCB t pce qeSvn ti qe"
  then show ?thesis
    by (auto simp: sgxEvaluateTCB_def catch_std_def finalizeTcbEvaluation_def bindE_def converge_range
        split: sum.splits option.splits dest!: sgx_platform_level_range)
next
  assume "r = tdxEvaluateTCB t pce qeSvn tee ti qe"
  then show ?thesis
    by (auto simp: tdxEvaluateTCB_def catch_std_def finalizeTcbEvaluation_def bindE_def converge_range
        split: sum.splits option.splits dest!: tdx_platform_level_range tdx_module_part_status)
qed

text \<open>
  C12: an evaluation, of SGX or TDX, whatever the collateral, either is refused with
  \<^verbatim>\<open>STATUS_TCB_NOT_SUPPORTED\<close> and leaves its outputs alone, or returns
  \<^verbatim>\<open>STATUS_OK\<close> with one of seven TCB statuses.  In particular an unrecognised status
  string never surfaces as \<^verbatim>\<open>STATUS_TCB_UNRECOGNIZED_STATUS\<close>: the exception that
  carries it is caught on the way.
\<close>

theorem evaluations_ok_or_not_supported:
  "r = sgxEvaluateTCB t pce qeSvn ti qe \<or> r = tdxEvaluateTCB t pce qeSvn tee ti qe \<Longrightarrow>
   r = (STATUS_TCB_NOT_SUPPORTED, None) \<or>
   (\<exists>ev. r = (STATUS_OK, Some ev) \<and> ev_tcbStatus ev \<in> evaluation_statuses)"
  by (rule evaluation_cases)

lemma evaluation_statuses_print:
  "s \<in> evaluation_statuses \<Longrightarrow> \<exists>str. printTCBStatus s = Inr str \<and> length str < 50"
  by (auto simp: evaluation_statuses_def printTCBStatus_def STATUS_TO_TCB_STRING_MAP_def)

lemma level_status_UpToDate:
  "wf_level l \<Longrightarrow> level_status l = UpToDate \<longleftrightarrow> tl_status l = ''UpToDate''"
  by (auto simp: wf_level_def level_status_def VALID_TCB_INFO_STATUSES_def)

lemma qe_status_simps:
  "qe_status s = OutOfDate \<longleftrightarrow> s = TS_OutOfDate" "qe_status s = Revoked \<longleftrightarrow> s = TS_Revoked"
  "OutOfDate = qe_status s \<longleftrightarrow> s = TS_OutOfDate" "Revoked = qe_status s \<longleftrightarrow> s = TS_Revoked"
  by (cases s; simp add: qe_status_def VALID_QE_STATUSES_def)+

text \<open>
  C11: the evaluation says \<^verbatim>\<open>STATUS_OK\<close> only for a platform whose highest level is
  \<^verbatim>\<open>"UpToDate"\<close> and a quoting enclave whose level is neither out of date nor revoked;
  a revoked component always gives \<^verbatim>\<open>STATUS_TCB_REVOKED\<close>.
\<close>

theorem sgx_ok_means_up_to_date:
  assumes "wf_levels ti" and "length t = 16"
    and "sgxEvaluateTCB t pce qeSvn ti (Some e) = (STATUS_OK, Some ev)"
  shows "(ev_tcbStatus ev = STATUS_OK \<longleftrightarrow>
     (\<exists>l il. List.find (sgx_matches t pce) (ti_tcbLevels ti) = Some l \<and> tl_status l = ''UpToDate'' \<and>
        getTcbLevel e (ucast qeSvn) = Inr il \<and> il_tcbStatus il \<notin> {TS_OutOfDate, TS_Revoked})) \<and>
    (\<forall>il. getTcbLevel e (ucast qeSvn) = Inr il \<and> il_tcbStatus il = TS_Revoked \<longrightarrow>
        ev_tcbStatus ev = STATUS_TCB_REVOKED)"
proof (cases "List.find (sgx_matches t pce) (ti_tcbLevels ti)")
  case None
  with assms show ?thesis by (simp add: sgxEvaluateTCB_reference sgx_reference_def)
next
  case (Some l)
  have "wf_level l" using find_highest [OF assms(1) Some] by simp
  with assms Some show ?thesis
    by (auto simp: sgxEvaluateTCB_reference sgx_reference_def qe_part_def converge_ok_iff
        converge_revoked_iff level_status_UpToDate qe_status_simps split: option.splits sum.splits)
qed


section \<open>A sample platform\<close>

definition sample_level :: "string \<Rightarrow> u8 \<Rightarrow> string \<Rightarrow> tcb_level" where
  "sample_level i svn st =
     tcbLevel_v3 i (replicate 16 (component_of_svn svn)) (replicate 16 (component_of_svn svn))
       10 st 100 [''INTEL-SA-00001'']"

definition sample_module :: tdx_module_identity where
  "sample_module = \<lparr>tdxi_id = ''TDX_01'', tdxi_mrsigner = replicate 48 0,
     tdxi_attributes = replicate 8 0, tdxi_attributesMask = replicate 8 255,
     tdxi_tcbLevels = [
       \<lparr>tdxl_tcb = \<lparr>tdxt_isvsvn = 3\<rparr>, tdxl_tcbDate = 90, tdxl_tcbStatus = ''UpToDate'',
        tdxl_advisoryIDs = []\<rparr>,
       \<lparr>tdxl_tcb = \<lparr>tdxt_isvsvn = 1\<rparr>, tdxl_tcbDate = 80, tdxl_tcbStatus = ''Unknown'',
        tdxl_advisoryIDs = []\<rparr>]\<rparr>"

definition sample_tcb_info :: "string \<Rightarrow> tcb_info" where
  "sample_tcb_info i = \<lparr>ti_id = i, ti_version = 3, ti_issueDate = 10, ti_nextUpdate = 1000,
     ti_fmspc = replicate 6 0, ti_pceId = replicate 2 0,
     ti_tcbLevels = [sample_level i 5 ''UpToDate'', sample_level i 3 ''OutOfDate''],
     ti_signature = replicate 64 0, ti_infoBody = [],
     ti_tdxModule = \<lparr>tdxm_mrsigner = replicate 48 0, tdxm_attributes = replicate 8 0,
       tdxm_attributesMask = replicate 8 255\<rparr>,
     ti_tdxModuleIdentities = [sample_module], ti_tcbType = 0, ti_tcbEvaluationDataNumber = 7\<rparr>"

definition sample_identity :: enclave_identity where
  "sample_identity = \<lparr>ei_id = TD_QE, ei_version = 2, ei_issueDate = 20, ei_nextUpdate = 900,
     ei_tcbEvaluationDataNumber = 8, ei_attributes = replicate 16 0,
     ei_attributesMask = replicate 16 255, ei_miscselect = replicate 4 0,
     ei_miscselectMask = replicate 4 255, ei_mrSigner = replicate 32 0, ei_isvProdId = 1,
     ei_identityTcbLevels = [
       \<lparr>il_isvSvn = 6, il_tcbDate = 60, il_tcbStatus = TS_UpToDate, il_advisoryIds = []\<rparr>,
       \<lparr>il_isvSvn = 4, il_tcbDate = 50, il_tcbStatus = TS_OutOfDate,
        il_advisoryIds = [''INTEL-SA-00002'']\<rparr>],
     ei_body = [], ei_signature = replicate 64 0\<rparr>"

lemma sample_level_wf: "st = ''UpToDate'' \<or> st = ''OutOfDate'' \<Longrightarrow> wf_level (sample_level i svn st)"
  by (auto simp: sample_level_def tcbLevel_v3_def wf_level_def VALID_TCB_INFO_STATUSES_def)

lemma vec_less_replicate: "n \<noteq> 0 \<Longrightarrow> lt a b \<Longrightarrow> vec_less lt (replicate n a) (replicate n b)"
  by (cases n) auto

lemma sample_levels_greater:
  "tcbLevel_greater (sample_level i 5 st) (sample_level i 3 st')"
  by (simp add: tcbLevel_greater_def sample_level_def tcbLevel_v3_def component_of_svn_def
      vec_less_replicate)

lemma sample_info_wf: "wf_levels (sample_tcb_info i)"
  by (simp add: wf_levels_def wf_tcb_info_def sample_tcb_info_def sample_level_wf
      sample_levels_greater sample_module_def tdxModuleTcbLevel_greater_def)
    (simp add: level_of_def sample_level_def tcbLevel_v3_def)

lemma svns_reach_replicate:
  "start < 16 \<Longrightarrow>
   svns_reach (replicate 16 c) (replicate 16 (component_of_svn svn)) start \<longleftrightarrow> svn \<le> c"
  by (auto simp: svns_reach_def component_of_svn_def)

lemma sample_level_simps:
  "sgx_components (sample_level i svn st) = replicate 16 (component_of_svn svn)"
  "tl_tdxTcbComponents (sample_level i svn st) = replicate 16 (component_of_svn svn)"
  "tl_pceSvn (sample_level i svn st) = 10" "tl_status (sample_level i svn st) = st"
  "tl_tcbDate (sample_level i svn st) = 100"
  "tl_advisoryIDs (sample_level i svn st) = [''INTEL-SA-00001'']"
  by (simp_all add: sgx_components_def sample_level_def tcbLevel_v3_def)

lemma sample_level_matches:
  "sgx_matches (replicate 16 c) pce (sample_level i svn st) \<longleftrightarrow> svn \<le> c \<and> 10 \<le> pce"
  by (simp add: sgx_matches_def sample_level_simps svns_reach_replicate)

lemma sample_level_tdx_matches:
  "start < 16 \<Longrightarrow>
   tdx_matches (replicate 16 c) pce (replicate 16 d) start (sample_level i svn st) \<longleftrightarrow>
     svn \<le> c \<and> 10 \<le> pce \<and> svn \<le> d"
  by (auto simp: tdx_matches_def sample_level_matches sample_level_simps svns_reach_replicate)

lemma sample_info_levels:
  "ti_tcbLevels (sample_tcb_info i) = [sample_level i 5 ''UpToDate'', sample_level i 3 ''OutOfDate'']"
  by (simp add: sample_tcb_info_def)

lemma sample_level_status:
  "level_status (sample_level i svn ''UpToDate'') = UpToDate"
  "level_status (sample_level i svn ''OutOfDate'') = OutOfDate"
  by (simp_all add: level_status_def sample_level_simps VALID_TCB_INFO_STATUSES_def)

lemma sample_identity_level:
  "\<exists>il. getTcbLevel sample_identity 6 = Inr il \<and> il_tcbStatus il = TS_UpToDate"
  by (simp add: getTcbLevel_def sample_identity_def)

lemma sample_qe_part: "qe_part (Some sample_identity) 6 = Some ([UpToDate], [60], [])"
  by (simp add: qe_part_def getTcbLevel_def sample_identity_def qe_status_def VALID_QE_STATUSES_def)

lemma sample_sgx_evaluation:
  "sgxEvaluateTCB (replicate 16 5) 10 6 (sample_tcb_info ''SGX'') (Some sample_identity) =
     (STATUS_OK, Some \<lparr>ev_tcbStatus = STATUS_OK, ev_tcbDate = 60,
        ev_advisoryIds = [''INTEL-SA-00001'']\<rparr>)"
  by (simp add: sgxEvaluateTCB_reference sample_info_wf sgx_reference_def sample_qe_part
      sample_info_levels sample_level_matches sample_level_status sample_level_simps converge_ok_iff)

lemma getTcbLevel_highest_witness:
  "getTcbLevel sample_identity 5 =
     Inr \<lparr>il_isvSvn = 4, il_tcbDate = 50, il_tcbStatus = TS_OutOfDate,
        il_advisoryIds = [''INTEL-SA-00002'']\<rparr>"
  using getTcbLevel_highest [of sample_identity 5]
  by (simp add: wf_enclave_identity_def sample_identity_def identityTcbLevel_greater_def
      getTcbLevel_def)

lemma sgxEvaluateTCB_highest_level_witness:
  "(\<exists>l\<in>set (ti_tcbLevels (sample_tcb_info ''SGX'')). \<exists>c d a.
     tl_pceSvn l \<le> 10 \<and> qe_part (Some sample_identity) 6 = Some (c, d, a) \<and>
     STATUS_OK = convergeTcbStatuses (level_status l) c)"
  using sgxEvaluateTCB_highest_level [OF sample_info_wf [of "''SGX''"], of "replicate 16 5" 10 6
      "Some sample_identity"]
    sample_sgx_evaluation by auto

lemma sgx_ok_means_up_to_date_witness:
  "\<exists>l. List.find (sgx_matches (replicate 16 5) 10) (ti_tcbLevels (sample_tcb_info ''SGX'')) = Some l \<and>
     tl_status l = ''UpToDate''"
  using sgx_ok_means_up_to_date [OF sample_info_wf _ sample_sgx_evaluation] by auto

lemma higher_svns_reach_higher_level_witness:
  "\<exists>l\<in>set (ti_tcbLevels (sample_tcb_info ''SGX'')).
     sgx_platform_level (replicate 16 5) 12 (ti_tcbLevels (sample_tcb_info ''SGX'')) =
       Inr (Some (level_result l))"
proof -
  have "sgx_platform_level (replicate 16 4) 11 (ti_tcbLevels (sample_tcb_info ''SGX'')) =
      Inr (Some (level_result (sample_level ''SGX'' 3 ''OutOfDate'')))"
    using sample_info_wf [of "''SGX''"]
    by (subst sgx_platform_level_find)
      (simp_all add: wf_levels_def sample_info_levels sample_level_matches)
  from higher_svns_reach_higher_level [OF sample_info_wf _ _ _ _ this, of "replicate 16 5" 12]
  show ?thesis by auto
qed


lemma svns_reach_tail:
  "svns_reach ([a, b] @ replicate 14 d) (replicate 16 (component_of_svn svn)) 2 \<longleftrightarrow> svn \<le> d"
  by (auto simp: svns_reach_def component_of_svn_def nth_Cons' dest: spec [of _ 2])

lemma sample_tdx_evaluation:
  "tdxEvaluateTCB (replicate 16 5) 10 6 ([3, 1] @ replicate 14 5) (sample_tcb_info ''TDX'')
     (Some sample_identity) =
     (STATUS_OK, Some \<lparr>ev_tcbStatus = STATUS_OK, ev_tcbDate = 60,
        ev_advisoryIds = [''INTEL-SA-00001'']\<rparr>)"
proof -
  let ?tee = "[3, 1] @ replicate 14 5 :: bytes"
  have wf: "\<forall>l\<in>set (ti_tcbLevels (sample_tcb_info ''TDX'')).
      wf_level l \<and> tl_version l = 3 \<and> tl_id l = TDX_ID"
    by (simp add: sample_info_levels sample_level_wf)
      (simp add: sample_level_def tcbLevel_v3_def TDX_ID_def)
  have "findTdxModuleIdentity (ti_tdxModuleIdentities (sample_tcb_info ''TDX'')) 1 = Some sample_module"
    by (simp add: sample_tcb_info_def findTdxModuleIdentity_def sample_module_def
        bytesToHexString_def hexDigits_def toupper_def)
  then have part: "tdx_module_part ?tee (sample_tcb_info ''TDX'') 100 =
      Inr (Inr ([UpToDate], [100, 90], []))"
    by (subst tdx_module_part_ok)
      (simp_all add: module_part_ok_def sample_module_def module_matches_def module_status_def
        VALID_TDX_MODULE_STATUSES_def sample_tcb_info_def TDX_ID_def)
  have at: "vec_at ?tee 1 = Inr 1" by simp
  have "List.find (tdx_matches (replicate 16 5) 10 ?tee 2) (ti_tcbLevels (sample_tcb_info ''TDX'')) =
      Some (sample_level ''TDX'' 5 ''UpToDate'')"
    by (simp add: sample_info_levels tdx_matches_def sample_level_matches sample_level_simps
        svns_reach_tail [simplified])
  then show ?thesis
    unfolding tdxEvaluateTCB_def TDX_MODULE_MAJOR_SVN_INDEX_def at bindE_simps
    by (subst tdx_platform_level_find)
      (simp_all add: wf level_result_def part [simplified] applyQeIdentity_part sample_qe_part
        sample_level_status sample_level_simps catch_std_def finalizeTcbEvaluation_def
        concat_copy_def converge_ok_iff)
qed

lemma tdxEvaluateTCB_highest_level_witness:
  "\<exists>l\<in>set (ti_tcbLevels (sample_tcb_info ''TDX'')). \<exists>ms ds as.
     module_part_ok ([3, 1] @ replicate 14 5) (sample_tcb_info ''TDX'') (tl_tcbDate l) (ms, ds, as)"
proof -
  have "ti_version (sample_tcb_info ''TDX'') = TcbInfo_V3" "ti_id (sample_tcb_info ''TDX'') = TDX_ID"
    by (simp_all add: sample_tcb_info_def TDX_ID_def)
  from tdxEvaluateTCB_highest_level [OF sample_info_wf this _ _ sample_tdx_evaluation]
  show ?thesis by fastforce
qed

lemma evaluations_ok_or_not_supported_witness:
  "\<exists>ev. sgxEvaluateTCB (replicate 16 5) 10 6 (sample_tcb_info ''SGX'') (Some sample_identity) =
     (STATUS_OK, Some ev) \<and> ev_tcbStatus ev \<in> evaluation_statuses"
  using evaluations_ok_or_not_supported [OF disjI1 [OF refl],
      of "replicate 16 5" 10 6 "sample_tcb_info ''SGX''" "Some sample_identity"]
  by (simp add: sample_sgx_evaluation)

end
