(* ===== verification/QuoteLayout.thy ===== *)
theory QuoteLayout
  imports QuoteStructures
begin

text \<open>
  Facts about the binary structures: each fixed-size \<^verbatim>\<open>insert\<close> implements its
  table of offsets and takes exactly its documented number of bytes, each
  \<^verbatim>\<open>rawBlob\<close> returns the bytes that were read, and the variable-size structures
  accept exactly the inputs whose declared sizes fit.
\<close>

section \<open>Reading within a 32-bit buffer\<close>

lemma copyAndAdvance_array_eq [byte_layout]:
  "copyAndAdvance_array n buf e from =
     (if from + n \<le> e then Some (slice from n buf, from + n) else None)"
  by (auto simp: copyAndAdvance_array_def)

lemma copyAndAdvance_u16_eq [byte_layout]:
  "e - from < 2 ^ 32 \<Longrightarrow>
   copyAndAdvance_u16 buf e from =
     (if from + 2 \<le> e then Some (u16_le buf from, from + 2) else None)"
  by (auto simp: copyAndAdvance_u16_def u16_le_def Let_def nat_diff_distrib')

lemma copyAndAdvance_u32_eq [byte_layout]:
  "e - from < 2 ^ 32 \<Longrightarrow>
   copyAndAdvance_u32 buf e from =
     (if from + 4 \<le> e then Some (u32_le buf from, from + 4) else None)"
  by (auto simp: copyAndAdvance_u32_def u32_le_def Let_def nat_diff_distrib')

lemma copyAndAdvance_struct_eq [byte_layout]:
  "e - from < 2 ^ 32 \<Longrightarrow> from \<le> e \<Longrightarrow>
   copyAndAdvance_struct ins n buf e (s, from) =
     (if from + n \<le> e then ins buf (from + n) (s, from) else (False, s, from))"
  by (auto simp: copyAndAdvance_struct_def Let_def nat_diff_distrib')

text \<open>Even beyond 32 bits the truncated distance never lets a struct be read past the end.\<close>

lemma copyAndAdvance_struct_in_range:
  "fst (copyAndAdvance_struct ins n buf e (s, from)) \<Longrightarrow> from + n \<le> e"
proof -
  assume "fst (copyAndAdvance_struct ins n buf e (s, from))"
  then have "0 \<le> int e - int from" and n: "n \<le> nat (int e - int from) mod 2 ^ 32"
    by (auto simp: copyAndAdvance_struct_def Let_def split: if_splits)
  have "nat (int e - int from) mod 2 ^ 32 \<le> nat (int e - int from)"
    by (rule mod_less_eq_dividend)
  with n have "n \<le> nat (int e - int from)" by (rule order_trans)
  with \<open>0 \<le> int e - int from\<close> show ?thesis by linarith
qed

lemma u16_le_slice [byte_layout]:
  "j + 2 \<le> m \<Longrightarrow> i + m \<le> length xs \<Longrightarrow> u16_le (slice i m xs) j = u16_le xs (i + j)"
  by (simp add: u16_le_def slice_nth)

lemma u32_le_slice [byte_layout]:
  "j + 4 \<le> m \<Longrightarrow> i + m \<le> length xs \<Longrightarrow> u32_le (slice i m xs) j = u32_le xs (i + j)"
  by (simp add: u32_le_def slice_nth add.assoc)

lemma toArray16_u16_le [byte_layout]:
  "i + 2 \<le> length xs \<Longrightarrow> toArray16 (swapBytes16 (u16_le xs i)) = slice i 2 xs"
  by (simp add: u16_le_def slice_2)

lemma toArray32_u32_le [byte_layout]:
  "i + 4 \<le> length xs \<Longrightarrow> toArray32 (swapBytes32 (u32_le xs i)) = slice i 4 xs"
  by (simp add: u32_le_def slice_4)

lemma swap_toUint16: "swapBytes16 (toUint16 a b) = toUint16 b a"
  by (rule bit_word_eqI) (auto simp: bit_swapBytes16 bit_toUint16)

lemma swap_toUint32: "swapBytes32 (toUint32 a b c d) = toUint32 d c b a"
  by (rule bit_word_eqI) (auto simp: bit_swapBytes32 bit_toUint32)

lemma u16_le_eq: "u16_le bs i = toUint16 (bs ! (i + 1)) (bs ! i)"
  by (simp add: u16_le_def swap_toUint16)

lemma u32_le_eq:
  "u32_le bs i = toUint32 (bs ! (i + 3)) (bs ! (i + 2)) (bs ! (i + 1)) (bs ! i)"
  by (simp add: u32_le_def swap_toUint32)

lemmas le_eval = u16_le_eq u32_le_eq toUint32_def toUint32_halves_def toUint16_def Let_def

section \<open>Chains of field reads\<close>

text \<open>Chains are unfolded by the rules below, one read at a time.\<close>

declare run_steps.simps(2) [simp del] add_2_eq_Suc [simp del] add_2_eq_Suc' [simp del]

lemma run_read_array:
  "from + n \<le> e \<Longrightarrow>
   run_steps (read_field upd (copyAndAdvance_array n buf e) # fs) (s, from) =
     run_steps fs (upd (\<lambda>_. slice from n buf) s, from + n)"
  by (simp add: run_steps.simps(2) read_field_def copyAndAdvance_array_eq)

lemma run_read_u16:
  "from + 2 \<le> e \<Longrightarrow> e - from < 2 ^ 32 \<Longrightarrow>
   run_steps (read_field upd (copyAndAdvance_u16 buf e) # fs) (s, from) =
     run_steps fs (upd (\<lambda>_. u16_le buf from) s, from + 2)"
  by (simp add: run_steps.simps(2) read_field_def copyAndAdvance_u16_eq)

lemma run_read_u32:
  "from + 4 \<le> e \<Longrightarrow> e - from < 2 ^ 32 \<Longrightarrow>
   run_steps (read_field upd (copyAndAdvance_u32 buf e) # fs) (s, from) =
     run_steps fs (upd (\<lambda>_. u32_le buf from) s, from + 4)"
  by (simp add: run_steps.simps(2) read_field_def copyAndAdvance_u32_eq)

lemmas run_reads = run_read_array run_read_u16 run_read_u32

text \<open>A step takes \<open>n\<close> bytes when each success moves the iterator by \<open>n\<close> within the range.\<close>

definition takes :: "nat \<Rightarrow> nat \<Rightarrow> 's step \<Rightarrow> bool" where
  "takes e n f \<longleftrightarrow> (\<forall>s from. fst (f (s, from)) \<longrightarrow>
     snd (snd (f (s, from))) = from + n \<and> (0 < n \<longrightarrow> from + n \<le> e))"

lemma takes_Nil: "takes e 0 (run_steps [])"
  by (simp add: takes_def)

lemma takes_Cons:
  assumes "takes e a f" and "takes e b (run_steps fs)"
  shows "takes e (a + b) (run_steps (f # fs))"
  unfolding takes_def
proof (intro allI impI)
  fix s p assume ok: "fst (run_steps (f # fs) (s, p))"
  obtain b1 s1 i1 where f: "f (s, p) = (b1, s1, i1)" by (metis prod_cases3)
  with ok have "b1" and rest: "fst (run_steps fs (s1, i1))" by (auto simp: run_steps.simps(2) split: if_splits)
  with f assms(1) have "i1 = p + a" "0 < a \<longrightarrow> p + a \<le> e"
    unfolding takes_def by (metis fst_conv snd_conv)+
  moreover from rest assms(2) have "snd (snd (run_steps fs (s1, i1))) = i1 + b"
    "0 < b \<longrightarrow> i1 + b \<le> e"
    unfolding takes_def by metis+
  ultimately show "snd (snd (run_steps (f # fs) (s, p))) = p + (a + b) \<and>
      (0 < a + b \<longrightarrow> p + (a + b) \<le> e)"
    using f \<open>b1\<close> by (cases "0 < b") (auto simp: run_steps.simps(2) add.assoc)
qed

lemma takes_array: "0 < n \<Longrightarrow> takes e n (read_field upd (copyAndAdvance_array n buf e))"
  by (simp add: takes_def read_field_def copyAndAdvance_array_eq)

lemma takes_u16: "takes e 2 (read_field upd (copyAndAdvance_u16 buf e))"
proof -
  have "nat x mod 4294967296 \<ge> 2 \<Longrightarrow> 2 \<le> x" for x :: int
    using mod_less_eq_dividend [of "nat x" 4294967296] by linarith
  then show ?thesis
    by (fastforce simp: takes_def read_field_def copyAndAdvance_u16_def Let_def split: if_splits)
qed

lemma takes_u32: "takes e 4 (read_field upd (copyAndAdvance_u32 buf e))"
proof -
  have "nat x mod 4294967296 \<ge> 4 \<Longrightarrow> 4 \<le> x" for x :: int
    using mod_less_eq_dividend [of "nat x" 4294967296] by linarith
  then show ?thesis
    by (fastforce simp: takes_def read_field_def copyAndAdvance_u32_def Let_def split: if_splits)
qed

lemmas takes_intros = takes_Nil takes_Cons takes_array takes_u16 takes_u32

lemma takes_short: "takes e n f \<Longrightarrow> 0 < n \<Longrightarrow> e < from + n \<Longrightarrow> \<not> fst (f (s, from))"
  unfolding takes_def by (meson linorder_not_less)

lemma takes_eq: "takes e m f \<Longrightarrow> m = n \<Longrightarrow> takes e n f"
  by simp

section \<open>Fixed-size structures\<close>

locale fixed_struct =
  fixes ins :: "bytes \<Rightarrow> nat \<Rightarrow> 's step"
    and len :: nat
    and fill :: "bytes \<Rightarrow> 's \<Rightarrow> 's"
  assumes ins_ok: "from + len \<le> e \<Longrightarrow> e \<le> length buf \<Longrightarrow> e - from < 2 ^ 32 \<Longrightarrow>
      ins buf e (s, from) = (True, fill (slice from len buf) s, from + len)"
    and ins_short: "e < from + len \<Longrightarrow> e - from < 2 ^ 32 \<Longrightarrow> \<not> fst (ins buf e (s, from))"
begin

lemma struct_read:
  "from \<le> e \<Longrightarrow> e \<le> length buf \<Longrightarrow> e - from < 2 ^ 32 \<Longrightarrow>
   copyAndAdvance_struct ins len buf e (s, from) =
     (if from + len \<le> e then (True, fill (slice from len buf) s, from + len)
      else (False, s, from))"
  by (simp add: copyAndAdvance_struct_eq ins_ok)

lemma ins_iff:
  "e \<le> length buf \<Longrightarrow> e - from < 2 ^ 32 \<Longrightarrow> fst (ins buf e (s, from)) \<longleftrightarrow> from + len \<le> e"
  using ins_ok ins_short by (metis fst_conv linorder_not_less)

end

locale blob_struct = fixed_struct ins len fill
  for ins :: "bytes \<Rightarrow> nat \<Rightarrow> 's step" and len :: nat and fill :: "bytes \<Rightarrow> 's \<Rightarrow> 's" +
  fixes raw :: "'s \<Rightarrow> bytes" and wf :: "'s \<Rightarrow> bool"
  assumes raw_fill: "length bs = len \<Longrightarrow> raw (fill bs s) = bs"
    and fill_raw: "wf s \<Longrightarrow> fill (raw s) t = s"
    and length_raw: "wf s \<Longrightarrow> length (raw s) = len"
    and wf_fill: "length bs = len \<Longrightarrow> wf (fill bs s)"
begin

lemma raw_of_parsed:
  "from + len \<le> e \<Longrightarrow> e \<le> length buf \<Longrightarrow> e - from < 2 ^ 32 \<Longrightarrow>
   ins buf e (s, from) = (True, s', from') \<Longrightarrow>
   raw s' = slice from len buf \<and> from' = from + len \<and> wf s'"
  by (auto simp: ins_ok raw_fill wf_fill length_slice)

lemma parse_of_raw:
  "wf s \<Longrightarrow> len < 2 ^ 32 \<Longrightarrow> ins (raw s @ rest) len (t, 0) = (True, s, len)"
  by (simp add: ins_ok length_raw slice_def fill_raw)

end

subsection \<open>The header and the body descriptor\<close>

lemma takes_header_insert: "takes e 48 (header_insert buf e)"
  unfolding header_insert_def
  by (rule takes_eq, (rule takes_intros | simp)+)

lemma header_insert_fill:
  assumes "p + 48 \<le> e" "e \<le> length buf" "e - p < 2 ^ 32"
  shows "header_insert buf e (s, p) = (True, fill_header (slice p 48 buf) s, p + 48)"
  using assms by (simp add: header_insert_def fill_header_def run_reads byte_layout add.commute)

interpretation hdr: fixed_struct header_insert 48 fill_header
  using header_insert_fill takes_short [OF takes_header_insert] by unfold_locales auto

lemma takes_body_insert: "takes e 6 (body_insert buf e)"
  unfolding body_insert_def
  by (rule takes_eq, (rule takes_intros | simp)+)

lemma body_insert_fill:
  assumes "p + 6 \<le> e" "e \<le> length buf" "e - p < 2 ^ 32"
  shows "body_insert buf e (s, p) = (True, fill_body (slice p 6 buf) s, p + 6)"
  using assms by (simp add: body_insert_def fill_body_def run_reads byte_layout add.commute)

interpretation bdy: fixed_struct body_insert 6 fill_body
  using body_insert_fill takes_short [OF takes_body_insert] by unfold_locales auto

subsection \<open>Writing parts into a zeroed array\<close>

lemma fold_blit_gen:
  "to + length (concat parts) \<le> length ret \<Longrightarrow>
   fold blit parts (to, ret) =
     (to + length (concat parts),
      take to ret @ concat parts @ drop (to + length (concat parts)) ret)"
proof (induction parts arbitrary: to ret)
  case Nil
  then show ?case by simp
next
  case (Cons x xs)
  let ?r = "take to ret @ x @ drop (to + length x) ret"
  have "fold blit (x # xs) (to, ret) = fold blit xs (to + length x, ?r)"
    by (simp add: blit_def)
  also have "\<dots> = (to + length x + length (concat xs),
      take (to + length x) ?r @ concat xs @ drop (to + length x + length (concat xs)) ?r)"
    using Cons.prems by (intro Cons.IH) simp
  finally show ?case using Cons.prems by (simp add: ac_simps)
qed

lemma fold_blit:
  "to + length (concat parts) = length ret \<Longrightarrow>
   snd (fold blit parts (to, ret)) = take to ret @ concat parts"
  by (simp add: fold_blit_gen)

lemma snd_blit_0: "snd (blit xs (0, ret)) = xs @ drop (length xs) ret"
  by (simp add: blit_def)

lemma u16_le_at_slice: "i + 2 \<le> length bs \<Longrightarrow> u16_le bs i = u16_le (slice i 2 bs) 0"
  by (simp add: u16_le_slice)

lemma u32_le_at_slice: "i + 4 \<le> length bs \<Longrightarrow> u32_le bs i = u32_le (slice i 4 bs) 0"
  by (simp add: u32_le_slice)

lemma u16_le_toArray16 [byte_layout]: "u16_le (toArray16 (swapBytes16 x)) 0 = x"
  using toUint16_toArray16 [of "swapBytes16 x"] by (simp add: u16_le_def toArray16_def)

lemma toUint32_of_toArray32:
  "toUint32 (toArray32 v ! 0) (toArray32 v ! 1) (toArray32 v ! 2) (toArray32 v ! 3) = v"
  by (rule bit_word_eqI) (auto simp: toArray32_def bit_toUint32 bit_simps byte_masks)

lemma u32_le_toArray32 [byte_layout]: "u32_le (toArray32 (swapBytes32 x)) 0 = x"
  using toUint32_of_toArray32 [of "swapBytes32 x"] by (simp add: u32_le_def)

lemma slice_join: "j = i + m \<Longrightarrow> slice i m xs @ slice j n xs = slice i (m + n) xs"
  by (simp add: slice_append)

lemma slice_join_rest:
  "j = i + m \<Longrightarrow> slice i m xs @ slice j n xs @ ys = slice i (m + n) xs @ ys"
  by (simp add: slice_append_rest)

lemma slice_skip: "length xs \<le> i \<Longrightarrow> slice i n (xs @ ys) = slice (i - length xs) n ys"
  by (rule slice_append_right)

lemma slice_take: "n = length xs \<Longrightarrow> slice 0 n (xs @ ys) = xs"
  by (simp add: slice_append_left)

lemma slice_whole: "n = length xs \<Longrightarrow> slice 0 n xs = xs"
  by simp

lemmas raw_layout = toArray16_u16_le toArray32_u32_le length_slice
  slice_join slice_join_rest slice_whole

subsection \<open>Enclave report\<close>

lemma takes_enclaveReport_insert: "takes e 384 (enclaveReport_insert buf e)"
  unfolding enclaveReport_insert_def
  by (rule takes_eq, (rule takes_intros | simp)+)

lemma enclaveReport_insert_fill:
  assumes "p + 384 \<le> e" "e \<le> length buf" "e - p < 2 ^ 32"
  shows "enclaveReport_insert buf e (s, p) = (True, fill_enclaveReport (slice p 384 buf) s, p + 384)"
  using assms by (simp add: enclaveReport_insert_def fill_enclaveReport_def run_reads byte_layout add.commute)

lemma enclaveReport_rawBlob_eq:
  "wf_enclaveReport r \<Longrightarrow> enclaveReport_rawBlob r =
       er_cpuSvn r @ toArray32 (swapBytes32 (er_miscSelect r)) @ er_reserved1 r @
       er_attributes r @ er_mrEnclave r @ er_reserved2 r @ er_mrSigner r @ er_reserved3 r @
       toArray16 (swapBytes16 (er_isvProdID r)) @ toArray16 (swapBytes16 (er_isvSvn r)) @
       er_reserved4 r @ er_reportData r"
  unfolding enclaveReport_rawBlob_def wf_enclaveReport_def by (subst fold_blit) simp_all

lemma wf_enclaveReport_fill: "length bs = 384 \<Longrightarrow> wf_enclaveReport (fill_enclaveReport bs s)"
  by (simp add: wf_enclaveReport_def fill_enclaveReport_def length_slice)

lemma enclaveReport_rawBlob_fill: "length bs = 384 \<Longrightarrow> enclaveReport_rawBlob (fill_enclaveReport bs s) = bs"
  by (subst enclaveReport_rawBlob_eq, erule wf_enclaveReport_fill) (simp add: fill_enclaveReport_def raw_layout)

lemma length_enclaveReport_rawBlob: "wf_enclaveReport s \<Longrightarrow> length (enclaveReport_rawBlob s) = 384"
  by (simp add: enclaveReport_rawBlob_eq wf_enclaveReport_def)

lemma fill_enclaveReport_raw:
  assumes "wf_enclaveReport s" shows "fill_enclaveReport (enclaveReport_rawBlob s) t = (s :: enclave_report)"
  using assms
  by (intro enclave_report.equality)
    (simp_all add: enclaveReport_rawBlob_eq fill_enclaveReport_def wf_enclaveReport_def slice_skip slice_take slice_whole
      u32_le_at_slice [of 16] u16_le_at_slice [of 256] u16_le_at_slice [of 258]
      u16_le_toArray16 u32_le_toArray32)

interpretation er: blob_struct "enclaveReport_insert :: bytes \<Rightarrow> nat \<Rightarrow> enclave_report step" 384 fill_enclaveReport enclaveReport_rawBlob wf_enclaveReport
  by unfold_locales
    (simp_all add: enclaveReport_insert_fill takes_short [OF takes_enclaveReport_insert]
      enclaveReport_rawBlob_fill wf_enclaveReport_fill length_enclaveReport_rawBlob fill_enclaveReport_raw)

subsection \<open>TD reports\<close>

lemma takes_tdReport10_insert: "takes e 584 (tdReport10_insert buf e)"
  unfolding tdReport10_insert_def
  by (rule takes_eq, (rule takes_intros | simp)+)

lemma tdReport10_insert_fill:
  assumes "p + 584 \<le> e" "e \<le> length buf" "e - p < 2 ^ 32"
  shows "tdReport10_insert buf e (s, p) = (True, fill_tdReport10 (slice p 584 buf) s, p + 584)"
  using assms by (simp add: tdReport10_insert_def fill_tdReport10_def run_reads byte_layout add.commute)

lemma tdReport10_rawBlob_eq:
  "wf_tdReport10 r \<Longrightarrow> tdReport10_rawBlob r =
       td_teeTcbSvn r @ td_mrSeam r @ td_mrSignerSeam r @ td_seamAttributes r @
       td_tdAttributes r @ td_xFAM r @ td_mrTd r @ td_mrConfigId r @ td_mrOwner r @
       td_mrOwnerConfig r @ td_rtMr0 r @ td_rtMr1 r @ td_rtMr2 r @ td_rtMr3 r @ td_reportData r"
  unfolding tdReport10_rawBlob_def wf_tdReport10_def by (subst fold_blit) simp_all

lemma wf_tdReport10_fill: "length bs = 584 \<Longrightarrow> wf_tdReport10 (fill_tdReport10 bs s)"
  by (simp add: wf_tdReport10_def fill_tdReport10_def length_slice)

lemma tdReport10_rawBlob_fill: "length bs = 584 \<Longrightarrow> tdReport10_rawBlob (fill_tdReport10 bs s) = bs"
  by (subst tdReport10_rawBlob_eq, erule wf_tdReport10_fill) (simp add: fill_tdReport10_def raw_layout)

lemma length_tdReport10_rawBlob: "wf_tdReport10 s \<Longrightarrow> length (tdReport10_rawBlob s) = 584"
  by (simp add: tdReport10_rawBlob_eq wf_tdReport10_def)

lemma fill_tdReport10_raw:
  assumes "wf_tdReport10 s" shows "fill_tdReport10 (tdReport10_rawBlob s) t = (s :: td_report10)"
  using assms
  by (intro td_report10.equality)
    (simp_all add: tdReport10_rawBlob_eq fill_tdReport10_def wf_tdReport10_def slice_skip slice_take slice_whole)

interpretation td10: blob_struct "tdReport10_insert :: bytes \<Rightarrow> nat \<Rightarrow> td_report10 step" 584 fill_tdReport10 tdReport10_rawBlob wf_tdReport10
  by unfold_locales
    (simp_all add: tdReport10_insert_fill takes_short [OF takes_tdReport10_insert]
      tdReport10_rawBlob_fill wf_tdReport10_fill length_tdReport10_rawBlob fill_tdReport10_raw)

lemma takes_tdReport15_insert: "takes e 648 (tdReport15_insert buf e)"
  unfolding tdReport15_insert_def
  by (rule takes_eq, (rule takes_intros takes_tdReport10_insert | simp)+)

lemma tdReport15_insert_fill:
  assumes "p + 648 \<le> e" "e \<le> length buf" "e - p < 2 ^ 32"
  shows "tdReport15_insert buf e (s, p) = (True, fill_tdReport15 (slice p 648 buf) s, p + 648)"
  using assms
  by (simp add: tdReport15_insert_def run_steps.simps(2) [of "tdReport10_insert buf e"] tdReport10_insert_fill
      fill_tdReport15_def fill_tdReport10_def run_reads byte_layout add.commute)

lemma tdReport15_rawBlob_eq:
  "wf_tdReport15 r \<Longrightarrow> tdReport15_rawBlob r =
       td_teeTcbSvn r @ td_mrSeam r @ td_mrSignerSeam r @ td_seamAttributes r @
       td_tdAttributes r @ td_xFAM r @ td_mrTd r @ td_mrConfigId r @ td_mrOwner r @
       td_mrOwnerConfig r @ td_rtMr0 r @ td_rtMr1 r @ td_rtMr2 r @ td_rtMr3 r @
       td_reportData r @ td_teeTcbSvn2 r @ td_mrServiceTd r"
  unfolding tdReport15_rawBlob_def Let_def snd_blit_0
  by (subst fold_blit) (simp_all add: wf_tdReport15_def wf_tdReport10_def tdReport10_rawBlob_eq)

lemma wf_tdReport15_fill: "length bs = 648 \<Longrightarrow> wf_tdReport15 (fill_tdReport15 bs s)"
  by (simp add: wf_tdReport15_def wf_tdReport10_def fill_tdReport15_def fill_tdReport10_def length_slice)

lemma tdReport15_rawBlob_fill: "length bs = 648 \<Longrightarrow> tdReport15_rawBlob (fill_tdReport15 bs s) = bs"
  by (subst tdReport15_rawBlob_eq, erule wf_tdReport15_fill) (simp add: fill_tdReport15_def fill_tdReport10_def raw_layout)

lemma length_tdReport15_rawBlob: "wf_tdReport15 s \<Longrightarrow> length (tdReport15_rawBlob s) = 648"
  by (simp add: tdReport15_rawBlob_eq wf_tdReport15_def wf_tdReport10_def)

lemma fill_tdReport15_raw:
  assumes "wf_tdReport15 s" shows "fill_tdReport15 (tdReport15_rawBlob s) t = (s :: td_report15)"
  using assms
  by (intro td_report15.equality)
    (simp_all add: tdReport15_rawBlob_eq fill_tdReport15_def fill_tdReport10_def wf_tdReport15_def wf_tdReport10_def slice_skip slice_take slice_whole)

interpretation td15: blob_struct "tdReport15_insert :: bytes \<Rightarrow> nat \<Rightarrow> td_report15 step" 648 fill_tdReport15 tdReport15_rawBlob wf_tdReport15
  by unfold_locales
    (simp_all add: tdReport15_insert_fill takes_short [OF takes_tdReport15_insert]
      tdReport15_rawBlob_fill wf_tdReport15_fill length_tdReport15_rawBlob fill_tdReport15_raw)

lemma takes_tdReport15Ex_insert: "takes e 885 (tdReport15Ex_insert buf e)"
  unfolding tdReport15Ex_insert_def
  by (rule takes_eq, (rule takes_intros takes_tdReport15_insert | simp)+)

lemma tdReport15Ex_insert_fill:
  assumes "p + 885 \<le> e" "e \<le> length buf" "e - p < 2 ^ 32"
  shows "tdReport15Ex_insert buf e (s, p) = (True, fill_tdReport15Ex (slice p 885 buf) s, p + 885)"
  using assms
  by (simp add: tdReport15Ex_insert_def run_steps.simps(2) [of "tdReport15_insert buf e"] tdReport15_insert_fill
      fill_tdReport15Ex_def fill_tdReport15_def fill_tdReport10_def run_reads byte_layout add.commute)

lemma tdReport15Ex_rawBlob_eq:
  "wf_tdReport15Ex r \<Longrightarrow> tdReport15Ex_rawBlob r =
       td_teeTcbSvn r @ td_mrSeam r @ td_mrSignerSeam r @ td_seamAttributes r @
       td_tdAttributes r @ td_xFAM r @ td_mrTd r @ td_mrConfigId r @ td_mrOwner r @
       td_mrOwnerConfig r @ td_rtMr0 r @ td_rtMr1 r @ td_rtMr2 r @ td_rtMr3 r @
       td_reportData r @ td_teeTcbSvn2 r @ td_mrServiceTd r @ td_vmid r @ td_tdId r @
       td_devInfo r @ td_initServTdHash r @ td_initServTdAttributes r @ td_initCpuSvn r @
       td_initTeeTcbSvn r @ td_initTeeFmspc r @ td_curServTdHash r @ td_curServTdAttributes r"
  unfolding tdReport15Ex_rawBlob_def Let_def snd_blit_0
  by (subst fold_blit) (simp_all add: wf_tdReport15Ex_def wf_tdReport15_def wf_tdReport10_def tdReport15_rawBlob_eq)

lemma wf_tdReport15Ex_fill: "length bs = 885 \<Longrightarrow> wf_tdReport15Ex (fill_tdReport15Ex bs s)"
  by (simp add: wf_tdReport15Ex_def wf_tdReport15_def wf_tdReport10_def fill_tdReport15Ex_def fill_tdReport15_def fill_tdReport10_def length_slice)

lemma tdReport15Ex_rawBlob_fill: "length bs = 885 \<Longrightarrow> tdReport15Ex_rawBlob (fill_tdReport15Ex bs s) = bs"
  by (subst tdReport15Ex_rawBlob_eq, erule wf_tdReport15Ex_fill) (simp add: fill_tdReport15Ex_def fill_tdReport15_def fill_tdReport10_def raw_layout)

lemma length_tdReport15Ex_rawBlob: "wf_tdReport15Ex s \<Longrightarrow> length (tdReport15Ex_rawBlob s) = 885"
  by (simp add: tdReport15Ex_rawBlob_eq wf_tdReport15Ex_def wf_tdReport15_def wf_tdReport10_def)

lemma fill_tdReport15Ex_raw:
  assumes "wf_tdReport15Ex s" shows "fill_tdReport15Ex (tdReport15Ex_rawBlob s) t = (s :: td_report15ex)"
  using assms
  by (intro td_report15ex.equality)
    (simp_all add: tdReport15Ex_rawBlob_eq fill_tdReport15Ex_def fill_tdReport15_def fill_tdReport10_def wf_tdReport15Ex_def wf_tdReport15_def wf_tdReport10_def slice_skip slice_take slice_whole)

interpretation td15ex: blob_struct "tdReport15Ex_insert :: bytes \<Rightarrow> nat \<Rightarrow> td_report15ex step" 885 fill_tdReport15Ex tdReport15Ex_rawBlob wf_tdReport15Ex
  by unfold_locales
    (simp_all add: tdReport15Ex_insert_fill takes_short [OF takes_tdReport15Ex_insert]
      tdReport15Ex_rawBlob_fill wf_tdReport15Ex_fill length_tdReport15Ex_rawBlob fill_tdReport15Ex_raw)

subsection \<open>Signature and attestation key\<close>

definition fill_signature :: "bytes \<Rightarrow> ecdsa256_signature \<Rightarrow> ecdsa256_signature" where
  "fill_signature bs r = \<lparr>signature = bs\<rparr>"

definition fill_pubkey :: "bytes \<Rightarrow> ecdsa256_pubkey \<Rightarrow> ecdsa256_pubkey" where
  "fill_pubkey bs r = \<lparr>pubKey = bs\<rparr>"

interpretation sgn: fixed_struct signature_insert 64 fill_signature
  by unfold_locales
    (simp_all add: signature_insert_def read_field_def copyAndAdvance_array_eq fill_signature_def)

interpretation pbk: fixed_struct pubkey_insert 64 fill_pubkey
  by unfold_locales
    (simp_all add: pubkey_insert_def read_field_def copyAndAdvance_array_eq fill_pubkey_def)

section \<open>Variable-size structures\<close>

text \<open>
  A reference parser maps a position to a value and the next position.  A step reads it when
  it fails exactly where the parser does and otherwise stores the parsed value.
\<close>

type_synonym 's parser = "nat \<Rightarrow> ('s \<times> nat) option"

definition reads_to :: "nat \<Rightarrow> 's step \<Rightarrow> ('s \<Rightarrow> 's parser) \<Rightarrow> bool" where
  "reads_to e f g \<longleftrightarrow> (\<forall>s p. p \<le> e \<and> e < 2 ^ 32 \<longrightarrow>
     (case g s p of
        None \<Rightarrow> \<not> fst (f (s, p))
      | Some (v, p') \<Rightarrow> f (s, p) = (True, v, p') \<and> p' \<le> e))"

definition p_member :: "('s \<Rightarrow> 'a) \<Rightarrow> (('a \<Rightarrow> 'a) \<Rightarrow> 's \<Rightarrow> 's) \<Rightarrow> ('a \<Rightarrow> 'a parser) \<Rightarrow> 's \<Rightarrow> 's parser" where
  "p_member get upd g s p = map_option (\<lambda>(v, p'). (upd (\<lambda>_. v) s, p')) (g (get s) p)"

fun p_seq :: "('s \<Rightarrow> 's parser) list \<Rightarrow> 's \<Rightarrow> 's parser" where
  "p_seq [] s p = Some (s, p)"
| "p_seq (g # gs) s p = (case g s p of None \<Rightarrow> None | Some (s', p') \<Rightarrow> p_seq gs s' p')"

definition p_fixed :: "bytes \<Rightarrow> nat \<Rightarrow> nat \<Rightarrow> (bytes \<Rightarrow> 's \<Rightarrow> 's) \<Rightarrow> 's \<Rightarrow> 's parser" where
  "p_fixed buf e n fill s p = (if p + n \<le> e then Some (fill (slice p n buf) s, p + n) else None)"

definition p_end :: "nat \<Rightarrow> 's \<Rightarrow> 's parser" where
  "p_end e s p = (if p = e then Some (s, p) else None)"

definition p_qeAuthData :: "bytes \<Rightarrow> nat \<Rightarrow> qe_auth_data \<Rightarrow> qe_auth_data parser" where
  "p_qeAuthData buf e s p =
     (let n = u16_le buf p in
      if p + 2 \<le> e \<and> p + 2 + unat n \<le> e
      then Some (\<lparr>qad_parsedDataSize = n, qad_data = slice (p + 2) (unat n) buf\<rparr>, p + 2 + unat n)
      else None)"

definition p_certificationData ::
  "bytes \<Rightarrow> nat \<Rightarrow> certification_data \<Rightarrow> certification_data parser" where
  "p_certificationData buf e s p =
     (let n = u32_le buf (p + 2) in
      if p + 6 \<le> e \<and> p + 6 + unat n \<le> e
      then Some (\<lparr>cd_type = u16_le buf p, cd_parsedDataSize = n,
             cd_data = slice (p + 6) (unat n) buf\<rparr>, p + 6 + unat n)
      else None)"

lemma reads_toI:
  assumes "\<And>s p. p \<le> e \<Longrightarrow> e < 2 ^ 32 \<Longrightarrow> g s p = None \<Longrightarrow> \<not> fst (f (s, p))"
    and "\<And>s p v p'. p \<le> e \<Longrightarrow> e < 2 ^ 32 \<Longrightarrow> g s p = Some (v, p') \<Longrightarrow>
      f (s, p) = (True, v, p') \<and> p' \<le> e"
  shows "reads_to e f g"
  using assms unfolding reads_to_def by (auto split: option.split)

lemma reads_to_None: "reads_to e f g \<Longrightarrow> p \<le> e \<Longrightarrow> e < 2 ^ 32 \<Longrightarrow> g s p = None \<Longrightarrow> \<not> fst (f (s, p))"
  unfolding reads_to_def by (drule spec [of _ s], drule spec [of _ p]) simp

lemma reads_to_Some:
  "reads_to e f g \<Longrightarrow> p \<le> e \<Longrightarrow> e < 2 ^ 32 \<Longrightarrow> g s p = Some (v, p') \<Longrightarrow>
   f (s, p) = (True, v, p') \<and> p' \<le> e"
  unfolding reads_to_def by (drule spec [of _ s], drule spec [of _ p]) simp

lemma reads_to_Nil: "reads_to e (run_steps []) (p_seq [])"
  by (rule reads_toI) simp_all

lemma reads_to_Cons:
  assumes fg: "reads_to e f g" and rest: "reads_to e (run_steps fs) (p_seq gs)"
  shows "reads_to e (run_steps (f # fs)) (p_seq (g # gs))"
proof (rule reads_toI)
  fix s p assume p: "p \<le> e" "e < 2 ^ 32" "p_seq (g # gs) s p = None"
  show "\<not> fst (run_steps (f # fs) (s, p))"
  proof (cases "g s p")
    case None
    from reads_to_None [OF fg p(1,2) this] show ?thesis
      by (auto simp: run_steps.simps(2) split: prod.splits)
  next
    case (Some r)
    obtain v p' where r: "r = (v, p')" by force
    with Some have "f (s, p) = (True, v, p') \<and> p' \<le> e" by (intro reads_to_Some [OF fg p(1,2)]) simp
    with p r Some show ?thesis using reads_to_None [OF rest] by (simp add: run_steps.simps(2))
  qed
next
  fix s p v p' assume p: "p \<le> e" "e < 2 ^ 32" "p_seq (g # gs) s p = Some (v, p')"
  then obtain s1 p1 where g: "g s p = Some (s1, p1)" and r: "p_seq gs s1 p1 = Some (v, p')"
    by (auto split: option.splits prod.splits)
  from reads_to_Some [OF fg p(1,2) g] reads_to_Some [OF rest _ p(2) r]
  show "run_steps (f # fs) (s, p) = (True, v, p') \<and> p' \<le> e"
    by (simp add: run_steps.simps(2))
qed

lemma reads_to_member:
  assumes "reads_to e f g" shows "reads_to e (on_member get upd f) (p_member get upd g)"
proof (rule reads_toI)
  fix s p assume "p \<le> e" "e < 2 ^ 32" "p_member get upd g s p = None"
  then have "\<not> fst (f (get s, p))"
    by (intro reads_to_None [OF assms]) (auto simp: p_member_def)
  then show "\<not> fst (on_member get upd f (s, p))" by (auto simp: on_member_def split: prod.splits)
next
  fix s p v p' assume p: "p \<le> e" "e < 2 ^ 32" "p_member get upd g s p = Some (v, p')"
  then obtain a where "g (get s) p = Some (a, p')" "v = upd (\<lambda>_. a) s"
    by (auto simp: p_member_def)
  with reads_to_Some [OF assms p(1,2)] show "on_member get upd f (s, p) = (True, v, p') \<and> p' \<le> e"
    by (auto simp: on_member_def)
qed

lemma reads_to_end: "reads_to e (\<lambda>(s, p). (p = e, s, p)) (p_end e)"
  by (rule reads_toI) (auto simp: p_end_def split: if_splits)

context fixed_struct
begin

lemma struct_reads_to:
  "e \<le> length buf \<Longrightarrow> reads_to e (copyAndAdvance_struct ins len buf e) (p_fixed buf e len fill)"
  by (rule reads_toI) (auto simp: struct_read p_fixed_def split: if_splits)

end

lemma qeAuthData_reads_to:
  assumes "e \<le> length buf"
  shows "reads_to e (sized_qeAuthData_insert buf e) (p_qeAuthData buf e)"
  using assms
  by (intro reads_toI)
    (auto simp: sized_qeAuthData_insert_def p_qeAuthData_def copyAndAdvance_u16_eq Let_def
      copyAndAdvance_struct_eq qeAuthData_insert_def split: if_splits option.splits)

lemma certificationData_reads_to:
  assumes "e \<le> length buf"
  shows "reads_to e (sized_certificationData_insert buf e) (p_certificationData buf e)"
  using assms
  by (intro reads_toI,
    auto simp: sized_certificationData_insert_def p_certificationData_def copyAndAdvance_u16_eq
      copyAndAdvance_u32_eq Let_def copyAndAdvance_struct_eq certificationData_insert_def
      nat_diff_distrib' split: if_splits option.splits)
    (simp add: add.commute)

subsection \<open>The authentication data of versions 3 and 4 and the QE report\<close>

definition p_quoteV3AuthData ::
  "bytes \<Rightarrow> nat \<Rightarrow> quote_v3_auth_data \<Rightarrow> quote_v3_auth_data parser" where
  "p_quoteV3AuthData buf e = p_seq [
     p_member v3_ecdsa256BitSignature v3_ecdsa256BitSignature_update (p_fixed buf e 64 fill_signature),
     p_member v3_ecdsaAttestationKey v3_ecdsaAttestationKey_update (p_fixed buf e 64 fill_pubkey),
     p_member v3_qeReport v3_qeReport_update (p_fixed buf e 384 fill_enclaveReport),
     p_member v3_qeReportSignature v3_qeReportSignature_update (p_fixed buf e 64 fill_signature),
     p_member v3_qeAuthData v3_qeAuthData_update (p_qeAuthData buf e),
     p_member v3_certificationData v3_certificationData_update (p_certificationData buf e)]"

definition p_quoteV4AuthData ::
  "bytes \<Rightarrow> nat \<Rightarrow> quote_v4_auth_data \<Rightarrow> quote_v4_auth_data parser" where
  "p_quoteV4AuthData buf e = p_seq [
     p_member v4_ecdsa256BitSignature v4_ecdsa256BitSignature_update (p_fixed buf e 64 fill_signature),
     p_member v4_ecdsaAttestationKey v4_ecdsaAttestationKey_update (p_fixed buf e 64 fill_pubkey),
     p_member v4_certificationData v4_certificationData_update (p_certificationData buf e)]"

definition p_qeReportCertificationData ::
  "bytes \<Rightarrow> nat \<Rightarrow> qe_report_certification_data \<Rightarrow> qe_report_certification_data parser" where
  "p_qeReportCertificationData buf e = p_seq [
     p_member qrc_qeReport qrc_qeReport_update (p_fixed buf e 384 fill_enclaveReport),
     p_member qrc_qeReportSignature qrc_qeReportSignature_update (p_fixed buf e 64 fill_signature),
     p_member qrc_qeAuthData qrc_qeAuthData_update (p_qeAuthData buf e),
     p_member qrc_certificationData qrc_certificationData_update (p_certificationData buf e),
     p_end e]"

lemmas members_read_to =
  reads_to_Nil reads_to_Cons reads_to_member reads_to_end
  qeAuthData_reads_to certificationData_reads_to
  er.struct_reads_to sgn.struct_reads_to pbk.struct_reads_to

lemma quoteV3AuthData_reads_to:
  "e \<le> length buf \<Longrightarrow> reads_to e (quoteV3AuthData_insert buf e) (p_quoteV3AuthData buf e)"
  unfolding quoteV3AuthData_insert_def p_quoteV3AuthData_def
    ECDSA_SIGNATURE_BYTE_LEN_def ECDSA_PUBKEY_BYTE_LEN_def ENCLAVE_REPORT_BYTE_LEN_def
  by (intro members_read_to)

lemma quoteV4AuthData_reads_to:
  "e \<le> length buf \<Longrightarrow> reads_to e (quoteV4AuthData_insert buf e) (p_quoteV4AuthData buf e)"
  unfolding quoteV4AuthData_insert_def p_quoteV4AuthData_def
    ECDSA_SIGNATURE_BYTE_LEN_def ECDSA_PUBKEY_BYTE_LEN_def
  by (intro members_read_to)

lemma qeReportCertificationData_reads_to:
  "e \<le> length buf \<Longrightarrow>
   reads_to e (qeReportCertificationData_insert buf e) (p_qeReportCertificationData buf e)"
  unfolding qeReportCertificationData_insert_def p_qeReportCertificationData_def
    ECDSA_SIGNATURE_BYTE_LEN_def ENCLAVE_REPORT_BYTE_LEN_def
  by (intro members_read_to)

lemmas parser_eval = p_member_def p_fixed_def p_qeAuthData_def p_certificationData_def p_end_def
  Let_def

lemma p_quoteV3AuthData_iff:
  "p_quoteV3AuthData buf e s p \<noteq> None \<longleftrightarrow>
     (let a = unat (u16_le buf (p + 576)) in
        p + 584 + a \<le> e \<and> p + 584 + a + unat (u32_le buf (p + 580 + a)) \<le> e)"
  by (auto simp add: p_quoteV3AuthData_def parser_eval ac_simps split: option.splits if_splits)

lemma p_quoteV4AuthData_iff:
  "p_quoteV4AuthData buf e s p \<noteq> None \<longleftrightarrow>
     p + 134 \<le> e \<and> p + 134 + unat (u32_le buf (p + 130)) \<le> e"
  by (auto simp add: p_quoteV4AuthData_def parser_eval ac_simps split: option.splits if_splits)

lemma p_qeReportCertificationData_iff:
  "p_qeReportCertificationData buf e s p \<noteq> None \<longleftrightarrow>
     (let a = unat (u16_le buf (p + 448)) in
        p + 456 + a \<le> e \<and> p + 456 + a + unat (u32_le buf (p + 452 + a)) = e)"
  by (auto simp add: p_qeReportCertificationData_def parser_eval ac_simps
      split: option.splits if_splits)

lemma reads_to_accepts:
  "reads_to e f g \<Longrightarrow> p \<le> e \<Longrightarrow> e < 2 ^ 32 \<Longrightarrow> fst (f (s, p)) \<longleftrightarrow> g s p \<noteq> None"
  using reads_to_None [of e f g p s] reads_to_Some [of e f g p s] by (cases "g s p") auto

text \<open>What each structure holds once it is accepted.\<close>

lemma p_quoteV3AuthData_value:
  "p_quoteV3AuthData buf e s p = Some (v, p') \<Longrightarrow>
   (let a = unat (u16_le buf (p + 576)); n = u32_le buf (p + 580 + a) in
    v = \<lparr>v3_ecdsa256BitSignature = \<lparr>signature = slice p 64 buf\<rparr>,
         v3_ecdsaAttestationKey = \<lparr>pubKey = slice (p + 64) 64 buf\<rparr>,
         v3_qeReport = fill_enclaveReport (slice (p + 128) 384 buf) (v3_qeReport s),
         v3_qeReportSignature = \<lparr>signature = slice (p + 512) 64 buf\<rparr>,
         v3_qeAuthData = \<lparr>qad_parsedDataSize = u16_le buf (p + 576),
           qad_data = slice (p + 578) a buf\<rparr>,
         v3_certificationData = \<lparr>cd_type = u16_le buf (p + 578 + a), cd_parsedDataSize = n,
           cd_data = slice (p + 584 + a) (unat n) buf\<rparr>\<rparr> \<and>
    p' = p + 584 + a + unat n)"
  by (auto simp add: p_quoteV3AuthData_def parser_eval fill_signature_def fill_pubkey_def ac_simps
      split: option.splits if_splits)

lemma p_quoteV4AuthData_value:
  "p_quoteV4AuthData buf e s p = Some (v, p') \<Longrightarrow>
   v = \<lparr>v4_ecdsa256BitSignature = \<lparr>signature = slice p 64 buf\<rparr>,
         v4_ecdsaAttestationKey = \<lparr>pubKey = slice (p + 64) 64 buf\<rparr>,
         v4_certificationData = \<lparr>cd_type = u16_le buf (p + 128),
           cd_parsedDataSize = u32_le buf (p + 130),
           cd_data = slice (p + 134) (unat (u32_le buf (p + 130))) buf\<rparr>\<rparr> \<and>
   p' = p + 134 + unat (u32_le buf (p + 130))"
  by (auto simp add: p_quoteV4AuthData_def parser_eval fill_signature_def fill_pubkey_def ac_simps
      split: option.splits if_splits)

lemma p_qeReportCertificationData_value:
  "p_qeReportCertificationData buf e s p = Some (v, p') \<Longrightarrow>
   (let a = unat (u16_le buf (p + 448)); n = u32_le buf (p + 452 + a) in
    v = \<lparr>qrc_qeReport = fill_enclaveReport (slice p 384 buf) (qrc_qeReport s),
         qrc_qeReportSignature = \<lparr>signature = slice (p + 384) 64 buf\<rparr>,
         qrc_qeAuthData = \<lparr>qad_parsedDataSize = u16_le buf (p + 448),
           qad_data = slice (p + 450) a buf\<rparr>,
         qrc_certificationData = \<lparr>cd_type = u16_le buf (p + 450 + a), cd_parsedDataSize = n,
           cd_data = slice (p + 456 + a) (unat n) buf\<rparr>\<rparr> \<and>
    p' = e)"
  by (auto simp add: p_qeReportCertificationData_def parser_eval fill_signature_def ac_simps
      split: option.splits if_splits)


section \<open>The accepted inputs and the round trips\<close>

text \<open>
  Version 3 authentication data are accepted exactly when the fixed 576 bytes, the QE
  authentication data of the declared 16-bit size and the certification data of the declared
  32-bit size lie within the block.  Bytes of the block behind them are ignored.
\<close>

theorem quoteV3AuthData_accepts:
  "p \<le> e \<Longrightarrow> e \<le> length buf \<Longrightarrow> e < 2 ^ 32 \<Longrightarrow>
   fst (quoteV3AuthData_insert buf e (s, p)) \<longleftrightarrow>
     (let a = unat (u16_le buf (p + 576)) in
        p + 584 + a \<le> e \<and> p + 584 + a + unat (u32_le buf (p + 580 + a)) \<le> e)"
  by (simp only: reads_to_accepts [OF quoteV3AuthData_reads_to] p_quoteV3AuthData_iff)

lemma quoteV3AuthData_accepts_witness:
  "fst (quoteV3AuthData_insert (replicate 600 0) 590 (v3_zero, 2))"
  by (subst quoteV3AuthData_accepts) (simp_all add: le_eval)

text \<open>
  The nested QE report data of version 4 and later are accepted exactly when they end with
  the block: no byte is missing and none is left over.
\<close>

theorem qeReportCertificationData_accepts:
  "p \<le> e \<Longrightarrow> e \<le> length buf \<Longrightarrow> e < 2 ^ 32 \<Longrightarrow>
   fst (qeReportCertificationData_insert buf e (s, p)) \<longleftrightarrow>
     (let a = unat (u16_le buf (p + 448)) in
        p + 456 + a \<le> e \<and> p + 456 + a + unat (u32_le buf (p + 452 + a)) = e)"
  by (simp only: reads_to_accepts [OF qeReportCertificationData_reads_to]
      p_qeReportCertificationData_iff)

lemma qeReportCertificationData_accepts_witness:
  "fst (qeReportCertificationData_insert (replicate 456 0) 456 (qrc_zero, 0)) \<and>
   \<not> fst (qeReportCertificationData_insert (replicate 457 0) 457 (qrc_zero, 0))"
  using qeReportCertificationData_accepts [of 0 456 "replicate 456 0" qrc_zero]
    qeReportCertificationData_accepts [of 0 457 "replicate 457 0" qrc_zero]
  by (simp add: le_eval)

text \<open>
  An enclave report written by \<^verbatim>\<open>rawBlob\<close> is read back by
  \<^verbatim>\<open>insert\<close> as the same report, whatever the object held and whatever follows.
\<close>

theorem enclaveReport_roundtrip:
  "wf_enclaveReport s \<Longrightarrow>
   enclaveReport_insert (enclaveReport_rawBlob s @ rest) ENCLAVE_REPORT_BYTE_LEN (t, 0) =
     (True, s, ENCLAVE_REPORT_BYTE_LEN)"
  using er.parse_of_raw by simp

lemma enclaveReport_roundtrip_witness:
  "enclaveReport_insert (enclaveReport_rawBlob enclave_report_zero @ [7]) 384
     (enclave_report_zero\<lparr>er_isvSvn := 9\<rparr>, 0) = (True, enclave_report_zero, 384)"
  using enclaveReport_roundtrip [of enclave_report_zero "[7]"]
  by (simp add: wf_enclaveReport_def enclave_report_zero_def)

text \<open>
  C7: a TD report of the largest layout (which extends the other two) that is accepted lies within
  the buffer, takes exactly 885 bytes, and is written back by \<^verbatim>\<open>rawBlob\<close> as
  those bytes.
\<close>

theorem tdReport15Ex_raw_of_parsed:
  assumes "e \<le> length buf" and "e - p < 2 ^ 32"
    and "tdReport15Ex_insert buf e (s, p) = (True, s', p')"
  shows "p + TD_REPORT15EX_BYTE_LEN \<le> e \<and> p' = p + TD_REPORT15EX_BYTE_LEN \<and>
    tdReport15Ex_rawBlob (s' :: td_report15ex) = slice p TD_REPORT15EX_BYTE_LEN buf"
  using assms td15ex.raw_of_parsed [of p e buf s s' p'] td15ex.ins_iff [of e buf p s] by simp

lemma tdReport15Ex_raw_of_parsed_witness:
  "tdReport15Ex_rawBlob (fst (snd (tdReport15Ex_insert (replicate 900 7) 890 (td_report15ex_zero, 3)))) =
     replicate 885 7"
  using tdReport15Ex_raw_of_parsed [of 890 "replicate 900 7" 3 td_report15ex_zero
      "fill_tdReport15Ex (slice 3 885 (replicate 900 7)) td_report15ex_zero" "3 + 885"]
    tdReport15Ex_insert_fill [of 3 890 "replicate 900 7" td_report15ex_zero]
  by (simp add: slice_def)

end
