(* ===== verification/CollateralInfo.thy ===== *)
theory CollateralInfo
  imports EvaluateTcb QuoteLayout
begin

text \<open>
  \<^verbatim>\<open>QuoteVerification/VerificationCollateralInfo.cpp\<close>: what a quote verification
  records about the collateral it used, and the 1048-byte record it is aggregated into.  Integers
  are copied by \<^verbatim>\<open>memcpy\<close>: their bytes are those of a little-endian machine
  with a 64-bit \<^verbatim>\<open>time_t\<close>.
\<close>

section \<open>State\<close>

record ver_coll_info =
  vci_id :: u32
  vci_version :: u32
  vci_issueDates :: "time_t list"
  vci_nextUpdates :: "time_t list"
  vci_tcbEvalNumbers :: "u32 list"
  vci_launchTcbDate :: time_t
  vci_currentTcbDate :: time_t
  vci_launchAdvisoryIds :: "string list"
  vci_currentAdvisoryIds :: "string list"
  vci_launchTcbStatus :: string
  vci_currentTcbStatus :: string
  vci_isFilled :: bool

definition ver_coll_info_new :: ver_coll_info where
  "ver_coll_info_new = \<lparr>
     vci_id = 1, vci_version = 2, vci_issueDates = [], vci_nextUpdates = [],
     vci_tcbEvalNumbers = [], vci_launchTcbDate = 0, vci_currentTcbDate = 0,
     vci_launchAdvisoryIds = [], vci_currentAdvisoryIds = [], vci_launchTcbStatus = [],
     vci_currentTcbStatus = [], vci_isFilled = False\<rparr>"

section \<open>Operations\<close>

definition addLaunchInfo :: "time_t \<Rightarrow> string list \<Rightarrow> string \<Rightarrow> ver_coll_info \<Rightarrow> ver_coll_info" where
  "addLaunchInfo tcbDate advisoryIds tcbStatus v = v\<lparr>
     vci_launchTcbDate := tcbDate,
     vci_launchAdvisoryIds := set_insert_all string_less advisoryIds (vci_launchAdvisoryIds v),
     vci_launchTcbStatus := tcbStatus\<rparr>"

definition addCurrentInfo :: "time_t \<Rightarrow> string list \<Rightarrow> string \<Rightarrow> ver_coll_info \<Rightarrow> ver_coll_info" where
  "addCurrentInfo tcbDate advisoryIds tcbStatus v = v\<lparr>
     vci_currentTcbDate := tcbDate,
     vci_currentAdvisoryIds := set_insert_all string_less advisoryIds (vci_currentAdvisoryIds v),
     vci_currentTcbStatus := tcbStatus\<rparr>"

definition addTcbInfoData :: "tcb_info \<Rightarrow> ver_coll_info \<Rightarrow> ver_coll_info" where
  "addTcbInfoData tcbInfo v = v\<lparr>
     vci_issueDates := vci_issueDates v @ [ti_issueDate tcbInfo],
     vci_nextUpdates := vci_nextUpdates v @ [ti_nextUpdate tcbInfo],
     vci_tcbEvalNumbers := vci_tcbEvalNumbers v @ [ti_tcbEvaluationDataNumber tcbInfo]\<rparr>"

definition addEnclaveIdentityData :: "enclave_identity \<Rightarrow> ver_coll_info \<Rightarrow> ver_coll_info" where
  "addEnclaveIdentityData enclaveIdentity v = v\<lparr>
     vci_issueDates := vci_issueDates v @ [ei_issueDate enclaveIdentity],
     vci_nextUpdates := vci_nextUpdates v @ [ei_nextUpdate enclaveIdentity],
     vci_tcbEvalNumbers := vci_tcbEvalNumbers v @ [ei_tcbEvaluationDataNumber enclaveIdentity]\<rparr>"

definition setFilled :: "ver_coll_info \<Rightarrow> ver_coll_info" where
  "setFilled v = v\<lparr>vci_isFilled := True\<rparr>"

section \<open>Aggregation\<close>

definition VCI_ID_SIZE :: nat where [simp]: "VCI_ID_SIZE = 2"
definition VCI_VERSION_SIZE :: nat where [simp]: "VCI_VERSION_SIZE = 2"
definition VCI_DATE_SIZE :: nat where [simp]: "VCI_DATE_SIZE = 8"
definition VCI_TCB_EVALUATION_DATA_NUMBER_SIZE :: nat where [simp]:
  "VCI_TCB_EVALUATION_DATA_NUMBER_SIZE = 4"
definition VCI_ADVISORY_IDS_SIZE :: nat where [simp]: "VCI_ADVISORY_IDS_SIZE = 450"
definition VCI_TCB_STATUS_SIZE :: nat where [simp]: "VCI_TCB_STATUS_SIZE = 50"

definition VCI_SIZE :: nat where [simp]:
  "VCI_SIZE =
     VCI_ID_SIZE + VCI_VERSION_SIZE + VCI_DATE_SIZE + VCI_DATE_SIZE + VCI_DATE_SIZE +
     VCI_TCB_EVALUATION_DATA_NUMBER_SIZE + VCI_DATE_SIZE + VCI_DATE_SIZE +
     VCI_ADVISORY_IDS_SIZE + VCI_ADVISORY_IDS_SIZE + VCI_TCB_STATUS_SIZE + VCI_TCB_STATUS_SIZE"

definition advisoryIdsToString :: "string list \<Rightarrow> string outcome" where
  "advisoryIdsToString advisoryIds =
     (let s = concat (map (\<lambda>advisoryId. advisoryId @ '','') advisoryIds);
          advisoryIdsStr = (if s \<noteq> [] then butlast s else s)
      in if VCI_ADVISORY_IDS_SIZE \<le> length advisoryIdsStr then Inl VerCollInfoSizeException
         else Inr advisoryIdsStr)"

fun max_element :: "'a :: linorder list \<Rightarrow> 'a" where
  "max_element [x] = x"
| "max_element (x # y # ys) = max x (max_element (y # ys))"

text \<open>The first \<open>n\<close> bytes of an integer's representation, and the bytes of a string.\<close>

definition le_bytes :: "nat \<Rightarrow> 'a :: len word \<Rightarrow> bytes" where
  "le_bytes n w = map (\<lambda>i. ucast (drop_bit (8 * i) w)) [0..<n]"

definition time_bytes :: "time_t \<Rightarrow> bytes" where
  "time_bytes t = le_bytes VCI_DATE_SIZE (word_of_int t :: u64)"

definition string_bytes :: "string \<Rightarrow> bytes" where
  "string_bytes s = map of_char s"

text \<open>\<^verbatim>\<open>memcpy\<close> into the buffer at the offset, which then moves by the field size.\<close>

definition put_field :: "bytes \<times> nat \<Rightarrow> nat \<times> bytes \<Rightarrow> nat \<times> bytes" where
  "put_field = (\<lambda>(src, size) (offset, byteVec).
     (offset + size, take offset byteVec @ src @ drop (offset + length src) byteVec))"

definition aggregateDataAndParseToVec :: "ver_coll_info \<Rightarrow> bytes outcome" where
  "aggregateDataAndParseToVec v =
     (let byteVec0 = replicate VCI_SIZE 0 in
      if vci_issueDates v = [] \<or> vci_nextUpdates v = [] \<or> vci_tcbEvalNumbers v = [] then Inr byteVec0
      else
        let numbers = [
              (le_bytes VCI_ID_SIZE (vci_id v), VCI_ID_SIZE),
              (le_bytes VCI_VERSION_SIZE (vci_version v), VCI_VERSION_SIZE),
              (time_bytes (min_element (vci_issueDates v)), VCI_DATE_SIZE),
              (time_bytes (max_element (vci_issueDates v)), VCI_DATE_SIZE),
              (time_bytes (min_element (vci_nextUpdates v)), VCI_DATE_SIZE),
              (le_bytes VCI_TCB_EVALUATION_DATA_NUMBER_SIZE (min_element (vci_tcbEvalNumbers v)),
               VCI_TCB_EVALUATION_DATA_NUMBER_SIZE),
              (time_bytes (vci_launchTcbDate v), VCI_DATE_SIZE),
              (time_bytes (vci_currentTcbDate v), VCI_DATE_SIZE)]
        in
        bindE (advisoryIdsToString (vci_launchAdvisoryIds v)) (\<lambda>launchIds.
        bindE (advisoryIdsToString (vci_currentAdvisoryIds v)) (\<lambda>currentIds.
        bindE (throw_if (VCI_TCB_STATUS_SIZE \<le> length (vci_launchTcbStatus v))
                 VerCollInfoSizeException) (\<lambda>_.
        bindE (throw_if (VCI_TCB_STATUS_SIZE \<le> length (vci_currentTcbStatus v))
                 VerCollInfoSizeException) (\<lambda>_.
          let (offset, byteVec) = fold put_field
                (numbers @ [
                  (string_bytes launchIds, VCI_ADVISORY_IDS_SIZE),
                  (string_bytes currentIds, VCI_ADVISORY_IDS_SIZE),
                  (string_bytes (vci_launchTcbStatus v), VCI_TCB_STATUS_SIZE),
                  (string_bytes (vci_currentTcbStatus v), VCI_TCB_STATUS_SIZE)])
                (0, byteVec0)
          in if offset \<noteq> length byteVec then Inl VerCollInfoSizeException else Inr byteVec)))))"

section \<open>The layout of the record\<close>

definition padded :: "bytes \<times> nat \<Rightarrow> bytes" where
  "padded = (\<lambda>(src, size). src @ replicate (size - length src) 0)"

lemma fold_put_field:
  "\<forall>(src, size)\<in>set flds. length src \<le> size \<Longrightarrow>
   n = sum_list (map snd flds) \<Longrightarrow>
   fold put_field flds (length done, done @ replicate n 0) =
     (length done + n, done @ concat (map padded flds))"
proof (induction flds arbitrary: "done" n)
  case Nil
  then show ?case by simp
next
  case (Cons f fs)
  obtain src size where f: "f = (src, size)" by force
  let ?m = "sum_list (map snd fs)"
  from Cons.prems f have le: "length src \<le> size" and n: "n = size + ?m" by auto
  have "put_field f (length done, done @ replicate n 0) =
      (length (done @ padded f), (done @ padded f) @ replicate ?m 0)"
    using le by (simp add: f put_field_def padded_def n replicate_add [symmetric] drop_replicate)
  then show ?case using Cons.IH [of ?m "done @ padded f"] Cons.prems le
    by (simp add: f n padded_def)
qed

lemma length_le_bytes [simp]: "length (le_bytes n w) = n" "length (time_bytes t) = 8"
  "length (string_bytes s) = length s"
  by (simp_all add: le_bytes_def time_bytes_def string_bytes_def)

definition advisory_string :: "string list \<Rightarrow> string" where
  "advisory_string ids = (let s = concat (map (\<lambda>i. i @ '','') ids) in if s \<noteq> [] then butlast s else s)"

definition strings_fit :: "ver_coll_info \<Rightarrow> bool" where
  "strings_fit v \<longleftrightarrow>
     length (advisory_string (vci_launchAdvisoryIds v)) < 450 \<and>
     length (advisory_string (vci_currentAdvisoryIds v)) < 450 \<and>
     length (vci_launchTcbStatus v) < 50 \<and> length (vci_currentTcbStatus v) < 50"

definition has_data :: "ver_coll_info \<Rightarrow> bool" where
  "has_data v \<longleftrightarrow> vci_issueDates v \<noteq> [] \<and> vci_nextUpdates v \<noteq> [] \<and> vci_tcbEvalNumbers v \<noteq> []"

lemma advisoryIdsToString_eq:
  "advisoryIdsToString ids =
     (if length (advisory_string ids) < 450 then Inr (advisory_string ids)
      else Inl VerCollInfoSizeException)"
  by (auto simp: advisoryIdsToString_def advisory_string_def Let_def)

definition record_layout :: "ver_coll_info \<Rightarrow> bytes" where
  "record_layout v =
     le_bytes 2 (vci_id v) @ le_bytes 2 (vci_version v) @
     time_bytes (min_element (vci_issueDates v)) @ time_bytes (max_element (vci_issueDates v)) @
     time_bytes (min_element (vci_nextUpdates v)) @
     le_bytes 4 (min_element (vci_tcbEvalNumbers v)) @
     time_bytes (vci_launchTcbDate v) @ time_bytes (vci_currentTcbDate v) @
     padded (string_bytes (advisory_string (vci_launchAdvisoryIds v)), 450) @
     padded (string_bytes (advisory_string (vci_currentAdvisoryIds v)), 450) @
     padded (string_bytes (vci_launchTcbStatus v), 50) @
     padded (string_bytes (vci_currentTcbStatus v), 50)"

lemma length_record_layout: "strings_fit v \<Longrightarrow> length (record_layout v) = 1048"
  by (simp add: record_layout_def padded_def strings_fit_def)

lemma min_element_Min: "xs \<noteq> [] \<Longrightarrow> min_element xs = Min (set xs)"
  by (induction xs rule: min_element.induct) auto

lemma max_element_Max: "xs \<noteq> [] \<Longrightarrow> max_element xs = Max (set xs)"
  by (induction xs rule: max_element.induct) auto

lemma aggregate_eq:
  "aggregateDataAndParseToVec v =
     (if \<not> has_data v then Inr (replicate VCI_SIZE 0)
      else if strings_fit v then Inr (record_layout v)
      else Inl VerCollInfoSizeException)"
proof (cases "has_data v \<and> strings_fit v")
  case True
  let ?fields = "[(le_bytes 2 (vci_id v), 2), (le_bytes 2 (vci_version v), 2),
     (time_bytes (min_element (vci_issueDates v)), 8),
     (time_bytes (max_element (vci_issueDates v)), 8),
     (time_bytes (min_element (vci_nextUpdates v)), 8),
     (le_bytes 4 (min_element (vci_tcbEvalNumbers v)), 4),
     (time_bytes (vci_launchTcbDate v), 8), (time_bytes (vci_currentTcbDate v), 8),
     (string_bytes (advisory_string (vci_launchAdvisoryIds v)), 450),
     (string_bytes (advisory_string (vci_currentAdvisoryIds v)), 450),
     (string_bytes (vci_launchTcbStatus v), 50), (string_bytes (vci_currentTcbStatus v), 50)]"
  have "fold put_field ?fields (0, replicate 1048 0) = (1048, concat (map padded ?fields))"
    using fold_put_field [of ?fields 1048 "[]"] True by (simp add: strings_fit_def)
  moreover note length_record_layout [of v]
  moreover have "concat (map padded ?fields) = record_layout v"
    by (simp add: record_layout_def padded_def)
  ultimately show ?thesis using True
    by (simp add: aggregateDataAndParseToVec_def has_data_def strings_fit_def
        advisoryIdsToString_eq throw_if_def)
next
  case False
  then show ?thesis
    by (auto simp: aggregateDataAndParseToVec_def has_data_def strings_fit_def
        advisoryIdsToString_eq throw_if_def Let_def)
qed

text \<open>
  C13: the aggregated record.  Without collateral it is zero; otherwise every field sits at its
  offset with its own size (the strings zero-padded), the dates are the extremes of the collateral
  used, and the only failures are strings that would not fit with a terminating zero: the final
  size check never fires.
\<close>

theorem aggregate_layout:
  "aggregateDataAndParseToVec v =
     (if \<not> has_data v then Inr (replicate VCI_SIZE 0)
      else if strings_fit v then Inr (record_layout v)
      else Inl VerCollInfoSizeException)"
  by (rule aggregate_eq)

end
