(* ===== verification/QuoteModel.thy ===== *)
theory QuoteModel
  imports QuoteLayout
begin

text \<open>
  \<^verbatim>\<open>QuoteVerification/Quote.cpp\<close>: a \<open>quote\<close> is the C++ object; \<open>parse\<close>
  works on it the way the method does, in particular the header and the signed data are already
  stored when a later check fails, and everything read into locals is stored only at the end.
  The reference \<open>quote_accepted\<close> states the accepted inputs as arithmetic on the bytes.
\<close>

section \<open>State\<close>

record quote =
  q_header :: header
  q_body :: body
  q_enclaveReport :: enclave_report
  q_tdReport10 :: td_report10
  q_tdReport15 :: td_report15
  q_tdReport15Ex :: td_report15ex
  q_authDataSize :: u32
  q_signedData :: bytes
  q_authDataV3 :: quote_v3_auth_data
  q_authDataV4 :: quote_v4_auth_data
  q_qeReportSignature :: bytes
  q_qeReport :: enclave_report
  q_attestKeyData :: bytes
  q_qeAuthData :: bytes
  q_certificationData :: certification_data
  q_quoteSignature :: bytes

text \<open>
  The members of a fresh object.  \<^verbatim>\<open>authDataSize\<close> has no initialiser in the class;
  a successful \<^verbatim>\<open>parse\<close> writes it and nothing reads it before.
\<close>

definition quote_init :: quote where
  "quote_init = \<lparr>
     q_header = header_zero, q_body = body_zero, q_enclaveReport = enclave_report_zero,
     q_tdReport10 = td_report10_zero, q_tdReport15 = td_report15_zero,
     q_tdReport15Ex = td_report15ex_zero, q_authDataSize = 0, q_signedData = [],
     q_authDataV3 = v3_zero, q_authDataV4 = v4_zero,
     q_qeReportSignature = replicate 64 0, q_qeReport = enclave_report_zero,
     q_attestKeyData = replicate 64 0, q_qeAuthData = [],
     q_certificationData = certification_data_zero, q_quoteSignature = replicate 64 0\<rparr>"

text \<open>The locals of \<^verbatim>\<open>parse\<close> that hold the body until it succeeds.\<close>

record quote_locals =
  l_body :: body
  l_enclaveReport :: enclave_report
  l_tdReport10 :: td_report10
  l_tdReport15 :: td_report15
  l_tdReport15Ex :: td_report15ex

definition quote_locals_zero :: quote_locals where
  "quote_locals_zero = \<lparr>
     l_body = body_zero, l_enclaveReport = enclave_report_zero, l_tdReport10 = td_report10_zero,
     l_tdReport15 = td_report15_zero, l_tdReport15Ex = td_report15ex_zero\<rparr>"

section \<open>parse\<close>

definition getDataToSignatureVerification :: "bytes \<Rightarrow> nat \<Rightarrow> bytes" where
  "getDataToSignatureVerification rawQuote sizeToCopy = take sizeToCopy rawQuote"

type_synonym body_result = "bool \<times> quote \<times> quote_locals \<times> nat"

text \<open>One case of the \<^verbatim>\<open>switch\<close>: the size check, the report, the signed data.\<close>

definition parse_report ::
  "(bytes \<Rightarrow> nat \<Rightarrow> 's step) \<Rightarrow> nat \<Rightarrow> nat \<Rightarrow> (quote_locals \<Rightarrow> 's) \<Rightarrow>
   (('s \<Rightarrow> 's) \<Rightarrow> quote_locals \<Rightarrow> quote_locals) \<Rightarrow>
   bytes \<Rightarrow> quote \<Rightarrow> quote_locals \<Rightarrow> nat \<Rightarrow> body_result" where
  "parse_report ins len prefix get upd rawQuote q l from =
     (case copyAndAdvance_struct ins len rawQuote (length rawQuote) (get l, from) of
        (ok, report, from') \<Rightarrow>
          if \<not> ok then (False, q, l, from')
          else (True,
            q\<lparr>q_signedData := getDataToSignatureVerification rawQuote (prefix + len)\<rparr>,
            upd (\<lambda>_. report) l, from'))"

definition parse_body_v5 :: "bytes \<Rightarrow> quote \<Rightarrow> quote_locals \<Rightarrow> nat \<Rightarrow> body_result" where
  "parse_body_v5 rawQuote q l0 from0 =
     (case copyAndAdvance_struct body_insert BODY_BYTE_SIZE rawQuote (length rawQuote)
             (l_body l0, from0) of
        (ok, b, from) \<Rightarrow>
          if \<not> ok then (False, q, l0, from)
          else
            let l = l0\<lparr>l_body := b\<rparr>; prefix = HEADER_BYTE_LEN + BODY_BYTE_SIZE in
            if bodyType b = BODY_SGX_ENCLAVE_REPORT_TYPE then
              if unat (body_size b) \<noteq> ENCLAVE_REPORT_BYTE_LEN then (False, q, l, from)
              else parse_report enclaveReport_insert ENCLAVE_REPORT_BYTE_LEN prefix
                     l_enclaveReport l_enclaveReport_update rawQuote q l from
            else if bodyType b = BODY_TD_REPORT10_TYPE then
              if unat (body_size b) \<noteq> TD_REPORT10_BYTE_LEN then (False, q, l, from)
              else parse_report tdReport10_insert TD_REPORT10_BYTE_LEN prefix
                     l_tdReport10 l_tdReport10_update rawQuote q l from
            else if bodyType b = BODY_TD_REPORT15_TYPE then
              if unat (body_size b) \<noteq> TD_REPORT15_BYTE_LEN then (False, q, l, from)
              else parse_report tdReport15_insert TD_REPORT15_BYTE_LEN prefix
                     l_tdReport15 l_tdReport15_update rawQuote q l from
            else if bodyType b = BODY_TD_REPORT15EX_TYPE then
              if unat (body_size b) \<noteq> TD_REPORT15EX_BYTE_LEN then (False, q, l, from)
              else parse_report tdReport15Ex_insert TD_REPORT15EX_BYTE_LEN prefix
                     l_tdReport15Ex l_tdReport15Ex_update rawQuote q l from
            else (False, q, l, from))"

definition parse_body :: "bytes \<Rightarrow> header \<Rightarrow> quote \<Rightarrow> quote_locals \<Rightarrow> nat \<Rightarrow> body_result" where
  "parse_body rawQuote localHeader q l from =
     (if version localHeader > QUOTE_VERSION_4 then parse_body_v5 rawQuote q l from
      else if teeType localHeader = TEE_TYPE_SGX then
        parse_report enclaveReport_insert ENCLAVE_REPORT_BYTE_LEN HEADER_BYTE_LEN
          l_enclaveReport l_enclaveReport_update rawQuote q l from
      else if teeType localHeader = TEE_TYPE_TDX then
        parse_report tdReport10_insert TD_REPORT10_BYTE_LEN HEADER_BYTE_LEN
          l_tdReport10 l_tdReport10_update rawQuote q l from
      else (True, q, l, from))"

definition parse_auth_v3 :: "bytes \<Rightarrow> u32 \<Rightarrow> quote \<Rightarrow> nat \<Rightarrow> bool \<times> quote \<times> quote_v3_auth_data" where
  "parse_auth_v3 rawQuote localAuthDataSize q from =
     (case copyAndAdvance_struct quoteV3AuthData_insert (unat localAuthDataSize) rawQuote
             (length rawQuote) (v3_zero, from) of
        (ok, a, _) \<Rightarrow>
          if \<not> ok then (False, q, a)
          else (True, q\<lparr>
              q_qeReportSignature := signature (v3_qeReportSignature a),
              q_qeReport := v3_qeReport a,
              q_attestKeyData := pubKey (v3_ecdsaAttestationKey a),
              q_qeAuthData := qad_data (v3_qeAuthData a),
              q_certificationData := v3_certificationData a,
              q_quoteSignature := signature (v3_ecdsa256BitSignature a)\<rparr>, a))"

definition parse_auth_v4 :: "bytes \<Rightarrow> u32 \<Rightarrow> quote \<Rightarrow> nat \<Rightarrow> bool \<times> quote \<times> quote_v4_auth_data" where
  "parse_auth_v4 rawQuote localAuthDataSize q from =
     (case copyAndAdvance_struct quoteV4AuthData_insert (unat localAuthDataSize) rawQuote
             (length rawQuote) (v4_zero, from) of
        (ok, a, _) \<Rightarrow>
          if \<not> ok then (False, q, a)
          else
            let reportBytes = cd_data (v4_certificationData a) in
            (case qeReportCertificationData_insert reportBytes (length reportBytes) (qrc_zero, 0) of
               (ok', r, _) \<Rightarrow>
                 if \<not> ok' then (False, q, a)
                 else (True, q\<lparr>
                     q_qeReportSignature := signature (qrc_qeReportSignature r),
                     q_qeReport := qrc_qeReport r,
                     q_qeAuthData := qad_data (qrc_qeAuthData r),
                     q_attestKeyData := pubKey (v4_ecdsaAttestationKey a),
                     q_certificationData := qrc_certificationData r,
                     q_quoteSignature := signature (v4_ecdsa256BitSignature a)\<rparr>, a)))"

definition parse_auth ::
  "bytes \<Rightarrow> header \<Rightarrow> quote \<Rightarrow> nat \<Rightarrow>
   bool \<times> quote \<times> u32 \<times> quote_v3_auth_data \<times> quote_v4_auth_data" where
  "parse_auth rawQuote localHeader q from0 =
     (case copyAndAdvance_u32 rawQuote (length rawQuote) from0 of
        None \<Rightarrow> (False, q, 0, v3_zero, v4_zero)
      | Some (localAuthDataSize, from) \<Rightarrow>
          let remainingDistance = int (length rawQuote) - int from in
          if int (unat localAuthDataSize) > remainingDistance
          then (False, q, localAuthDataSize, v3_zero, v4_zero)
          else if version localHeader = QUOTE_VERSION_3 then
            (case parse_auth_v3 rawQuote localAuthDataSize q from of
               (ok, q', a) \<Rightarrow> (ok, q', localAuthDataSize, a, v4_zero))
          else if version localHeader > QUOTE_VERSION_3 then
            (case parse_auth_v4 rawQuote localAuthDataSize q from of
               (ok, q', a) \<Rightarrow> (ok, q', localAuthDataSize, v3_zero, a))
          else (True, q, localAuthDataSize, v3_zero, v4_zero))"

definition parse :: "bytes \<Rightarrow> quote \<Rightarrow> bool \<times> quote" where
  "parse rawQuote q0 =
     (if length rawQuote < QUOTE_MIN_BYTE_LEN then (False, q0)
      else
        case copyAndAdvance_struct header_insert HEADER_BYTE_LEN rawQuote (length rawQuote)
               (header_zero, 0) of
          (ok, localHeader, from) \<Rightarrow>
            if \<not> ok then (False, q0)
            else
              (case parse_body rawQuote localHeader (q0\<lparr>q_header := localHeader\<rparr>)
                      quote_locals_zero from of
                 (ok1, q1, l, from1) \<Rightarrow>
                   if \<not> ok1 then (False, q1)
                   else
                     (case parse_auth rawQuote localHeader q1 from1 of
                        (ok2, q2, localAuthDataSize, localV3, localV4) \<Rightarrow>
                          if \<not> ok2 then (False, q2)
                          else (True, q2\<lparr>
                              q_body := l_body l,
                              q_enclaveReport := l_enclaveReport l,
                              q_tdReport10 := l_tdReport10 l,
                              q_tdReport15 := l_tdReport15 l,
                              q_tdReport15Ex := l_tdReport15Ex l,
                              q_authDataSize := localAuthDataSize,
                              q_authDataV3 := localV3,
                              q_authDataV4 := localV4\<rparr>))))"

section \<open>validate\<close>

definition validate :: "quote \<Rightarrow> bool" where
  "validate q =
     (let h = q_header q;
          cdType = cd_type (q_certificationData q);
          v3Type = cd_type (v3_certificationData (q_authDataV3 q));
          v4Type = cd_type (v4_certificationData (q_authDataV4 q));
          bt = bodyType (q_body q) in
      if version h \<notin> set ALLOWED_QUOTE_VERSIONS then False
      else if attestationKeyType h \<notin> set ALLOWED_ATTESTATION_KEY_TYPES then False
      else if teeType h \<notin> set ALLOWED_TEE_TYPES then False
      else if qeVendorId h \<noteq> INTEL_QE_VENDOR_ID then False
      else if version h = QUOTE_VERSION_3 \<and> teeType h \<noteq> TEE_TYPE_SGX then False
      else if version h = QUOTE_VERSION_3 \<and> (v3Type < 1 \<or> v3Type > 5) then False
      else if (version h = QUOTE_VERSION_4 \<or> version h = QUOTE_VERSION_5) \<and>
              v4Type \<noteq> PCK_ID_QE_REPORT_CERTIFICATION_DATA then False
      else if (version h = QUOTE_VERSION_4 \<or> version h = QUOTE_VERSION_5) \<and>
              (cdType < 1 \<or> cdType > 5) then False
      else if version h = QUOTE_VERSION_5 \<and> bt \<notin> set ALLOWED_BODY_TYPES then False
      else if version h = QUOTE_VERSION_5 \<and> teeType h = TEE_TYPE_SGX \<and>
              bt \<noteq> BODY_SGX_ENCLAVE_REPORT_TYPE then False
      else if version h = QUOTE_VERSION_5 \<and> teeType h \<noteq> TEE_TYPE_SGX \<and>
              bt = BODY_SGX_ENCLAVE_REPORT_TYPE then False
      else True)"

section \<open>Access helpers\<close>

definition getTeeTcbSvn :: "quote \<Rightarrow> bytes" where
  "getTeeTcbSvn q =
     (if version (q_header q) < QUOTE_VERSION_4 then replicate 16 0
      else if version (q_header q) = QUOTE_VERSION_4 then td_teeTcbSvn (q_tdReport10 q)
      else if bodyType (q_body q) = BODY_TD_REPORT10_TYPE then td_teeTcbSvn (q_tdReport10 q)
      else if bodyType (q_body q) = BODY_TD_REPORT15_TYPE then td_teeTcbSvn (q_tdReport15 q)
      else td_teeTcbSvn (q_tdReport15Ex q))"

definition getTeeTcbSvn2 :: "quote \<Rightarrow> bytes" where
  "getTeeTcbSvn2 q =
     (if bodyType (q_body q) = BODY_TD_REPORT15_TYPE then td_teeTcbSvn2 (q_tdReport15 q)
      else td_teeTcbSvn2 (q_tdReport15Ex q))"

definition getMrSignerSeam :: "quote \<Rightarrow> bytes" where
  "getMrSignerSeam q =
     (if version (q_header q) = QUOTE_VERSION_4 then td_mrSignerSeam (q_tdReport10 q)
      else if bodyType (q_body q) = BODY_TD_REPORT10_TYPE then td_mrSignerSeam (q_tdReport10 q)
      else if bodyType (q_body q) = BODY_TD_REPORT15_TYPE then td_mrSignerSeam (q_tdReport15 q)
      else td_mrSignerSeam (q_tdReport15Ex q))"

definition getSeamAttributes :: "quote \<Rightarrow> bytes" where
  "getSeamAttributes q =
     (if version (q_header q) = QUOTE_VERSION_4 then td_seamAttributes (q_tdReport10 q)
      else if bodyType (q_body q) = BODY_TD_REPORT10_TYPE then td_seamAttributes (q_tdReport10 q)
      else if bodyType (q_body q) = BODY_TD_REPORT15_TYPE then td_seamAttributes (q_tdReport15 q)
      else td_seamAttributes (q_tdReport15Ex q))"

section \<open>The accepted inputs\<close>

definition raw_header :: "bytes \<Rightarrow> header" where
  "raw_header raw = fill_header (slice 0 48 raw) header_zero"

definition raw_body :: "bytes \<Rightarrow> body" where
  "raw_body raw = fill_body (slice 48 6 raw) body_zero"

text \<open>Where the report is and how long it is; \<open>None\<close> where the declared body is refused.\<close>

definition report_span :: "bytes \<Rightarrow> (nat \<times> nat) option" where
  "report_span raw =
     (let h = raw_header raw; b = raw_body raw; sz = unat (body_size b) in
      if version h > 4 then
        if bodyType b = 1 \<and> sz = 384 \<or> bodyType b = 2 \<and> sz = 584 \<or>
           bodyType b = 3 \<and> sz = 648 \<or> bodyType b = 4 \<and> sz = 885
        then Some (54, sz) else None
      else if teeType h = 0 then Some (48, 384)
      else if teeType h = 0x81 then Some (48, 584)
      else Some (48, 0))"

definition body_accepted :: "bytes \<Rightarrow> bool" where
  "body_accepted raw = (case report_span raw of None \<Rightarrow> False | Some (b, n) \<Rightarrow> b + n \<le> length raw)"

definition v3_fits :: "bytes \<Rightarrow> nat \<Rightarrow> nat \<Rightarrow> bool" where
  "v3_fits raw b e =
     (let a = unat (u16_le raw (b + 576)) in
      b + 584 + a \<le> e \<and> b + 584 + a + unat (u32_le raw (b + 580 + a)) \<le> e)"

definition v4_fits :: "bytes \<Rightarrow> nat \<Rightarrow> nat \<Rightarrow> bool" where
  "v4_fits raw b e \<longleftrightarrow> b + 134 \<le> e \<and> b + 134 + unat (u32_le raw (b + 130)) \<le> e"

definition qe_report_data_fits :: "bytes \<Rightarrow> bool" where
  "qe_report_data_fits d =
     (let a = unat (u16_le d 448) in
      456 + a \<le> length d \<and> 456 + a + unat (u32_le d (452 + a)) = length d)"

definition auth_accepted :: "bytes \<Rightarrow> nat \<Rightarrow> bool" where
  "auth_accepted raw p =
     (let v = version (raw_header raw); e = p + 4 + unat (u32_le raw p) in
      p + 4 \<le> length raw \<and> e \<le> length raw \<and>
      (v = 3 \<longrightarrow> v3_fits raw (p + 4) e) \<and>
      (v > 3 \<longrightarrow> v4_fits raw (p + 4) e \<and>
         qe_report_data_fits (slice (p + 138) (unat (u32_le raw (p + 134))) raw)))"

definition quote_accepted :: "bytes \<Rightarrow> bool" where
  "quote_accepted raw =
     (1020 \<le> length raw \<and> body_accepted raw \<and>
      (case report_span raw of None \<Rightarrow> False | Some (b, n) \<Rightarrow> auth_accepted raw (b + n)))"

section \<open>parse implements the reference\<close>

context fixed_struct
begin

lemma parse_report_read:
  "p \<le> length raw \<Longrightarrow> length raw < 2 ^ 32 \<Longrightarrow>
   parse_report ins len prefix get upd raw q l p =
     (if p + len \<le> length raw
      then (True, q\<lparr>q_signedData := take (prefix + len) raw\<rparr>,
            upd (\<lambda>_. fill (slice p len raw) (get l)) l, p + len)
      else (False, q, l, p))"
  by (simp add: parse_report_def struct_read getDataToSignatureVerification_def)

end

definition report_locals :: "bytes \<Rightarrow> quote_locals \<Rightarrow> quote_locals" where
  "report_locals raw l =
     (let h = raw_header raw; bt = bodyType (raw_body raw) in
      if version h > 4 then
        let l' = l\<lparr>l_body := raw_body raw\<rparr> in
        if bt = 1 then l'\<lparr>l_enclaveReport := fill_enclaveReport (slice 54 384 raw) (l_enclaveReport l)\<rparr>
        else if bt = 2 then l'\<lparr>l_tdReport10 := fill_tdReport10 (slice 54 584 raw) (l_tdReport10 l)\<rparr>
        else if bt = 3 then l'\<lparr>l_tdReport15 := fill_tdReport15 (slice 54 648 raw) (l_tdReport15 l)\<rparr>
        else l'\<lparr>l_tdReport15Ex := fill_tdReport15Ex (slice 54 885 raw) (l_tdReport15Ex l)\<rparr>
      else if teeType h = 0 then
        l\<lparr>l_enclaveReport := fill_enclaveReport (slice 48 384 raw) (l_enclaveReport l)\<rparr>
      else if teeType h = 0x81 then
        l\<lparr>l_tdReport10 := fill_tdReport10 (slice 48 584 raw) (l_tdReport10 l)\<rparr>
      else l)"

lemmas report_reads = er.parse_report_read td10.parse_report_read td15.parse_report_read
  td15ex.parse_report_read

lemma raw_body_fill: "fill_body bs b = fill_body bs body_zero"
  by (simp add: fill_body_def body_zero_def)

lemma raw_header_fill: "fill_header bs b = fill_header bs header_zero"
  by (simp add: fill_header_def header_zero_def)

lemma parse_body_v5_spec:
  assumes "54 \<le> length raw" "length raw < 2 ^ 32" "version (raw_header raw) > 4"
  shows "case report_span raw of
      None \<Rightarrow> \<not> fst (parse_body_v5 raw q l 48)
    | Some (b, n) \<Rightarrow>
        if b + n \<le> length raw
        then parse_body_v5 raw q l 48 =
               (True, q\<lparr>q_signedData := take (b + n) raw\<rparr>, report_locals raw l, b + n)
        else \<not> fst (parse_body_v5 raw q l 48)"
  using assms
  by (simp add: parse_body_v5_def bdy.struct_read raw_body_fill [of _ "l_body l"]
      report_span_def report_locals_def report_reads raw_body_def [symmetric] Let_def)

lemma length_slice_u32: "length (slice i (unat (n :: u32)) xs) < 4294967296"
  using unsigned_less [of n, where 'a = nat] by (simp add: slice_def min_less_iff_disj)

definition has_report :: "bytes \<Rightarrow> bool" where
  "has_report raw \<longleftrightarrow>
     version (raw_header raw) > 4 \<or> teeType (raw_header raw) = 0 \<or> teeType (raw_header raw) = 0x81"

lemma parse_body_spec:
  assumes "54 \<le> length raw" "length raw < 2 ^ 32"
  shows "case report_span raw of
      None \<Rightarrow> \<not> fst (parse_body raw (raw_header raw) q l 48)
    | Some (b, n) \<Rightarrow>
        if b + n \<le> length raw
        then parse_body raw (raw_header raw) q l 48 =
               (True, if has_report raw then q\<lparr>q_signedData := take (b + n) raw\<rparr> else q,
                report_locals raw l, b + n)
        else \<not> fst (parse_body raw (raw_header raw) q l 48)"
proof (cases "version (raw_header raw) > 4")
  case True
  with parse_body_v5_spec [OF assms True, of q l] show ?thesis
    by (auto simp: parse_body_def has_report_def split: option.splits)
next
  case False
  with assms show ?thesis
    by (simp add: parse_body_def has_report_def report_span_def report_locals_def report_reads Let_def)
qed

lemma parse_auth_v3_spec:
  assumes "p + unat n \<le> length raw" "length raw < 2 ^ 32"
  shows "case p_quoteV3AuthData raw (p + unat n) v3_zero p of
       None \<Rightarrow> \<not> fst (parse_auth_v3 raw n q p)
     | Some (a, _) \<Rightarrow> parse_auth_v3 raw n q p = (True, q\<lparr>
              q_qeReportSignature := signature (v3_qeReportSignature a),
              q_qeReport := v3_qeReport a,
              q_attestKeyData := pubKey (v3_ecdsaAttestationKey a),
              q_qeAuthData := qad_data (v3_qeAuthData a),
              q_certificationData := v3_certificationData a,
              q_quoteSignature := signature (v3_ecdsa256BitSignature a)\<rparr>, a)"
proof (cases "p_quoteV3AuthData raw (p + unat n) v3_zero p")
  case None
  with assms reads_to_None [OF quoteV3AuthData_reads_to, of "p + unat n" raw p v3_zero]
  show ?thesis by (auto simp: parse_auth_v3_def copyAndAdvance_struct_eq split: prod.split)
next
  case (Some ap)
  obtain a p' where "ap = (a, p')" by force
  with Some assms reads_to_Some [OF quoteV3AuthData_reads_to, of "p + unat n" raw p v3_zero a p']
  show ?thesis by (simp add: parse_auth_v3_def copyAndAdvance_struct_eq)
qed

definition v4_report_data :: "quote_v4_auth_data \<Rightarrow> qe_report_certification_data option" where
  "v4_report_data a =
     (let d = cd_data (v4_certificationData a) in
      map_option fst (p_qeReportCertificationData d (length d) qrc_zero 0))"

lemma parse_auth_v4_spec:
  assumes "p + unat n \<le> length raw" "length raw < 2 ^ 32"
  shows "case p_quoteV4AuthData raw (p + unat n) v4_zero p of
       None \<Rightarrow> \<not> fst (parse_auth_v4 raw n q p)
     | Some (a, _) \<Rightarrow> (case v4_report_data a of
         None \<Rightarrow> \<not> fst (parse_auth_v4 raw n q p)
       | Some r \<Rightarrow> parse_auth_v4 raw n q p = (True, q\<lparr>
                     q_qeReportSignature := signature (qrc_qeReportSignature r),
                     q_qeReport := qrc_qeReport r,
                     q_qeAuthData := qad_data (qrc_qeAuthData r),
                     q_attestKeyData := pubKey (v4_ecdsaAttestationKey a),
                     q_certificationData := qrc_certificationData r,
                     q_quoteSignature := signature (v4_ecdsa256BitSignature a)\<rparr>, a))"
proof (cases "p_quoteV4AuthData raw (p + unat n) v4_zero p")
  case None
  with assms reads_to_None [OF quoteV4AuthData_reads_to, of "p + unat n" raw p v4_zero]
  show ?thesis by (auto simp: parse_auth_v4_def copyAndAdvance_struct_eq split: prod.split)
next
  case (Some ap)
  obtain a p' where ap: "ap = (a, p')" by force
  let ?d = "cd_data (v4_certificationData a)"
  have small: "length ?d < 2 ^ 32"
    using p_quoteV4AuthData_value [of raw "p + unat n" v4_zero p a p'] Some ap
    by (simp add: length_slice_u32)
  from Some ap assms reads_to_Some [OF quoteV4AuthData_reads_to, of "p + unat n" raw p v4_zero a p']
  have a: "quoteV4AuthData_insert raw (p + unat n) (v4_zero, p) = (True, a, p')" by simp
  note qrc = qeReportCertificationData_reads_to [of "length ?d" ?d]
  show ?thesis
  proof (cases "p_qeReportCertificationData ?d (length ?d) qrc_zero 0")
    case None
    from reads_to_None [OF qrc _ small None] Some ap a assms None show ?thesis
      by (auto simp: parse_auth_v4_def copyAndAdvance_struct_eq v4_report_data_def Let_def
          split: prod.split)
  next
    case (Some rp)
    obtain r r' where "rp = (r, r')" by force
    with reads_to_Some [OF qrc _ small] Some \<open>p_quoteV4AuthData _ _ _ _ = _\<close> ap a assms
    show ?thesis
      by (simp add: parse_auth_v4_def copyAndAdvance_struct_eq v4_report_data_def Let_def)
  qed
qed

lemma v3_fits_iff: "v3_fits raw b e \<longleftrightarrow> p_quoteV3AuthData raw e s b \<noteq> None"
  unfolding v3_fits_def p_quoteV3AuthData_iff ..

lemma v4_fits_iff: "v4_fits raw b e \<longleftrightarrow> p_quoteV4AuthData raw e s b \<noteq> None"
  unfolding v4_fits_def p_quoteV4AuthData_iff ..

lemma v4_report_data_iff:
  assumes "p_quoteV4AuthData raw e s b = Some (a, b')"
  shows "v4_report_data a \<noteq> None \<longleftrightarrow>
    qe_report_data_fits (slice (b + 134) (unat (u32_le raw (b + 130))) raw)"
  using p_quoteV4AuthData_value [OF assms]
    p_qeReportCertificationData_iff [of "cd_data (v4_certificationData a)" _ qrc_zero 0]
  by (simp add: v4_report_data_def qe_report_data_fits_def Let_def)

lemma parse_auth_v3_accepts:
  "p + unat n \<le> length raw \<Longrightarrow> length raw < 2 ^ 32 \<Longrightarrow>
   fst (parse_auth_v3 raw n q p) \<longleftrightarrow> v3_fits raw p (p + unat n)"
  using parse_auth_v3_spec [of p n raw q]
  by (auto simp: v3_fits_iff [of raw p _ v3_zero] split: option.splits)

lemma parse_auth_v4_accepts:
  assumes "p + unat n \<le> length raw" "length raw < 2 ^ 32"
  shows "fst (parse_auth_v4 raw n q p) \<longleftrightarrow> v4_fits raw p (p + unat n) \<and>
     qe_report_data_fits (slice (p + 134) (unat (u32_le raw (p + 130))) raw)"
proof (cases "p_quoteV4AuthData raw (p + unat n) v4_zero p")
  case None
  with parse_auth_v4_spec [OF assms, of q] v4_fits_iff [of raw p "p + unat n" v4_zero]
  show ?thesis by simp
next
  case (Some ap)
  obtain a p' where "ap = (a, p')" by force
  with Some v4_report_data_iff [of raw _ v4_zero p a p'] v4_fits_iff [of raw p "p + unat n" v4_zero]
    parse_auth_v4_spec [OF assms, of q]
  show ?thesis by (auto split: option.splits)
qed

lemma distance_check:
  "f \<le> L \<Longrightarrow> (int L - int f < int (unat (n :: u32))) = (\<not> f + unat n \<le> L)"
  by linarith

lemma parse_auth_accepts:
  assumes "p \<le> length raw" "length raw < 2 ^ 32"
  shows "fst (parse_auth raw (raw_header raw) q p) \<longleftrightarrow> auth_accepted raw p"
proof (cases "p + 4 \<le> length raw \<and> p + 4 + unat (u32_le raw p) \<le> length raw")
  case True
  with assms show ?thesis
    by (simp add: parse_auth_def auth_accepted_def Let_def copyAndAdvance_u32_eq distance_check
        parse_auth_v3_accepts parse_auth_v4_accepts split_def add.commute
        del: of_nat_unat of_nat_add)
next
  case False
  with assms show ?thesis
    by (auto simp: parse_auth_def auth_accepted_def Let_def copyAndAdvance_u32_eq distance_check
        split_def simp del: of_nat_unat of_nat_add)
qed

lemma raw_header_read:
  "1020 \<le> length raw \<Longrightarrow> length raw < 2 ^ 32 \<Longrightarrow>
   copyAndAdvance_struct header_insert 48 raw (length raw) (h, 0) = (True, raw_header raw, 48)"
  by (simp add: hdr.struct_read raw_header_def raw_header_fill [of _ h])

lemma parse_accepts:
  assumes "length raw < 2 ^ 32"
  shows "fst (parse raw q) \<longleftrightarrow> quote_accepted raw"
proof (cases "1020 \<le> length raw")
  case False
  then show ?thesis by (simp add: parse_def quote_accepted_def)
next
  case True
  let ?q = "q\<lparr>q_header := raw_header raw\<rparr>"
  note body = parse_body_spec [of raw ?q quote_locals_zero]
  show ?thesis
  proof (cases "report_span raw")
    case None
    with True assms body show ?thesis
      by (auto simp: parse_def quote_accepted_def body_accepted_def raw_header_read split: prod.split)
  next
    case (Some bn)
    obtain b n where bn: "bn = (b, n)" by force
    show ?thesis
    proof (cases "b + n \<le> length raw")
      case False
      with True assms body Some bn show ?thesis
        by (auto simp: parse_def quote_accepted_def body_accepted_def raw_header_read
            split: prod.split)
    next
      case fits: True
      with True assms body Some bn
        parse_auth_accepts [OF fits assms, of "?q\<lparr>q_signedData := take (b + n) raw\<rparr>"]
        parse_auth_accepts [OF fits assms, of ?q]
      show ?thesis
        by (auto simp: parse_def quote_accepted_def body_accepted_def raw_header_read split_def)
    qed
  qed
qed

section \<open>What an accepted quote holds\<close>

lemma parse_auth_v3_keeps:
  "q_header (fst (snd (parse_auth_v3 raw n q p))) = q_header q"
  "q_signedData (fst (snd (parse_auth_v3 raw n q p))) = q_signedData q"
  by (simp_all add: parse_auth_v3_def split: prod.split)

lemma parse_auth_v4_keeps:
  "q_header (fst (snd (parse_auth_v4 raw n q p))) = q_header q"
  "q_signedData (fst (snd (parse_auth_v4 raw n q p))) = q_signedData q"
  by (simp_all add: parse_auth_v4_def Let_def split: prod.split)

lemma parse_auth_keeps:
  "q_header (fst (snd (parse_auth raw h q p))) = q_header q"
  "q_signedData (fst (snd (parse_auth raw h q p))) = q_signedData q"
  by (simp_all add: parse_auth_def Let_def split_def parse_auth_v3_keeps parse_auth_v4_keeps
      split: option.split)

lemma parse_success:
  assumes "fst (parse raw q)" and "length raw < 2 ^ 32"
  obtains b n auth where
    "report_span raw = Some (b, n)" "b + n \<le> length raw" "1020 \<le> length raw"
    "auth = parse_auth raw (raw_header raw)
       (let q1 = q\<lparr>q_header := raw_header raw\<rparr> in
        if has_report raw then q1\<lparr>q_signedData := take (b + n) raw\<rparr> else q1) (b + n)"
    "fst auth"
    "snd (parse raw q) =
       (let l = report_locals raw quote_locals_zero in
        (fst (snd auth))\<lparr>
          q_body := l_body l, q_enclaveReport := l_enclaveReport l,
          q_tdReport10 := l_tdReport10 l, q_tdReport15 := l_tdReport15 l,
          q_tdReport15Ex := l_tdReport15Ex l,
          q_authDataSize := fst (snd (snd auth)),
          q_authDataV3 := fst (snd (snd (snd auth))),
          q_authDataV4 := snd (snd (snd (snd auth)))\<rparr>)"
proof -
  from assms have acc: "quote_accepted raw" by (simp add: parse_accepts)
  then obtain b n where bn: "report_span raw = Some (b, n)" "b + n \<le> length raw" "1020 \<le> length raw"
    by (auto simp: quote_accepted_def body_accepted_def split: option.splits)
  let ?q1 = "let q1 = q\<lparr>q_header := raw_header raw\<rparr> in
        if has_report raw then q1\<lparr>q_signedData := take (b + n) raw\<rparr> else q1"
  have body: "parse_body raw (raw_header raw) (q\<lparr>q_header := raw_header raw\<rparr>) quote_locals_zero 48 =
      (True, ?q1, report_locals raw quote_locals_zero, b + n)"
    using parse_body_spec [of raw "q\<lparr>q_header := raw_header raw\<rparr>" quote_locals_zero] bn assms(2)
    by (simp add: Let_def)
  from bn body assms show thesis
    by (intro that [OF bn refl]) (simp_all add: parse_def raw_header_read Let_def split_def
        split: if_splits)
qed

text \<open>The bytes of the report a parsed quote exposes, by version and type.\<close>

definition report_blob :: "quote \<Rightarrow> bytes" where
  "report_blob q =
     (let h = q_header q; bt = bodyType (q_body q) in
      if version h > 4 then
        if bt = 1 then enclaveReport_rawBlob (q_enclaveReport q)
        else if bt = 2 then tdReport10_rawBlob (q_tdReport10 q)
        else if bt = 3 then tdReport15_rawBlob (q_tdReport15 q)
        else tdReport15Ex_rawBlob (q_tdReport15Ex q)
      else if teeType h = 0 then enclaveReport_rawBlob (q_enclaveReport q)
      else tdReport10_rawBlob (q_tdReport10 q))"

lemmas raw_of_slice = er.raw_fill td10.raw_fill td15.raw_fill td15ex.raw_fill length_slice

lemma take_as_slices: "take (b + n) xs = slice 0 b xs @ slice b n xs"
  by (simp add: slice_def take_add)

lemma report_locals_blob:
  assumes "report_span raw = Some (b, n)" "b + n \<le> length raw" "has_report raw"
    and "q_header q = raw_header raw" "l = report_locals raw l0"
    and "q_body q = l_body l" "q_enclaveReport q = l_enclaveReport l"
    "q_tdReport10 q = l_tdReport10 l" "q_tdReport15 q = l_tdReport15 l"
    "q_tdReport15Ex q = l_tdReport15Ex l"
  shows "report_blob q = slice b n raw"
proof (cases "version (raw_header raw) > 4")
  case True
  with assms show ?thesis
    by (auto simp: report_span_def report_blob_def report_locals_def Let_def raw_of_slice
        split: if_splits)
next
  case False
  with assms show ?thesis
    by (auto simp: report_span_def report_blob_def report_locals_def has_report_def Let_def
        raw_of_slice split: if_splits)
qed

lemma parse_signed_prefix:
  assumes "fst (parse raw q)" and "length raw < 2 ^ 32"
  shows "q_signedData (snd (parse raw q)) =
     (if version (q_header (snd (parse raw q))) > QUOTE_VERSION_4 \<or>
         teeType (q_header (snd (parse raw q))) \<in> set ALLOWED_TEE_TYPES
      then slice 0 (if version (q_header (snd (parse raw q))) > QUOTE_VERSION_4
                    then HEADER_BYTE_LEN + BODY_BYTE_SIZE else HEADER_BYTE_LEN) raw @
           report_blob (snd (parse raw q))
      else q_signedData q)"
proof -
  obtain b n auth where p: "report_span raw = Some (b, n)" "b + n \<le> length raw"
    "auth = parse_auth raw (raw_header raw)
       (let q1 = q\<lparr>q_header := raw_header raw\<rparr> in
        if has_report raw then q1\<lparr>q_signedData := take (b + n) raw\<rparr> else q1) (b + n)"
    and q': "snd (parse raw q) =
   (let l = report_locals raw quote_locals_zero in
        (fst (snd auth))\<lparr>
          q_body := l_body l, q_enclaveReport := l_enclaveReport l,
          q_tdReport10 := l_tdReport10 l, q_tdReport15 := l_tdReport15 l,
          q_tdReport15Ex := l_tdReport15Ex l,
          q_authDataSize := fst (snd (snd auth)),
          q_authDataV3 := fst (snd (snd (snd auth))),
          q_authDataV4 := snd (snd (snd (snd auth)))\<rparr>)"
    by (rule parse_success [OF assms])
  have h: "q_header (snd (parse raw q)) = raw_header raw"
    by (simp add: q' p(3) Let_def parse_auth_keeps)
  have known: "version (q_header (snd (parse raw q))) > QUOTE_VERSION_4 \<or>
      teeType (q_header (snd (parse raw q))) \<in> set ALLOWED_TEE_TYPES \<longleftrightarrow> has_report raw"
    by (auto simp: h has_report_def ALLOWED_TEE_TYPES_def)
  show ?thesis
  proof (cases "has_report raw")
    case True
    then have "q_signedData (snd (parse raw q)) = take (b + n) raw"
      by (simp add: q' p(3) Let_def parse_auth_keeps)
    moreover have "report_blob (snd (parse raw q)) = slice b n raw"
      by (rule report_locals_blob [OF p(1,2) True h refl [of "report_locals raw quote_locals_zero"]])
        (simp_all add: q' Let_def)
    moreover have "b = (if version (raw_header raw) > 4 then 54 else 48)"
      using p(1) by (auto simp: report_span_def Let_def split: if_splits)
    ultimately show ?thesis using True unfolding known by (simp add: h take_as_slices)
  next
    case False
    then show ?thesis unfolding known by (simp add: q' p(3) Let_def parse_auth_keeps)
  qed
qed

text \<open>
  C3: what the signature of an accepted quote is checked over.  Of version 5 on, and of the TEE types
  SGX and TDX, the data kept for the check are the quote's prefix before the report followed by the raw
  bytes of the report members its accessors return, whatever the body type.  An accepted quote of an
  earlier version with another TEE type has no report: it keeps the signed data the object had before,
  and is not valid.
\<close>

theorem parse_signs_what_it_stores:
  assumes "fst (parse raw q)" and "length raw < 2 ^ 32"
  shows "q_signedData (snd (parse raw q)) =
     (if version (q_header (snd (parse raw q))) > QUOTE_VERSION_4 \<or>
         teeType (q_header (snd (parse raw q))) \<in> set ALLOWED_TEE_TYPES
      then slice 0 (if version (q_header (snd (parse raw q))) > QUOTE_VERSION_4
                    then HEADER_BYTE_LEN + BODY_BYTE_SIZE else HEADER_BYTE_LEN) raw @
           report_blob (snd (parse raw q))
      else q_signedData q) \<and>
    (teeType (q_header (snd (parse raw q))) \<notin> set ALLOWED_TEE_TYPES \<longrightarrow> \<not> validate (snd (parse raw q)))"
  using parse_signed_prefix [OF assms] by (simp add: validate_def Let_def)

text \<open>
  C4: the exact accepted inputs of \<^verbatim>\<open>Quote::parse\<close>: at least 1020 bytes, a body whose
  declared type and size match, a report, an authentication block inside the buffer, and
  authentication data whose nested sizes fit (exactly, for the QE report data of version 4 and 5).
\<close>

theorem parse_accepts_iff:
  "length raw < 2 ^ 32 \<Longrightarrow> fst (parse raw q) \<longleftrightarrow> quote_accepted raw"
  by (rule parse_accepts)

lemma parse_header:
  assumes "fst (parse raw q)" and "length raw < 2 ^ 32"
  shows "q_header (snd (parse raw q)) = raw_header raw"
  by (rule parse_success [OF assms]) (simp add: Let_def parse_auth_keeps)

lemma parse_body_stored:
  assumes "fst (parse raw q)" and "length raw < 2 ^ 32"
  shows "q_body (snd (parse raw q)) = (if version (raw_header raw) > 4 then raw_body raw else body_zero)"
  by (rule parse_success [OF assms])
    (simp add: Let_def report_locals_def quote_locals_zero_def)

lemma parse_auth_v3_result:
  assumes "fst (parse_auth_v3 raw n q p)" "p + unat n \<le> length raw" "length raw < 2 ^ 32"
  shows "let q' = fst (snd (parse_auth_v3 raw n q p)); a = unat (u16_le raw (p + 576)) in
    q_quoteSignature q' = slice p 64 raw \<and> q_attestKeyData q' = slice (p + 64) 64 raw \<and>
    enclaveReport_rawBlob (q_qeReport q') = slice (p + 128) 384 raw \<and>
    q_qeReportSignature q' = slice (p + 512) 64 raw \<and>
    q_qeAuthData q' = slice (p + 578) a raw \<and>
    cd_type (q_certificationData q') = u16_le raw (p + 578 + a) \<and>
    cd_data (q_certificationData q') =
      slice (p + 584 + a) (unat (u32_le raw (p + 580 + a))) raw \<and>
    v3_certificationData (snd (snd (parse_auth_v3 raw n q p))) = q_certificationData q'"
proof (cases "p_quoteV3AuthData raw (p + unat n) v3_zero p")
  case None
  with parse_auth_v3_spec [OF assms(2,3), of q] assms(1) show ?thesis by simp
next
  case (Some ap)
  obtain a p' where ap: "ap = (a, p')" by force
  have "p + 584 \<le> length raw"
    using p_quoteV3AuthData_iff [of raw "p + unat n" v3_zero p] Some assms(2) by (simp add: Let_def)
  with Some ap parse_auth_v3_spec [OF assms(2,3), of q]
    p_quoteV3AuthData_value [of raw "p + unat n" v3_zero p a p'] show ?thesis
    by (simp add: Let_def er.raw_fill length_slice)
qed

lemma parse_auth_v4_result:
  assumes "fst (parse_auth_v4 raw n q p)" "p + unat n \<le> length raw" "length raw < 2 ^ 32"
  shows "let q' = fst (snd (parse_auth_v4 raw n q p));
      d = slice (p + 134) (unat (u32_le raw (p + 130))) raw; a = unat (u16_le d 448) in
    q_quoteSignature q' = slice p 64 raw \<and> q_attestKeyData q' = slice (p + 64) 64 raw \<and>
    enclaveReport_rawBlob (q_qeReport q') = slice 0 384 d \<and>
    q_qeReportSignature q' = slice 384 64 d \<and>
    q_qeAuthData q' = slice 450 a d \<and>
    cd_type (q_certificationData q') = u16_le d (450 + a) \<and>
    cd_data (q_certificationData q') = slice (456 + a) (unat (u32_le d (452 + a))) d \<and>
    cd_type (v4_certificationData (snd (snd (parse_auth_v4 raw n q p)))) = u16_le raw (p + 128)"
proof (cases "p_quoteV4AuthData raw (p + unat n) v4_zero p")
  case None
  with parse_auth_v4_spec [OF assms(2,3), of q] assms(1) show ?thesis by simp
next
  case (Some ap)
  obtain a p' where ap: "ap = (a, p')" by force
  note val = p_quoteV4AuthData_value [of raw "p + unat n" v4_zero p a p']
  from Some ap parse_auth_v4_spec [OF assms(2,3), of q] assms(1) obtain r where
    r: "v4_report_data a = Some r" by (auto split: option.splits)
  define d where "d = slice (p + 134) (unat (u32_le raw (p + 130))) raw"
  have d: "cd_data (v4_certificationData a) = d" using val Some ap by (simp add: d_def)
  with r obtain e where pq: "p_qeReportCertificationData d (length d) qrc_zero 0 = Some (r, e)"
    by (auto simp: v4_report_data_def Let_def)
  then have "456 \<le> length d"
    using p_qeReportCertificationData_iff [of d "length d" qrc_zero 0] by (simp add: Let_def)
  with p_qeReportCertificationData_value [OF pq] r Some ap val parse_auth_v4_spec [OF assms(2,3), of q]
  show ?thesis by (simp add: Let_def er.raw_fill length_slice flip: d_def)
qed

text \<open>The report data inside the QE report.\<close>

lemma reportData_fill: "er_reportData (fill_enclaveReport (slice i 384 xs) r) = slice (i + 320) 64 xs"
  by (simp add: fill_enclaveReport_def slice_slice)

lemma parse_auth_v3_reportData:
  assumes "fst (parse_auth_v3 raw n q p)" "p + unat n \<le> length raw" "length raw < 2 ^ 32"
  shows "er_reportData (q_qeReport (fst (snd (parse_auth_v3 raw n q p)))) = slice (p + 128 + 320) 64 raw"
proof (cases "p_quoteV3AuthData raw (p + unat n) v3_zero p")
  case None
  with parse_auth_v3_spec [OF assms(2,3), of q] assms(1) show ?thesis by simp
next
  case (Some ap)
  obtain a p' where ap: "ap = (a, p')" by force
  with Some parse_auth_v3_spec [OF assms(2,3), of q]
    p_quoteV3AuthData_value [of raw "p + unat n" v3_zero p a p'] show ?thesis
    by (simp add: Let_def reportData_fill)
qed

lemma parse_auth_v4_reportData:
  assumes "fst (parse_auth_v4 raw n q p)" "p + unat n \<le> length raw" "length raw < 2 ^ 32"
  shows "er_reportData (q_qeReport (fst (snd (parse_auth_v4 raw n q p)))) =
    slice (0 + 320) 64 (slice (p + 134) (unat (u32_le raw (p + 130))) raw)"
proof (cases "p_quoteV4AuthData raw (p + unat n) v4_zero p")
  case None
  with parse_auth_v4_spec [OF assms(2,3), of q] assms(1) show ?thesis by simp
next
  case (Some ap)
  obtain a p' where ap: "ap = (a, p')" by force
  note val = p_quoteV4AuthData_value [of raw "p + unat n" v4_zero p a p']
  from Some ap parse_auth_v4_spec [OF assms(2,3), of q] assms(1) obtain r where
    r: "v4_report_data a = Some r" by (auto split: option.splits)
  define d where "d = slice (p + 134) (unat (u32_le raw (p + 130))) raw"
  have d: "cd_data (v4_certificationData a) = d" using val Some ap by (simp add: d_def)
  with r obtain e where pq: "p_qeReportCertificationData d (length d) qrc_zero 0 = Some (r, e)"
    by (auto simp: v4_report_data_def Let_def)
  with p_qeReportCertificationData_value [OF pq] r Some ap val parse_auth_v4_spec [OF assms(2,3), of q]
  show ?thesis by (simp only: Let_def reportData_fill flip: d_def) (simp add: reportData_fill [where i = 0, simplified])
qed

definition report_offset :: "bytes \<Rightarrow> nat" where
  "report_offset raw = (case report_span raw of None \<Rightarrow> 0 | Some (b, n) \<Rightarrow> b)"

definition auth_offset :: "bytes \<Rightarrow> nat" where
  "auth_offset raw = (case report_span raw of None \<Rightarrow> 0 | Some (b, n) \<Rightarrow> b + n)"

text \<open>The part of a successful parse that reads the authentication data.\<close>

lemma parse_auth_of_success:
  assumes "fst (parse raw q)" and "length raw < 2 ^ 32" and "p = auth_offset raw"
  obtains q1 where
    "fst (parse_auth raw (raw_header raw) q1 p)" "p + 4 + unat (u32_le raw p) \<le> length raw"
    "q_quoteSignature (snd (parse raw q)) =
       q_quoteSignature (fst (snd (parse_auth raw (raw_header raw) q1 p)))"
    "q_attestKeyData (snd (parse raw q)) =
       q_attestKeyData (fst (snd (parse_auth raw (raw_header raw) q1 p)))"
    "q_qeReportSignature (snd (parse raw q)) =
       q_qeReportSignature (fst (snd (parse_auth raw (raw_header raw) q1 p)))"
    "q_qeAuthData (snd (parse raw q)) =
       q_qeAuthData (fst (snd (parse_auth raw (raw_header raw) q1 p)))"
    "q_qeReport (snd (parse raw q)) = q_qeReport (fst (snd (parse_auth raw (raw_header raw) q1 p)))"
    "q_certificationData (snd (parse raw q)) =
       q_certificationData (fst (snd (parse_auth raw (raw_header raw) q1 p)))"
    "q_authDataV3 (snd (parse raw q)) = fst (snd (snd (snd (parse_auth raw (raw_header raw) q1 p))))"
    "q_authDataV4 (snd (parse raw q)) = snd (snd (snd (snd (parse_auth raw (raw_header raw) q1 p))))"
proof (rule parse_success [OF assms(1,2)], goal_cases)
  case (1 b n auth)
  then have p: "p = b + n" by (simp add: assms(3) auth_offset_def)
  have "auth_accepted raw p" using 1 assms(2) parse_auth_accepts [of p raw] by (simp add: p)
  then have fits: "p + 4 + unat (u32_le raw p) \<le> length raw"
    by (simp add: auth_accepted_def Let_def)
  from 1 show ?case by (intro that [OF _ fits]) (auto simp: p Let_def)
qed

lemma parse_auth_v3_case:
  "version h = 3 \<Longrightarrow> p + 4 + unat (u32_le raw p) \<le> length raw \<Longrightarrow> length raw < 2 ^ 32 \<Longrightarrow>
   parse_auth raw h q p =
     (let r = parse_auth_v3 raw (u32_le raw p) q (p + 4)
      in (fst r, fst (snd r), u32_le raw p, snd (snd r), v4_zero))"
  by (simp add: parse_auth_def copyAndAdvance_u32_eq distance_check Let_def split_def
      del: of_nat_unat of_nat_add)

lemma parse_auth_v4_case:
  "version h > 3 \<Longrightarrow> p + 4 + unat (u32_le raw p) \<le> length raw \<Longrightarrow> length raw < 2 ^ 32 \<Longrightarrow>
   parse_auth raw h q p =
     (let r = parse_auth_v4 raw (u32_le raw p) q (p + 4)
      in (fst r, fst (snd r), u32_le raw p, v3_zero, snd (snd r)))"
  by (auto simp add: parse_auth_def copyAndAdvance_u32_eq distance_check Let_def split_def
      simp del: of_nat_unat of_nat_add)

lemma parse_v3_fields:
  assumes "fst (parse raw q)" and "length raw < 2 ^ 32"
    and "version (q_header (snd (parse raw q))) = QUOTE_VERSION_3"
  shows "let q' = snd (parse raw q); p = auth_offset raw + 4;
       a = unat (u16_le raw (p + 576)) in
    q_quoteSignature q' = slice p 64 raw \<and>
    q_attestKeyData q' = slice (p + 64) 64 raw \<and>
    enclaveReport_rawBlob (q_qeReport q') = slice (p + 128) 384 raw \<and>
    q_qeReportSignature q' = slice (p + 512) 64 raw \<and>
    q_qeAuthData q' = slice (p + 578) a raw \<and>
    cd_type (q_certificationData q') = u16_le raw (p + 578 + a) \<and>
    cd_data (q_certificationData q') = slice (p + 584 + a) (unat (u32_le raw (p + 580 + a))) raw \<and>
    v3_certificationData (q_authDataV3 q') = q_certificationData q'"
proof (rule parse_auth_of_success [OF assms(1,2) refl], goal_cases)
  case (1 q1)
  with assms(2,3) parse_header [OF assms(1,2)]
    parse_auth_v3_result [of raw "u32_le raw (auth_offset raw)" q1 "auth_offset raw + 4"]
  show ?case by (simp add: parse_auth_v3_case Let_def add.assoc)
qed

text \<open>
  Where the authentication data of an accepted version 3 quote come from: signature,
  attestation key, QE report, its signature, the QE authentication data and the certification
  data are the bytes at the offsets of the documented layout, behind the 4-byte size.
\<close>

theorem parse_v3_layout:
  assumes "fst (parse raw q)" and "length raw < 2 ^ 32"
    and "version (q_header (snd (parse raw q))) = QUOTE_VERSION_3"
  shows "let q' = snd (parse raw q); p = auth_offset raw + 4;
       a = unat (u16_le raw (p + 576)) in
    q_quoteSignature q' = slice p 64 raw \<and>
    q_attestKeyData q' = slice (p + 64) 64 raw \<and>
    enclaveReport_rawBlob (q_qeReport q') = slice (p + 128) 384 raw \<and>
    q_qeReportSignature q' = slice (p + 512) 64 raw \<and>
    q_qeAuthData q' = slice (p + 578) a raw \<and>
    cd_type (q_certificationData q') = u16_le raw (p + 578 + a) \<and>
    cd_data (q_certificationData q') = slice (p + 584 + a) (unat (u32_le raw (p + 580 + a))) raw \<and>
    v3_certificationData (q_authDataV3 q') = q_certificationData q'"
  by (rule parse_v3_fields [OF assms])

lemma parse_v4_fields:
  assumes "fst (parse raw q)" and "length raw < 2 ^ 32"
    and "version (q_header (snd (parse raw q))) > QUOTE_VERSION_3"
  shows "let q' = snd (parse raw q); p = auth_offset raw + 4;
       d = slice (p + 134) (unat (u32_le raw (p + 130))) raw; a = unat (u16_le d 448) in
    q_quoteSignature q' = slice p 64 raw \<and>
    q_attestKeyData q' = slice (p + 64) 64 raw \<and>
    enclaveReport_rawBlob (q_qeReport q') = slice 0 384 d \<and>
    q_qeReportSignature q' = slice 384 64 d \<and>
    q_qeAuthData q' = slice 450 a d \<and>
    cd_type (q_certificationData q') = u16_le d (450 + a) \<and>
    cd_data (q_certificationData q') = slice (456 + a) (unat (u32_le d (452 + a))) d \<and>
    cd_type (v4_certificationData (q_authDataV4 q')) = u16_le raw (p + 128)"
proof (rule parse_auth_of_success [OF assms(1,2) refl], goal_cases)
  case (1 q1)
  with assms(2,3) parse_header [OF assms(1,2)]
    parse_auth_v4_result [of raw "u32_le raw (auth_offset raw)" q1 "auth_offset raw + 4"]
  show ?case by (simp add: parse_auth_v4_case Let_def add.assoc)
qed

text \<open>
  C5: the same for version 4 and later, where the QE report data are nested in the certification
  data of the authentication block: every accessor returns a slice of those nested bytes, and the
  outer certification data type is the one the validation checks.
\<close>

theorem parse_v4_layout:
  assumes "fst (parse raw q)" and "length raw < 2 ^ 32"
    and "version (q_header (snd (parse raw q))) > QUOTE_VERSION_3"
  shows "let q' = snd (parse raw q); p = auth_offset raw + 4;
       d = slice (p + 134) (unat (u32_le raw (p + 130))) raw; a = unat (u16_le d 448) in
    q_quoteSignature q' = slice p 64 raw \<and>
    q_attestKeyData q' = slice (p + 64) 64 raw \<and>
    enclaveReport_rawBlob (q_qeReport q') = slice 0 384 d \<and>
    q_qeReportSignature q' = slice 384 64 d \<and>
    q_qeAuthData q' = slice 450 a d \<and>
    cd_type (q_certificationData q') = u16_le d (450 + a) \<and>
    cd_data (q_certificationData q') = slice (456 + a) (unat (u32_le d (452 + a))) d \<and>
    cd_type (v4_certificationData (q_authDataV4 q')) = u16_le raw (p + 128)"
  by (rule parse_v4_fields [OF assms])


text \<open>
  C6: on an accepted and valid quote, the accessors that hide the report's version return the bytes
  at one fixed offset of whatever TD report the quote carries: \<^verbatim>\<open>teeTcbSvn\<close> at
  0, \<^verbatim>\<open>mrSignerSeam\<close> at 64, \<^verbatim>\<open>seamAttributes\<close> at 112, and
  \<^verbatim>\<open>teeTcbSvn2\<close> at 584 for the two 1.5 reports of version 5.  Any other quote has no
  second TCB SVN, and its accessor returns zeros.
\<close>

theorem tdx_accessors_read_report:
  assumes "fst (parse raw q)" and "length raw < 2 ^ 32"
    and "validate (snd (parse raw q))"
    and "teeType (q_header (snd (parse raw q))) = TEE_TYPE_TDX"
  shows "let q' = snd (parse raw q); r = report_offset raw in
    getTeeTcbSvn q' = slice r 16 raw \<and>
    getMrSignerSeam q' = slice (r + 64) 48 raw \<and>
    getSeamAttributes q' = slice (r + 112) 8 raw \<and>
    getTeeTcbSvn2 q' =
      (if bodyType (q_body q') \<in> {BODY_TD_REPORT15_TYPE, BODY_TD_REPORT15EX_TYPE} \<and>
          version (q_header q') = QUOTE_VERSION_5 then slice (r + 584) 16 raw else replicate 16 0)"
proof (rule parse_success [OF assms(1,2)], goal_cases)
  case (1 b n auth)
  have h: "q_header (snd (parse raw q)) = raw_header raw" by (rule parse_header [OF assms(1,2)])
  have b: "q_body (snd (parse raw q)) =
      (if version (raw_header raw) > 4 then raw_body raw else body_zero)"
    by (rule parse_body_stored [OF assms(1,2)])
  from assms(3,4) h have v: "version (raw_header raw) = 4 \<or>
      version (raw_header raw) = 5 \<and> bodyType (raw_body raw) \<in> {2, 3, 4}"
    by (auto simp: validate_def ALLOWED_QUOTE_VERSIONS_def ALLOWED_BODY_TYPES_def b Let_def
        split: if_splits)
  have t: "teeType (raw_header raw) = 0x81" using assms(4) h by simp
  from 1(6) have locals:
    "q_tdReport10 (snd (parse raw q)) = l_tdReport10 (report_locals raw quote_locals_zero)"
    "q_tdReport15 (snd (parse raw q)) = l_tdReport15 (report_locals raw quote_locals_zero)"
    "q_tdReport15Ex (snd (parse raw q)) = l_tdReport15Ex (report_locals raw quote_locals_zero)"
    by (simp_all add: Let_def)
  from 1(1) v t show ?case
    by (auto simp: Let_def getTeeTcbSvn_def getMrSignerSeam_def getSeamAttributes_def
        getTeeTcbSvn2_def h b locals report_locals_def report_offset_def report_span_def
        quote_locals_zero_def td_report15ex_zero_def body_zero_def
        fill_tdReport10_def fill_tdReport15_def fill_tdReport15Ex_def slice_slice split: if_splits)
qed


section \<open>Where the QE report comes from\<close>

text \<open>
  The QE report, its signature and the QE authentication data of an accepted quote: they lie in one
  block, behind the attestation key in version 3 and nested in the certification data later.
\<close>

definition qe_block :: "bytes \<Rightarrow> bytes" where
  "qe_block raw =
     (let p = auth_offset raw + 4 in
      if version (raw_header raw) = QUOTE_VERSION_3 then drop (p + 128) raw
      else slice (p + 134) (unat (u32_le raw (p + 130))) raw)"

lemma slice_drop: "slice i n (drop k xs) = slice (k + i) n xs"
  by (simp add: slice_def add.commute)

lemma u16_le_drop: "k + i + 1 < length xs \<Longrightarrow> u16_le (drop k xs) i = u16_le xs (k + i)"
  by (simp add: u16_le_def)

lemma parse_qe_block:
  assumes "fst (parse raw q)" and "length raw < 2 ^ 32" and "version (raw_header raw) \<ge> 3"
  shows "let q' = snd (parse raw q); p = auth_offset raw + 4; block = qe_block raw in
    q_quoteSignature q' = slice p 64 raw \<and> q_attestKeyData q' = slice (p + 64) 64 raw \<and>
    length (q_attestKeyData q') = 64 \<and>
    enclaveReport_rawBlob (q_qeReport q') = slice 0 384 block \<and>
    er_reportData (q_qeReport q') = slice 320 64 block \<and>
    q_qeReportSignature q' = slice 384 64 block \<and>
    q_qeAuthData q' = slice 450 (unat (u16_le block 448)) block"
proof (rule parse_auth_of_success [OF assms(1,2) refl], goal_cases)
  case (1 q1)
  let ?p = "auth_offset raw"
  note h = parse_header [OF assms(1,2)]
  show ?case
  proof (cases "version (raw_header raw) = 3")
    case True
    from 1 True assms(2) have ok: "fst (parse_auth_v3 raw (u32_le raw ?p) q1 (?p + 4))"
      by (simp add: parse_auth_v3_case Let_def)
    note fits = 1(2) [folded add.assoc]
    have len: "?p + 588 \<le> length raw"
      using parse_auth_v3_spec [OF fits assms(2), of q1] ok
        p_quoteV3AuthData_iff [of raw "?p + 4 + unat (u32_le raw ?p)" v3_zero "?p + 4"] fits
      by (cases "p_quoteV3AuthData raw (?p + 4 + unat (u32_le raw ?p)) v3_zero (?p + 4)")
        (simp_all add: Let_def)
    from parse_v3_fields [OF assms(1,2)] h True
      parse_auth_v3_reportData [OF ok fits assms(2)] 1(1,2,7) len assms(2)
    show ?thesis
      by (simp add: Let_def qe_block_def slice_drop u16_le_drop parse_auth_v3_case add.assoc length_slice)
  next
    case False
    with assms(3) have v: "version (raw_header raw) > 3" by (simp add: order.not_eq_order_implies_strict)
    from 1 v assms(2) have ok: "fst (parse_auth_v4 raw (u32_le raw ?p) q1 (?p + 4))"
      by (simp add: parse_auth_v4_case Let_def)
    note fits = 1(2) [folded add.assoc]
    have len: "?p + 138 \<le> length raw"
      using parse_auth_v4_spec [OF fits assms(2), of q1] ok
        p_quoteV4AuthData_iff [of raw "?p + 4 + unat (u32_le raw ?p)" v4_zero "?p + 4"] fits
      by (cases "p_quoteV4AuthData raw (?p + 4 + unat (u32_le raw ?p)) v4_zero (?p + 4)")
        (simp_all add: Let_def)
    from parse_v4_fields [OF assms(1,2)] h v False
      parse_auth_v4_reportData [OF ok fits assms(2)] 1(1,2,7) len assms(2)
    show ?thesis
      by (simp add: Let_def qe_block_def parse_auth_v4_case add.assoc length_slice)
  qed
qed

section \<open>Sample quotes\<close>

text \<open>
  The smallest version 3 SGX quote and a version 4 TDX quote, with certification data of type 5
  and no certificates.
\<close>

definition sample_v3 :: bytes where
  "sample_v3 = [3, 0, 2, 0] @ replicate 8 0 @ INTEL_QE_VENDOR_ID @ replicate 404 0 @
     [0x48, 2, 0, 0] @ replicate 578 0 @ [5, 0, 0, 0, 0, 0]"

definition sample_v4 :: bytes where
  "sample_v4 = [4, 0, 2, 0, 0x81, 0, 0, 0, 0, 0, 0, 0] @ INTEL_QE_VENDOR_ID @ replicate 20 0 @
     replicate 584 1 @ [0x4E, 2, 0, 0] @ replicate 128 0 @ [6, 0, 0xC8, 1, 0, 0] @
     replicate 448 0 @ [0, 0, 5, 0, 0, 0, 0, 0]"

lemma length_INTEL_QE_VENDOR_ID: "length INTEL_QE_VENDOR_ID = 16"
  by (simp add: INTEL_QE_VENDOR_ID_def)

lemma sample_v3_fields:
  "length sample_v3 = 1020" "u16_le sample_v3 0 = 3" "u16_le sample_v3 2 = 2"
  "u32_le sample_v3 4 = 0" "u32_le sample_v3 432 = 584"
  "u16_le sample_v3 1012 = 0" "u32_le sample_v3 1016 = 0" "u16_le sample_v3 1014 = 5"
  "slice 12 16 sample_v3 = INTEL_QE_VENDOR_ID"
  by (simp_all add: sample_v3_def length_INTEL_QE_VENDOR_ID nth_append le_eval)
    (simp add: slice_def INTEL_QE_VENDOR_ID_def)

lemma sample_v4_fields:
  "length sample_v4 = 1226" "u16_le sample_v4 0 = 4" "u16_le sample_v4 2 = 2"
  "u32_le sample_v4 4 = 0x81" "u32_le sample_v4 632 = 590"
  "u16_le sample_v4 764 = 6" "u32_le sample_v4 766 = 456"
  "u16_le sample_v4 1218 = 0" "u16_le sample_v4 1220 = 5" "u32_le sample_v4 1222 = 0"
  "slice 12 16 sample_v4 = INTEL_QE_VENDOR_ID"
  by (simp_all add: sample_v4_def length_INTEL_QE_VENDOR_ID nth_append le_eval)
    (simp add: slice_def INTEL_QE_VENDOR_ID_def)

lemma sample_v3_header:
  "version (raw_header sample_v3) = 3" "teeType (raw_header sample_v3) = 0"
  "attestationKeyType (raw_header sample_v3) = 2"
  "qeVendorId (raw_header sample_v3) = INTEL_QE_VENDOR_ID"
  by (simp_all add: raw_header_def fill_header_def u16_le_slice u32_le_slice slice_slice
      sample_v3_fields)

lemma sample_v4_header:
  "version (raw_header sample_v4) = 4" "teeType (raw_header sample_v4) = 0x81"
  "attestationKeyType (raw_header sample_v4) = 2"
  "qeVendorId (raw_header sample_v4) = INTEL_QE_VENDOR_ID"
  by (simp_all add: raw_header_def fill_header_def u16_le_slice u32_le_slice slice_slice
      sample_v4_fields)

lemma sample_v3_span: "report_span sample_v3 = Some (48, 384)"
  by (simp add: report_span_def sample_v3_header Let_def)

lemma sample_v4_span: "report_span sample_v4 = Some (48, 584)"
  by (simp add: report_span_def sample_v4_header Let_def)

lemma sample_v3_accepted: "quote_accepted sample_v3"
  by (simp add: quote_accepted_def body_accepted_def sample_v3_span sample_v3_header
      auth_accepted_def v3_fits_def Let_def sample_v3_fields)

lemma sample_v4_accepted: "quote_accepted sample_v4"
  by (simp add: quote_accepted_def body_accepted_def sample_v4_span sample_v4_header
      auth_accepted_def v4_fits_def qe_report_data_fits_def u16_le_slice u32_le_slice
      length_slice Let_def sample_v4_fields)

lemma sample_parsed:
  "fst (parse sample_v3 q)" "fst (parse sample_v4 q)"
  by (simp_all add: parse_accepts sample_v3_accepted sample_v4_accepted
      sample_v3_fields sample_v4_fields)

lemma sample_parsed_header:
  "q_header (snd (parse sample_v3 q)) = raw_header sample_v3"
  "q_header (snd (parse sample_v4 q)) = raw_header sample_v4"
  by (simp_all add: parse_header sample_parsed sample_v3_fields sample_v4_fields)

lemma parse_signs_what_it_stores_witness:
  "q_signedData (snd (parse sample_v4 quote_init)) =
     slice 0 48 sample_v4 @ report_blob (snd (parse sample_v4 quote_init))"
  using parse_signs_what_it_stores [of sample_v4 quote_init]
  by (simp add: sample_parsed sample_parsed_header sample_v4_fields sample_v4_header
      ALLOWED_TEE_TYPES_def)

lemma parse_accepts_iff_witness:
  "fst (parse sample_v3 quote_init) \<and> \<not> fst (parse (butlast sample_v3) quote_init)"
  using parse_accepts_iff [of sample_v3] parse_accepts_iff [of "butlast sample_v3"]
  by (simp add: sample_v3_fields sample_v3_accepted quote_accepted_def [of "butlast _"])

lemma parse_v3_layout_witness:
  "q_quoteSignature (snd (parse sample_v3 quote_init)) = slice 436 64 sample_v3 \<and>
   cd_type (q_certificationData (snd (parse sample_v3 quote_init))) = 5"
  using parse_v3_layout [of sample_v3 quote_init]
  by (simp add: sample_parsed sample_parsed_header sample_v3_fields sample_v3_header
      auth_offset_def sample_v3_span Let_def)

lemma parse_v4_layout_witness:
  "q_attestKeyData (snd (parse sample_v4 quote_init)) = slice 700 64 sample_v4 \<and>
   cd_type (q_certificationData (snd (parse sample_v4 quote_init))) = 5"
  using parse_v4_layout [of sample_v4 quote_init]
  by (simp add: sample_parsed sample_parsed_header sample_v4_fields sample_v4_header
      auth_offset_def sample_v4_span u16_le_slice slice_slice Let_def)

lemma sample_v4_valid: "validate (snd (parse sample_v4 quote_init))"
  using parse_v4_layout [of sample_v4 quote_init]
  by (simp add: sample_parsed sample_parsed_header sample_v4_fields sample_v4_header
      auth_offset_def sample_v4_span u16_le_slice slice_slice Let_def
      validate_def ALLOWED_QUOTE_VERSIONS_def ALLOWED_ATTESTATION_KEY_TYPES_def
      ALLOWED_TEE_TYPES_def)

lemma tdx_accessors_read_report_witness:
  "getMrSignerSeam (snd (parse sample_v4 quote_init)) = slice 112 48 sample_v4"
  using tdx_accessors_read_report [of sample_v4 quote_init]
  by (simp add: sample_parsed sample_parsed_header sample_v4_fields sample_v4_header
      sample_v4_valid report_offset_def sample_v4_span Let_def)

end
