(* ===== verification/QuoteVerifier.thy ===== *)
theory QuoteVerifier
  imports CollateralVerifiers CollateralInfo QuoteModel
begin

text \<open>
  \<^verbatim>\<open>Verifiers/QuoteVerifier.cpp\<close> and \<^verbatim>\<open>Checks/TcbLevelCheck.cpp\<close>:
  the verification of a parsed quote.  Both run on the record of the collateral used, which they
  fill in as they go; a computation takes it and returns the outcome together with the record as
  it is then, also when it throws.
\<close>

section \<open>Computations on the collateral record\<close>

type_synonym 'a vci_run = "ver_coll_info \<Rightarrow> 'a outcome \<times> ver_coll_info"

definition returnV :: "'a \<Rightarrow> 'a vci_run" where
  "returnV a = (\<lambda>v. (Inr a, v))"

definition liftV :: "'a outcome \<Rightarrow> 'a vci_run" where
  "liftV m = (\<lambda>v. (m, v))"

definition modifyV :: "(ver_coll_info \<Rightarrow> ver_coll_info) \<Rightarrow> unit vci_run" where
  "modifyV f = (\<lambda>v. (Inr (), f v))"

definition bindV :: "'a vci_run \<Rightarrow> ('a \<Rightarrow> 'b vci_run) \<Rightarrow> 'b vci_run" where
  "bindV m k = (\<lambda>v. case m v of (Inl e, v') \<Rightarrow> (Inl e, v') | (Inr a, v') \<Rightarrow> k a v')"

lemma bindV_simps [simp]:
  "bindV (returnV a) k = k a"
  "bindV (liftV (Inr a)) k = k a"
  "bindV (liftV (Inl e)) k v = (Inl e, v)"
  "bindV (modifyV f) h v = h () (f v)"
  "returnV a v = (Inr a, v)" "liftV m v = (m, v)" "modifyV f v = (Inr (), f v)"
  by (simp_all add: bindV_def returnV_def liftV_def modifyV_def fun_eq_iff)

section \<open>The TCB level of a platform\<close>

text \<open>The launch values, as the branches of the three tests leave them.\<close>

definition checkTcbLevel_sgx ::
  "tcb_info \<Rightarrow> pck_certificate \<Rightarrow> quote \<Rightarrow> enclave_identity option \<Rightarrow> evaluation" where
  "checkTcbLevel_sgx tcbInfo pckCert q enclaveIdentity =
     sgxEvaluateTCB (pt_cpuSvnComponents (pck_tcb' pckCert)) (pt_pceSvn (pck_tcb' pckCert))
       (er_isvSvn (q_qeReport q)) tcbInfo enclaveIdentity"

definition checkTcbLevel_tdx ::
  "bytes \<Rightarrow> tcb_info \<Rightarrow> pck_certificate \<Rightarrow> quote \<Rightarrow> enclave_identity option \<Rightarrow> evaluation" where
  "checkTcbLevel_tdx teeTcbSvn tcbInfo pckCert q enclaveIdentity =
     tdxEvaluateTCB (pt_cpuSvnComponents (pck_tcb' pckCert)) (pt_pceSvn (pck_tcb' pckCert))
       (er_isvSvn (q_qeReport q)) teeTcbSvn tcbInfo enclaveIdentity"

definition add_current :: "tcb_evaluation \<Rightarrow> unit vci_run" where
  "add_current current =
     bindV (liftV (printTCBStatus (ev_tcbStatus current))) (\<lambda>str.
       modifyV (addCurrentInfo (ev_tcbDate current) (ev_advisoryIds current) str))"

definition finish_launch :: "tcb_info \<Rightarrow> status \<Rightarrow> tcb_evaluation \<Rightarrow> status vci_run" where
  "finish_launch tcbInfo launchTcbStatus launch =
     bindV (liftV (printTCBStatus launchTcbStatus)) (\<lambda>str.
     bindV (modifyV (addLaunchInfo (ev_tcbDate launch) (ev_advisoryIds launch) str)) (\<lambda>_.
     bindV (modifyV (addTcbInfoData tcbInfo)) (\<lambda>_.
     bindV (modifyV setFilled) (\<lambda>_. returnV launchTcbStatus))))"

definition checkTcbLevel ::
  "tcb_info \<Rightarrow> pck_certificate \<Rightarrow> quote \<Rightarrow> enclave_identity option \<Rightarrow> status vci_run" where
  "checkTcbLevel tcbInfo pckCert q enclaveIdentity =
     (if teeType (q_header q) = TEE_TYPE_SGX then
        (case checkTcbLevel_sgx tcbInfo pckCert q enclaveIdentity of
           (evaluationStatus, out) \<Rightarrow>
             if evaluationStatus \<noteq> STATUS_OK then returnV evaluationStatus
             else bindV (add_current (the out)) (\<lambda>_.
               finish_launch tcbInfo (ev_tcbStatus (the out)) (the out)))
      else if teeType (q_header q) = TEE_TYPE_TDX then
        (case checkTcbLevel_tdx (getTeeTcbSvn q) tcbInfo pckCert q enclaveIdentity of
           (evaluationStatus, out) \<Rightarrow>
             if evaluationStatus \<noteq> STATUS_OK then returnV evaluationStatus
             else if bodyType (q_body q) \<ge> BODY_TD_REPORT15_TYPE then
               (case checkTcbLevel_tdx (getTeeTcbSvn2 q) tcbInfo pckCert q enclaveIdentity of
                  (evaluationStatus2, out2) \<Rightarrow>
                    if evaluationStatus2 \<noteq> STATUS_OK then returnV evaluationStatus2
                    else
                      let launchTcbStatus =
                            checkForRelaunch (ev_tcbStatus (the out)) (ev_tcbStatus (the out2))
                      in bindV (add_current (the out2)) (\<lambda>_.
                           finish_launch tcbInfo launchTcbStatus (the out)))
             else bindV (add_current (the out)) (\<lambda>_.
               finish_launch tcbInfo (ev_tcbStatus (the out)) (the out)))
      else returnV STATUS_UNSUPPORTED_QUOTE_FORMAT)"

section \<open>The quote\<close>

definition verifyCertificationData :: "certification_data \<Rightarrow> status" where
  "verifyCertificationData certificationData =
     (if unat (cd_parsedDataSize certificationData) \<noteq> length (cd_data certificationData)
      then STATUS_UNSUPPORTED_QUOTE_FORMAT else STATUS_OK)"

text \<open>The collateral against the quote's TEE; \<open>Some s\<close> is \<^verbatim>\<open>return s\<close>.\<close>

definition check_tee :: "quote \<Rightarrow> tcb_info \<Rightarrow> status option outcome" where
  "check_tee q tcbInfo =
     (if ti_version tcbInfo \<ge> 3 then
        bindE (tcbInfo_getId tcbInfo) (\<lambda>i.
          if i = TDX_ID \<and> teeType (q_header q) \<noteq> TEE_TYPE_TDX then Inr (Some STATUS_TCB_INFO_MISMATCH)
          else if i = SGX_ID \<and> teeType (q_header q) \<noteq> TEE_TYPE_SGX then
            Inr (Some STATUS_TCB_INFO_MISMATCH)
          else Inr None)
      else if teeType (q_header q) = TEE_TYPE_TDX then Inr (Some STATUS_TCB_INFO_MISMATCH)
      else Inr None)"

text \<open>The comparisons of the TDX module's signer and attributes with the TD report's.\<close>

definition compare_module :: "bytes \<Rightarrow> bytes \<Rightarrow> bytes \<Rightarrow> bytes \<Rightarrow> status option" where
  "compare_module quoteMrSignerSeam quoteSeamAttributes tdxModuleMrSigner tdxModuleAttributes =
     (if length quoteMrSignerSeam \<noteq> length tdxModuleMrSigner then Some STATUS_TDX_MODULE_MISMATCH
      else if list_ex (\<lambda>i. tdxModuleMrSigner ! i \<noteq> quoteMrSignerSeam ! i) [0..<length tdxModuleMrSigner]
      then Some STATUS_TDX_MODULE_MISMATCH
      else if length quoteSeamAttributes \<noteq> length tdxModuleAttributes then
        Some STATUS_TDX_MODULE_MISMATCH
      else if list_ex (\<lambda>i. quoteSeamAttributes ! i \<noteq> 0 \<or> quoteSeamAttributes ! i \<noteq> tdxModuleAttributes ! i)
                [0..<length quoteSeamAttributes]
      then Some STATUS_TDX_MODULE_MISMATCH
      else None)"

definition check_tdx_module :: "quote \<Rightarrow> tcb_info \<Rightarrow> status option outcome" where
  "check_tdx_module q tcbInfo =
     (if ti_version tcbInfo \<ge> 3 then
        bindE (tcbInfo_getId tcbInfo) (\<lambda>i.
          if i \<noteq> TDX_ID then Inr None
          else
            bindE (getTdxModule tcbInfo) (\<lambda>tdxModule.
              let quoteMrSignerSeam = getMrSignerSeam q;
                  quoteSeamAttributes = getSeamAttributes q;
                  tdxModuleVersion = getTeeTcbSvn q ! 1
              in
                if version (q_header q) > QUOTE_VERSION_3 \<and> tdxModuleVersion > 0 then
                  (case getTdxModuleIdentities tcbInfo of
                     Inl FormatException \<Rightarrow> Inr (Some STATUS_TCB_INFO_MISMATCH)
                   | Inl e \<Rightarrow> Inl e
                   | Inr identities \<Rightarrow>
                       (case findTdxModuleIdentity identities tdxModuleVersion of
                          None \<Rightarrow> Inr (Some STATUS_TDX_MODULE_MISMATCH)
                        | Some tdxModuleIdentity \<Rightarrow>
                            Inr (compare_module quoteMrSignerSeam quoteSeamAttributes
                              (tdxi_mrsigner tdxModuleIdentity) (tdxi_attributes tdxModuleIdentity))))
                else Inr (compare_module quoteMrSignerSeam quoteSeamAttributes
                       (tdxm_mrsigner tdxModule) (tdxm_attributes tdxModule))))
      else Inr None)"

definition hashedConcatOfAttestKeyAndQeReportData :: "'key openssl \<Rightarrow> quote \<Rightarrow> bytes" where
  "hashedConcatOfAttestKeyAndQeReportData ssl q = sha256Digest ssl (q_attestKeyData q @ q_qeAuthData q)"

text \<open>\<^verbatim>\<open>std::equal\<close> over three iterators compares the hash with a prefix.\<close>

definition reportData_binds_key :: "'key openssl \<Rightarrow> quote \<Rightarrow> bool" where
  "reportData_binds_key ssl q =
     (let hash = hashedConcatOfAttestKeyAndQeReportData ssl q
      in hash \<noteq> [] \<and> hash = take (length hash) (er_reportData (q_qeReport q)))"

definition check_identity_tee :: "quote \<Rightarrow> enclave_identity \<Rightarrow> status option" where
  "check_identity_tee q enclaveIdentity =
     (if teeType (q_header q) = TEE_TYPE_TDX then
        (if ei_version enclaveIdentity = 1 then Some STATUS_QE_IDENTITY_MISMATCH
         else if ei_version enclaveIdentity = 2 then
           (if ei_id enclaveIdentity \<noteq> TD_QE then Some STATUS_QE_IDENTITY_MISMATCH else None)
         else None)
      else if teeType (q_header q) = TEE_TYPE_SGX then
        (if ei_id enclaveIdentity \<noteq> QE then Some STATUS_QE_IDENTITY_MISMATCH else None)
      else Some STATUS_QE_IDENTITY_MISMATCH)"

text \<open>The \<^verbatim>\<open>switch\<close> on the status of the QE report.\<close>

definition qe_identity_verdict :: "status \<Rightarrow> status option" where
  "qe_identity_verdict s =
     (if s = STATUS_SGX_ENCLAVE_REPORT_UNSUPPORTED_FORMAT then Some STATUS_UNSUPPORTED_QUOTE_FORMAT
      else if s = STATUS_SGX_ENCLAVE_IDENTITY_UNSUPPORTED_FORMAT \<or>
              s = STATUS_SGX_ENCLAVE_IDENTITY_INVALID \<or>
              s = STATUS_SGX_ENCLAVE_IDENTITY_UNSUPPORTED_VERSION then
        Some STATUS_UNSUPPORTED_QE_IDENTITY_FORMAT
      else if s = STATUS_SGX_ENCLAVE_REPORT_MISCSELECT_MISMATCH \<or>
              s = STATUS_SGX_ENCLAVE_REPORT_ATTRIBUTES_MISMATCH \<or>
              s = STATUS_SGX_ENCLAVE_REPORT_MRSIGNER_MISMATCH \<or>
              s = STATUS_SGX_ENCLAVE_REPORT_ISVPRODID_MISMATCH then
        Some STATUS_QE_IDENTITY_MISMATCH
      else None)"

definition check_qe_identity :: "quote \<Rightarrow> enclave_identity option \<Rightarrow> status option vci_run" where
  "check_qe_identity q enclaveIdentity =
     (case enclaveIdentity of
        None \<Rightarrow> returnV None
      | Some identity \<Rightarrow>
          (case check_identity_tee q identity of
             Some s \<Rightarrow> returnV (Some s)
           | None \<Rightarrow>
               (case qe_identity_verdict (enclaveReport_verify identity (q_qeReport q)) of
                  Some s \<Rightarrow> returnV (Some s)
                | None \<Rightarrow> bindV (modifyV (addEnclaveIdentityData identity)) (\<lambda>_. returnV None))))"

definition catch_runtime :: "status vci_run \<Rightarrow> status vci_run" where
  "catch_runtime m = (\<lambda>v. case m v of
      (Inl (RuntimeException s), v') \<Rightarrow> (Inr s, v')
    | r \<Rightarrow> r)"

text \<open>A statement that may return early.\<close>

definition unless_returned :: "status option vci_run \<Rightarrow> status vci_run \<Rightarrow> status vci_run" where
  "unless_returned m rest = bindV m (\<lambda>r. case r of Some s \<Rightarrow> returnV s | None \<Rightarrow> rest)"

definition quote_verify ::
  "'key openssl \<Rightarrow> quote \<Rightarrow> pck_certificate \<Rightarrow> crl_store \<Rightarrow> tcb_info \<Rightarrow> enclave_identity option \<Rightarrow>
   status vci_run" where
  "quote_verify ssl q pckCert crl tcbInfo enclaveIdentity =
     (if \<not> commonNameContains (cert_subject pckCert) SGX_PCK_CN_PHRASE then
        returnV STATUS_INVALID_PCK_CERT
      else if \<not> crl_checkIssuer crl then returnV STATUS_INVALID_PCK_CRL
      else if iss_raw (crl_issuer' crl) \<noteq> dn_raw (cert_issuer pckCert) then
        returnV STATUS_INVALID_PCK_CRL
      else if isRevoked crl pckCert then returnV STATUS_PCK_REVOKED
      else unless_returned (liftV (check_tee q tcbInfo)) (
      if pck_fmspc pckCert \<noteq> ti_fmspc tcbInfo then returnV STATUS_TCB_INFO_MISMATCH
      else if pck_pceId pckCert \<noteq> ti_pceId tcbInfo then returnV STATUS_TCB_INFO_MISMATCH
      else
      let certificationDataVerificationStatus = verifyCertificationData (q_certificationData q) in
      if certificationDataVerificationStatus \<noteq> STATUS_OK then
        returnV certificationDataVerificationStatus
      else case rawToP256PubKey ssl (cert_pubKey pckCert) of
        None \<Rightarrow> returnV STATUS_INVALID_PCK_CERT
      | Some pckKey \<Rightarrow>
      unless_returned (liftV (check_tdx_module q tcbInfo)) (
      if \<not> verifySha256EcdsaSignature_array ssl (q_qeReportSignature q)
             (enclaveReport_rawBlob (q_qeReport q)) pckKey then
        returnV STATUS_INVALID_QE_REPORT_SIGNATURE
      else if \<not> reportData_binds_key ssl q then returnV STATUS_INVALID_QE_REPORT_DATA
      else unless_returned (check_qe_identity q enclaveIdentity) (
      case rawToP256PubKey_array ssl (q_attestKeyData q) of
        None \<Rightarrow> returnV STATUS_UNSUPPORTED_QUOTE_FORMAT
      | Some attestKey \<Rightarrow>
      if \<not> verifySha256EcdsaSignature_array ssl (q_quoteSignature q) (q_signedData q) attestKey then
        returnV STATUS_INVALID_QUOTE_SIGNATURE
      else catch_runtime (checkTcbLevel tcbInfo pckCert q enclaveIdentity)))))"

section \<open>The verdicts\<close>

definition tcb_verdicts :: "status set" where
  "tcb_verdicts = evaluation_statuses \<union>
     {STATUS_TCB_TD_RELAUNCH_ADVISED, STATUS_TCB_TD_RELAUNCH_ADVISED_CONFIGURATION_NEEDED}"

lemma verdict_prints: "s \<in> tcb_verdicts \<Longrightarrow> \<exists>str. printTCBStatus s = Inr str \<and> length str < 50"
  by (auto simp: tcb_verdicts_def evaluation_statuses_def printTCBStatus_def STATUS_TO_TCB_STRING_MAP_def)

lemma evaluation_verdict: "s \<in> evaluation_statuses \<Longrightarrow> s \<in> tcb_verdicts"
  by (simp add: tcb_verdicts_def)

lemma checkForRelaunch_verdict:
  "launch \<in> evaluation_statuses \<Longrightarrow> checkForRelaunch launch current \<in> tcb_verdicts"
  by (auto simp: checkForRelaunch_def tcb_verdicts_def)

lemma checkForRelaunch_ok: "checkForRelaunch launch current = STATUS_OK \<longleftrightarrow> launch = STATUS_OK"
  by (auto simp: checkForRelaunch_def)

text \<open>What the record holds once a level was found.\<close>

definition record_levels ::
  "tcb_info \<Rightarrow> tcb_evaluation \<Rightarrow> string \<Rightarrow> tcb_evaluation \<Rightarrow> string \<Rightarrow> ver_coll_info \<Rightarrow> ver_coll_info" where
  "record_levels tcbInfo launch launchStr current currentStr v =
     setFilled (addTcbInfoData tcbInfo (addLaunchInfo (ev_tcbDate launch) (ev_advisoryIds launch) launchStr
       (addCurrentInfo (ev_tcbDate current) (ev_advisoryIds current) currentStr v)))"

lemma record_step:
  assumes "ev_tcbStatus current \<in> tcb_verdicts" and "s \<in> tcb_verdicts"
  shows "\<exists>str str'. bindV (add_current current) (\<lambda>_. finish_launch tcbInfo s launch) v =
      (Inr s, record_levels tcbInfo launch str current str' v) \<and>
      printTCBStatus s = Inr str \<and> printTCBStatus (ev_tcbStatus current) = Inr str'"
proof -
  from verdict_prints assms obtain str str' where
    "printTCBStatus s = Inr str" "printTCBStatus (ev_tcbStatus current) = Inr str'" by blast
  then show ?thesis
    by (simp add: add_current_def finish_launch_def bindV_def record_levels_def)
qed

lemma evaluation_shape:
  assumes "r = checkTcbLevel_sgx ti pck q qe \<or> r = checkTcbLevel_tdx tee ti pck q qe"
  obtains "r = (STATUS_TCB_NOT_SUPPORTED, None)"
  | ev where "r = (STATUS_OK, Some ev)" "ev_tcbStatus ev \<in> evaluation_statuses"
  using assms evaluation_cases unfolding checkTcbLevel_sgx_def checkTcbLevel_tdx_def by metis

text \<open>
  A platform is refused and the record left alone, or two evaluations, of the TCB at launch and of
  the current one, give the status and fill the record.
\<close>

definition launch_evaluation ::
  "tcb_info \<Rightarrow> pck_certificate \<Rightarrow> quote \<Rightarrow> enclave_identity option \<Rightarrow> evaluation" where
  "launch_evaluation ti pck q qe =
     (if teeType (q_header q) = TEE_TYPE_SGX then checkTcbLevel_sgx ti pck q qe
      else checkTcbLevel_tdx (getTeeTcbSvn q) ti pck q qe)"

definition relaunches :: "quote \<Rightarrow> bool" where
  "relaunches q \<longleftrightarrow> teeType (q_header q) = TEE_TYPE_TDX \<and> bodyType (q_body q) \<ge> BODY_TD_REPORT15_TYPE"

definition current_evaluation ::
  "tcb_info \<Rightarrow> pck_certificate \<Rightarrow> quote \<Rightarrow> enclave_identity option \<Rightarrow> evaluation" where
  "current_evaluation ti pck q qe =
     (if relaunches q then checkTcbLevel_tdx (getTeeTcbSvn2 q) ti pck q qe
      else launch_evaluation ti pck q qe)"

definition tcb_refused ::
  "tcb_info \<Rightarrow> pck_certificate \<Rightarrow> quote \<Rightarrow> enclave_identity option \<Rightarrow> status \<Rightarrow> bool" where
  "tcb_refused ti pck q qe s \<longleftrightarrow>
     (if teeType (q_header q) \<in> set ALLOWED_TEE_TYPES
      then s = STATUS_TCB_NOT_SUPPORTED \<and>
        (launch_evaluation ti pck q qe = (STATUS_TCB_NOT_SUPPORTED, None) \<or>
         current_evaluation ti pck q qe = (STATUS_TCB_NOT_SUPPORTED, None))
      else s = STATUS_UNSUPPORTED_QUOTE_FORMAT)"

definition tcb_evaluated ::
  "tcb_info \<Rightarrow> pck_certificate \<Rightarrow> quote \<Rightarrow> enclave_identity option \<Rightarrow> status \<Rightarrow>
   ver_coll_info \<Rightarrow> ver_coll_info \<Rightarrow> bool" where
  "tcb_evaluated ti pck q qe s v v' \<longleftrightarrow>
     (\<exists>launch current str str'.
        teeType (q_header q) \<in> set ALLOWED_TEE_TYPES \<and>
        launch_evaluation ti pck q qe = (STATUS_OK, Some launch) \<and>
        current_evaluation ti pck q qe = (STATUS_OK, Some current) \<and>
        s = (if relaunches q then checkForRelaunch (ev_tcbStatus launch) (ev_tcbStatus current)
             else ev_tcbStatus launch) \<and>
        s \<in> tcb_verdicts \<and> printTCBStatus s = Inr str \<and> printTCBStatus (ev_tcbStatus current) = Inr str' \<and>
        v' = record_levels ti launch str current str' v)"

lemma checkTcbLevel_cases:
  obtains s where "checkTcbLevel ti pck q qe v = (Inr s, v)" "tcb_refused ti pck q qe s"
  | s v' where "checkTcbLevel ti pck q qe v = (Inr s, v')" "tcb_evaluated ti pck q qe s v v'"
proof -
  consider (sgx) "teeType (q_header q) = 0" | (tdx) "teeType (q_header q) = 0x81"
    | (other) "teeType (q_header q) \<notin> set ALLOWED_TEE_TYPES"
    by (auto simp: ALLOWED_TEE_TYPES_def)
  then have "(\<exists>s. checkTcbLevel ti pck q qe v = (Inr s, v) \<and> tcb_refused ti pck q qe s) \<or>
      (\<exists>s v'. checkTcbLevel ti pck q qe v = (Inr s, v') \<and> tcb_evaluated ti pck q qe s v v')"
  proof cases
    case sgx
    show ?thesis
    proof (cases rule: evaluation_shape [OF disjI1, OF refl, of ti pck q qe])
      case 1
      with sgx show ?thesis
        by (simp add: checkTcbLevel_def tcb_refused_def ALLOWED_TEE_TYPES_def launch_evaluation_def)
    next
      case (2 ev)
      from record_step [OF evaluation_verdict evaluation_verdict, OF 2(2) 2(2), of ti ev v] 2 sgx
      show ?thesis
        by (auto simp: checkTcbLevel_def tcb_evaluated_def ALLOWED_TEE_TYPES_def launch_evaluation_def
            current_evaluation_def relaunches_def evaluation_verdict)
    qed
  next
    case tdx
    show ?thesis
    proof (cases rule: evaluation_shape [OF disjI2, OF refl, of "getTeeTcbSvn q" ti pck q qe])
      case 1
      with tdx show ?thesis
        by (simp add: checkTcbLevel_def tcb_refused_def ALLOWED_TEE_TYPES_def launch_evaluation_def)
    next
      case launch: (2 ev)
      show ?thesis
      proof (cases "relaunches q")
        case False
        from record_step [OF evaluation_verdict evaluation_verdict, OF launch(2) launch(2), of ti ev v]
          launch tdx False
        show ?thesis
          by (auto simp: checkTcbLevel_def tcb_evaluated_def ALLOWED_TEE_TYPES_def launch_evaluation_def
              current_evaluation_def relaunches_def evaluation_verdict)
      next
        case True
        show ?thesis
        proof (cases rule: evaluation_shape [OF disjI2, OF refl, of "getTeeTcbSvn2 q" ti pck q qe])
          case 1
          with launch tdx True show ?thesis
            by (simp add: checkTcbLevel_def tcb_refused_def ALLOWED_TEE_TYPES_def launch_evaluation_def
                current_evaluation_def relaunches_def)
        next
          case current: (2 ev2)
          note s = checkForRelaunch_verdict [OF launch(2), of "ev_tcbStatus ev2"]
          from record_step [OF evaluation_verdict s, OF current(2), of ti ev v] launch current tdx True s
          show ?thesis
            by (auto simp: checkTcbLevel_def tcb_evaluated_def ALLOWED_TEE_TYPES_def launch_evaluation_def
                current_evaluation_def relaunches_def)
        qed
      qed
    qed
  next
    case other
    then show ?thesis
      by (simp add: checkTcbLevel_def tcb_refused_def ALLOWED_TEE_TYPES_def)
  qed
  then show thesis using that by blast
qed

section \<open>What an accepted quote is\<close>

definition tee_matches :: "quote \<Rightarrow> tcb_info \<Rightarrow> bool" where
  "tee_matches q ti \<longleftrightarrow>
     (ti_version ti = 2 \<longrightarrow> teeType (q_header q) \<noteq> TEE_TYPE_TDX) \<and>
     (ti_version ti = 3 \<longrightarrow>
        (ti_id ti = TDX_ID \<longrightarrow> teeType (q_header q) = TEE_TYPE_TDX) \<and>
        (ti_id ti = SGX_ID \<longrightarrow> teeType (q_header q) = TEE_TYPE_SGX))"

text \<open>The signer and the attributes the TDX module must have; \<open>None\<close> if none are known.\<close>

definition expected_module :: "quote \<Rightarrow> tcb_info \<Rightarrow> (bytes \<times> bytes) option" where
  "expected_module q ti =
     (if version (q_header q) > QUOTE_VERSION_3 \<and> getTeeTcbSvn q ! 1 > 0 then
        map_option (\<lambda>m. (tdxi_mrsigner m, tdxi_attributes m))
          (findTdxModuleIdentity (ti_tdxModuleIdentities ti) (getTeeTcbSvn q ! 1))
      else Some (tdxm_mrsigner (ti_tdxModule ti), tdxm_attributes (ti_tdxModule ti)))"

definition seam_matches :: "quote \<Rightarrow> tcb_info \<Rightarrow> bool" where
  "seam_matches q ti \<longleftrightarrow>
     (ti_version ti = 3 \<and> ti_id ti = TDX_ID \<longrightarrow>
        expected_module q ti = Some (getMrSignerSeam q, getSeamAttributes q) \<and>
        (\<forall>b\<in>set (getSeamAttributes q). b = 0))"

definition identity_matches :: "quote \<Rightarrow> enclave_identity \<Rightarrow> bool" where
  "identity_matches q e \<longleftrightarrow>
     (if teeType (q_header q) = TEE_TYPE_TDX
      then ei_version e \<noteq> 1 \<and> (ei_version e = 2 \<longrightarrow> ei_id e = TD_QE)
      else teeType (q_header q) = TEE_TYPE_SGX \<and> ei_id e = QE) \<and>
     er_miscSelect (q_qeReport q) AND u32_le (ei_miscselectMask e) 0 = u32_le (ei_miscselect e) 0 \<and>
     applyMask (er_attributes (q_qeReport q)) (ei_attributesMask e) = ei_attributes e \<and>
     (ei_mrSigner e = [] \<or> ei_mrSigner e = er_mrSigner (q_qeReport q)) \<and>
     ucast (er_isvProdID (q_qeReport q)) = ei_isvProdId e"

lemma compare_module_None:
  "compare_module a b m t = None \<longleftrightarrow> a = m \<and> b = t \<and> (\<forall>x\<in>set b. x = 0)"
proof -
  have differ: "list_ex (\<lambda>i. u ! i \<noteq> w ! i) [0..<length u] \<longleftrightarrow> u \<noteq> w"
    if "length w = length u" for u w :: bytes
    using that by (metis (mono_tags, lifting) list_ex_iff nth_equalityI set_upt atLeastLessThan_iff le0)
  have zero: "list_ex (\<lambda>i. b ! i \<noteq> 0 \<or> b ! i \<noteq> t ! i) [0..<length b] \<longleftrightarrow> b \<noteq> t \<or> (\<exists>x\<in>set b. x \<noteq> 0)"
    if "length b = length t"
  proof -
    have "list_ex (\<lambda>i. b ! i \<noteq> 0 \<or> b ! i \<noteq> t ! i) [0..<length b] \<longleftrightarrow>
        list_ex (\<lambda>i. b ! i \<noteq> t ! i) [0..<length b] \<or> (\<exists>i<length b. b ! i \<noteq> 0)"
      by (auto simp: list_ex_iff Bex_def)
    also have "(\<exists>i<length b. b ! i \<noteq> 0) \<longleftrightarrow> (\<exists>x\<in>set b. x \<noteq> 0)" by (metis in_set_conv_nth)
    finally show ?thesis using differ [of t b] that by simp
  qed
  show ?thesis
  proof (cases "length a = length m \<and> length b = length t")
    case False
    then show ?thesis by (auto simp: compare_module_def)
  next
    case True
    then have z: "list_ex (\<lambda>i. m ! i \<noteq> a ! i) [0..<length m] = (m \<noteq> a)"
      "list_ex (\<lambda>i. b ! i \<noteq> 0 \<or> b ! i \<noteq> t ! i) [0..<length b] = (b \<noteq> t \<or> (\<exists>x\<in>set b. x \<noteq> 0))"
      using differ [of a m] zero by blast+
    show ?thesis unfolding compare_module_def z using True by auto
  qed
qed

lemma compare_module_Some: "compare_module a b m t = Some s \<Longrightarrow> s = STATUS_TDX_MODULE_MISMATCH"
  by (auto simp: compare_module_def split: if_splits)

lemma check_tee_None:
  "ti_version ti = 2 \<or> ti_version ti = 3 \<Longrightarrow> check_tee q ti =
     Inr (if tee_matches q ti then None else Some STATUS_TCB_INFO_MISMATCH)"
  by (elim disjE) (simp_all add: check_tee_def tee_matches_def tcbInfo_getId_def)

lemma check_tdx_module_cases:
  assumes "ti_version ti = 2 \<or> ti_version ti = 3"
  shows "check_tdx_module q ti =
     Inr (if seam_matches q ti then None else Some STATUS_TDX_MODULE_MISMATCH)"
proof (cases "ti_version ti = 3 \<and> ti_id ti = TDX_ID")
  case True
  have verdict: "compare_module a b m t =
      (if a = m \<and> b = t \<and> (\<forall>x\<in>set b. x = 0) then None else Some STATUS_TDX_MODULE_MISMATCH)" for a b m t
    using compare_module_None [of a b m t] compare_module_Some [of a b m t]
    by (cases "compare_module a b m t") auto
  from True have g: "tcbInfo_getId ti = Inr TDX_ID" "getTdxModule ti = Inr (ti_tdxModule ti)"
    "getTdxModuleIdentities ti = Inr (ti_tdxModuleIdentities ti)"
    by (simp_all add: tcbInfo_getId_def getTdxModule_def getTdxModuleIdentities_def)
  show ?thesis
    using True by (auto simp: check_tdx_module_def g verdict seam_matches_def expected_module_def Let_def
        split: option.splits)
next
  case False
  with assms show ?thesis
    by (auto simp: check_tdx_module_def seam_matches_def tcbInfo_getId_def)
qed

lemma check_identity_verdict:
  "check_identity_tee q e = None \<and> qe_identity_verdict (enclaveReport_verify e (q_qeReport q)) = None \<longleftrightarrow>
   identity_matches q e"
  by (auto simp: check_identity_tee_def identity_matches_def qe_identity_verdict_def
      enclaveReport_verify_def vectorToUint32_le Let_def split: sum.splits)

definition with_identity :: "enclave_identity option \<Rightarrow> ver_coll_info \<Rightarrow> ver_coll_info" where
  "with_identity qe v = (case qe of None \<Rightarrow> v | Some e \<Rightarrow> addEnclaveIdentityData e v)"

lemma check_qe_identity_cases:
  "\<exists>s. check_qe_identity q qe v =
     (if \<forall>e\<in>set_option qe. identity_matches q e then (Inr None, with_identity qe v) else (Inr (Some s), v)) \<and>
     s \<in> {STATUS_QE_IDENTITY_MISMATCH, STATUS_UNSUPPORTED_QUOTE_FORMAT, STATUS_UNSUPPORTED_QE_IDENTITY_FORMAT}"
proof (cases qe)
  case None
  then show ?thesis by (auto simp: check_qe_identity_def with_identity_def)
next
  case (Some e)
  have tee: "check_identity_tee q e = Some s \<Longrightarrow> s = STATUS_QE_IDENTITY_MISMATCH" for s
    by (auto simp: check_identity_tee_def split: if_splits)
  have verdict: "qe_identity_verdict x = Some s \<Longrightarrow>
      s \<in> {STATUS_QE_IDENTITY_MISMATCH, STATUS_UNSUPPORTED_QUOTE_FORMAT, STATUS_UNSUPPORTED_QE_IDENTITY_FORMAT}"
    for x s by (auto simp: qe_identity_verdict_def split: if_splits)
  show ?thesis
    using Some check_identity_verdict [of q e] tee verdict
    by (cases "check_identity_tee q e"; cases "qe_identity_verdict (enclaveReport_verify e (q_qeReport q))")
      (auto simp: check_qe_identity_def with_identity_def)
qed

text \<open>A run that ends with a verdict on the TCB, as opposed to a refusal of some input.\<close>

definition accepts :: "status vci_run \<Rightarrow> ver_coll_info \<Rightarrow> status \<Rightarrow> ver_coll_info \<Rightarrow> bool" where
  "accepts m v s v' \<longleftrightarrow> m v = (Inr s, v') \<and> s \<in> tcb_verdicts"

lemma refusals [simp]:
  "STATUS_INVALID_PCK_CERT \<notin> tcb_verdicts" "STATUS_INVALID_PCK_CRL \<notin> tcb_verdicts"
  "STATUS_PCK_REVOKED \<notin> tcb_verdicts" "STATUS_TCB_INFO_MISMATCH \<notin> tcb_verdicts"
  "STATUS_UNSUPPORTED_QUOTE_FORMAT \<notin> tcb_verdicts" "STATUS_TDX_MODULE_MISMATCH \<notin> tcb_verdicts"
  "STATUS_INVALID_QE_REPORT_SIGNATURE \<notin> tcb_verdicts" "STATUS_INVALID_QE_REPORT_DATA \<notin> tcb_verdicts"
  "STATUS_QE_IDENTITY_MISMATCH \<notin> tcb_verdicts" "STATUS_INVALID_QUOTE_SIGNATURE \<notin> tcb_verdicts"
  "STATUS_UNSUPPORTED_QE_IDENTITY_FORMAT \<notin> tcb_verdicts" "STATUS_TCB_NOT_SUPPORTED \<notin> tcb_verdicts"
  by (simp_all add: tcb_verdicts_def evaluation_statuses_def)

lemma accepts_if:
  "st \<notin> tcb_verdicts \<Longrightarrow> accepts (if bad then returnV st else rest) v s v' = (\<not> bad \<and> accepts rest v s v')"
  by (auto simp: accepts_def)

lemma accepts_case:
  "st \<notin> tcb_verdicts \<Longrightarrow>
   accepts (case x of None \<Rightarrow> returnV st | Some a \<Rightarrow> f a) v s v' = (\<exists>a. x = Some a \<and> accepts (f a) v s v')"
  by (cases x) (auto simp: accepts_def)

lemma accepts_unless_lift:
  "st \<notin> tcb_verdicts \<Longrightarrow>
   accepts (unless_returned (liftV (Inr (if ok then None else Some st))) rest) v s v' =
     (ok \<and> accepts rest v s v')"
  by (auto simp: accepts_def unless_returned_def)

lemma accepts_certification:
  "accepts (let c = verifyCertificationData d in if c \<noteq> STATUS_OK then returnV c else rest) v s v' =
     (unat (cd_parsedDataSize d) = length (cd_data d) \<and> accepts rest v s v')"
  by (auto simp: accepts_def verifyCertificationData_def)

lemma accepts_identity:
  "accepts (unless_returned (check_qe_identity q qe) rest) v s v' =
     ((\<forall>e\<in>set_option qe. identity_matches q e) \<and> accepts rest (with_identity qe v) s v')"
proof -
  obtain st where st: "check_qe_identity q qe v =
      (if \<forall>e\<in>set_option qe. identity_matches q e then (Inr None, with_identity qe v) else (Inr (Some st), v))"
    "st \<notin> tcb_verdicts"
    using check_qe_identity_cases [of q qe v] by auto
  then show ?thesis
    by (cases "\<forall>e\<in>set_option qe. identity_matches q e")
      (auto simp: accepts_def unless_returned_def bindV_def)
qed

lemma tcb_evaluated_unique:
  assumes "tcb_evaluated ti pck q qe s v v'" and "tcb_evaluated ti pck q qe r v w"
  shows "r = s \<and> w = v'"
proof -
  let ?s = "\<lambda>launch current. if relaunches q then checkForRelaunch (ev_tcbStatus launch) (ev_tcbStatus current)
      else ev_tcbStatus launch"
  from assms(1) obtain l c x y where 1: "launch_evaluation ti pck q qe = (STATUS_OK, Some l)"
    "current_evaluation ti pck q qe = (STATUS_OK, Some c)" "s = ?s l c"
    "printTCBStatus s = Inr x" "printTCBStatus (ev_tcbStatus c) = Inr y" "v' = record_levels ti l x c y v"
    unfolding tcb_evaluated_def by blast
  from assms(2) obtain l2 c2 x2 y2 where 2: "launch_evaluation ti pck q qe = (STATUS_OK, Some l2)"
    "current_evaluation ti pck q qe = (STATUS_OK, Some c2)" "r = ?s l2 c2"
    "printTCBStatus r = Inr x2" "printTCBStatus (ev_tcbStatus c2) = Inr y2" "w = record_levels ti l2 x2 c2 y2 v"
    unfolding tcb_evaluated_def by blast
  from 1(1) 2(1) have l: "l2 = l" by (simp only: prod.inject option.inject)
  from 1(2) 2(2) have c: "c2 = c" by (simp only: prod.inject option.inject)
  from 1(3) 2(3) have r: "r = s" by (simp only: l c)
  from 1(4,5) 2(4,5) have "x2 = x" "y2 = y" by (simp_all only: r c sum.inject)
  with 1(6) 2(6) l c r show ?thesis by (simp only: simp_thms)
qed

lemma tcb_evaluated_verdict: "tcb_evaluated ti pck q qe s v v' \<Longrightarrow> s \<in> tcb_verdicts"
  unfolding tcb_evaluated_def by blast

lemma accepts_level:
  "accepts (catch_runtime (checkTcbLevel ti pck q qe)) v s v' = tcb_evaluated ti pck q qe s v v'"
proof (cases rule: checkTcbLevel_cases [of ti pck q qe v])
  case (1 r)
  then have "r \<notin> tcb_verdicts" "\<not> tcb_evaluated ti pck q qe s v v'"
    by (auto simp: tcb_refused_def tcb_evaluated_def split: if_splits)
  with 1 show ?thesis by (auto simp: accepts_def catch_runtime_def)
next
  case (2 r w)
  then have "tcb_evaluated ti pck q qe s v v' \<longleftrightarrow> s = r \<and> v' = w"
    using tcb_evaluated_unique [of ti pck q qe r v w s v'] by blast
  moreover from 2 have "r \<in> tcb_verdicts" by (simp add: tcb_evaluated_verdict)
  ultimately show ?thesis using 2 by (auto simp: accepts_def catch_runtime_def)
qed

lemmas accept_steps = accepts_if accepts_case accepts_unless_lift accepts_certification accepts_identity
  accepts_level

lemma signed_array:
  "length k = 64 \<Longrightarrow>
   (\<exists>key. rawToP256PubKey_array ssl k = Some key \<and> verifySha256EcdsaSignature_array ssl sg m key) \<longleftrightarrow>
   signed_by ssl (4 # k) m (rawEcdsaSignatureToDER ssl sg)"
  by (simp add: rawToP256PubKey_array_def signed_by_def verifySha256EcdsaSignature_array_def
      verifySha256Signature_def)

lemma signed_pub:
  "(\<exists>key. rawToP256PubKey ssl pub = Some key \<and> verifySha256EcdsaSignature_array ssl sg m key) \<longleftrightarrow>
   signed_by ssl pub m (rawEcdsaSignatureToDER ssl sg)"
  by (auto simp: rawToP256PubKey_eq signed_by_def verifySha256EcdsaSignature_array_def
      verifySha256Signature_def)

lemma binds_key_iff:
  "reportData_binds_key ssl q \<longleftrightarrow>
     sha256Digest ssl (q_attestKeyData q @ q_qeAuthData q) \<noteq> [] \<and>
     take 32 (er_reportData (q_qeReport q)) = sha256Digest ssl (q_attestKeyData q @ q_qeAuthData q)"
  using length_sha256Digest [of ssl "q_attestKeyData q @ q_qeAuthData q"]
  by (auto simp: reportData_binds_key_def hashedConcatOfAttestKeyAndQeReportData_def Let_def)

lemma accepts_quote:
  assumes "ti_version ti = 2 \<or> ti_version ti = 3" and "length (q_attestKeyData q) = 64"
  shows "accepts (quote_verify ssl q pck crl ti qe) v s v' \<longleftrightarrow>
     commonNameContains (cert_subject pck) SGX_PCK_CN_PHRASE \<and> crl_checkIssuer crl \<and>
     iss_raw (crl_issuer' crl) = dn_raw (cert_issuer pck) \<and> not_revoked crl pck \<and>
     tee_matches q ti \<and> pck_fmspc pck = ti_fmspc ti \<and> pck_pceId pck = ti_pceId ti \<and>
     unat (cd_parsedDataSize (q_certificationData q)) = length (cd_data (q_certificationData q)) \<and>
     seam_matches q ti \<and>
     signed_by ssl (cert_pubKey pck) (enclaveReport_rawBlob (q_qeReport q))
       (rawEcdsaSignatureToDER ssl (q_qeReportSignature q)) \<and>
     reportData_binds_key ssl q \<and>
     (\<forall>e\<in>set_option qe. identity_matches q e) \<and>
     signed_by ssl (4 # q_attestKeyData q) (q_signedData q)
       (rawEcdsaSignatureToDER ssl (q_quoteSignature q)) \<and>
     tcb_evaluated ti pck q qe s (with_identity qe v) v'"
  unfolding quote_verify_def check_tee_None [OF assms(1)] check_tdx_module_cases [OF assms(1)]
    signed_array [OF assms(2), of ssl "q_quoteSignature q" "q_signedData q", symmetric]
    signed_pub [of ssl "cert_pubKey pck", symmetric] isRevoked_not
  by (simp add: accept_steps) blast

text \<open>
  C20: \<^verbatim>\<open>QuoteVerifier::verify\<close> ends with a verdict on the platform's TCB
  exactly when every check of the documented flow passes: the PCK certificate and the list of its
  issuer are named as expected and the list does not revoke the certificate; the TCB info is for
  the quote's TEE and for this platform; the TDX module (if the TCB info is for TDX) is signed by
  the expected authority and its attributes are the expected ones, and zero; the PCK key signed the
  QE report, whose data hold the hash of the attestation key and the QE's own data; the QE matches
  its identity; the attestation key signed the quote.  The verdict and the recorded collateral are
  those of the TCB evaluation.
\<close>

theorem quote_verify_accepts:
  assumes "ti_version ti = 2 \<or> ti_version ti = 3" and "length (q_attestKeyData q) = 64"
  shows "quote_verify ssl q pck crl ti qe v = (Inr s, v') \<and> s \<in> tcb_verdicts \<longleftrightarrow>
     commonNameContains (cert_subject pck) SGX_PCK_CN_PHRASE \<and> crl_checkIssuer crl \<and>
     iss_raw (crl_issuer' crl) = dn_raw (cert_issuer pck) \<and>
     cert_serialNumber pck \<notin> rev_serialNumber ` set (crl_revokedList crl) \<and>
     tee_matches q ti \<and> pck_fmspc pck = ti_fmspc ti \<and> pck_pceId pck = ti_pceId ti \<and>
     unat (cd_parsedDataSize (q_certificationData q)) = length (cd_data (q_certificationData q)) \<and>
     seam_matches q ti \<and>
     signed_by ssl (cert_pubKey pck) (enclaveReport_rawBlob (q_qeReport q))
       (rawEcdsaSignatureToDER ssl (q_qeReportSignature q)) \<and>
     sha256Digest ssl (q_attestKeyData q @ q_qeAuthData q) \<noteq> [] \<and>
     take 32 (er_reportData (q_qeReport q)) = sha256Digest ssl (q_attestKeyData q @ q_qeAuthData q) \<and>
     (\<forall>e\<in>set_option qe. identity_matches q e) \<and>
     signed_by ssl (4 # q_attestKeyData q) (q_signedData q)
       (rawEcdsaSignatureToDER ssl (q_quoteSignature q)) \<and>
     tcb_evaluated ti pck q qe s (with_identity qe v) v'"
  using accepts_quote [OF assms, of ssl pck crl qe v s v']
  by (simp add: accepts_def not_revoked_def binds_key_iff)

section \<open>From the bytes of the quote\<close>

lemma take_as_slice: "take n xs = slice 0 n xs"
  by (simp add: slice_def)

lemma parse_signed_data:
  assumes "fst (parse raw q)" and "length raw < 2 ^ 32" and "validate (snd (parse raw q))"
  shows "q_signedData (snd (parse raw q)) = take (auth_offset raw) raw"
    and "version (raw_header raw) \<ge> 3"
proof -
  note h = parse_header [OF assms(1,2)]
  have v: "version (raw_header raw) \<ge> 3" "teeType (raw_header raw) \<in> set ALLOWED_TEE_TYPES"
    using assms(3) by (auto simp: validate_def h ALLOWED_QUOTE_VERSIONS_def Let_def split: if_splits)
  show "version (raw_header raw) \<ge> 3" by (rule v(1))
  from v(2) have hr: "has_report raw" by (auto simp: has_report_def ALLOWED_TEE_TYPES_def)
  show "q_signedData (snd (parse raw q)) = take (auth_offset raw) raw"
    by (rule parse_success [OF assms(1,2)])
      (simp add: Let_def parse_auth_keeps hr auth_offset_def)
qed

lemma authentic_bytes:
  assumes "fst (parse raw q0)" and "length raw < 2 ^ 32" and "validate (snd (parse raw q0))"
    and "ti_version ti = 2 \<or> ti_version ti = 3"
    and "quote_verify ssl (snd (parse raw q0)) pck crl ti qe v = (Inr s, v')" and "s \<in> tcb_verdicts"
  shows "let p = auth_offset raw + 4; key = slice (p + 64) 64 raw; block = qe_block raw;
       report = slice 0 384 block in
     signed_by ssl (4 # key) (take (auth_offset raw) raw) (rawEcdsaSignatureToDER ssl (slice p 64 raw)) \<and>
     sha256Digest ssl (key @ slice 450 (unat (u16_le block 448)) block) = slice 320 32 report \<and>
     signed_by ssl (cert_pubKey pck) report (rawEcdsaSignatureToDER ssl (slice 384 64 block))"
proof -
  note block = parse_qe_block [OF assms(1,2) parse_signed_data(2) [OF assms(1-3)], unfolded Let_def]
  from block have "length (q_attestKeyData (snd (parse raw q0))) = 64" by blast
  from accepts_quote [OF assms(4) this, of ssl pck crl qe v s v'] assms(5,6)
  have "signed_by ssl (cert_pubKey pck) (enclaveReport_rawBlob (q_qeReport (snd (parse raw q0))))
       (rawEcdsaSignatureToDER ssl (q_qeReportSignature (snd (parse raw q0))))"
    "reportData_binds_key ssl (snd (parse raw q0))"
    "signed_by ssl (4 # q_attestKeyData (snd (parse raw q0))) (q_signedData (snd (parse raw q0)))
       (rawEcdsaSignatureToDER ssl (q_quoteSignature (snd (parse raw q0))))"
    unfolding accepts_def by blast+
  with block show ?thesis
    by (simp add: Let_def binds_key_iff parse_signed_data(1) [OF assms(1-3)] take_as_slice slice_slice)
qed

text \<open>
  C21: the chain of trust down to the bytes.  When a raw quote parses, validates and is verified to
  a TCB verdict, the bytes before its authentication data are signed by the attestation key that
  lies behind them, the hash of that key and the QE's data stands in the QE report, and the PCK
  certificate's key signed exactly the bytes of that report.
\<close>

theorem quote_authentic:
  assumes "fst (parse raw q0)" and "length raw < 2 ^ 32" and "validate (snd (parse raw q0))"
    and "ti_version ti = 2 \<or> ti_version ti = 3"
    and "quote_verify ssl (snd (parse raw q0)) pck crl ti qe v = (Inr s, v')" and "s \<in> tcb_verdicts"
  shows "let p = auth_offset raw + 4; key = slice (p + 64) 64 raw; block = qe_block raw;
       report = slice 0 384 block in
     signed_by ssl (4 # key) (take (auth_offset raw) raw) (rawEcdsaSignatureToDER ssl (slice p 64 raw)) \<and>
     sha256Digest ssl (key @ slice 450 (unat (u16_le block 448)) block) = slice 320 32 report \<and>
     signed_by ssl (cert_pubKey pck) report (rawEcdsaSignatureToDER ssl (slice 384 64 block))"
  using assms by (rule authentic_bytes)

section \<open>The record of the collateral\<close>

text \<open>
  The invariant of the record: the identifiers are sorted and without duplicates, the three lists
  of dates and numbers grow together, and once it is filled they are not empty and the two strings
  are printed TCB statuses.
\<close>

definition vci_inv :: "ver_coll_info \<Rightarrow> bool" where
  "vci_inv v \<longleftrightarrow>
     sorted_wrt string_less (vci_launchAdvisoryIds v) \<and> sorted_wrt string_less (vci_currentAdvisoryIds v) \<and>
     length (vci_nextUpdates v) = length (vci_issueDates v) \<and>
     length (vci_tcbEvalNumbers v) = length (vci_issueDates v) \<and>
     (vci_isFilled v \<longrightarrow> vci_issueDates v \<noteq> [] \<and>
        (\<exists>s\<in>tcb_verdicts. printTCBStatus s = Inr (vci_launchTcbStatus v)) \<and>
        (\<exists>s\<in>tcb_verdicts. printTCBStatus s = Inr (vci_currentTcbStatus v)))"

lemma sorted_insert_all:
  "sorted_wrt string_less xs \<Longrightarrow> sorted_wrt string_less (set_insert_all string_less new xs)"
  using advisory_ids.set_insert_all_ordered [of xs new] by simp

lemma vci_inv_new: "vci_inv ver_coll_info_new"
  by (simp add: vci_inv_def ver_coll_info_new_def)

lemma vci_inv_identity: "vci_inv v \<Longrightarrow> vci_inv (addEnclaveIdentityData e v)"
  by (simp add: vci_inv_def addEnclaveIdentityData_def)

lemma vci_inv_levels:
  assumes "vci_inv v" "s \<in> tcb_verdicts" "printTCBStatus s = Inr str"
    "s' \<in> tcb_verdicts" "printTCBStatus s' = Inr str'"
  shows "vci_inv (record_levels ti launch str current str' v)"
  using assms
  by (auto simp: vci_inv_def record_levels_def setFilled_def addTcbInfoData_def addLaunchInfo_def
      addCurrentInfo_def sorted_insert_all)

text \<open>A run that does not throw and whose status and record are related by \<open>R\<close>.\<close>

definition returns :: "(status \<Rightarrow> ver_coll_info \<Rightarrow> bool) \<Rightarrow> status vci_run \<Rightarrow> ver_coll_info \<Rightarrow> bool" where
  "returns R m v \<longleftrightarrow> (\<exists>s v'. m v = (Inr s, v') \<and> R s v')"

named_theorems returning \<open>rules for returns\<close>

lemma returns_return [returning]: "R s v \<Longrightarrow> returns R (returnV s) v"
  by (simp add: returns_def)

lemma returns_if [returning]: "returns R m v \<Longrightarrow> returns R m' v \<Longrightarrow> returns R (if b then m else m') v"
  by simp

lemma returns_case [returning]:
  "returns R m v \<Longrightarrow> (\<And>a. returns R (f a) v) \<Longrightarrow> returns R (case x of None \<Rightarrow> m | Some a \<Rightarrow> f a) v"
  by (cases x) simp_all

lemma returns_let [returning]: "(\<And>x. returns R (f x) v) \<Longrightarrow> returns R (let x = t in f x) v"
  by (simp add: Let_def)

lemma returns_unless [returning]:
  "R st v \<Longrightarrow> returns R rest v \<Longrightarrow> returns R (unless_returned (liftV (Inr (if ok then None else Some st))) rest) v"
  by (simp add: returns_def unless_returned_def)

lemma returns_certification [returning]:
  "R STATUS_UNSUPPORTED_QUOTE_FORMAT v \<Longrightarrow> returns R rest v \<Longrightarrow>
   returns R (let c = verifyCertificationData d in if c \<noteq> STATUS_OK then returnV c else rest) v"
  by (auto simp: verifyCertificationData_def intro: returns_return)

lemma returns_identity [returning]:
  assumes "\<And>st. st \<in> {STATUS_QE_IDENTITY_MISMATCH, STATUS_UNSUPPORTED_QUOTE_FORMAT,
      STATUS_UNSUPPORTED_QE_IDENTITY_FORMAT} \<Longrightarrow> R st v"
    and "returns R rest (with_identity qe v)"
  shows "returns R (unless_returned (check_qe_identity q qe) rest) v"
proof -
  obtain st where st: "check_qe_identity q qe v =
      (if \<forall>e\<in>set_option qe. identity_matches q e then (Inr None, with_identity qe v) else (Inr (Some st), v))"
    and "R st v"
    using check_qe_identity_cases [of q qe v] assms(1) by blast
  with assms(2) show ?thesis
    by (cases "\<forall>e\<in>set_option qe. identity_matches q e")
      (auto simp: returns_def unless_returned_def bindV_def)
qed

lemma quote_verify_returns:
  assumes "ti_version ti = 2 \<or> ti_version ti = 3"
  shows "returns (\<lambda>s v'. s \<notin> tcb_verdicts \<and> v' \<in> {v, with_identity qe v} \<or>
      tcb_evaluated ti pck q qe s (with_identity qe v) v') (quote_verify ssl q pck crl ti qe) v"
    (is "returns ?R _ _")
proof -
  have level: "returns ?R (catch_runtime (checkTcbLevel ti pck q qe)) (with_identity qe v)"
  proof (cases rule: checkTcbLevel_cases [of ti pck q qe "with_identity qe v"])
    case (1 s)
    then have "s \<notin> tcb_verdicts" by (auto simp: tcb_refused_def split: if_splits)
    with 1 show ?thesis by (simp add: returns_def catch_runtime_def)
  next
    case (2 s w)
    then show ?thesis by (simp add: returns_def catch_runtime_def)
  qed
  have refuse: "?R st v" "?R st (with_identity qe v)"
    if "st \<notin> tcb_verdicts" for st using that by simp_all
  show ?thesis
    unfolding quote_verify_def check_tee_None [OF assms] check_tdx_module_cases [OF assms]
    by (intro returning level refuse refusals) (auto simp: refusals)
qed

lemma verify_recorded:
  assumes "vci_inv v" and "\<not> vci_isFilled v" and "ti_version ti = 2 \<or> ti_version ti = 3"
  shows "\<exists>s v'. quote_verify ssl q pck crl ti qe v = (Inr s, v') \<and> vci_inv v' \<and>
     (vci_isFilled v' \<longleftrightarrow> s \<in> tcb_verdicts) \<and>
     (s \<in> tcb_verdicts \<longrightarrow> printTCBStatus s = Inr (vci_launchTcbStatus v'))"
proof -
  have id: "vci_inv (with_identity qe v)" "\<not> vci_isFilled (with_identity qe v)"
    using assms(1,2) vci_inv_identity
    by (auto simp: with_identity_def split: option.split) (simp add: addEnclaveIdentityData_def)
  have filled: "vci_inv v' \<and> vci_isFilled v' \<and> s \<in> tcb_verdicts \<and>
      printTCBStatus s = Inr (vci_launchTcbStatus v')"
    if "tcb_evaluated ti pck q qe s (with_identity qe v) v'" for s v'
  proof -
    from that obtain launch current str str' where *:
      "current_evaluation ti pck q qe = (STATUS_OK, Some current)" "s \<in> tcb_verdicts"
      "printTCBStatus s = Inr str" "printTCBStatus (ev_tcbStatus current) = Inr str'"
      "v' = record_levels ti launch str current str' (with_identity qe v)"
      unfolding tcb_evaluated_def by blast
    have "current_evaluation ti pck q qe = checkTcbLevel_sgx ti pck q qe \<or>
        current_evaluation ti pck q qe =
          checkTcbLevel_tdx (if relaunches q then getTeeTcbSvn2 q else getTeeTcbSvn q) ti pck q qe"
      by (simp add: current_evaluation_def launch_evaluation_def relaunches_def)
    from evaluation_shape [OF this] *(1) have "ev_tcbStatus current \<in> tcb_verdicts"
      by (metis evaluation_verdict option.distinct(1) option.inject prod.inject)
    from vci_inv_levels [OF id(1) *(2,3) this *(4), of ti launch current] *(2,3) show ?thesis
      by (simp add: *(5)) (simp add: record_levels_def setFilled_def addTcbInfoData_def addLaunchInfo_def)
  qed
  from quote_verify_returns [OF assms(3), of v qe pck q ssl crl] obtain s v' where
    "quote_verify ssl q pck crl ti qe v = (Inr s, v')"
    "s \<notin> tcb_verdicts \<and> v' \<in> {v, with_identity qe v} \<or> tcb_evaluated ti pck q qe s (with_identity qe v) v'"
    unfolding returns_def by blast
  with filled [of s v'] id assms(1,2) show ?thesis by blast
qed

text \<open>
  C22: verification never throws for a TCB info of the two supported versions, and keeps the
  invariant of the collateral record: a record that was not filled is filled exactly when the
  verification ends with a verdict on the TCB, and then names it.
\<close>

theorem quote_verify_record:
  assumes "vci_inv v" and "\<not> vci_isFilled v" and "ti_version ti = 2 \<or> ti_version ti = 3"
  shows "\<exists>s v'. quote_verify ssl q pck crl ti qe v = (Inr s, v') \<and> vci_inv v' \<and>
     (vci_isFilled v' \<longleftrightarrow> s \<in> tcb_verdicts) \<and>
     (s \<in> tcb_verdicts \<longrightarrow> printTCBStatus s = Inr (vci_launchTcbStatus v'))"
  using assms by (rule verify_recorded)

section \<open>Sample\<close>

text \<open>A version 3 quote signed under \<open>sample_ssl\<close>, and the platform that made it.\<close>

definition sample_signed_v3 :: bytes where
  "sample_signed_v3 = [3, 0, 2, 0] @ replicate 8 0 @ INTEL_QE_VENDOR_ID @ replicate 404 0 @
     [0x48, 2, 0, 0] @ [3, 0, 2, 0] @ replicate 8 0 @ INTEL_QE_VENDOR_ID @ replicate 36 0 @
     replicate 514 0 @ [5, 0, 0, 0, 0, 0]"

definition sample_quote :: quote where
  "sample_quote = snd (parse sample_signed_v3 quote_init)"

definition sample_platform_cert :: pck_certificate where
  "sample_platform_cert = certificate.extend (sample_cert PCK_SUBJECT PLATFORM_CA_SUBJECT 3 2)
     \<lparr>pck_ppid = [], pck_pceId = replicate 2 0, pck_fmspc = replicate 6 0,
      pck_tcb' = \<lparr>pt_cpuSvn = replicate 16 5, pt_cpuSvnComponents = replicate 16 5, pt_pceSvn = 10\<rparr>,
      pck_sgxType = 0\<rparr>"

definition sample_pck_crl :: crl_store where
  "sample_pck_crl = sample_crl PCK_PLATFORM_CRL_ISSUER 2"

lemma sample_signed_fields:
  "length sample_signed_v3 = 1020" "u16_le sample_signed_v3 0 = 3" "u16_le sample_signed_v3 2 = 2"
  "u32_le sample_signed_v3 4 = 0" "u32_le sample_signed_v3 432 = 584"
  "u16_le sample_signed_v3 1012 = 0" "u32_le sample_signed_v3 1016 = 0" "u16_le sample_signed_v3 1014 = 5"
  by code_simp+

lemma sample_signed_slices:
  "slice 12 16 sample_signed_v3 = INTEL_QE_VENDOR_ID"
  "slice 436 64 sample_signed_v3 = take 64 sample_signed_v3"
  "slice 500 64 sample_signed_v3 = replicate 64 0"
  "slice 564 384 sample_signed_v3 = replicate 384 0"
  "slice 948 64 sample_signed_v3 = replicate 64 0"
  by (simp_all add: sample_signed_v3_def slice_def INTEL_QE_VENDOR_ID_def)

lemma sample_signed_header:
  "version (raw_header sample_signed_v3) = 3" "teeType (raw_header sample_signed_v3) = 0"
  "attestationKeyType (raw_header sample_signed_v3) = 2"
  "qeVendorId (raw_header sample_signed_v3) = INTEL_QE_VENDOR_ID"
  by (simp_all add: raw_header_def fill_header_def u16_le_slice u32_le_slice slice_slice
      sample_signed_fields sample_signed_slices sample_signed_fields(3) [unfolded numeral_2_eq_2])

lemma sample_signed_span: "report_span sample_signed_v3 = Some (48, 384)"
  by (simp add: report_span_def sample_signed_header Let_def)

lemma sample_signed_parses: "fst (parse sample_signed_v3 q)"
  by (simp add: parse_accepts sample_signed_fields quote_accepted_def body_accepted_def sample_signed_span
      sample_signed_header auth_accepted_def v3_fits_def Let_def)

lemma sample_quote_header: "q_header sample_quote = raw_header sample_signed_v3"
  unfolding sample_quote_def by (rule parse_header) (simp_all add: sample_signed_parses sample_signed_fields)

lemma sample_quote_block:
  "q_quoteSignature sample_quote = take 64 sample_signed_v3"
  "q_attestKeyData sample_quote = replicate 64 0"
  "enclaveReport_rawBlob (q_qeReport sample_quote) = replicate 384 0"
  "take 32 (er_reportData (q_qeReport sample_quote)) = replicate 32 0"
  "q_qeReportSignature sample_quote = replicate 64 0"
  "q_qeAuthData sample_quote = []"
  using parse_qe_block [of sample_signed_v3 quote_init]
  by (simp_all add: sample_quote_def sample_signed_parses sample_signed_fields sample_signed_header
      auth_offset_def sample_signed_span sample_signed_slices qe_block_def slice_drop u16_le_drop Let_def)
    (simp add: take_as_slice slice_slice, simp add: sample_signed_v3_def slice_def INTEL_QE_VENDOR_ID_def)

lemma sample_quote_valid: "validate sample_quote"
proof -
  have "cd_type (q_certificationData sample_quote) = 5 \<and>
      v3_certificationData (q_authDataV3 sample_quote) = q_certificationData sample_quote"
    using parse_v3_fields [of sample_signed_v3 quote_init] sample_quote_header
    by (simp add: sample_quote_def sample_signed_parses sample_signed_fields sample_signed_header
        auth_offset_def sample_signed_span Let_def)
  then show ?thesis
    by (simp add: validate_def sample_quote_header sample_signed_header ALLOWED_QUOTE_VERSIONS_def
        ALLOWED_ATTESTATION_KEY_TYPES_def ALLOWED_TEE_TYPES_def Let_def)
qed

lemma parse_v3_certification_size:
  assumes "fst (parse_auth_v3 raw n q p)" "p + unat n \<le> length raw" "length raw < 2 ^ 32"
  shows "let c = q_certificationData (fst (snd (parse_auth_v3 raw n q p)))
    in unat (cd_parsedDataSize c) = length (cd_data c)"
proof (cases "p_quoteV3AuthData raw (p + unat n) v3_zero p")
  case None
  with parse_auth_v3_spec [OF assms(2,3), of q] assms(1) show ?thesis by simp
next
  case (Some ap)
  obtain a p' where ap: "ap = (a, p')" by force
  have "p + 584 + unat (u16_le raw (p + 576)) + unat (u32_le raw (p + 580 + unat (u16_le raw (p + 576))))
      \<le> length raw"
    using p_quoteV3AuthData_iff [of raw "p + unat n" v3_zero p] Some assms(2) by (simp add: Let_def)
  with Some ap parse_auth_v3_spec [OF assms(2,3), of q]
    p_quoteV3AuthData_value [of raw "p + unat n" v3_zero p a p'] show ?thesis
    by (simp add: Let_def length_slice)
qed

lemma sample_certification:
  "unat (cd_parsedDataSize (q_certificationData sample_quote)) = length (cd_data (q_certificationData sample_quote))"
proof (rule parse_auth_of_success [of sample_signed_v3 quote_init "auth_offset sample_signed_v3"], goal_cases)
  case (4 q1)
  then show ?case
    using parse_v3_certification_size [of sample_signed_v3 584 q1 436]
    by (simp add: sample_quote_def auth_offset_def sample_signed_span parse_auth_v3_case
        sample_signed_header sample_signed_fields Let_def)
qed (simp_all add: sample_signed_parses sample_signed_fields)

lemma sample_evaluation:
  "launch_evaluation (sample_tcb_info ''SGX'') sample_platform_cert sample_quote None =
     (STATUS_OK, Some \<lparr>ev_tcbStatus = STATUS_OK, ev_tcbDate = 100, ev_advisoryIds = [''INTEL-SA-00001'']\<rparr>)"
  by (simp add: launch_evaluation_def sample_quote_header sample_signed_header checkTcbLevel_sgx_def
      sample_platform_cert_def certificate.defs sgxEvaluateTCB_reference sample_info_wf sgx_reference_def
      qe_part_def sample_info_levels sample_level_matches sample_level_status sample_level_simps
      converge_ok_iff)

lemma sample_tcb_evaluated:
  "\<exists>v'. tcb_evaluated (sample_tcb_info ''SGX'') sample_platform_cert sample_quote None STATUS_OK v v'"
proof -
  have "\<not> relaunches sample_quote"
    by (simp add: relaunches_def sample_quote_header sample_signed_header)
  moreover have "STATUS_OK \<in> tcb_verdicts" by (simp add: tcb_verdicts_def evaluation_statuses_def)
  moreover from verdict_prints [OF this] obtain str where "printTCBStatus STATUS_OK = Inr str" by blast
  ultimately show ?thesis
    by (auto simp: tcb_evaluated_def current_evaluation_def sample_evaluation sample_quote_header
        sample_signed_header ALLOWED_TEE_TYPES_def)
qed

lemma sample_accepted:
  "\<exists>v'. accepts (quote_verify sample_ssl sample_quote sample_platform_cert sample_pck_crl
     (sample_tcb_info ''SGX'') None) v STATUS_OK v'"
proof -
  let ?ti = "sample_tcb_info ''SGX''"
  have names: "commonNameContains (cert_subject sample_platform_cert) SGX_PCK_CN_PHRASE"
    "crl_checkIssuer sample_pck_crl" "not_revoked sample_pck_crl sample_platform_cert"
    "iss_raw (crl_issuer' sample_pck_crl) = dn_raw (cert_issuer sample_platform_cert)"
    by code_simp+
  have ids: "pck_fmspc sample_platform_cert = ti_fmspc ?ti" "pck_pceId sample_platform_cert = ti_pceId ?ti"
    by (simp_all add: sample_platform_cert_def sample_tcb_info_def certificate.defs)
  have tee: "tee_matches sample_quote ?ti" "seam_matches sample_quote ?ti"
    by (simp_all add: tee_matches_def seam_matches_def sample_tcb_info_def TDX_ID_def SGX_ID_def
        sample_quote_header sample_signed_header)
  have key: "cert_pubKey sample_platform_cert = sample_key 3"
    by (simp add: sample_platform_cert_def sample_cert_def certificate.defs)
  have k0: "4 # replicate 64 0 = sample_key 0" by (simp add: sample_key_def)
  have der: "rawEcdsaSignatureToDER sample_ssl s = s" if "length s = 64" for s
  proof -
    from that have "s = slice 0 32 s @ slice 32 32 s" using slice_append [of 0 32 s 32] slice_all [of s] by simp
    then show ?thesis by (simp add: rawEcdsaSignatureToDER_def sample_ssl_def)
  qed
  have sigs: "signed_by sample_ssl (sample_key 3) (replicate 384 0) (rawEcdsaSignatureToDER sample_ssl (replicate 64 0))"
    "signed_by sample_ssl (sample_key 0) (take 432 sample_signed_v3)
       (rawEcdsaSignatureToDER sample_ssl (take 64 sample_signed_v3))"
    by (simp_all add: sample_signed der sample_signed_fields sample_mac_def)
  have binds: "reportData_binds_key sample_ssl sample_quote"
    by (simp add: binds_key_iff sample_quote_block sha256Digest_def sample_ssl_def)
  have data: "q_signedData sample_quote = take 432 sample_signed_v3"
    using parse_signed_data [of sample_signed_v3 quote_init] sample_quote_valid
    by (simp add: sample_quote_def sample_signed_parses sample_signed_fields auth_offset_def sample_signed_span)
  have v: "ti_version ?ti = 2 \<or> ti_version ?ti = 3" by (simp add: sample_tcb_info_def)
  from sample_tcb_evaluated [of "with_identity None v"] names ids tee key k0 sigs binds data sample_certification
  show ?thesis
    by (subst accepts_quote [OF v]) (simp_all add: sample_quote_block)
qed

lemma quote_verify_accepts_witness:
  "\<exists>v'. quote_verify sample_ssl sample_quote sample_platform_cert sample_pck_crl (sample_tcb_info ''SGX'')
     None ver_coll_info_new = (Inr STATUS_OK, v') \<and>
     sha256Digest sample_ssl (q_attestKeyData sample_quote @ q_qeAuthData sample_quote) = replicate 32 0"
proof -
  obtain v' where "accepts (quote_verify sample_ssl sample_quote sample_platform_cert sample_pck_crl
     (sample_tcb_info ''SGX'') None) ver_coll_info_new STATUS_OK v'"
    using sample_accepted by blast
  then have "quote_verify sample_ssl sample_quote sample_platform_cert sample_pck_crl (sample_tcb_info ''SGX'')
     None ver_coll_info_new = (Inr STATUS_OK, v') \<and> STATUS_OK \<in> tcb_verdicts"
    by (simp add: accepts_def)
  moreover from this have "take 32 (er_reportData (q_qeReport sample_quote)) =
      sha256Digest sample_ssl (q_attestKeyData sample_quote @ q_qeAuthData sample_quote)"
    by (subst (asm) quote_verify_accepts) (simp_all add: sample_quote_block sample_tcb_info_def)
  ultimately show ?thesis by (auto simp: sample_quote_block)
qed

lemma quote_authentic_witness:
  "\<exists>v'. quote_verify sample_ssl sample_quote sample_platform_cert sample_pck_crl (sample_tcb_info ''SGX'')
     None ver_coll_info_new = (Inr STATUS_OK, v') \<and>
     signed_by sample_ssl (4 # slice 500 64 sample_signed_v3) (take 432 sample_signed_v3)
       (rawEcdsaSignatureToDER sample_ssl (slice 436 64 sample_signed_v3))"
proof -
  obtain v' where v': "quote_verify sample_ssl (snd (parse sample_signed_v3 quote_init)) sample_platform_cert
     sample_pck_crl (sample_tcb_info ''SGX'') None ver_coll_info_new = (Inr STATUS_OK, v')" "STATUS_OK \<in> tcb_verdicts"
    using sample_accepted [of ver_coll_info_new] by (auto simp: accepts_def sample_quote_def)
  from quote_authentic [OF sample_signed_parses _ _ _ v'] sample_quote_valid v'(1) show ?thesis
    by (simp add: sample_signed_fields sample_tcb_info_def auth_offset_def sample_signed_span Let_def
        sample_quote_def)
qed

lemma quote_verify_record_witness:
  "\<exists>v'. vci_inv v' \<and> vci_isFilled v' \<and>
     quote_verify sample_ssl sample_quote sample_platform_cert sample_pck_crl (sample_tcb_info ''SGX'')
     None ver_coll_info_new = (Inr STATUS_OK, v')"
  using quote_verify_record [OF vci_inv_new, of "sample_tcb_info ''SGX''" sample_ssl sample_quote
      sample_platform_cert sample_pck_crl None] sample_accepted [of ver_coll_info_new]
  by (auto simp: sample_tcb_info_def ver_coll_info_new_def accepts_def)

end
