(* ===== verification/GMTime.thy ===== *)
theory GMTime
  imports Prelude Statuses "HOL-Library.Signed_Division"
begin

text \<open>
  \<^verbatim>\<open>AttestationCommons/src/Utils/GMTime.cpp\<close>, first half: the calendar the
  enclave uses in place of the C library, and \<^verbatim>\<open>sgxssl__gmtime64\<close>.  Division and
  remainder are those of C, \<open>sdiv\<close> and \<open>smod\<close>.  The code checks the overflow of years
  and of the day count and the model has those checks; other \<^verbatim>\<open>int\<close> arithmetic is
  exact, which it is in C but for years next to \<^verbatim>\<open>INT_MIN\<close>.  The lemmas show
  that the result is the calendar date of the proleptic Gregorian calendar.
\<close>

section \<open>Broken-down time\<close>

record tm =
  tm_sec :: int
  tm_min :: int
  tm_hour :: int
  tm_mday :: int
  tm_mon :: int
  tm_year :: int
  tm_wday :: int
  tm_yday :: int
  tm_isdst :: int

definition tm_zero :: tm where
  "tm_zero = \<lparr>tm_sec = 0, tm_min = 0, tm_hour = 0, tm_mday = 0, tm_mon = 0, tm_year = 0,
     tm_wday = 0, tm_yday = 0, tm_isdst = 0\<rparr>"

text \<open>The comparison of \<^verbatim>\<open>TimeUtils.cpp\<close>, before and after normalising.\<close>

definition same_fields :: "tm \<Rightarrow> tm \<Rightarrow> bool" where
  "same_fields a b \<longleftrightarrow>
     tm_year a = tm_year b \<and> tm_mon a = tm_mon b \<and> tm_mday a = tm_mday b \<and>
     tm_hour a = tm_hour b \<and> tm_min a = tm_min b \<and> tm_sec a = tm_sec b"

lemma same_fields_refl [simp]: "same_fields t t"
  by (simp add: same_fields_def)

lemma same_fields_flags [simp]:
  "same_fields t (u\<lparr>tm_wday := w, tm_yday := y, tm_isdst := i\<rparr>) = same_fields t u"
  "same_fields (t\<lparr>tm_wday := w, tm_yday := y, tm_isdst := i\<rparr>) u = same_fields t u"
  by (simp_all add: same_fields_def)

section \<open>Calendar\<close>

definition SECSPERDAY :: int where [simp]: "SECSPERDAY = 60 * 60 * 24"
definition DAYSPERNYEAR :: int where [simp]: "DAYSPERNYEAR = 365"
definition DAYSPERLYEAR :: int where [simp]: "DAYSPERLYEAR = 366"
definition EPOCH_YEAR :: int where [simp]: "EPOCH_YEAR = 1970"
definition TM_YEAR_BASE :: int where [simp]: "TM_YEAR_BASE = 1900"
definition INT_MAX :: int where [simp]: "INT_MAX = 0x7fffffff"
definition INT_MIN :: int where [simp]: "INT_MIN = -0x7fffffff - 1"

definition isleap :: "int \<Rightarrow> bool" where
  "isleap y \<longleftrightarrow> y smod 4 = 0 \<and> (y smod 100 \<noteq> 0 \<or> y smod 400 = 0)"

definition mon_lengths :: "bool \<Rightarrow> int list" where
  "mon_lengths leap = [31, if leap then 29 else 28, 31, 30, 31, 30, 31, 31, 30, 31, 30, 31]"

definition year_lengths :: "bool \<Rightarrow> int" where
  "year_lengths leap = (if leap then DAYSPERLYEAR else DAYSPERNYEAR)"

function leaps_thru_end_of :: "int \<Rightarrow> int" where
  "leaps_thru_end_of y =
     (if y \<ge> 0 then y sdiv 4 - y sdiv 100 + y sdiv 400 else - (leaps_thru_end_of (- (y + 1)) + 1))"
  by pat_completeness auto
termination
  by (relation "measure (\<lambda>y. if y < 0 then 1 else 0)") auto

declare leaps_thru_end_of.simps [simp del]

text \<open>\<open>None\<close> is the result \<^verbatim>\<open>TRUE\<close>: nothing was added.\<close>

definition increment_overflow :: "int \<Rightarrow> int \<Rightarrow> int option" where
  "increment_overflow i j =
     (if (if i \<ge> 0 then j > INT_MAX - i else j < INT_MIN - i) then None else Some (i + j))"

section \<open>The calendar as arithmetic\<close>

lemma sdiv_nonneg: "0 \<le> a \<Longrightarrow> 0 < b \<Longrightarrow> a sdiv b = a div b" for a b :: int
  by (cases "a = 0") (simp_all add: signed_divide_int_def sgn_if)

lemma smod_nonneg: "0 \<le> a \<Longrightarrow> 0 < b \<Longrightarrow> a smod b = a mod b" for a b :: int
  by (cases "a = 0") (simp_all add: signed_modulo_int_def sgn_if)

lemma smod_zero: "0 < b \<Longrightarrow> a smod b = 0 \<longleftrightarrow> a mod b = 0" for a b :: int
  by (auto simp: signed_modulo_int_def sgn_if mod_eq_0_iff_dvd)

lemma isleap_iff: "isleap y \<longleftrightarrow> y mod 4 = 0 \<and> (y mod 100 \<noteq> 0 \<or> y mod 400 = 0)"
  by (simp add: isleap_def smod_zero)

text \<open>Division rounding towards zero, made to round down.\<close>

lemma div_complement: "(- y - 1) div n = - (y div n) - 1" if "0 < n" for y n :: int
proof (rule int_div_pos_eq)
  show "- y - 1 = n * (- (y div n) - 1) + (n - 1 - y mod n)"
    using div_mult_mod_eq [of y n] by (simp add: algebra_simps)
  have "0 \<le> y mod n" "y mod n < n" using that by simp_all
  then show "0 \<le> n - 1 - y mod n" "n - 1 - y mod n < n" by linarith+
qed

lemma leaps_div: "leaps_thru_end_of y = y div 4 - y div 100 + y div 400"
proof (cases "y \<ge> 0")
  case True
  then show ?thesis by (subst leaps_thru_end_of.simps) (simp add: sdiv_nonneg)
next
  case False
  then have "leaps_thru_end_of (- (y + 1)) =
      (- (y + 1)) div 4 - (- (y + 1)) div 100 + (- (y + 1)) div 400"
    by (subst leaps_thru_end_of.simps) (simp add: sdiv_nonneg)
  with False show ?thesis by (subst leaps_thru_end_of.simps) (simp add: div_complement)
qed

lemma div_pred:
  fixes y n :: int
  assumes "0 < n"
  shows "(y - 1) div n = y div n - (if y mod n = 0 then 1 else 0)"
proof (cases "y mod n = 0")
  case True
  have "(y - 1) div n = y div n - 1"
  proof (rule int_div_pos_eq)
    show "y - 1 = n * (y div n - 1) + (n - 1)"
      using div_mult_mod_eq [of y n] True by (simp add: algebra_simps)
  qed (use assms in simp_all)
  with True show ?thesis by simp
next
  case False
  have "(y - 1) div n = y div n"
  proof (rule int_div_pos_eq)
    show "y - 1 = n * (y div n) + (y mod n - 1)"
      using div_mult_mod_eq [of y n] by (simp add: algebra_simps)
    have "0 \<le> y mod n" "y mod n < n" using assms by simp_all
    with False show "0 \<le> y mod n - 1" "y mod n - 1 < n" by linarith+
  qed
  with False show ?thesis by simp
qed

text \<open>The number of the first day of a year, counted from 1970.\<close>

definition year_start :: "int \<Rightarrow> int" where
  "year_start y = 365 * (y - 1970) + leaps_thru_end_of (y - 1) - leaps_thru_end_of 1969"

lemma leaps_step: "leaps_thru_end_of y = leaps_thru_end_of (y - 1) + (if isleap y then 1 else 0)"
proof -
  have "y mod 100 = 0" if "y mod 400 = 0"
    using that dvd_trans [of 100 400 y] by (simp add: mod_eq_0_iff_dvd)
  moreover have "y mod 4 = 0" if "y mod 100 = 0"
    using that dvd_trans [of 4 100 y] by (simp add: mod_eq_0_iff_dvd)
  ultimately show ?thesis by (auto simp: leaps_div div_pred isleap_iff)
qed

lemma year_start_Suc: "year_start (y + 1) = year_start y + year_lengths (isleap y)"
  using leaps_step [of y] by (simp add: year_start_def year_lengths_def algebra_simps)

lemma year_start_bounds: "a \<le> b \<Longrightarrow> 365 * (b - a) \<le> year_start b - year_start a \<and>
    year_start b - year_start a \<le> 366 * (b - a)"
proof (induction "nat (b - a)" arbitrary: b)
  case 0
  then show ?case by simp
next
  case (Suc n)
  then have "n = nat (b - 1 - a)" "a \<le> b - 1" by simp_all
  from Suc.hyps(1) [OF this] year_start_Suc [of "b - 1"] show ?case
    by (simp add: year_lengths_def split: if_splits)
qed

lemma year_start_mono: "a \<le> b \<Longrightarrow> year_start a \<le> year_start b"
  using year_start_bounds [of a b] by simp

lemma year_start_strict: "a < b \<Longrightarrow> year_start a < year_start b" 
  using year_start_bounds [of a b] by simp

lemma year_start_less: "year_start a < year_start b \<Longrightarrow> a < b"
  using year_start_mono [of b a] by force

section \<open>sgxssl__gmtime64\<close>

text \<open>
  The loops of \<^verbatim>\<open>timesub\<close>: the year a number of days lies in, by steps that never
  pass it, then the carries of the seconds and of the days.  \<open>None\<close> is the null pointer.
\<close>

definition year_step :: "int \<Rightarrow> int" where
  "year_step tdays =
     (let tdelta = tdays sdiv DAYSPERLYEAR
      in if tdelta = 0 then (if tdays < 0 then -1 else 1) else tdelta)"

lemma year_step_bounds:
  shows "tdays < 0 \<Longrightarrow> year_step tdays < 0 \<and> (year_step tdays = -1 \<or> 366 * - year_step tdays \<le> - tdays)"
    and "0 \<le> tdays \<Longrightarrow> 0 < year_step tdays \<and> (year_step tdays = 1 \<or> 366 * year_step tdays \<le> tdays)"
proof -
  have neg: "tdays sdiv 366 = - (- tdays div 366)" if "tdays < 0"
    using that by (simp add: signed_divide_int_def sgn_if)
  show "tdays < 0 \<Longrightarrow> year_step tdays < 0 \<and> (year_step tdays = -1 \<or> 366 * - year_step tdays \<le> - tdays)"
  proof -
    assume t: "tdays < 0"
    then have "0 \<le> - tdays div 366" "366 * (- tdays div 366) \<le> - tdays" by simp_all
    with t show ?thesis by (auto simp: year_step_def Let_def neg)
  qed
  show "0 \<le> tdays \<Longrightarrow> 0 < year_step tdays \<and> (year_step tdays = 1 \<or> 366 * year_step tdays \<le> tdays)"
  proof -
    assume t: "0 \<le> tdays"
    then have "0 \<le> tdays div 366" "366 * (tdays div 366) \<le> tdays" by simp_all
    with t show ?thesis by (auto simp: year_step_def Let_def sdiv_nonneg)
  qed
qed

function year_loop :: "int \<Rightarrow> int \<Rightarrow> (int \<times> int) option" where
  "year_loop tdays y =
     (if tdays < 0 \<or> tdays \<ge> year_lengths (isleap y) then
        let tdelta = tdays sdiv DAYSPERLYEAR in
        if tdelta > INT_MAX \<or> tdelta < INT_MIN then None
        else
          let idelta = (if tdelta = 0 then (if tdays < 0 then -1 else 1) else tdelta) in
          (case increment_overflow y idelta of
             None \<Rightarrow> None
           | Some newy \<Rightarrow>
               let leapdays = leaps_thru_end_of (newy - 1) - leaps_thru_end_of (y - 1)
               in year_loop (tdays - (newy - y) * DAYSPERNYEAR - leapdays) newy)
      else Some (tdays, y))"
  by pat_completeness auto

text \<open>What one step does to the days that remain.\<close>

lemma year_step_days:
  assumes "tdays < 0 \<or> tdays \<ge> year_lengths (isleap y)"
  shows "let d = tdays - (year_start (y + year_step tdays) - year_start y) in
    (tdays < 0 \<longrightarrow> tdays < d \<and> (0 < d \<longrightarrow> d < 366 \<and> year_step tdays = -1)) \<and> (0 \<le> tdays \<longrightarrow> 0 \<le> d \<and> d < tdays)"
proof (cases "tdays < 0")
  case True
  then have step: "year_step tdays < 0" "year_step tdays = -1 \<or> 366 * - year_step tdays \<le> - tdays"
    using year_step_bounds(1) by blast+
  then have "365 * - year_step tdays \<le> year_start y - year_start (y + year_step tdays)"
    "year_start y - year_start (y + year_step tdays) \<le> 366 * - year_step tdays"
    using year_start_bounds [of "y + year_step tdays" y] by simp_all
  with True step show ?thesis unfolding Let_def by linarith
next
  case False
  then have step: "0 < year_step tdays" "year_step tdays = 1 \<or> 366 * year_step tdays \<le> tdays"
    using year_step_bounds(2) by simp_all
  then have "365 * year_step tdays \<le> year_start (y + year_step tdays) - year_start y"
    using year_start_bounds [of y "y + year_step tdays"] by simp
  moreover have "year_start (y + year_step tdays) - year_start y \<le> tdays"
  proof (cases "year_step tdays = 1")
    case True
    with False assms year_start_Suc [of y] show ?thesis by simp
  next
    case notone: False
    with step year_start_bounds [of y "y + year_step tdays"] show ?thesis by simp
  qed
  ultimately show ?thesis using False step by (simp add: Let_def)
qed

text \<open>\<open>year_loop\<close> ends: a negative count rises to at most a year, another one falls.\<close>

lemma year_loop_step:
  "increment_overflow y (year_step tdays) = Some newy \<Longrightarrow>
   tdays - (newy - y) * DAYSPERNYEAR - (leaps_thru_end_of (newy - 1) - leaps_thru_end_of (y - 1)) =
   tdays - (year_start (y + year_step tdays) - year_start y)"
  by (auto simp: increment_overflow_def year_start_def split: if_splits)

termination year_loop
proof (relation "measure (\<lambda>(tdays, y). nat (if tdays < 0 then 1000 - tdays else tdays))")
  fix tdays y tdelta idelta newy leapdays :: int
  assume c: "tdays < 0 \<or> year_lengths (isleap y) \<le> tdays"
    and tdelta: "tdelta = tdays sdiv DAYSPERLYEAR"
    and idelta: "idelta = (if tdelta = 0 then if tdays < 0 then - 1 else 1 else tdelta)"
    and newy: "increment_overflow y idelta = Some newy"
    and leapdays: "leapdays = leaps_thru_end_of (newy - 1) - leaps_thru_end_of (y - 1)"
  have "idelta = year_step tdays" by (simp add: idelta tdelta year_step_def Let_def)
  with newy year_loop_step [of y tdays newy]
  have "tdays - (newy - y) * DAYSPERNYEAR - leapdays = tdays - (year_start (y + year_step tdays) - year_start y)"
    by (simp add: leapdays)
  with year_step_days [OF c]
  show "((tdays - (newy - y) * DAYSPERNYEAR - leapdays, newy), (tdays, y))
      \<in> measure (\<lambda>(tdays, y). nat (if tdays < 0 then 1000 - tdays else tdays))"
    by (auto simp: Let_def)
qed simp

declare year_loop.simps [simp del]

lemma year_loop_unfold:
  "year_loop tdays y =
     (if tdays < 0 \<or> tdays \<ge> year_lengths (isleap y) then
        if tdays sdiv DAYSPERLYEAR > INT_MAX \<or> tdays sdiv DAYSPERLYEAR < INT_MIN then None
        else (case increment_overflow y (year_step tdays) of
           None \<Rightarrow> None
         | Some newy \<Rightarrow> year_loop (tdays - (newy - y) * DAYSPERNYEAR -
             (leaps_thru_end_of (newy - 1) - leaps_thru_end_of (y - 1))) newy)
      else Some (tdays, y))"
  by (subst year_loop.simps) (simp only: year_step_def Let_def)

lemma year_loop_spec:
  assumes "year_start y + tdays = D" and "year_start Y \<le> D" and "D < year_start (Y + 1)"
    and "\<bar>y\<bar> \<le> 1000000000" and "\<bar>Y\<bar> \<le> 1000000000"
  shows "year_loop tdays y = Some (D - year_start Y, Y)"
  using assms
proof (induction "nat (if tdays < 0 then 1000 - tdays else tdays)" arbitrary: tdays y rule: less_induct)
  case less
  show ?case
  proof (cases "tdays < 0 \<or> tdays \<ge> year_lengths (isleap y)")
    case False
    then have "year_start y \<le> D" "D < year_start (y + 1)" using less.prems(1) by (simp_all add: year_start_Suc)
    then have "year_start y < year_start (Y + 1)" "year_start Y < year_start (y + 1)"
      using less.prems(2,3) by linarith+
    then have "y < Y + 1" "Y < y + 1" by (simp_all only: year_start_less)
    then have "y = Y" by simp
    with False less.prems(1) show ?thesis by (subst year_loop.simps) auto
  next
    case True
    let ?n = "y + year_step tdays"
    let ?d = "tdays - (year_start ?n - year_start y)"
    note days = year_step_days [OF True, unfolded Let_def]
    have between: "y < Y \<and> ?n \<le> Y \<and> 0 < year_step tdays \<or> Y < y \<and> Y \<le> ?n \<and> year_step tdays < 0"
    proof (cases "tdays < 0")
      case neg: True
      then have "year_start Y < year_start y" using less.prems(1,2) by simp
      then have "Y < y" by (rule year_start_less)
      moreover have "Y \<le> ?n"
      proof (cases "0 < ?d")
        case True
        with neg days have "year_step tdays = -1" by simp
        with \<open>Y < y\<close> show ?thesis by simp
      next
        case False
        then have "\<not> year_start ?n < year_start Y" using less.prems(1,2) by simp
        then show ?thesis using year_start_strict [of ?n Y] by force
      qed
      ultimately show ?thesis using year_step_bounds(1) [OF neg] by simp
    next
      case pos: False
      with True have "year_start (y + 1) < year_start (Y + 1)"
        using less.prems(1,3) by (simp add: year_start_Suc)
      then have "y < Y" using year_start_less by fastforce
      moreover have "year_start ?n < year_start (Y + 1)" using pos days less.prems(1,3) by simp
      then have "?n \<le> Y" using year_start_less by fastforce
      ultimately show ?thesis using year_step_bounds(2) pos by simp
    qed
    have "\<bar>year_step tdays\<bar> \<le> 2000000000" using between less.prems(4,5) by auto
    moreover have "tdays sdiv 366 = 0 \<or> tdays sdiv 366 = year_step tdays" by (simp add: year_step_def Let_def)
    ultimately have small: "\<not> tdays sdiv DAYSPERLYEAR > INT_MAX"
      "\<not> tdays sdiv DAYSPERLYEAR < INT_MIN" by auto
    have inc: "increment_overflow y (year_step tdays) = Some ?n"
      using between less.prems(4,5) by (auto simp: increment_overflow_def)
    have "year_loop ?d ?n = Some (D - year_start Y, Y)"
    proof (rule less.hyps [OF _ _ less.prems(2,3) _ less.prems(5)])
      show "year_start ?n + ?d = D" using less.prems(1) by simp
      show "\<bar>?n\<bar> \<le> 1000000000" using between less.prems(4,5) by auto
      show "nat (if ?d < 0 then 1000 - ?d else ?d) < nat (if tdays < 0 then 1000 - tdays else tdays)"
        using days True by (auto simp: year_lengths_def split: if_splits)
    qed
    then show ?thesis
      by (subst year_loop_unfold)
        (simp only: True small inc year_loop_step [OF inc] option.case if_True if_False simp_thms)
  qed
qed

text \<open>Every day lies in one year, and near enough to 1970 not to overflow.\<close>

lemma year_of_day:
  obtains Y where "year_start Y \<le> D" "D < year_start (Y + 1)" "\<bar>Y - 1970\<bar> \<le> \<bar>D\<bar>"
proof -
  have z: "year_start 1970 = 0" by (simp add: year_start_def)
  have "\<exists>Y. year_start Y \<le> D \<and> D < year_start (Y + 1) \<and> \<bar>Y - 1970\<bar> \<le> \<bar>D\<bar>"
  proof (cases "0 \<le> D")
    case True
    let ?P = "\<lambda>n. D < year_start (1970 + int n + 1)"
    have "D < year_start (1970 + D + 1)" using year_start_bounds [of 1970 "1970 + D + 1"] True z by simp
    with True have ex: "?P (nat D)" by simp
    define n where "n = (LEAST n. ?P n)"
    have "?P n" unfolding n_def by (rule LeastI [of ?P, OF ex])
    moreover have "n \<le> nat D" unfolding n_def by (rule Least_le [of ?P, OF ex])
    moreover have "year_start (1970 + int n) \<le> D"
    proof (cases n)
      case 0
      with True z show ?thesis by simp
    next
      case (Suc k)
      then have "\<not> ?P k" using not_less_Least [of k ?P] by (simp add: n_def)
      with Suc show ?thesis by simp
    qed
    ultimately show ?thesis using True by (intro exI [of _ "1970 + int n"]) auto
  next
    case False
    let ?P = "\<lambda>n. year_start (1970 - int n) \<le> D"
    have "year_start (1970 + D) \<le> D" using year_start_bounds [of "1970 + D" 1970] False z by simp
    with False have ex: "?P (nat (- D))" by simp
    define n where "n = (LEAST n. ?P n)"
    have "?P n" unfolding n_def by (rule LeastI [of ?P, OF ex])
    moreover have "n \<le> nat (- D)" unfolding n_def by (rule Least_le [of ?P, OF ex])
    moreover have "D < year_start (1970 - int n + 1)"
    proof (cases n)
      case 0
      with False z year_start_strict [of 1970 1971] show ?thesis by simp
    next
      case (Suc k)
      then have "\<not> ?P k" using not_less_Least [of k ?P] by (simp add: n_def)
      with Suc show ?thesis by simp
    qed
    ultimately show ?thesis using False by (intro exI [of _ "1970 - int n"]) auto
  qed
  then show ?thesis using that by blast
qed

function rem_up :: "int \<Rightarrow> int \<Rightarrow> int \<times> int" where
  "rem_up rem idays = (if rem < 0 then rem_up (rem + SECSPERDAY) (idays - 1) else (rem, idays))"
  by pat_completeness auto
termination by (relation "measure (\<lambda>(rem, _). nat (- rem))") auto

function rem_down :: "int \<Rightarrow> int \<Rightarrow> int \<times> int" where
  "rem_down rem idays = (if rem \<ge> SECSPERDAY then rem_down (rem - SECSPERDAY) (idays + 1) else (rem, idays))"
  by pat_completeness auto
termination by (relation "measure (\<lambda>(rem, _). nat rem)") auto

function idays_up :: "int \<Rightarrow> int \<Rightarrow> (int \<times> int) option" where
  "idays_up idays y =
     (if idays < 0 then
        (case increment_overflow y (-1) of
           None \<Rightarrow> None
         | Some y' \<Rightarrow> idays_up (idays + year_lengths (isleap y')) y')
      else Some (idays, y))"
  by pat_completeness auto
termination by (relation "measure (\<lambda>(idays, _). nat (- idays))") (auto simp: year_lengths_def)

function idays_down :: "int \<Rightarrow> int \<Rightarrow> (int \<times> int) option" where
  "idays_down idays y =
     (if idays \<ge> year_lengths (isleap y) then
        (case increment_overflow y 1 of
           None \<Rightarrow> None
         | Some y' \<Rightarrow> idays_down (idays - year_lengths (isleap y)) y')
      else Some (idays, y))"
  by pat_completeness auto
termination by (relation "measure (\<lambda>(idays, _). nat idays)") (auto simp: year_lengths_def split: if_splits)

declare rem_up.simps [simp del] rem_down.simps [simp del] idays_up.simps [simp del] idays_down.simps [simp del]

text \<open>The month a day of the year lies in.\<close>

fun month_loop :: "int list \<Rightarrow> int \<Rightarrow> int \<Rightarrow> int \<times> int" where
  "month_loop [] mon idays = (mon, idays)"
| "month_loop (len # ip) mon idays =
     (if idays \<ge> len then month_loop ip (mon + 1) (idays - len) else (mon, idays))"

text \<open>
  \<^verbatim>\<open>timesub\<close> returns whether the pointer is not null, and the object it wrote to.
\<close>

definition timesub :: "time_t \<Rightarrow> int \<Rightarrow> tm \<Rightarrow> bool \<times> tm" where
  "timesub timep offset tmp =
     (let corr = 0; hit = 0;
          tdays0 = timep sdiv SECSPERDAY;
          rem0 = timep - tdays0 * SECSPERDAY in
      case year_loop tdays0 EPOCH_YEAR of
        None \<Rightarrow> (False, tmp)
      | Some (tdays1, y1) \<Rightarrow>
          let seconds = tdays1 * SECSPERDAY;
              tdays2 = seconds sdiv SECSPERDAY;
              rem1 = rem0 + (seconds - tdays2 * SECSPERDAY) in
          if tdays2 < INT_MIN \<or> tdays2 > INT_MAX then (False, tmp)
          else
            (case rem_up (rem1 + (offset - corr)) tdays2 of
               (rem2, idays1) \<Rightarrow>
            (case rem_down rem2 idays1 of
               (rem, idays2) \<Rightarrow>
            (case idays_up idays2 y1 of
               None \<Rightarrow> (False, tmp)
             | Some (idays3, y2) \<Rightarrow>
            (case idays_down idays3 y2 of
               None \<Rightarrow> (False, tmp)
             | Some (idays, y) \<Rightarrow>
            (case increment_overflow y (- TM_YEAR_BASE) of
               None \<Rightarrow> (False, tmp\<lparr>tm_year := y\<rparr>)
             | Some year \<Rightarrow>
                 let wday = (4 + (y - EPOCH_YEAR) smod 7 * (DAYSPERNYEAR smod 7) + leaps_thru_end_of (y - 1) -
                              leaps_thru_end_of (EPOCH_YEAR - 1) + idays) smod 7 in
                 (case month_loop (mon_lengths (isleap y)) 0 idays of
                    (mon, mday) \<Rightarrow> (True, \<lparr>
                      tm_sec = rem smod 3600 smod 60 + hit, tm_min = rem smod 3600 sdiv 60, tm_hour = rem sdiv 3600,
                      tm_mday = mday + 1, tm_mon = mon, tm_year = year,
                      tm_wday = (if wday < 0 then wday + 7 else wday), tm_yday = idays, tm_isdst = 0\<rparr>))))))))"

definition sgxssl__gmtime64 :: "time_t option \<Rightarrow> tm \<Rightarrow> tm option \<times> tm" where
  "sgxssl__gmtime64 timep tmGlobal =
     (case timep of
        None \<Rightarrow> (None, tmGlobal)
      | Some t \<Rightarrow> (case timesub t 0 tmGlobal of
          (ok, tmp) \<Rightarrow> (if ok then Some tmp else None, tmp)))"

section \<open>The date of a time\<close>

definition month_start :: "bool \<Rightarrow> int \<Rightarrow> int" where
  "month_start leap mon = sum_list (take (nat mon) (mon_lengths leap))"

definition mon_length :: "int \<Rightarrow> int \<Rightarrow> int" where
  "mon_length y mon = mon_lengths (isleap y) ! nat mon"

text \<open>The number of a day since 1970, and the seconds of a date since then.\<close>

definition day_number :: "int \<Rightarrow> int \<Rightarrow> int \<Rightarrow> int" where
  "day_number y mon mday = year_start y + month_start (isleap y) mon + mday - 1"

definition epoch :: "tm \<Rightarrow> int" where
  "epoch t = 86400 * day_number (tm_year t + 1900) (tm_mon t) (tm_mday t) +
     3600 * tm_hour t + 60 * tm_min t + tm_sec t"

definition civil :: "tm \<Rightarrow> bool" where
  "civil t \<longleftrightarrow> 0 \<le> tm_mon t \<and> tm_mon t < 12 \<and>
     1 \<le> tm_mday t \<and> tm_mday t \<le> mon_length (tm_year t + 1900) (tm_mon t) \<and>
     0 \<le> tm_hour t \<and> tm_hour t < 24 \<and> 0 \<le> tm_min t \<and> tm_min t < 60 \<and> 0 \<le> tm_sec t \<and> tm_sec t < 60"

lemma mon_lengths_facts:
  "length (mon_lengths leap) = 12" "sum_list (mon_lengths leap) = year_lengths leap"
  "x \<in> set (mon_lengths leap) \<Longrightarrow> 28 \<le> x \<and> x \<le> 31"
  by (auto simp: mon_lengths_def year_lengths_def)

lemma month_loop_spec:
  assumes "0 \<le> d" "d < sum_list ip"
  shows "\<exists>i mday. month_loop ip mon d = (mon + int i, mday) \<and> i < length ip \<and> 0 \<le> mday \<and> mday < ip ! i \<and>
    d = sum_list (take i ip) + mday"
  using assms
proof (induction ip arbitrary: mon d)
  case (Cons len ip)
  show ?case
  proof (cases "d \<ge> len")
    case True
    from Cons.IH [of "d - len" "mon + 1"] Cons.prems True obtain i mday where
      "month_loop ip (mon + 1) (d - len) = (mon + 1 + int i, mday)" "i < length ip" "0 \<le> mday" "mday < ip ! i"
      "d - len = sum_list (take i ip) + mday" by auto
    with True show ?thesis by (intro exI [of _ "Suc i"] exI [of _ mday]) auto
  next
    case False
    with Cons.prems show ?thesis by (intro exI [of _ 0] exI [of _ d]) simp
  qed
qed simp

lemma months:
  assumes "0 \<le> d" "d < year_lengths (isleap y)"
  obtains mon mday where "month_loop (mon_lengths (isleap y)) 0 d = (mon, mday)" "0 \<le> mon" "mon < 12"
    "0 \<le> mday" "mday < mon_length y mon" "d = month_start (isleap y) mon + mday"
proof -
  from month_loop_spec [of d "mon_lengths (isleap y)" 0] assms mon_lengths_facts(1,2) [of "isleap y"] obtain i mday where
    "month_loop (mon_lengths (isleap y)) 0 d = (int i, mday)" "i < 12" "0 \<le> mday" "mday < mon_lengths (isleap y) ! i"
    "d = sum_list (take i (mon_lengths (isleap y))) + mday" by auto
  then show ?thesis by (intro that [of "int i" mday]) (auto simp: mon_length_def month_start_def)
qed

lemma smod_to_mod:
  fixes e n :: int
  assumes "0 < n"
  shows "(if e smod n < 0 then e smod n + n else e smod n) = e mod n"
proof (cases "0 \<le> e")
  case True
  then have "e smod n = e mod n" using assms by (simp add: signed_modulo_int_def sgn_if)
  moreover have "\<not> e mod n < 0" using pos_mod_sign [OF assms, of e] by linarith
  ultimately show ?thesis by simp
next
  case False
  then have "e smod n = - ((- e) mod n)" using assms by (simp add: signed_modulo_int_def sgn_if)
  moreover have "e mod n = (if (- e) mod n = 0 then 0 else n - (- e) mod n)"
    using zmod_zminus1_eq_if [of "- e" n] by simp
  moreover have "0 \<le> (- e) mod n" using assms by simp
  ultimately show ?thesis by (cases "(- e) mod n = 0") auto
qed

text \<open>The days and the seconds of the day, whichever way the division rounds.\<close>

lemma days_and_seconds:
  fixes t rem :: int
  assumes "rem = t - t sdiv 86400 * 86400"
  shows "\<bar>rem\<bar> < 86400"
    and "rem < 0 \<Longrightarrow> t sdiv 86400 - 1 = t div 86400 \<and> rem + 86400 = t mod 86400"
    and "0 \<le> rem \<Longrightarrow> t sdiv 86400 = t div 86400 \<and> rem = t mod 86400"
proof -
  have rem: "rem = t smod 86400" using sdiv_mult_smod_eq [of t 86400] by (simp add: assms)
  show "\<bar>rem\<bar> < 86400"
    unfolding rem by (auto simp: signed_modulo_int_def sgn_if abs_if)
  then have t: "t = 86400 * (t sdiv 86400) + rem" by (simp add: assms)
  show "t sdiv 86400 - 1 = t div 86400 \<and> rem + 86400 = t mod 86400" if "rem < 0"
  proof -
    have "t div 86400 = t sdiv 86400 - 1"
      by (rule int_div_pos_eq [of t 86400 _ "rem + 86400"]) (use t that \<open>\<bar>rem\<bar> < 86400\<close> in simp_all)
    with t show ?thesis using minus_div_mult_eq_mod [of t 86400] by simp
  qed
  show "t sdiv 86400 = t div 86400 \<and> rem = t mod 86400" if "0 \<le> rem"
  proof -
    have "t div 86400 = t sdiv 86400"
      by (rule int_div_pos_eq [of t 86400 _ rem]) (use t that \<open>\<bar>rem\<bar> < 86400\<close> in simp_all)
    with t show ?thesis using minus_div_mult_eq_mod [of t 86400] by simp
  qed
qed

section \<open>timesub is the calendar\<close>

lemma rem_steps:
  "0 \<le> r \<Longrightarrow> rem_up r i = (r, i)"
  "- 86400 \<le> r \<Longrightarrow> r < 0 \<Longrightarrow> rem_up r i = (r + 86400, i - 1)"
  "r < 86400 \<Longrightarrow> rem_down r i = (r, i)"
  by (subst rem_up.simps rem_down.simps; simp add: rem_up.simps [of "r + 86400"])+

text \<open>What the loops keep when they succeed: the day, split at the start of a year.\<close>

lemma increment_overflow_Some: "increment_overflow i j = Some k \<Longrightarrow> k = i + j"
  by (auto simp: increment_overflow_def split: if_splits)

lemma year_loop_sound:
  "year_loop tdays y = Some (d, Y) \<Longrightarrow>
     year_start Y + d = year_start y + tdays \<and> 0 \<le> d \<and> d < year_lengths (isleap Y)"
proof (induction "nat (if tdays < 0 then 1000 - tdays else tdays)" arbitrary: tdays y rule: less_induct)
  case less
  show ?case
  proof (cases "tdays < 0 \<or> tdays \<ge> year_lengths (isleap y)")
    case False
    with less.prems show ?thesis by (subst (asm) year_loop_unfold) (auto split: if_splits)
  next
    case True
    with less.prems obtain newy where n: "increment_overflow y (year_step tdays) = Some newy"
      and rest: "year_loop (tdays - (newy - y) * DAYSPERNYEAR -
             (leaps_thru_end_of (newy - 1) - leaps_thru_end_of (y - 1))) newy = Some (d, Y)"
      by (subst (asm) year_loop_unfold) (simp split: if_splits option.splits)
    have newy: "newy = y + year_step tdays" using n by (rule increment_overflow_Some)
    let ?d = "tdays - (year_start (y + year_step tdays) - year_start y)"
    have "nat (if ?d < 0 then 1000 - ?d else ?d) < nat (if tdays < 0 then 1000 - tdays else tdays)"
      using year_step_days [OF True, unfolded Let_def] by auto
    from less.hyps [OF this, of newy] rest show ?thesis
      unfolding year_loop_step [OF n] by (simp add: newy)
  qed
qed

lemma idays_up_sound:
  "idays_up i y = Some (i', y') \<Longrightarrow> year_start y' + i' = year_start y + i \<and> 0 \<le> i'"
proof (induction i y rule: idays_up.induct)
  case (1 i y)
  then show ?case
    using year_start_Suc [of "y - 1"]
    by (cases "i < 0"; subst (asm) (2) idays_up.simps)
      (auto split: option.splits dest!: increment_overflow_Some)
qed

lemma idays_down_sound:
  "idays_down i y = Some (i', y') \<Longrightarrow> 0 \<le> i \<Longrightarrow>
     year_start y' + i' = year_start y + i \<and> 0 \<le> i' \<and> i' < year_lengths (isleap y')"
proof (induction i y rule: idays_down.induct)
  case (1 i y)
  then show ?case
    by (subst (asm) (2) idays_down.simps)
      (auto split: if_splits option.splits dest!: increment_overflow_Some simp: year_start_Suc)
qed

lemma carry_days:
  assumes "year_start Y \<le> D0" "D0 < year_start (Y + 1)" "\<bar>Y\<bar> \<le> 1000000000" "D = D0 \<or> D = D0 - 1"
  obtains y where "idays_up (D - year_start Y) Y = Some (D - year_start y, y)"
    "idays_down (D - year_start y) y = Some (D - year_start y, y)"
    "year_start y \<le> D" "D < year_start (y + 1)" "Y - 1 \<le> y" "y \<le> Y"
proof (cases "year_start Y \<le> D")
  case True
  then have "idays_up (D - year_start Y) Y = Some (D - year_start Y, Y)" by (subst idays_up.simps) simp
  moreover have "idays_down (D - year_start Y) Y = Some (D - year_start Y, Y)"
    using assms(2,4) by (subst idays_down.simps) (auto simp: year_start_Suc)
  ultimately show ?thesis using that [of Y] True assms by auto
next
  case False
  let ?y = "Y - 1"
  from False assms have D: "D = year_start Y - 1" by auto
  have start: "year_start Y = year_start ?y + year_lengths (isleap ?y)" using year_start_Suc [of ?y] by simp
  have pos: "0 < year_lengths (isleap ?y)" by (simp add: year_lengths_def)
  have "increment_overflow Y (- 1) = Some ?y" using assms(3) by (auto simp: increment_overflow_def)
  then have "idays_up (D - year_start Y) Y = Some (D - year_start ?y, ?y)"
    using D start pos by (subst idays_up.simps, subst (1) idays_up.simps) simp
  moreover have "idays_down (D - year_start ?y) ?y = Some (D - year_start ?y, ?y)"
    using D start by (subst idays_down.simps) simp
  ultimately show ?thesis using that [of ?y] D start pos by simp
qed

lemma day_bound:
  fixes t :: int
  assumes "\<bar>t\<bar> \<le> 70000000000000"
  shows "\<bar>t sdiv 86400\<bar> \<le> 900000000"
  using days_and_seconds(1) [OF refl, of t] assms by linarith

text \<open>What the broken-down time of a moment is.\<close>

definition calendar_of :: "time_t \<Rightarrow> tm \<Rightarrow> bool" where
  "calendar_of t u \<longleftrightarrow> civil u \<and> epoch u = t \<and>
     tm_yday u = t div 86400 - year_start (tm_year u + 1900) \<and> tm_wday u = (4 + t div 86400) mod 7 \<and>
     tm_isdst u = 0"

lemma timesub_value:
  assumes loop: "year_loop (t sdiv 86400) 1970 = Some (d1, Y)" "0 \<le> d1" "d1 < 366"
    and start: "year_start Y + d1 = t sdiv 86400"
    and up: "idays_up (t div 86400 - year_start Y) Y = Some (d2, y2)"
    and down: "idays_down d2 y2 = Some (d, y)"
    and inc: "increment_overflow y (- 1900) = Some year"
    and d: "year_start y + d = t div 86400" "0 \<le> d" "d < year_lengths (isleap y)"
  obtains u where "timesub t 0 tmp = (True, u)" "calendar_of t u" "tm_year u = year"
proof -
  let ?r = "t - t sdiv 86400 * 86400" and ?D = "t div 86400" and ?S = "t mod 86400"
  note ds = days_and_seconds [OF refl, of t]
  have S: "0 \<le> ?S" "?S < 86400" by simp_all
  have rem: "rem_up ?r d1 = (?S, ?D - year_start Y)"
    using ds S start by (cases "?r < 0") (auto simp: rem_steps)
  have year: "year = y - 1900" using increment_overflow_Some [OF inc] by simp
  obtain mon mday where m: "month_loop (mon_lengths (isleap y)) 0 d = (mon, mday)" "0 \<le> mon" "mon < 12"
    "0 \<le> mday" "mday < mon_length y mon" "d = month_start (isleap y) mon + mday"
    using months [of d y] d(2,3) by auto
  define e where "e = 4 + (y - 1970) smod 7 + leaps_thru_end_of (y - 1) - leaps_thru_end_of 1969 + d"
  have "e mod 7 = (4 + ?D) mod 7"
  proof -
    have "?D = 365 * (y - 1970) + leaps_thru_end_of (y - 1) - leaps_thru_end_of 1969 + d"
      using d(1) by (simp add: year_start_def)
    then have "4 + ?D = e + 7 * (52 * (y - 1970) + (y - 1970) sdiv 7)"
      using sdiv_mult_smod_eq [of "y - 1970" 7] by (simp add: e_def)
    then show ?thesis by (simp only: mod_mult_self2)
  qed
  with smod_to_mod [of 7 e] have wday: "(if e smod 7 < 0 then e smod 7 + 7 else e smod 7) = (4 + ?D) mod 7" by simp
  define hh mm ss where "hh = ?S div 3600" and "mm = ?S mod 3600 div 60" and "ss = ?S mod 3600 mod 60"
  have hms: "?S smod 3600 smod 60 = ss" "?S smod 3600 sdiv 60 = mm" "?S sdiv 3600 = hh"
    by (simp_all add: sdiv_nonneg smod_nonneg hh_def mm_def ss_def)
  define u where "u = \<lparr>tm_sec = ss, tm_min = mm, tm_hour = hh, tm_mday = mday + 1, tm_mon = mon, tm_year = year,
    tm_wday = (4 + ?D) mod 7, tm_yday = d, tm_isdst = 0\<rparr>"
  have "d1 * 86400 sdiv 86400 = d1" using loop(2) by (simp add: sdiv_nonneg)
  then have "timesub t 0 tmp = (True, u)"
    using loop rem up down inc m(1) wday S(2) unfolding e_def u_def
    by (simp add: timesub_def Let_def rem_steps hms)
  moreover have "calendar_of t u"
  proof -
    have "0 \<le> hh" "hh < 24" "0 \<le> mm" "mm < 60" "0 \<le> ss" "ss < 60"
      using S by (simp_all add: hh_def mm_def ss_def)
    moreover have "3600 * hh + 60 * mm + ss = ?S"
      using mult_div_mod_eq [of 3600 ?S] mult_div_mod_eq [of 60 "?S mod 3600"] unfolding hh_def mm_def ss_def by linarith
    then have "86400 * ?D + 3600 * hh + 60 * mm + ss = t" using mult_div_mod_eq [of 86400 t] by linarith
    moreover have "day_number y mon (mday + 1) = ?D" using m(6) d(1) by (simp add: day_number_def)
    ultimately show ?thesis using m(2-5) d(1) by (simp add: calendar_of_def civil_def epoch_def u_def year)
  qed
  ultimately show ?thesis using that [of u] by (simp add: u_def)
qed

text \<open>A time of at most two million years is broken down.\<close>

theorem timesub_calendar:
  assumes "\<bar>t\<bar> \<le> 70000000000000"
  obtains u where "timesub t 0 tmp = (True, u)" "calendar_of t u" "\<bar>tm_year u\<bar> \<le> 1000000000"
proof -
  let ?q = "t sdiv 86400" and ?D = "t div 86400"
  obtain Y where Y: "year_start Y \<le> ?q" "?q < year_start (Y + 1)" "\<bar>Y - 1970\<bar> \<le> \<bar>?q\<bar>"
    by (rule year_of_day)
  then have small: "\<bar>Y\<bar> \<le> 900001970" using day_bound [OF assms] by linarith
  have loop: "year_loop ?q 1970 = Some (?q - year_start Y, Y)"
    using year_loop_spec [of 1970 ?q ?q Y] Y small by (simp add: year_start_def)
  have len: "0 \<le> ?q - year_start Y" "?q - year_start Y < 366" "year_start Y + (?q - year_start Y) = ?q"
    using Y by (auto simp: year_start_Suc year_lengths_def split: if_splits)
  have "?D = ?q \<or> ?D = ?q - 1" using days_and_seconds(2,3) [OF refl, of t] by linarith
  from carry_days [OF Y(1,2) _ this] small obtain y where y:
    "idays_up (?D - year_start Y) Y = Some (?D - year_start y, y)"
    "idays_down (?D - year_start y) y = Some (?D - year_start y, y)"
    "year_start y \<le> ?D" "?D < year_start (y + 1)" "Y - 1 \<le> y" "y \<le> Y" by auto
  have inc: "increment_overflow y (- 1900) = Some (y - 1900)"
    using y(5,6) small by (auto simp: increment_overflow_def)
  have d: "year_start y + (?D - year_start y) = ?D" "0 \<le> ?D - year_start y" "?D - year_start y < year_lengths (isleap y)"
    using y(3,4) by (auto simp: year_start_Suc)
  obtain u where "timesub t 0 tmp = (True, u)" "calendar_of t u" "tm_year u = y - 1900"
    by (rule timesub_value [OF loop len y(1,2) inc d])
  with that [of u] y(5,6) small show ?thesis by simp
qed

text \<open>Of any time, \<^verbatim>\<open>timesub\<close> gives the date or nothing.\<close>

theorem timesub_sound:
  assumes "timesub t 0 tmp = (True, u)"
  shows "calendar_of t u"
proof -
  let ?q = "t sdiv 86400" and ?D = "t div 86400" and ?r = "t - t sdiv 86400 * 86400"
  obtain d1 Y where loop: "year_loop ?q 1970 = Some (d1, Y)"
    using assms by (auto simp: timesub_def Let_def split: option.splits)
  note sound = year_loop_sound [OF loop]
  have len: "0 \<le> d1" "d1 < 366" "year_start Y + d1 = ?q"
    using sound by (auto simp: year_start_def year_lengths_def split: if_splits)
  note ds = days_and_seconds [OF refl, of t]
  have S: "0 \<le> t mod 86400" "t mod 86400 < 86400" by simp_all
  have rem: "rem_up ?r d1 = (t mod 86400, ?D - year_start Y)"
    using ds S len(3) by (cases "?r < 0") (auto simp: rem_steps)
  have "d1 * 86400 sdiv 86400 = d1" using len(1) by (simp add: sdiv_nonneg)
  with assms loop rem S(2) len obtain d2 y2 d y year where
    up: "idays_up (?D - year_start Y) Y = Some (d2, y2)" and down: "idays_down d2 y2 = Some (d, y)"
    and inc: "increment_overflow y (- 1900) = Some year"
    by (simp add: timesub_def Let_def rem_steps split: option.splits prod.splits)
  from idays_up_sound [OF up] have "year_start y2 + d2 = ?D" "0 \<le> d2" by simp_all
  with idays_down_sound [OF down] have d: "year_start y + d = ?D" "0 \<le> d" "d < year_lengths (isleap y)" by simp_all
  obtain u' where "timesub t 0 tmp = (True, u')" "calendar_of t u'"
    by (rule timesub_value [OF loop len up down inc d])
  with assms show ?thesis by simp
qed

end
