(* ===== verification/MkTime.thy ===== *)
theory MkTime
  imports GMTime
begin

text \<open>
  \<^verbatim>\<open>AttestationCommons/src/Utils/GMTime.cpp\<close>, second half: \<^verbatim>\<open>sgxssl_mktime\<close>, which
  normalises a broken-down time and finds its moment by a binary search over
  \<^verbatim>\<open>time_t\<close>.  The search has no test that its interval is empty (it is commented
  out in the code), so it is a partial function, where \<open>None\<close> is not to return.
  Arithmetic on \<^verbatim>\<open>time_t\<close> wraps around, which the computation of the smallest value
  needs: it doubles 1 until it is negative.  The lemmas show that the search ends at the moment
  of the date.
\<close>

section \<open>Normalising a date\<close>

definition LONG_MIN :: int where [simp]: "LONG_MIN = -2147483647 - 1"
definition LONG_MAX :: int where [simp]: "LONG_MAX = 2147483647"
definition WRONG :: time_t where "WRONG = -1"

definition lclptr :: "unit option" where
  "lclptr = None"

definition localsub :: "time_t \<Rightarrow> int \<Rightarrow> tm \<Rightarrow> bool \<times> tm" where
  "localsub timep offset tmp =
     (let sp = lclptr in if sp = None then timesub timep offset tmp else (False, tmp))"

definition long_increment_overflow :: "int \<Rightarrow> int \<Rightarrow> int option" where
  "long_increment_overflow l m =
     (if (if l \<ge> 0 then m > LONG_MAX - l else m < LONG_MIN - l) then None else Some (l + m))"

definition tens_delta :: "int \<Rightarrow> int \<Rightarrow> int" where
  "tens_delta units base = (if units \<ge> 0 then units sdiv base else -1 - (-1 - units) sdiv base)"

definition normalize_overflow :: "int \<Rightarrow> int \<Rightarrow> int \<Rightarrow> (int \<times> int) option" where
  "normalize_overflow tens units base =
     (let tensdelta = tens_delta units base; units' = units - tensdelta * base
      in case increment_overflow tens tensdelta of None \<Rightarrow> None | Some tens' \<Rightarrow> Some (tens', units'))"

definition long_normalize_overflow :: "int \<Rightarrow> int \<Rightarrow> int \<Rightarrow> (int \<times> int) option" where
  "long_normalize_overflow tens units base =
     (let tensdelta = tens_delta units base; units' = units - tensdelta * base
      in case long_increment_overflow tens tensdelta of None \<Rightarrow> None | Some tens' \<Rightarrow> Some (tens', units'))"

definition tmcomp :: "tm \<Rightarrow> tm \<Rightarrow> int" where
  "tmcomp atmp btmp =
     (if tm_year atmp - tm_year btmp \<noteq> 0 then tm_year atmp - tm_year btmp
      else if tm_mon atmp - tm_mon btmp \<noteq> 0 then tm_mon atmp - tm_mon btmp
      else if tm_mday atmp - tm_mday btmp \<noteq> 0 then tm_mday atmp - tm_mday btmp
      else if tm_hour atmp - tm_hour btmp \<noteq> 0 then tm_hour atmp - tm_hour btmp
      else if tm_min atmp - tm_min btmp \<noteq> 0 then tm_min atmp - tm_min btmp
      else tm_sec atmp - tm_sec btmp)"

text \<open>The year whose February lies in the twelve months a step moves over.\<close>

definition feb_year :: "int \<Rightarrow> int \<Rightarrow> int" where
  "feb_year y mon = y + (if 1 < mon then 1 else 0)"

function mday_up :: "int \<Rightarrow> int \<Rightarrow> int \<Rightarrow> (int \<times> int) option" where
  "mday_up y mon mday =
     (if mday \<le> 0 then
        (case long_increment_overflow y (-1) of
           None \<Rightarrow> None
         | Some y' \<Rightarrow> mday_up y' mon (mday + year_lengths (isleap (feb_year y' mon))))
      else Some (y, mday))"
  by pat_completeness auto
termination by (relation "measure (\<lambda>(_, _, mday). nat (1 - mday))") (auto simp: year_lengths_def)

function mday_down :: "int \<Rightarrow> int \<Rightarrow> int \<Rightarrow> (int \<times> int) option" where
  "mday_down y mon mday =
     (if mday > DAYSPERLYEAR then
        (case long_increment_overflow y 1 of
           None \<Rightarrow> None
         | Some y' \<Rightarrow> mday_down y' mon (mday - year_lengths (isleap (feb_year y mon))))
      else Some (y, mday))"
  by pat_completeness auto
termination by (relation "measure (\<lambda>(_, _, mday). nat mday)") (auto simp: year_lengths_def)

lemma mon_lengths_bounds:
  assumes "0 \<le> mon" "mon < 12"
  shows "28 \<le> mon_lengths leap ! nat mon" "mon_lengths leap ! nat mon \<le> 31"
proof -
  from assms have "nat mon < length (mon_lengths leap)" by (simp add: mon_lengths_facts(1))
  then have "mon_lengths leap ! nat mon \<in> set (mon_lengths leap)" by (rule nth_mem)
  then show "28 \<le> mon_lengths leap ! nat mon" "mon_lengths leap ! nat mon \<le> 31"
    by (simp_all add: mon_lengths_facts(3))
qed

function month_settle :: "int \<Rightarrow> int \<Rightarrow> int \<Rightarrow> (int \<times> int \<times> int) option" where
  "month_settle y mon mday =
     (if \<not> (0 \<le> mon \<and> mon < 12) then None
      else
        let i = mon_lengths (isleap y) ! nat mon in
        if mday \<le> i then Some (y, mon, mday)
        else if mon + 1 \<ge> 12 then
          (case long_increment_overflow y 1 of None \<Rightarrow> None | Some y' \<Rightarrow> month_settle y' 0 (mday - i))
        else month_settle y (mon + 1) (mday - i))"
  by pat_completeness auto
termination
proof (relation "measure (\<lambda>(_, _, mday). nat mday)")
  show "((y', 0, mday - i), y, mon, mday) \<in> measure (\<lambda>(_, _, mday). nat mday)"
    if "\<not> \<not> (0 \<le> mon \<and> mon < 12)" "i = mon_lengths (isleap y) ! nat mon" "\<not> mday \<le> i"
      "12 \<le> mon + 1" "long_increment_overflow y 1 = Some y'" for y mon mday i y' :: int
    using that mon_lengths_bounds(1) [of mon "isleap y"] by auto
  show "((y, mon + 1, mday - i), y, mon, mday) \<in> measure (\<lambda>(_, _, mday). nat mday)"
    if "\<not> \<not> (0 \<le> mon \<and> mon < 12)" "i = mon_lengths (isleap y) ! nat mon" "\<not> mday \<le> i"
      "\<not> 12 \<le> mon + 1" for y mon mday i :: int
    using that mon_lengths_bounds(1) [of mon "isleap y"] by auto
qed simp

declare mday_up.simps [simp del] mday_down.simps [simp del] month_settle.simps [simp del]

definition normalise_date :: "tm \<Rightarrow> bool \<Rightarrow> tm option" where
  "normalise_date tmp do_norm_secs =
     (case (if do_norm_secs then normalize_overflow (tm_min tmp) (tm_sec tmp) 60
            else Some (tm_min tmp, tm_sec tmp)) of None \<Rightarrow> None | Some (minutes, sec) \<Rightarrow>
     (case normalize_overflow (tm_hour tmp) minutes 60 of None \<Rightarrow> None | Some (hours, minute) \<Rightarrow>
     (case normalize_overflow (tm_mday tmp) hours 24 of None \<Rightarrow> None | Some (days, hour) \<Rightarrow>
     (case long_normalize_overflow (tm_year tmp) (tm_mon tmp) 12 of None \<Rightarrow> None | Some (y0, mon0) \<Rightarrow>
     (case long_increment_overflow y0 TM_YEAR_BASE of None \<Rightarrow> None | Some y1 \<Rightarrow>
     (case mday_up y1 mon0 days of None \<Rightarrow> None | Some (y2, mday1) \<Rightarrow>
     (case mday_down y2 mon0 mday1 of None \<Rightarrow> None | Some (y3, mday2) \<Rightarrow>
     (case month_settle y3 mon0 mday2 of None \<Rightarrow> None | Some (y4, mon, mday) \<Rightarrow>
     (case long_increment_overflow y4 (- TM_YEAR_BASE) of None \<Rightarrow> None | Some y \<Rightarrow>
        if signed_take_bit 31 y \<noteq> y then None
        else Some (tmp\<lparr>tm_sec := sec, tm_min := minute, tm_hour := hour, tm_mday := mday, tm_mon := mon,
               tm_year := y\<rparr>))))))))))"

text \<open>Seconds outside a minute are set aside.\<close>

definition split_seconds :: "tm \<Rightarrow> (int \<times> tm) option" where
  "split_seconds yourtm =
     (if tm_sec yourtm \<ge> 0 \<and> tm_sec yourtm < 60 then Some (0, yourtm)
      else if tm_year yourtm + TM_YEAR_BASE < EPOCH_YEAR then
        (case increment_overflow (tm_sec yourtm) (1 - 60) of
           None \<Rightarrow> None
         | Some saved_seconds \<Rightarrow> Some (saved_seconds, yourtm\<lparr>tm_sec := 60 - 1\<rparr>))
      else Some (tm_sec yourtm, yourtm\<lparr>tm_sec := 0\<rparr>))"

section \<open>The search\<close>

definition wrap64 :: "int \<Rightarrow> time_t" where
  "wrap64 i = signed_take_bit 63 i"

definition time_min :: time_t where
  "time_min = fold (\<lambda>_ lo. wrap64 (lo * 2)) [0..<63] 1"

definition time_max :: time_t where
  "time_max = wrap64 (- wrap64 (time_min + 1))"

definition midpoint :: "time_t \<Rightarrow> time_t \<Rightarrow> time_t" where
  "midpoint lo hi =
     (let t = wrap64 (lo sdiv 2 + hi sdiv 2) in if t < lo then lo else if t > hi then hi else t)"

type_synonym time_fn = "time_t \<Rightarrow> int \<Rightarrow> tm \<Rightarrow> bool \<times> tm"

text \<open>One round of the loop: how it ends, or the next interval.\<close>

datatype search_round = Found time_t | Lost | Again tm time_t time_t

definition next_interval :: "tm \<Rightarrow> int \<Rightarrow> time_t \<Rightarrow> time_t \<Rightarrow> time_t \<Rightarrow> search_round" where
  "next_interval mytm dir t lo hi =
     (if dir > 0 then Again mytm lo t else Again mytm t hi)"

definition search_step :: "time_fn \<Rightarrow> int \<Rightarrow> tm \<Rightarrow> tm \<Rightarrow> time_t \<Rightarrow> time_t \<Rightarrow> search_round" where
  "search_step funcp offset yourtm mytm0 lo hi =
     (let t = midpoint lo hi in
      case funcp t offset mytm0 of (ok, mytm) \<Rightarrow>
      let dir = (if \<not> ok then if t > 0 then 1 else -1 else tmcomp mytm yourtm) in
      if dir \<noteq> 0 then
        if t = lo then
          let t' = wrap64 (t + 1) in
          if t' \<le> lo then Lost else next_interval mytm dir t' (wrap64 (lo + 1)) hi
        else if t = hi then
          let t' = wrap64 (t - 1) in
          if t' \<ge> hi then Lost else next_interval mytm dir t' lo (wrap64 (hi - 1))
        else next_interval mytm dir t lo hi
      else if tm_isdst yourtm < 0 \<or> tm_isdst mytm \<le> tm_isdst yourtm then Found t
      else Again mytm lo hi)"

text \<open>\<open>Some None\<close> is the return of \<^verbatim>\<open>WRONG\<close>.\<close>

partial_function (option) time_search ::
    "time_fn \<Rightarrow> int \<Rightarrow> tm \<Rightarrow> tm \<Rightarrow> time_t \<Rightarrow> time_t \<Rightarrow> time_t option option" where
  "time_search funcp offset yourtm mytm lo hi =
     (case search_step funcp offset yourtm mytm lo hi of
        Found t \<Rightarrow> Some (Some t)
      | Lost \<Rightarrow> Some None
      | Again mytm' lo' hi' \<Rightarrow> time_search funcp offset yourtm mytm' lo' hi')"

text \<open>The moment, whether it was found (\<^verbatim>\<open>*okayp\<close>), and the object that was passed.\<close>

definition time2sub :: "tm \<Rightarrow> time_fn \<Rightarrow> int \<Rightarrow> bool \<Rightarrow> (time_t \<times> bool \<times> tm) option" where
  "time2sub tmp funcp offset do_norm_secs =
     (case normalise_date tmp do_norm_secs of
        None \<Rightarrow> Some (WRONG, False, tmp)
      | Some normal \<Rightarrow>
     (case split_seconds normal of
        None \<Rightarrow> Some (WRONG, False, tmp)
      | Some (saved_seconds, yourtm) \<Rightarrow>
     (case time_search funcp offset yourtm tm_zero time_min time_max of
        None \<Rightarrow> None
      | Some None \<Rightarrow> Some (WRONG, False, tmp)
      | Some (Some t) \<Rightarrow>
          let newt = wrap64 (t + saved_seconds) in
          if (newt < t) \<noteq> (saved_seconds < 0) then Some (WRONG, False, tmp)
          else (case funcp newt offset tmp of (ok, tmp') \<Rightarrow> Some (newt, ok, tmp')))))"

definition time2 :: "tm \<Rightarrow> time_fn \<Rightarrow> int \<Rightarrow> (time_t \<times> bool \<times> tm) option" where
  "time2 tmp funcp offset =
     (case time2sub tmp funcp offset False of
        None \<Rightarrow> None
      | Some (t, okay, tmp') \<Rightarrow>
          if okay then Some (t, okay, tmp') else time2sub tmp' funcp offset True)"

definition time1 :: "tm option \<Rightarrow> time_fn \<Rightarrow> int \<Rightarrow> (time_t \<times> tm option) option" where
  "time1 tmp funcp offset =
     (case tmp of
        None \<Rightarrow> Some (WRONG, None)
      | Some u \<Rightarrow>
          let u1 = (if tm_isdst u > 1 then u\<lparr>tm_isdst := 1\<rparr> else u) in
          (case time2 u1 funcp offset of
             None \<Rightarrow> None
           | Some (t, okay, u2) \<Rightarrow> Some (if okay then t else WRONG, Some u2)))"

definition sgxssl_mktime :: "tm option \<Rightarrow> (time_t \<times> tm option) option" where
  "sgxssl_mktime tmp = time1 tmp localsub 0"

section \<open>Normalising keeps the moment\<close>

text \<open>The moment that fields of any value stand for.\<close>

definition moment :: "tm \<Rightarrow> int" where
  "moment u =
     86400 * day_number (tm_year u + 1900 + tm_mon u div 12) (tm_mon u mod 12) (tm_mday u) +
     3600 * tm_hour u + 60 * tm_min u + tm_sec u"

definition moderate :: "tm \<Rightarrow> bool" where
  "moderate u \<longleftrightarrow> \<bar>tm_sec u\<bar> \<le> 500000 \<and> \<bar>tm_min u\<bar> \<le> 500000 \<and> \<bar>tm_hour u\<bar> \<le> 500000 \<and>
     \<bar>tm_mday u\<bar> \<le> 500000 \<and> \<bar>tm_mon u\<bar> \<le> 500000 \<and> \<bar>tm_year u\<bar> \<le> 500000"

lemma tens_delta_div:
  assumes "0 < base"
  shows "tens_delta units base = units div base"
proof -
  have "-1 - units = - units - 1" by simp
  then have "(-1 - units) div base = - (units div base) - 1" by (simp only: div_complement [OF assms])
  then show ?thesis using assms by (cases "0 \<le> units") (simp_all add: tens_delta_def sdiv_nonneg)
qed

lemma normalize_fits:
  assumes "\<bar>tens\<bar> \<le> 1000000000" "\<bar>units\<bar> \<le> 1000000000" "base \<in> {12, 24, 60}"
  shows "normalize_overflow tens units base = Some (tens + units div base, units mod base)"
    and "long_normalize_overflow tens units base = Some (tens + units div base, units mod base)"
proof -
  have "\<bar>units div base\<bar> \<le> 1000000000" using assms(2,3) by auto
  moreover have "units - units div base * base = units mod base" by (simp add: minus_div_mult_eq_mod)
  moreover have "0 < base" using assms(3) by auto
  ultimately show
    "normalize_overflow tens units base = Some (tens + units div base, units mod base)"
    "long_normalize_overflow tens units base = Some (tens + units div base, units mod base)"
    using assms(1)
    by (auto simp: normalize_overflow_def long_normalize_overflow_def tens_delta_div Let_def
        increment_overflow_def long_increment_overflow_def)
qed

lemma month_start_leap:
  assumes "0 \<le> mon" "mon < 12"
  shows "month_start leap mon = month_start False mon + (if leap \<and> 1 < mon then 1 else 0)"
proof -
  from assms have "mon \<in> {0, 1, 2, 3, 4, 5, 6, 7, 8, 9, 10, 11}" by simp presburger
  then show ?thesis by (elim insertE emptyE) (simp_all add: month_start_def mon_lengths_def)
qed

lemma next_year_day:
  assumes "0 \<le> mon" "mon < 12"
  shows "day_number (y + 1) mon mday = day_number y mon (mday + year_lengths (isleap (feb_year y mon)))"
  using month_start_leap [OF assms, of "isleap y"] month_start_leap [OF assms, of "isleap (y + 1)"]
  by (auto simp: day_number_def year_start_Suc feb_year_def year_lengths_def)

lemma long_increment_small:
  "\<bar>l\<bar> \<le> 2000000000 \<Longrightarrow> \<bar>m\<bar> \<le> 1900 \<Longrightarrow> long_increment_overflow l m = Some (l + m)"
  by (auto simp: long_increment_overflow_def)

lemma mday_up_spec:
  assumes "0 \<le> mon" "mon < 12" "\<bar>y\<bar> + max 0 (1 - mday) \<le> 2000000000"
  obtains y' mday' where "mday_up y mon mday = Some (y', mday')" "day_number y' mon mday' = day_number y mon mday"
    "1 \<le> mday'" "mday' \<le> max mday 366" "\<bar>y'\<bar> \<le> \<bar>y\<bar> + max 0 (1 - mday)"
proof -
  have "\<exists>y' mday'. mday_up y mon mday = Some (y', mday') \<and> day_number y' mon mday' = day_number y mon mday \<and>
    1 \<le> mday' \<and> mday' \<le> max mday 366 \<and> \<bar>y'\<bar> \<le> \<bar>y\<bar> + max 0 (1 - mday)"
    using assms
  proof (induction y mon mday rule: mday_up.induct)
    case (1 y mon mday)
    show ?case
    proof (cases "mday \<le> 0")
      case False
      then show ?thesis by (subst mday_up.simps) simp
    next
      case True
      let ?len = "year_lengths (isleap (feb_year (y - 1) mon))"
      have len: "365 \<le> ?len" "?len \<le> 366" by (simp_all add: year_lengths_def)
      have inc: "long_increment_overflow y (-1) = Some (y - 1)"
        using long_increment_small [of y "-1"] 1(4) by simp
      obtain y' mday' where r: "mday_up (y - 1) mon (mday + ?len) = Some (y', mday')"
        "day_number y' mon mday' = day_number (y - 1) mon (mday + ?len)"
        "1 \<le> mday'" "mday' \<le> max (mday + ?len) 366" "\<bar>y'\<bar> \<le> \<bar>y - 1\<bar> + max 0 (1 - (mday + ?len))"
        using 1(1) [OF True inc] 1(2-4) True len by fastforce
      have "mday_up y mon mday = Some (y', mday')" using r(1) True inc by (subst mday_up.simps) simp
      moreover have "day_number (y - 1) mon (mday + ?len) = day_number y mon mday"
        using next_year_day [OF 1(2,3), of "y - 1" mday] by simp
      ultimately show ?thesis using r True len by (intro exI [of _ y'] exI [of _ mday']) auto
    qed
  qed
  then show ?thesis using that by blast
qed

lemma mday_down_spec:
  assumes "0 \<le> mon" "mon < 12" "\<bar>y\<bar> + mday \<le> 2000000000" "1 \<le> mday"
  obtains y' mday' where "mday_down y mon mday = Some (y', mday')" "day_number y' mon mday' = day_number y mon mday"
    "1 \<le> mday'" "mday' \<le> 366" "\<bar>y'\<bar> \<le> \<bar>y\<bar> + mday"
proof -
  have "\<exists>y' mday'. mday_down y mon mday = Some (y', mday') \<and> day_number y' mon mday' = day_number y mon mday \<and>
    1 \<le> mday' \<and> mday' \<le> 366 \<and> \<bar>y'\<bar> \<le> \<bar>y\<bar> + mday"
    using assms
  proof (induction y mon mday rule: mday_down.induct)
    case (1 y mon mday)
    show ?case
    proof (cases "mday > 366")
      case False
      with 1(4,5) show ?thesis by (subst mday_down.simps) simp
    next
      case True
      let ?len = "year_lengths (isleap (feb_year y mon))"
      have len: "365 \<le> ?len" "?len \<le> 366" by (simp_all add: year_lengths_def)
      have inc: "long_increment_overflow y 1 = Some (y + 1)"
        using long_increment_small [of y 1] 1(4) True by simp
      obtain y' mday' where r: "mday_down (y + 1) mon (mday - ?len) = Some (y', mday')"
        "day_number y' mon mday' = day_number (y + 1) mon (mday - ?len)"
        "1 \<le> mday'" "mday' \<le> 366" "\<bar>y'\<bar> \<le> \<bar>y + 1\<bar> + (mday - ?len)"
        using 1(1) [OF _ inc] 1(2-5) True len by fastforce
      have "mday_down y mon mday = Some (y', mday')" using r(1) True inc by (subst mday_down.simps) simp
      moreover have "day_number (y + 1) mon (mday - ?len) = day_number y mon mday"
        using next_year_day [OF 1(2,3), of y "mday - ?len"] by simp
      ultimately show ?thesis using r True len by (intro exI [of _ y'] exI [of _ mday']) auto
    qed
  qed
  then show ?thesis using that by blast
qed

lemma month_start_Suc:
  assumes "0 \<le> mon" "mon < 12"
  shows "month_start leap (mon + 1) = month_start leap mon + mon_lengths leap ! nat mon"
proof -
  from assms have "nat (mon + 1) = Suc (nat mon)" "nat mon < length (mon_lengths leap)"
    by (simp_all add: mon_lengths_facts(1) nat_add_distrib)
  then show ?thesis by (simp add: month_start_def take_Suc_conv_app_nth)
qed

lemma month_start_ends: "month_start leap 0 = 0" "month_start leap 12 = year_lengths leap"
  using mon_lengths_facts(1,2) [of leap] by (simp_all add: month_start_def)

lemma month_settle_spec:
  assumes "0 \<le> mon" "mon < 12" "\<bar>y\<bar> + mday \<le> 2000000000" "1 \<le> mday"
  obtains y' mon' mday' where "month_settle y mon mday = Some (y', mon', mday')"
    "day_number y' mon' mday' = day_number y mon mday" "0 \<le> mon'" "mon' < 12"
    "1 \<le> mday'" "mday' \<le> mon_length y' mon'" "\<bar>y'\<bar> \<le> \<bar>y\<bar> + mday"
proof -
  have "\<exists>y' mon' mday'. month_settle y mon mday = Some (y', mon', mday') \<and>
    day_number y' mon' mday' = day_number y mon mday \<and> 0 \<le> mon' \<and> mon' < 12 \<and>
    1 \<le> mday' \<and> mday' \<le> mon_length y' mon' \<and> \<bar>y'\<bar> \<le> \<bar>y\<bar> + mday"
    using assms
  proof (induction y mon mday rule: month_settle.induct)
    case (1 y mon mday)
    let ?i = "mon_lengths (isleap y) ! nat mon"
    have i: "28 \<le> ?i" using mon_lengths_bounds(1) [OF 1(3,4)] .
    have range: "\<not> \<not> (0 \<le> mon \<and> mon < 12)" using 1(3,4) by simp
    consider (stop) "mday \<le> ?i" | (year) "\<not> mday \<le> ?i" "12 \<le> mon + 1" | (month) "\<not> mday \<le> ?i" "\<not> 12 \<le> mon + 1"
      by blast
    then show ?case
    proof cases
      case stop
      with 1(3-6) show ?thesis by (subst month_settle.simps) (simp add: mon_length_def)
    next
      case year
      then have mon: "mon = 11" using 1(3,4) by simp
      have inc: "long_increment_overflow y 1 = Some (y + 1)"
        using long_increment_small [of y 1] 1(5,6) by simp
      have run: "month_settle y mon mday = month_settle (y + 1) 0 (mday - ?i)"
        by (subst month_settle.simps) (simp only: Let_def range year inc if_True if_False option.case)
      have "day_number (y + 1) 0 (mday - ?i) = day_number y mon mday"
        using month_start_Suc [OF 1(3,4), of "isleap y"] mon
        by (simp add: day_number_def year_start_Suc month_start_ends)
      with 1(1) [OF range refl year inc] 1(3-6) year i show ?thesis unfolding run by fastforce
    next
      case month
      have run: "month_settle y mon mday = month_settle y (mon + 1) (mday - ?i)"
        by (subst month_settle.simps) (simp only: Let_def range month if_True if_False)
      have "day_number y (mon + 1) (mday - ?i) = day_number y mon mday"
        using month_start_Suc [OF 1(3,4), of "isleap y"] by (simp add: day_number_def)
      with 1(2) [OF range refl month] 1(3-6) month i show ?thesis unfolding run by fastforce
    qed
  qed
  then show ?thesis using that by blast
qed

text \<open>Moderate fields are normalised, and the moment stays.\<close>

lemma normalise_date_spec:
  assumes "moderate u"
  obtains n where "normalise_date u False = Some n" "civil (n\<lparr>tm_sec := 0\<rparr>)" "epoch n = moment u"
    "tm_sec n = tm_sec u" "tm_isdst n = tm_isdst u" "\<bar>tm_year n\<bar> \<le> 1600000"
proof -
  define hours minute where "hours = tm_hour u + tm_min u div 60" and "minute = tm_min u mod 60"
  define days hour where "days = tm_mday u + hours div 24" and "hour = hours mod 24"
  define y0 mon where "y0 = tm_year u + tm_mon u div 12" and "mon = tm_mon u mod 12"
  have b: "\<bar>tm_min u\<bar> \<le> 500000" "\<bar>tm_hour u\<bar> \<le> 500000" "\<bar>tm_mday u\<bar> \<le> 500000"
    "\<bar>tm_mon u\<bar> \<le> 500000" "\<bar>tm_year u\<bar> \<le> 500000"
    using assms by (simp_all add: moderate_def)
  have n1: "normalize_overflow (tm_hour u) (tm_min u) 60 = Some (hours, minute)"
    using normalize_fits(1) b by (simp add: hours_def minute_def)
  have h: "\<bar>hours\<bar> \<le> 509000" using b(1,2) unfolding hours_def by linarith
  have n2: "normalize_overflow (tm_mday u) hours 24 = Some (days, hour)"
    using normalize_fits(1) b h by (simp add: days_def hour_def)
  have d: "\<bar>days\<bar> \<le> 523000" using b(3) h unfolding days_def by linarith
  have n3: "long_normalize_overflow (tm_year u) (tm_mon u) 12 = Some (y0, mon)"
    using normalize_fits(2) b by (simp add: y0_def mon_def)
  have y: "\<bar>y0\<bar> \<le> 542000" using b(4,5) unfolding y0_def by linarith
  have n4: "long_increment_overflow y0 1900 = Some (y0 + 1900)"
    using long_increment_small [of y0 1900] y by simp
  have mon: "0 \<le> mon" "mon < 12" by (simp_all add: mon_def)
  have "\<bar>y0 + 1900\<bar> + max 0 (1 - days) \<le> 2000000000" using y d by linarith
  note up_ok = mday_up_spec [OF mon this]
  obtain y2 d2 where up: "mday_up (y0 + 1900) mon days = Some (y2, d2)"
    "day_number y2 mon d2 = day_number (y0 + 1900) mon days" "1 \<le> d2" "d2 \<le> max days 366"
    "\<bar>y2\<bar> \<le> \<bar>y0 + 1900\<bar> + max 0 (1 - days)"
    by (rule up_ok)
  have y2: "\<bar>y2\<bar> \<le> 1070000" "d2 \<le> 523000" using up(4,5) y d by linarith+
  have "\<bar>y2\<bar> + d2 \<le> 2000000000" using y2 by linarith
  note down_ok = mday_down_spec [OF mon this up(3)]
  obtain y3 d3 where down: "mday_down y2 mon d2 = Some (y3, d3)"
    "day_number y3 mon d3 = day_number y2 mon d2" "1 \<le> d3" "d3 \<le> 366" "\<bar>y3\<bar> \<le> \<bar>y2\<bar> + d2"
    by (rule down_ok)
  have y3: "\<bar>y3\<bar> \<le> 1594000" using down(5) y2 by linarith
  have "\<bar>y3\<bar> + d3 \<le> 2000000000" using y3 down(4) by linarith
  note settle_ok = month_settle_spec [OF mon this down(3)]
  obtain y4 mon' mday where settle: "month_settle y3 mon d3 = Some (y4, mon', mday)"
    "day_number y4 mon' mday = day_number y3 mon d3" "0 \<le> mon'" "mon' < 12" "1 \<le> mday"
    "mday \<le> mon_length y4 mon'" "\<bar>y4\<bar> \<le> \<bar>y3\<bar> + d3"
    by (rule settle_ok)
  have y4: "\<bar>y4\<bar> \<le> 1595000" using settle(7) y3 down(4) by linarith
  have n5: "long_increment_overflow y4 (- 1900) = Some (y4 - 1900)"
    using long_increment_small [of y4 "- 1900"] y4 by simp
  have int: "signed_take_bit 31 (y4 - 1900) = y4 - 1900"
    by (rule signed_take_bit_int_eq_self) (use y4 in auto)
  define n where "n = u\<lparr>tm_min := minute, tm_hour := hour, tm_mday := mday, tm_mon := mon', tm_year := y4 - 1900\<rparr>"
  have "normalise_date u False = Some n"
    using n1 n2 n3 n4 up(1) down(1) settle(1) n5 int by (simp add: normalise_date_def n_def)
  moreover have "civil (n\<lparr>tm_sec := 0\<rparr>)" using settle(3-6) by (simp add: civil_def n_def minute_def hour_def)
  moreover have "epoch n = moment u"
  proof -
    have "day_number y4 mon' mday = day_number (y0 + 1900) mon (tm_mday u) + hours div 24"
      using settle(2) down(2) up(2) by (simp add: day_number_def days_def)
    moreover have "24 * (hours div 24) + hour = hours" "60 * (tm_min u div 60) + minute = tm_min u"
      by (simp_all add: hour_def minute_def)
    moreover have "y0 + 1900 = tm_year u + 1900 + tm_mon u div 12" by (simp add: y0_def)
    ultimately show ?thesis by (simp add: epoch_def moment_def n_def hours_def mon_def)
  qed
  ultimately show ?thesis using that [of n] y4 by (simp add: n_def)
qed

section \<open>tmcomp is the order of the moments\<close>

lemma month_start_mono:
  assumes "0 \<le> m" "m < m'" "m' \<le> 12"
  shows "month_start leap m + mon_lengths leap ! nat m \<le> month_start leap m'"
  using assms
proof (induction "nat (m' - m)" arbitrary: m')
  case (Suc k)
  show ?case
  proof (cases "m' = m + 1")
    case True
    with Suc.prems month_start_Suc [of m leap] show ?thesis by simp
  next
    case False
    with Suc.prems Suc.hyps have "month_start leap m + mon_lengths leap ! nat m \<le> month_start leap (m' - 1)" by simp
    with month_start_Suc [of "m' - 1" leap] mon_lengths_bounds(1) [of "m' - 1" leap] Suc.prems False
    show ?thesis by simp
  qed
qed simp

lemma civil_day:
  assumes "civil u"
  shows "year_start (tm_year u + 1900) \<le> day_number (tm_year u + 1900) (tm_mon u) (tm_mday u)"
    and "day_number (tm_year u + 1900) (tm_mon u) (tm_mday u) < year_start (tm_year u + 1901)"
proof -
  let ?l = "isleap (tm_year u + 1900)"
  have c: "0 \<le> tm_mon u" "tm_mon u < 12" "1 \<le> tm_mday u" "tm_mday u \<le> mon_lengths ?l ! nat (tm_mon u)"
    using assms by (simp_all add: civil_def mon_length_def)
  have "0 \<le> month_start ?l (tm_mon u)"
    using month_start_mono [of 0 "tm_mon u" ?l] mon_lengths_bounds(1) [of 0 ?l] c(1,2)
    by (cases "tm_mon u = 0") (simp_all add: month_start_ends)
  with c show "year_start (tm_year u + 1900) \<le> day_number (tm_year u + 1900) (tm_mon u) (tm_mday u)"
    by (simp add: day_number_def)
  from month_start_mono [of "tm_mon u" 12 ?l] c
  show "day_number (tm_year u + 1900) (tm_mon u) (tm_mday u) < year_start (tm_year u + 1901)"
    using year_start_Suc [of "tm_year u + 1900"] by (simp add: day_number_def month_start_ends add.assoc)
qed

lemma civil_day_less:
  assumes "civil a" "civil b"
    and "tm_year a < tm_year b \<or> tm_year a = tm_year b \<and> (tm_mon a < tm_mon b \<or> tm_mon a = tm_mon b \<and> tm_mday a < tm_mday b)"
  shows "day_number (tm_year a + 1900) (tm_mon a) (tm_mday a) < day_number (tm_year b + 1900) (tm_mon b) (tm_mday b)"
proof (cases "tm_year a < tm_year b")
  case True
  then have "year_start (tm_year a + 1901) \<le> year_start (tm_year b + 1900)" by (intro year_start_mono) simp
  with civil_day(2) [OF assms(1)] civil_day(1) [OF assms(2)] show ?thesis by linarith
next
  case False
  with assms(3) have year: "tm_year a = tm_year b"
    and "tm_mon a < tm_mon b \<or> tm_mon a = tm_mon b \<and> tm_mday a < tm_mday b" by auto
  from this(2) show ?thesis
  proof
    assume "tm_mon a < tm_mon b"
    with month_start_mono [of "tm_mon a" "tm_mon b" "isleap (tm_year b + 1900)"] assms(1,2) year
    show ?thesis by (simp add: day_number_def civil_def mon_length_def)
  qed (simp add: year day_number_def)
qed

lemma tmcomp_less:
  assumes "civil a" "civil b" "tmcomp a b < 0"
  shows "epoch a < epoch b"
proof -
  let ?A = "day_number (tm_year a + 1900) (tm_mon a) (tm_mday a)"
  let ?B = "day_number (tm_year b + 1900) (tm_mon b) (tm_mday b)"
  have clock: "0 \<le> tm_hour x" "tm_hour x \<le> 23" "0 \<le> tm_min x" "tm_min x \<le> 59" "0 \<le> tm_sec x" "tm_sec x \<le> 59"
    if "civil x" for x using that by (auto simp: civil_def)
  note ca = clock [OF assms(1)] and cb = clock [OF assms(2)]
  from assms(3) consider
      (day) "tm_year a < tm_year b \<or> tm_year a = tm_year b \<and> (tm_mon a < tm_mon b \<or> tm_mon a = tm_mon b \<and> tm_mday a < tm_mday b)"
    | (hour) "?A = ?B" "tm_hour a < tm_hour b"
    | (minute) "?A = ?B" "tm_hour a = tm_hour b" "tm_min a < tm_min b"
    | (sec) "?A = ?B" "tm_hour a = tm_hour b" "tm_min a = tm_min b" "tm_sec a < tm_sec b"
    by (auto simp: tmcomp_def split: if_splits)
  then show ?thesis
  proof cases
    case day
    then have "?A < ?B" by (rule civil_day_less [OF assms(1,2)])
    with ca cb show ?thesis unfolding epoch_def by linarith
  qed (use ca cb in \<open>simp_all add: epoch_def\<close>)
qed

lemma tmcomp_neg: "tmcomp b a = - tmcomp a b"
  by (simp add: tmcomp_def)

lemma tmcomp_zero: "tmcomp a b = 0 \<longleftrightarrow> same_fields a b"
  by (auto simp: tmcomp_def same_fields_def)

lemma same_fields_epoch: "same_fields a b \<Longrightarrow> epoch a = epoch b"
  by (simp add: same_fields_def epoch_def)

lemma tmcomp_order:
  assumes "civil a" "civil b"
  shows "tmcomp a b > 0 \<longleftrightarrow> epoch b < epoch a" "tmcomp a b < 0 \<longleftrightarrow> epoch a < epoch b"
    "tmcomp a b = 0 \<longleftrightarrow> epoch a = epoch b"
proof -
  have less: "tmcomp a b < 0 \<Longrightarrow> epoch a < epoch b" by (rule tmcomp_less [OF assms])
  have greater: "tmcomp a b > 0 \<Longrightarrow> epoch b < epoch a"
    using tmcomp_less [OF assms(2,1)] by (simp add: tmcomp_neg [of b a])
  have same: "tmcomp a b = 0 \<Longrightarrow> epoch a = epoch b"
    by (simp add: tmcomp_zero same_fields_epoch)
  show "tmcomp a b > 0 \<longleftrightarrow> epoch b < epoch a" "tmcomp a b < 0 \<longleftrightarrow> epoch a < epoch b"
    "tmcomp a b = 0 \<longleftrightarrow> epoch a = epoch b"
    using less greater same by (cases "tmcomp a b" rule: linorder_cases [of _ 0]; force)+
qed

section \<open>The search ends at the moment\<close>

lemma time_range: "time_min = - (2 ^ 63)" "time_max = 2 ^ 63 - 1"
proof -
  have "(fold (\<lambda>_ lo. wrap64 (lo * 2)) [0..<n] 1 :: int) = 2 ^ n" if "n \<le> 62" for n
    using that
  proof (induction n)
    case (Suc n)
    have "(2 :: int) ^ n * 2 = 2 ^ Suc n" by simp
    moreover have "(2 :: int) ^ Suc n < 2 ^ 63" by (rule power_strict_increasing) (use Suc.prems in simp_all)
    moreover have "- (2 ^ 63 :: int) \<le> 2 ^ Suc n" by (rule order_trans [of _ 0]) simp_all
    ultimately have "wrap64 (2 ^ n * 2) = 2 ^ Suc n"
      by (simp only: wrap64_def) (rule signed_take_bit_int_eq_self)
    with Suc show ?case by simp
  qed simp
  from this [of 62] have low: "(fold (\<lambda>_ lo. wrap64 (lo * 2)) [0..<62] 1 :: int) = 2 ^ 62" by simp
  have "(63 :: nat) = Suc 62" by simp
  then have "[0..<63] = [0..<62] @ [62 :: nat]" by (simp only: upt_Suc_append)
  with low have "time_min = wrap64 (2 ^ 62 * 2)" by (simp only: time_min_def fold_append fold.simps o_apply id_apply)
  then show "time_min = - (2 ^ 63)" by (simp add: wrap64_def signed_take_bit_eq_take_bit_minus)
  then show "time_max = 2 ^ 63 - 1" by (simp add: time_max_def wrap64_def signed_take_bit_int_eq_self)
qed

lemma wrap64_id: "- (2 ^ 63) \<le> i \<Longrightarrow> i < 2 ^ 63 \<Longrightarrow> wrap64 i = i"
  by (simp add: wrap64_def signed_take_bit_int_eq_self)

lemma midpoint_between: "lo \<le> hi \<Longrightarrow> lo \<le> midpoint lo hi \<and> midpoint lo hi \<le> hi"
  by (simp add: midpoint_def Let_def)

lemma localsub_timesub: "localsub t offset tmp = timesub t offset tmp"
  by (simp add: localsub_def lclptr_def)

text \<open>A round that does not find the moment \<open>T\<close> leaves a shorter interval around it.\<close>

lemma search_step_spec:
  assumes target: "civil v" "epoch v = T" "\<bar>T\<bar> < 70000000000000"
    and lo: "- (2 ^ 63) \<le> lo" "lo \<le> T" and hi: "T \<le> hi" "hi < 2 ^ 63"
  shows "search_step localsub 0 v m lo hi = Found T \<or>
    (\<exists>m' lo' hi'. search_step localsub 0 v m lo hi = Again m' lo' hi' \<and>
      lo \<le> lo' \<and> lo' \<le> T \<and> T \<le> hi' \<and> hi' \<le> hi \<and> hi' - lo' < hi - lo)"
proof -
  define t where "t = midpoint lo hi"
  obtain ok mytm where r: "timesub t 0 m = (ok, mytm)" by fastforce
  define dir where "dir = (if \<not> ok then if t > 0 then 1 else -1 else tmcomp mytm v)"
  have t: "lo \<le> t" "t \<le> hi" using midpoint_between [of lo hi] lo hi by (simp_all add: t_def)
  have "(dir > 0 \<longleftrightarrow> T < t) \<and> (dir < 0 \<longleftrightarrow> t < T) \<and> (dir = 0 \<longrightarrow> tm_isdst mytm = 0)"
  proof (cases ok)
    case True
    with r have "calendar_of t mytm" by (intro timesub_sound [of t m]) simp
    with tmcomp_order [of mytm v] target True show ?thesis by (simp add: calendar_of_def dir_def)
  next
    case False
    have "\<not> \<bar>t\<bar> \<le> 70000000000000"
    proof
      assume "\<bar>t\<bar> \<le> 70000000000000"
      then obtain u where "timesub t 0 m = (True, u)" by (rule timesub_calendar)
      with r False show False by simp
    qed
    with False target(3) show ?thesis by (auto simp: dir_def)
  qed
  then have dir: "dir > 0 \<longleftrightarrow> T < t" "dir < 0 \<longleftrightarrow> t < T" "dir = 0 \<Longrightarrow> tm_isdst mytm = 0" by blast+
  have step: "search_step localsub 0 v m lo hi =
     (if dir \<noteq> 0 then
        if t = lo then if wrap64 (t + 1) \<le> lo then Lost else next_interval mytm dir (wrap64 (t + 1)) (wrap64 (lo + 1)) hi
        else if t = hi then if wrap64 (t - 1) \<ge> hi then Lost else next_interval mytm dir (wrap64 (t - 1)) lo (wrap64 (hi - 1))
        else next_interval mytm dir t lo hi
      else if tm_isdst v < 0 \<or> tm_isdst mytm \<le> tm_isdst v then Found t else Again mytm lo hi)"
    by (simp add: search_step_def Let_def localsub_timesub r t_def [symmetric] dir_def)
  consider "dir = 0" | "dir < 0" "t = lo" | "dir > 0" "t = hi" "t \<noteq> lo" | "dir \<noteq> 0" "t \<noteq> lo" "t \<noteq> hi"
    using dir lo hi t by fastforce
  then show ?thesis
  proof cases
    case 1
    with dir have "t = T" by auto
    with 1 dir(3) show ?thesis by (simp add: step)
  next
    case 2
    with dir have "lo < T" by simp
    with 2 wrap64_id [of "lo + 1"] lo hi show ?thesis by (simp add: step next_interval_def)
  next
    case 3
    with dir have "T < hi" by simp
    with 3 wrap64_id [of "hi - 1"] lo hi show ?thesis by (simp add: step next_interval_def)
  next
    case 4
    with dir t lo hi show ?thesis by (auto simp: step next_interval_def)
  qed
qed

lemma time_search_finds:
  assumes "civil v" "epoch v = T" "\<bar>T\<bar> < 70000000000000"
    and "- (2 ^ 63) \<le> lo" "lo \<le> T" "T \<le> hi" "hi < 2 ^ 63"
  shows "time_search localsub 0 v m lo hi = Some (Some T)"
  using assms(4-7)
proof (induction "nat (hi - lo)" arbitrary: lo hi m rule: less_induct)
  case less
  from search_step_spec [OF assms(1-3) less.prems(1,2,3,4), of m] show ?case
  proof (elim disjE exE conjE)
    assume "search_step localsub 0 v m lo hi = Found T"
    then show ?thesis by (subst time_search.simps) simp
  next
    fix m' lo' hi'
    assume "search_step localsub 0 v m lo hi = Again m' lo' hi'" and
      i: "lo \<le> lo'" "lo' \<le> T" "T \<le> hi'" "hi' \<le> hi" "hi' - lo' < hi - lo"
    moreover from i less.prems have "time_search localsub 0 v m' lo' hi' = Some (Some T)"
      by (intro less.hyps) auto
    ultimately show ?thesis by (subst time_search.simps) simp
  qed
qed

section \<open>sgxssl_mktime\<close>

lemma civil_epoch_bound:
  assumes "civil u" "\<bar>tm_year u\<bar> \<le> 1600000"
  shows "\<bar>epoch u\<bar> \<le> 60000000000000"
proof -
  have bound: "\<bar>year_start y\<bar> \<le> 600000000" if "\<bar>y\<bar> \<le> 1602000" for y
  proof -
    have "year_start 1970 = 0" by (simp add: year_start_def)
    then show ?thesis using year_start_bounds [of 1970 y] year_start_bounds [of y 1970] that
      by (cases "1970 \<le> y") auto
  qed
  have "\<bar>year_start (tm_year u + 1900)\<bar> \<le> 600000000" "\<bar>year_start (tm_year u + 1901)\<bar> \<le> 600000000"
    by (rule bound, use assms(2) in linarith)+
  with civil_day [OF assms(1)]
  have "\<bar>day_number (tm_year u + 1900) (tm_mon u) (tm_mday u)\<bar> \<le> 600000000" by linarith
  moreover have "0 \<le> tm_hour u" "tm_hour u < 24" "0 \<le> tm_min u" "tm_min u < 60" "0 \<le> tm_sec u" "tm_sec u < 60"
    using assms(1) by (simp_all add: civil_def)
  ultimately show ?thesis unfolding epoch_def by linarith
qed

lemma split_seconds_spec:
  assumes "civil (n\<lparr>tm_sec := 0\<rparr>)" "\<bar>tm_sec n\<bar> \<le> 500000"
  obtains saved v where "split_seconds n = Some (saved, v)" "civil v" "epoch v + saved = epoch n"
    "\<bar>saved\<bar> \<le> 600000" "tm_isdst v = tm_isdst n" "tm_year v = tm_year n"
proof -
  consider "0 \<le> tm_sec n \<and> tm_sec n < 60"
    | "\<not> (0 \<le> tm_sec n \<and> tm_sec n < 60)" "tm_year n + TM_YEAR_BASE < EPOCH_YEAR"
    | "\<not> (0 \<le> tm_sec n \<and> tm_sec n < 60)" "\<not> tm_year n + TM_YEAR_BASE < EPOCH_YEAR" by blast
  then show ?thesis
  proof cases
    case 1
    with assms show ?thesis by (intro that [of 0 n]) (auto simp: split_seconds_def civil_def)
  next
    case 2
    have "increment_overflow (tm_sec n) (1 - 60) = Some (tm_sec n - 59)"
      using assms(2) by (auto simp: increment_overflow_def)
    with 2 assms show ?thesis
      by (intro that [of "tm_sec n - 59" "n\<lparr>tm_sec := 59\<rparr>"])
        (auto simp: split_seconds_def civil_def epoch_def)
  next
    case 3
    with assms show ?thesis
      by (intro that [of "tm_sec n" "n\<lparr>tm_sec := 0\<rparr>"]) (auto simp: split_seconds_def civil_def epoch_def)
  qed
qed

lemma time2sub_spec:
  assumes "moderate u"
  obtains w where "time2sub u localsub 0 False = Some (moment u, True, w)" "calendar_of (moment u) w"
proof -
  obtain n where n: "normalise_date u False = Some n" "civil (n\<lparr>tm_sec := 0\<rparr>)" "epoch n = moment u"
    "tm_sec n = tm_sec u" "tm_isdst n = tm_isdst u" "\<bar>tm_year n\<bar> \<le> 1600000"
    by (rule normalise_date_spec [OF assms])
  have "\<bar>tm_sec n\<bar> \<le> 500000" using assms n(4) by (simp add: moderate_def)
  with n(2) obtain saved v where v: "split_seconds n = Some (saved, v)" "civil v" "epoch v + saved = epoch n"
    "\<bar>saved\<bar> \<le> 600000" "tm_year v = tm_year n" by (rule split_seconds_spec)
  have e: "\<bar>epoch v\<bar> \<le> 60000000000000" using civil_epoch_bound v(2,5) n(6) by simp
  then have found: "time_search localsub 0 v tm_zero time_min time_max = Some (Some (epoch v))"
    by (intro time_search_finds [OF v(2) refl]) (auto simp: time_range)
  have newt: "wrap64 (epoch v + saved) = moment u" using v(3,4) e n(3) by (simp add: wrap64_id)
  have "\<bar>moment u\<bar> \<le> 70000000000000" using v(3,4) e n(3) by linarith
  then obtain w where w: "timesub (moment u) 0 u = (True, w)" "calendar_of (moment u) w"
    by (rule timesub_calendar)
  have "(moment u < epoch v) = (saved < 0)" using v(3) n(3) by auto
  with n(1) v(1) found newt w(1) have "time2sub u localsub 0 False = Some (moment u, True, w)"
    by (simp add: time2sub_def Let_def localsub_timesub)
  then show ?thesis using that w(2) by simp
qed

theorem sgxssl_mktime_moment:
  assumes "moderate u"
  obtains w where "sgxssl_mktime (Some u) = Some (moment u, Some w)" "calendar_of (moment u) w"
proof -
  define u1 where "u1 = (if tm_isdst u > 1 then u\<lparr>tm_isdst := 1\<rparr> else u)"
  have "moderate u1" "moment u1 = moment u" using assms by (simp_all add: u1_def moderate_def moment_def)
  then obtain w where "time2sub u1 localsub 0 False = Some (moment u, True, w)" "calendar_of (moment u) w"
    using time2sub_spec [of u1] by metis
  then show ?thesis
    using that [of w] by (simp add: sgxssl_mktime_def time1_def time2_def u1_def Let_def)
qed

text \<open>A moment has one broken-down time, and normalising a date of the calendar keeps it.\<close>

lemma calendar_unique: "calendar_of t a \<Longrightarrow> calendar_of t b \<Longrightarrow> a = b"
  using tmcomp_order(3) [of a b] tmcomp_zero [of a b]
  by (cases a; cases b) (simp add: calendar_of_def same_fields_def)

lemma moment_civil: "civil u \<Longrightarrow> moment u = epoch u"
  by (simp add: moment_def epoch_def civil_def)

text \<open>
  C30: \<^verbatim>\<open>sgxssl_mktime\<close> comes back: its search over all 64-bit times, which nothing in
  the code bounds, ends for every broken-down time whose fields lie within half a million, in range or
  not.  It returns the seconds since 1970 that the fields stand for in the proleptic Gregorian
  calendar, and overwrites its argument with the date of that moment.
\<close>

theorem sgxssl_mktime_returns:
  assumes "moderate u"
  shows "\<exists>w. sgxssl_mktime (Some u) = Some (moment u, Some w) \<and> calendar_of (moment u) w"
  using sgxssl_mktime_moment [OF assms] by metis

lemma sgxssl_mktime_returns_witness:
  "\<exists>w. sgxssl_mktime (Some (tm_zero\<lparr>tm_year := 123, tm_mon := 1, tm_mday := 29, tm_sec := 75\<rparr>)) =
       Some (1677628875, Some w) \<and> calendar_of 1677628875 w"
proof -
  let ?u = "tm_zero\<lparr>tm_year := 123, tm_mon := 1, tm_mday := 29, tm_sec := 75\<rparr>"
  have "moderate ?u" by (simp add: moderate_def tm_zero_def)
  moreover have "moment ?u = 1677628875"
    by (simp add: moment_def tm_zero_def day_number_def year_start_def leaps_div month_start_def
        mon_lengths_def isleap_iff)
  ultimately show ?thesis using sgxssl_mktime_returns [of ?u] by simp
qed

text \<open>\<^verbatim>\<open>sgxssl_mktime\<close> undoes \<^verbatim>\<open>sgxssl__gmtime64\<close>.\<close>

theorem mktime_gmtime:
  assumes "\<bar>t\<bar> \<le> 15000000000000"
  shows "\<exists>u. sgxssl__gmtime64 (Some t) global = (Some u, u) \<and> calendar_of t u \<and>
    sgxssl_mktime (Some u) = Some (t, Some u)"
proof -
  obtain u where u: "timesub t 0 global = (True, u)" "calendar_of t u"
    using timesub_calendar [of t global] assms by auto
  then have c: "civil u" "epoch u = t" by (simp_all add: calendar_of_def)
  have clock: "0 \<le> 3600 * tm_hour u + 60 * tm_min u + tm_sec u" "3600 * tm_hour u + 60 * tm_min u + tm_sec u < 86400"
    using c(1) by (auto simp: civil_def)
  with c(2) have days: "\<bar>day_number (tm_year u + 1900) (tm_mon u) (tm_mday u)\<bar> \<le> 173700000"
    using assms unfolding epoch_def by linarith
  have z: "year_start 1970 = 0" by (simp add: year_start_def)
  have "\<bar>tm_year u\<bar> \<le> 500000"
    using civil_day [OF c(1)] days year_start_bounds [of 1970 "tm_year u + 1900"]
      year_start_bounds [of "tm_year u + 1901" 1970] z by (cases "70 \<le> tm_year u") auto
  moreover have "mon_length (tm_year u + 1900) (tm_mon u) \<le> 31"
    using c(1) by (simp add: civil_def mon_length_def mon_lengths_bounds(2))
  ultimately have m: "moderate u" "moment u = t" using c by (auto simp: moderate_def civil_def moment_civil)
  obtain w where w: "sgxssl_mktime (Some u) = Some (moment u, Some w)" "calendar_of (moment u) w"
    by (rule sgxssl_mktime_moment [OF m(1)])
  with m(2) u(2) calendar_unique have "w = u" by simp
  with u w(1) m(2) show ?thesis by (simp add: sgxssl__gmtime64_def)
qed

end
