(* ===== verification/TimeUtils.thy ===== *)
theory TimeUtils
  imports MkTime
begin

text \<open>
  \<^verbatim>\<open>AttestationCommons/src/Utils/TimeUtils.cpp\<close>: the dates of the collateral.  The
  file holds two implementations, one on the C++ library and one written by hand for the enclave, whose
  \<^verbatim>\<open>mktime\<close> is the one of MkTime.  \<^verbatim>\<open>SGX_TRUSTED\<close> selects one at
  build time and is a field of \<open>time_platform\<close>, with \<^verbatim>\<open>timegm\<close>, which normalises
  the broken-down time it is given, and the clock, which only the first implementation calls.
\<close>

section \<open>The platform\<close>

record time_platform =
  SGX_TRUSTED :: bool
  timegm :: "tm \<Rightarrow> time_t \<times> tm"
  system_clock_now :: time_t

section \<open>The implementation on the C++ library\<close>

definition is_digit :: "char \<Rightarrow> bool" where
  "is_digit c = (let n = (of_char c :: nat) in 48 \<le> n \<and> n \<le> 57)"

text \<open>
  The regular expression, as the classes of its characters: \<open>None\<close> is \<^verbatim>\<open>[0-9]\<close>.
\<close>

definition timeRegex :: "char option list" where
  "timeRegex = replicate 4 None @ [Some CHR ''-''] @ replicate 2 None @ [Some CHR ''-''] @
     replicate 2 None @ [Some CHR ''T''] @ replicate 2 None @ [Some CHR '':''] @ replicate 2 None @
     [Some CHR '':''] @ replicate 2 None @ [Some CHR ''Z'']"

definition regex_match :: "string \<Rightarrow> char option list \<Rightarrow> bool" where
  "regex_match s regex \<longleftrightarrow>
     list_all2 (\<lambda>c p. case p of None \<Rightarrow> is_digit c | Some d \<Rightarrow> c = d) s regex"

definition digit_value :: "char \<Rightarrow> int" where
  "digit_value c = of_char c - 48"

definition number :: "string \<Rightarrow> int" where
  "number ds = foldl (\<lambda>n c. 10 * n + digit_value c) 0 ds"

text \<open>
  \<^verbatim>\<open>std::get_time\<close> reads a field of at most so many digits, fails outside the
  range of the field, and stops there.
\<close>

definition get_field :: "nat \<Rightarrow> int \<Rightarrow> int \<Rightarrow> string \<Rightarrow> (int \<times> string) option" where
  "get_field width lo hi s =
     (let ds = takeWhile is_digit (take width s); n = number ds
      in if ds = [] \<or> n < lo \<or> hi < n then None else Some (n, drop (length ds) s))"

definition get_literal :: "char \<Rightarrow> string \<Rightarrow> string option" where
  "get_literal c s = (case s of [] \<Rightarrow> None | d # rest \<Rightarrow> if c = d then Some rest else None)"

datatype time_format = Field nat int int "(int \<Rightarrow> int) \<Rightarrow> tm \<Rightarrow> tm" "int \<Rightarrow> int" | Literal char

fun get_time :: "time_format list \<Rightarrow> string \<Rightarrow> tm \<Rightarrow> tm \<times> bool" where
  "get_time [] s t = (t, True)"
| "get_time (Literal c # fs) s t =
     (case get_literal c s of None \<Rightarrow> (t, False) | Some rest \<Rightarrow> get_time fs rest t)"
| "get_time (Field width lo hi upd conv # fs) s t =
     (case get_field width lo hi s of
        None \<Rightarrow> (t, False)
      | Some (n, rest) \<Rightarrow> get_time fs rest (upd (\<lambda>_. conv n) t))"

definition time_fields :: "time_format list" where
  "time_fields = [
     Field 4 0 9999 tm_year_update (\<lambda>n. n - 1900), Literal CHR ''-'',
     Field 2 1 12 tm_mon_update (\<lambda>n. n - 1), Literal CHR ''-'',
     Field 2 1 31 tm_mday_update (\<lambda>n. n), Literal CHR ''T'',
     Field 2 0 23 tm_hour_update (\<lambda>n. n), Literal CHR '':'',
     Field 2 0 59 tm_min_update (\<lambda>n. n), Literal CHR '':'',
     Field 2 0 60 tm_sec_update (\<lambda>n. n), Literal CHR ''Z'']"

definition standard_isValidTimeString :: "time_platform \<Rightarrow> string \<Rightarrow> bool" where
  "standard_isValidTimeString pf timeString =
     (if \<not> regex_match timeString timeRegex then False
      else
        case get_time time_fields timeString tm_zero of
          (validate, good) \<Rightarrow>
            (case timegm pf validate of
               (_, time) \<Rightarrow> if \<not> same_fields validate time then False else good))"

definition standard_getTimeFromString :: "string \<Rightarrow> tm" where
  "standard_getTimeFromString date = fst (get_time time_fields date tm_zero)"

text \<open>A null pointer is \<open>None\<close>.\<close>

definition standard_getCurrentTime :: "time_platform \<Rightarrow> time_t option \<Rightarrow> time_t outcome" where
  "standard_getCurrentTime pf in_time =
     (case in_time of None \<Rightarrow> Inr (system_clock_now pf) | Some t \<Rightarrow> Inr t)"

section \<open>The implementation of the enclave\<close>

text \<open>
  \<open>mktime_returns\<close> below shows that the search of \<open>sgxssl_mktime\<close> comes back for every time
  this file passes to it, so the last case of \<open>enclave_mktime\<close> does not arise.
\<close>

definition enclave_mktime :: "tm \<Rightarrow> time_t \<times> tm" where
  "enclave_mktime tmp =
     (case sgxssl_mktime (Some tmp) of Some (t, Some w) \<Rightarrow> (t, w) | _ \<Rightarrow> (WRONG, tmp))"

text \<open>\<^verbatim>\<open>char\<close> is signed; the arithmetic is that of \<^verbatim>\<open>uint32_t\<close>.\<close>

definition char_value :: "char \<Rightarrow> int" where
  "char_value c = (let n = of_char c in if n < 128 then n else n - 256)"

definition qvlStringToNum :: "string \<Rightarrow> nat \<Rightarrow> u32" where
  "qvlStringToNum time_str count =
     fold (\<lambda>i num. num * 10 + word_of_int (char_value (time_str ! i) - 48)) [1..<count]
       (word_of_int (char_value (time_str ! 0) - 48))"

definition field_at :: "string \<Rightarrow> nat \<Rightarrow> nat \<Rightarrow> int" where
  "field_at str pos count = sint (qvlStringToNum (drop pos str) count)"

definition qvlStringToTime :: "string \<Rightarrow> tm \<Rightarrow> time_t \<times> tm" where
  "qvlStringToTime str datetime =
     (if length str < 20 then (-1, datetime)
      else
      let d1 = datetime\<lparr>tm_year := field_at str 0 4 - 1900\<rparr> in
      if tm_year d1 < 0 then (-1, d1)
      else if str ! 4 \<noteq> CHR ''-'' then (-1, d1)
      else
      let d2 = d1\<lparr>tm_mon := field_at str 5 2 - 1\<rparr> in
      if tm_mon d2 < 0 \<or> tm_mon d2 > 11 then (-1, d2)
      else if str ! 7 \<noteq> CHR ''-'' then (-1, d2)
      else
      let d3 = d2\<lparr>tm_mday := field_at str 8 2\<rparr> in
      if tm_mday d3 < 1 \<or> tm_mday d3 > 31 then (-1, d3)
      else if str ! 10 \<noteq> CHR ''T'' then (-1, d3)
      else
      let d4 = d3\<lparr>tm_hour := field_at str 11 2\<rparr> in
      if tm_hour d4 < 0 \<or> tm_hour d4 > 23 then (-1, d4)
      else if str ! 13 \<noteq> CHR '':'' then (-1, d4)
      else
      let d5 = d4\<lparr>tm_min := field_at str 14 2\<rparr> in
      if tm_min d5 < 0 \<or> tm_min d5 > 59 then (-1, d5)
      else if str ! 16 \<noteq> CHR '':'' then (-1, d5)
      else
      let d6 = d5\<lparr>tm_sec := field_at str 17 2\<rparr> in
      if tm_sec d6 < 0 \<or> tm_sec d6 > 59 then (-1, d6)
      else if str ! 19 \<noteq> CHR ''Z'' then (-1, d6)
      else
      let validate = d6\<lparr>tm_wday := 0, tm_yday := 0, tm_isdst := -1\<rparr> in
      case enclave_mktime validate of
        (result, d7) \<Rightarrow> if \<not> same_fields validate d7 then (-1, d7) else (result, d7))"

definition enclave_isValidTimeString :: "string \<Rightarrow> bool" where
  "enclave_isValidTimeString timeString \<longleftrightarrow> fst (qvlStringToTime timeString tm_zero) \<noteq> -1"

definition enclave_getTimeFromString :: "string \<Rightarrow> tm" where
  "enclave_getTimeFromString date =
     (case qvlStringToTime date tm_zero of
        (result, date_c) \<Rightarrow> if result \<noteq> -1 then date_c else tm_zero)"

definition enclave_getCurrentTime :: "time_t option \<Rightarrow> time_t outcome" where
  "enclave_getCurrentTime in_time =
     (case in_time of
        Some t \<Rightarrow> if t \<noteq> 0 then Inr t else Inl StdRuntimeError
      | None \<Rightarrow> Inl StdRuntimeError)"

section \<open>The functions the library calls\<close>

definition mktime :: "time_platform \<Rightarrow> tm \<Rightarrow> time_t \<times> tm" where
  "mktime pf tmp = (if SGX_TRUSTED pf then enclave_mktime tmp else timegm pf tmp)"

definition getCurrentTime :: "time_platform \<Rightarrow> time_t option \<Rightarrow> time_t outcome" where
  "getCurrentTime pf in_time =
     (if SGX_TRUSTED pf then enclave_getCurrentTime in_time else standard_getCurrentTime pf in_time)"

definition getTimeFromString :: "time_platform \<Rightarrow> string \<Rightarrow> tm" where
  "getTimeFromString pf date =
     (if SGX_TRUSTED pf then enclave_getTimeFromString date else standard_getTimeFromString date)"

definition getEpochTimeFromString :: "time_platform \<Rightarrow> string \<Rightarrow> time_t" where
  "getEpochTimeFromString pf date = fst (mktime pf (getTimeFromString pf date))"

definition isValidTimeString :: "time_platform \<Rightarrow> string \<Rightarrow> bool" where
  "isValidTimeString pf timeString =
     (if SGX_TRUSTED pf then enclave_isValidTimeString timeString
      else standard_isValidTimeString pf timeString)"

section \<open>Reading the fields of a date\<close>

lemma digit_range: "is_digit c \<Longrightarrow> 0 \<le> digit_value c \<and> digit_value c \<le> 9"
proof -
  assume "is_digit c"
  then have "48 \<le> (of_char c :: nat)" "(of_char c :: nat) \<le> 57" by (simp_all add: is_digit_def Let_def)
  moreover have "digit_value c = int (of_char c) - 48" by (simp add: digit_value_def of_nat_of_char)
  ultimately show ?thesis by linarith
qed

lemma char_value_digit: "is_digit c \<Longrightarrow> char_value c - 48 = digit_value c"
  using digit_range [of c] by (simp add: char_value_def digit_value_def Let_def)

lemma qvlStringToNum_2:
  "qvlStringToNum (a # b # r) 2 = word_of_int ((char_value a - 48) * 10 + (char_value b - 48))"
  by (simp add: qvlStringToNum_def upt_rec)

lemma qvlStringToNum_4:
  "qvlStringToNum (a # b # c # d # r) 4 = word_of_int
     ((((char_value a - 48) * 10 + (char_value b - 48)) * 10 + (char_value c - 48)) * 10 + (char_value d - 48))"
  by (simp add: qvlStringToNum_def upt_rec)

lemma sint_small: "0 \<le> n \<Longrightarrow> n < 2 ^ 31 \<Longrightarrow> sint (word_of_int n :: u32) = n"
  by (simp add: signed_of_int signed_take_bit_int_eq_self)

lemma regex_shape:
  "regex_match s timeRegex \<longleftrightarrow>
   (\<exists>a b c d e f g h i j k l m n.
      s = [a, b, c, d, CHR ''-'', e, f, CHR ''-'', g, h, CHR ''T'', i, j, CHR '':'', k, l, CHR '':'', m, n, CHR ''Z''] \<and>
      list_all is_digit [a, b, c, d, e, f, g, h, i, j, k, l, m, n])"
  by (auto simp: regex_match_def timeRegex_def numeral_eq_Suc list_all2_Cons2)

lemma number_2: "number [a, b] = 10 * digit_value a + digit_value b"
  by (simp add: number_def)

lemma number_4: "number [a, b, c, d] = 10 * (10 * (10 * digit_value a + digit_value b) + digit_value c) + digit_value d"
  by (simp add: number_def)

lemma field_2:
  "is_digit a \<Longrightarrow> is_digit b \<Longrightarrow> sint (qvlStringToNum (a # b # r) 2) = number [a, b]"
  using digit_range [of a] digit_range [of b]
  by (simp only: qvlStringToNum_2 char_value_digit) (subst sint_small, auto simp: number_2)

lemma field_4:
  "is_digit a \<Longrightarrow> is_digit b \<Longrightarrow> is_digit c \<Longrightarrow> is_digit d \<Longrightarrow>
   sint (qvlStringToNum (a # b # c # d # r) 4) = number [a, b, c, d]"
  using digit_range [of a] digit_range [of b] digit_range [of c] digit_range [of d]
  by (simp only: qvlStringToNum_4 char_value_digit) (subst sint_small, auto simp: number_4)

text \<open>The broken-down time a well-formed date denotes.\<close>

definition tm_of :: "string \<Rightarrow> tm" where
  "tm_of s = \<lparr>tm_sec = number (slice 17 2 s), tm_min = number (slice 14 2 s), tm_hour = number (slice 11 2 s),
     tm_mday = number (slice 8 2 s), tm_mon = number (slice 5 2 s) - 1, tm_year = number (slice 0 4 s) - 1900,
     tm_wday = 0, tm_yday = 0, tm_isdst = 0\<rparr>"

definition in_ranges :: "int \<Rightarrow> tm \<Rightarrow> bool" where
  "in_ranges max_sec t \<longleftrightarrow> 0 \<le> tm_mon t \<and> tm_mon t \<le> 11 \<and> 1 \<le> tm_mday t \<and> tm_mday t \<le> 31 \<and>
     0 \<le> tm_hour t \<and> tm_hour t \<le> 23 \<and> 0 \<le> tm_min t \<and> tm_min t \<le> 59 \<and> 0 \<le> tm_sec t \<and> tm_sec t \<le> max_sec"

lemma get_field_2:
  "is_digit a \<Longrightarrow> is_digit b \<Longrightarrow> get_field 2 lo hi (a # b # r) =
     (let n = number [a, b] in if n < lo \<or> hi < n then None else Some (n, r))"
  by (simp add: get_field_def Let_def numeral_eq_Suc)

lemma get_field_4:
  "is_digit a \<Longrightarrow> is_digit b \<Longrightarrow> is_digit c \<Longrightarrow> is_digit d \<Longrightarrow> get_field 4 lo hi (a # b # c # d # r) =
     (let n = number [a, b, c, d] in if n < lo \<or> hi < n then None else Some (n, r))"
  by (simp add: get_field_def Let_def numeral_eq_Suc)

lemma number_bounds:
  "is_digit a \<Longrightarrow> is_digit b \<Longrightarrow> 0 \<le> number [a, b] \<and> number [a, b] \<le> 99"
  "is_digit a \<Longrightarrow> is_digit b \<Longrightarrow> is_digit c \<Longrightarrow> is_digit d \<Longrightarrow>
   0 \<le> number [a, b, c, d] \<and> number [a, b, c, d] \<le> 9999"
  using digit_range [of a] digit_range [of b] digit_range [of c] digit_range [of d]
  by (simp_all add: number_2 number_4)

lemma get_time_regex:
  assumes "regex_match s timeRegex"
  shows "snd (get_time time_fields s tm_zero) \<longleftrightarrow> in_ranges 60 (tm_of s)"
    and "in_ranges 60 (tm_of s) \<Longrightarrow> fst (get_time time_fields s tm_zero) = tm_of s"
proof -
  from assms obtain a b c d e f g h i j k l m n where
    s: "s = [a, b, c, d, CHR ''-'', e, f, CHR ''-'', g, h, CHR ''T'', i, j, CHR '':'', k, l, CHR '':'', m, n, CHR ''Z'']"
    and ds: "is_digit a" "is_digit b" "is_digit c" "is_digit d" "is_digit e" "is_digit f" "is_digit g"
      "is_digit h" "is_digit i" "is_digit j" "is_digit k" "is_digit l" "is_digit m" "is_digit n"
    unfolding regex_shape by auto
  note bounds = number_bounds(2) [OF ds(1-4)] number_bounds(1) [OF ds(5,6)] number_bounds(1) [OF ds(7,8)]
    number_bounds(1) [OF ds(9,10)] number_bounds(1) [OF ds(11,12)] number_bounds(1) [OF ds(13,14)]
  have slices: "slice 0 4 s = [a, b, c, d]" "slice 5 2 s = [e, f]" "slice 8 2 s = [g, h]"
    "slice 11 2 s = [i, j]" "slice 14 2 s = [k, l]" "slice 17 2 s = [m, n]"
    by (simp_all add: s slice_def numeral_eq_Suc)
  note run = get_field_2 get_field_4 ds get_literal_def time_fields_def Let_def tm_zero_def
  show "snd (get_time time_fields s tm_zero) \<longleftrightarrow> in_ranges 60 (tm_of s)"
    unfolding s using bounds by (simp add: run tm_of_def in_ranges_def slices [unfolded s])
  show "in_ranges 60 (tm_of s) \<Longrightarrow> fst (get_time time_fields s tm_zero) = tm_of s"
    unfolding s using bounds by (simp add: run tm_of_def in_ranges_def slices [unfolded s])
qed

definition four_digits :: "tm \<Rightarrow> bool" where
  "four_digits t \<longleftrightarrow> \<bar>tm_sec t\<bar> < 10000 \<and> \<bar>tm_min t\<bar> < 10000 \<and> \<bar>tm_hour t\<bar> < 10000 \<and>
     \<bar>tm_mday t\<bar> < 10000 \<and> \<bar>tm_mon t\<bar> < 10000 \<and> \<bar>tm_year t\<bar> < 10000"

lemma tm_of_four_digits:
  assumes "regex_match s timeRegex"
  shows "four_digits (tm_of s)"
proof -
  from assms obtain a b c d e f g h i j k l m n where
    s: "s = [a, b, c, d, CHR ''-'', e, f, CHR ''-'', g, h, CHR ''T'', i, j, CHR '':'', k, l, CHR '':'', m, n, CHR ''Z'']"
    and ds: "is_digit a" "is_digit b" "is_digit c" "is_digit d" "is_digit e" "is_digit f" "is_digit g"
      "is_digit h" "is_digit i" "is_digit j" "is_digit k" "is_digit l" "is_digit m" "is_digit n"
    unfolding regex_shape by auto
  have slices: "slice 0 4 s = [a, b, c, d]" "slice 5 2 s = [e, f]" "slice 8 2 s = [g, h]"
    "slice 11 2 s = [i, j]" "slice 14 2 s = [k, l]" "slice 17 2 s = [m, n]"
    by (simp_all add: s slice_def numeral_eq_Suc)
  note bounds = number_bounds(2) [OF ds(1-4)] number_bounds(1) [OF ds(5,6)] number_bounds(1) [OF ds(7,8)]
    number_bounds(1) [OF ds(9,10)] number_bounds(1) [OF ds(11,12)] number_bounds(1) [OF ds(13,14)]
  show ?thesis using bounds by (auto simp: four_digits_def tm_of_def slices)
qed

lemma qvlStringToTime_regex:
  assumes "regex_match s timeRegex" and "1900 \<le> number (slice 0 4 s)"
  shows "fst (qvlStringToTime s tm_zero) \<noteq> -1 \<longleftrightarrow>
      in_ranges 59 (tm_of s) \<and>
      (case enclave_mktime ((tm_of s)\<lparr>tm_wday := 0, tm_yday := 0, tm_isdst := -1\<rparr>) of
         (r, t) \<Rightarrow> same_fields (tm_of s) t \<and> r \<noteq> -1)" (is "?lhs \<longleftrightarrow> ?rhs")
    and "fst (qvlStringToTime s tm_zero) \<noteq> -1 \<Longrightarrow>
      qvlStringToTime s tm_zero = enclave_mktime ((tm_of s)\<lparr>tm_wday := 0, tm_yday := 0, tm_isdst := -1\<rparr>)"
proof -
  from assms(1) obtain a b c d e f g h i j k l m n where
    s: "s = [a, b, c, d, CHR ''-'', e, f, CHR ''-'', g, h, CHR ''T'', i, j, CHR '':'', k, l, CHR '':'', m, n, CHR ''Z'']"
    and ds: "is_digit a" "is_digit b" "is_digit c" "is_digit d" "is_digit e" "is_digit f" "is_digit g"
      "is_digit h" "is_digit i" "is_digit j" "is_digit k" "is_digit l" "is_digit m" "is_digit n"
    unfolding regex_shape by auto
  have slices: "slice 0 4 s = [a, b, c, d]" "slice 5 2 s = [e, f]" "slice 8 2 s = [g, h]"
    "slice 11 2 s = [i, j]" "slice 14 2 s = [k, l]" "slice 17 2 s = [m, n]"
    by (simp_all add: s slice_def numeral_eq_Suc)
  have fields: "field_at s 0 4 = number [a, b, c, d]" "field_at s 5 2 = number [e, f]"
    "field_at s 8 2 = number [g, h]" "field_at s 11 2 = number [i, j]" "field_at s 14 2 = number [k, l]"
    "field_at s 17 2 = number [m, n]"
    by (simp_all add: field_at_def s field_2 field_4 ds)
  have marks: "length s = 20" "s ! 4 = CHR ''-''" "s ! 7 = CHR ''-''" "s ! 10 = CHR ''T''" "s ! 13 = CHR '':''"
    "s ! 16 = CHR '':''" "s ! 19 = CHR ''Z''" by (simp_all add: s)
  have t: "tm_of s = \<lparr>tm_sec = number [m, n], tm_min = number [k, l], tm_hour = number [i, j],
     tm_mday = number [g, h], tm_mon = number [e, f] - 1, tm_year = number [a, b, c, d] - 1900,
     tm_wday = 0, tm_yday = 0, tm_isdst = 0\<rparr>"
    by (simp add: tm_of_def slices)
  have year: "1900 \<le> number [a, b, c, d]" using assms(2) by (simp add: slices)
  have "qvlStringToTime s tm_zero = (if in_ranges 59 (tm_of s) then
      case enclave_mktime ((tm_of s)\<lparr>tm_wday := 0, tm_yday := 0, tm_isdst := -1\<rparr>) of
        (r, u) \<Rightarrow> if \<not> same_fields (tm_of s) u then (-1, u) else (r, u)
      else (-1, snd (qvlStringToTime s tm_zero)))"
    using year by (simp add: qvlStringToTime_def Let_def fields marks t in_ranges_def tm_zero_def
        same_fields_def split: prod.split)
  moreover from this have "fst (qvlStringToTime s tm_zero) = -1" if "\<not> in_ranges 59 (tm_of s)"
    using that by (metis fst_conv)
  ultimately show "?lhs \<longleftrightarrow> ?rhs"
    "?lhs \<Longrightarrow> qvlStringToTime s tm_zero = enclave_mktime ((tm_of s)\<lparr>tm_wday := 0, tm_yday := 0, tm_isdst := -1\<rparr>)"
    by (auto split: if_splits prod.splits)
qed

section \<open>The calendar behind both\<close>

lemma same_fields_civil: "same_fields a b \<Longrightarrow> civil a = civil b"
  by (simp add: same_fields_def civil_def)

lemma same_fields_moment: "same_fields a b \<Longrightarrow> moment a = moment b" "same_fields a b \<Longrightarrow> moderate a = moderate b"
  by (simp_all add: same_fields_def moment_def moderate_def)

lemma civil_same_fields:
  assumes "civil w" and "epoch w = moment u"
  shows "same_fields u w \<longleftrightarrow> civil u"
proof
  assume "civil u"
  then have "tmcomp u w = 0" using tmcomp_order(3) [of u w] assms moment_civil [of u] by simp
  then show "same_fields u w" by (simp add: tmcomp_zero)
qed (use assms(1) same_fields_civil in blast)

lemma enclave_mktime_date:
  assumes "moderate u"
  shows "fst (enclave_mktime u) = moment u" and "same_fields u (snd (enclave_mktime u)) \<longleftrightarrow> civil u"
proof -
  obtain w where w: "sgxssl_mktime (Some u) = Some (moment u, Some w)" "calendar_of (moment u) w"
    by (rule sgxssl_mktime_moment [OF assms])
  then show "fst (enclave_mktime u) = moment u" by (simp add: enclave_mktime_def)
  have c: "civil w" "epoch w = moment u" using w(2) by (simp_all add: calendar_of_def)
  with w(1) civil_same_fields [OF c] show "same_fields u (snd (enclave_mktime u)) \<longleftrightarrow> civil u"
    by (simp add: enclave_mktime_def)
qed

lemma civil_in_ranges:
  assumes "civil u"
  shows "in_ranges 59 u"
proof -
  from assms have "mon_length (tm_year u + 1900) (tm_mon u) \<le> 31"
    by (simp add: civil_def mon_length_def mon_lengths_bounds(2))
  with assms show ?thesis by (simp add: civil_def in_ranges_def)
qed

lemma four_digits_moderate: "four_digits u \<Longrightarrow> moderate u"
  by (simp add: four_digits_def moderate_def)

lemma moment_bound:
  assumes "moderate u"
  shows "\<bar>moment u\<bar> \<le> 70000000000000"
proof -
  obtain n where n: "civil (n\<lparr>tm_sec := 0\<rparr>)" "epoch n = moment u" "tm_sec n = tm_sec u" "\<bar>tm_year n\<bar> \<le> 1600000"
    by (rule normalise_date_spec [OF assms])
  have "\<bar>epoch (n\<lparr>tm_sec := 0\<rparr>)\<bar> \<le> 60000000000000" using civil_epoch_bound n(1,4) by simp
  moreover have "epoch n = epoch (n\<lparr>tm_sec := 0\<rparr>) + tm_sec n" by (simp add: epoch_def)
  moreover have "\<bar>tm_sec n\<bar> \<le> 500000" using assms n(3) by (simp add: moderate_def)
  ultimately show ?thesis using n(2) by linarith
qed

text \<open>
  The years the enclave reads are less than half a million, whatever the four characters are, so its
  \<^verbatim>\<open>mktime\<close> comes back on every time it is given.
\<close>

lemma char_value_range: "-128 \<le> char_value c" "char_value c \<le> 127"
proof -
  have "(of_char c :: nat) < 256" by (rule nat_of_char_less_256)
  moreover have "(of_char c :: int) = int (of_char c)" by (simp add: of_nat_of_char)
  ultimately have "(of_char c :: int) < 256" "0 \<le> (of_char c :: int)" by linarith+
  then show "-128 \<le> char_value c" "char_value c \<le> 127" by (simp_all add: char_value_def Let_def)
qed

lemma field_at_year: "\<bar>field_at str 0 4\<bar> \<le> 195536"
proof -
  define n where "n = (((char_value (str ! 0) - 48) * 10 + (char_value (str ! 1) - 48)) * 10 +
       (char_value (str ! 2) - 48)) * 10 + (char_value (str ! 3) - 48)"
  have "qvlStringToNum str 4 = word_of_int n"
    by (simp add: n_def qvlStringToNum_def upt_rec numeral_2_eq_2 numeral_3_eq_3)
  moreover have n: "\<bar>n\<bar> \<le> 195536"
    using char_value_range [of "str ! 0"] char_value_range [of "str ! 1"] char_value_range [of "str ! 2"]
      char_value_range [of "str ! 3"]
    by (auto simp: n_def abs_le_iff)
  then have "sint (word_of_int n :: u32) = n"
    by (simp add: signed_of_int signed_take_bit_int_eq_self_iff abs_le_iff)
  ultimately show ?thesis using n by (simp add: field_at_def)
qed

lemma mktime_returns:
  assumes "in_ranges 59 v" and "tm_year v = field_at str 0 4 - 1900"
  shows "\<exists>w. sgxssl_mktime (Some v) = Some (moment v, Some w)"
proof -
  have "moderate v" using assms field_at_year [of str] by (auto simp: moderate_def in_ranges_def)
  from sgxssl_mktime_moment [OF this] show ?thesis by metis
qed

section \<open>The dates the enclave takes\<close>

lemma enclave_dates_hold:
  assumes "regex_match s timeRegex" and "1900 \<le> number (slice 0 4 s)"
  shows "enclave_isValidTimeString s \<longleftrightarrow> civil (tm_of s) \<and> epoch (tm_of s) \<noteq> -1"
    and "enclave_isValidTimeString s \<Longrightarrow> fst (enclave_mktime (enclave_getTimeFromString s)) = epoch (tm_of s)"
proof -
  let ?u = "(tm_of s)\<lparr>tm_wday := 0, tm_yday := 0, tm_isdst := -1\<rparr>"
  note q = qvlStringToTime_regex [OF assms]
  have m: "moderate (tm_of s)" by (rule four_digits_moderate [OF tm_of_four_digits [OF assms(1)]])
  have same: "same_fields (tm_of s) ?u" by simp
  with m have mu: "moderate ?u" "moment ?u = moment (tm_of s)" "civil ?u = civil (tm_of s)"
    using same_fields_moment same_fields_civil by metis+
  obtain r w where mk: "enclave_mktime ?u = (r, w)" by fastforce
  with enclave_mktime_date [OF mu(1)] mu(2,3) have r: "r = moment (tm_of s)"
    and w: "same_fields (tm_of s) w \<longleftrightarrow> civil (tm_of s)" by simp_all
  show valid: "enclave_isValidTimeString s \<longleftrightarrow> civil (tm_of s) \<and> epoch (tm_of s) \<noteq> -1"
    using q(1) w r moment_civil [of "tm_of s"] civil_in_ranges [of "tm_of s"]
    by (auto simp: enclave_isValidTimeString_def mk)
  assume v: "enclave_isValidTimeString s"
  then have ne: "fst (qvlStringToTime s tm_zero) \<noteq> -1" by (simp add: enclave_isValidTimeString_def)
  from q(2) [OF ne] mk have run: "qvlStringToTime s tm_zero = (r, w)" by simp
  have c: "civil (tm_of s)" using v valid by blast
  with w have "same_fields (tm_of s) w" by blast
  with m have "moderate w" "moment w = moment (tm_of s)" using same_fields_moment by metis+
  with run ne moment_civil [OF c] show "fst (enclave_mktime (enclave_getTimeFromString s)) = epoch (tm_of s)"
    by (simp add: enclave_getTimeFromString_def enclave_mktime_date(1))
qed

text \<open>
  C29: in the enclave, with its own calendar and nothing assumed of a C library, a string of the
  documented form from 1900 on is a valid time exactly when its date exists (there is no 30th of
  February, and a 29th only in leap years) and it is not the second before 1970, whose number is the
  error code; and then the epoch time read from it is the number of seconds since 1970 of that date.
\<close>

theorem enclave_dates:
  assumes "SGX_TRUSTED pf" and "regex_match s timeRegex" and "1900 \<le> number (slice 0 4 s)"
  shows "(isValidTimeString pf s \<longleftrightarrow> civil (tm_of s) \<and> epoch (tm_of s) \<noteq> -1) \<and>
    (isValidTimeString pf s \<longrightarrow> getEpochTimeFromString pf s = epoch (tm_of s))"
  using enclave_dates_hold [OF assms(2,3)] assms(1)
  by (simp add: isValidTimeString_def getEpochTimeFromString_def getTimeFromString_def mktime_def)

lemma enclave_dates_witness:
  "\<exists>pf. SGX_TRUSTED pf \<and> isValidTimeString pf ''2024-02-29T12:30:00Z'' \<and>
   getEpochTimeFromString pf ''2024-02-29T12:30:00Z'' = 1709209800 \<and>
   \<not> isValidTimeString pf ''2023-02-29T12:30:00Z''"
proof -
  let ?pf = "\<lparr>SGX_TRUSTED = True, timegm = enclave_mktime, system_clock_now = 0\<rparr>"
  have re: "regex_match ''2024-02-29T12:30:00Z'' timeRegex" "1900 \<le> number (slice 0 4 ''2024-02-29T12:30:00Z'')"
    "regex_match ''2023-02-29T12:30:00Z'' timeRegex" "1900 \<le> number (slice 0 4 ''2023-02-29T12:30:00Z'')"
    by code_simp+
  have date: "civil (tm_of ''2024-02-29T12:30:00Z'')" "epoch (tm_of ''2024-02-29T12:30:00Z'') = 1709209800"
    "\<not> civil (tm_of ''2023-02-29T12:30:00Z'')"
    by code_simp+
  have "SGX_TRUSTED ?pf" by simp
  with date enclave_dates [OF this re(1,2)] enclave_dates [OF this re(3,4)] show ?thesis
    by (intro exI [of _ ?pf]) simp
qed

section \<open>The two implementations on well-formed dates\<close>

text \<open>
  What \<^verbatim>\<open>timegm\<close> of the C library promises, in terms of the proleptic Gregorian
  calendar: on fields of at most four digits, in range or not, it returns the seconds since 1970 that
  they stand for and overwrites its argument with the date of that second.  Of
  \<^verbatim>\<open>sgxssl_mktime\<close> nothing is assumed: it is the function of MkTime.
\<close>

definition posix_timegm :: "(tm \<Rightarrow> time_t \<times> tm) \<Rightarrow> bool" where
  "posix_timegm f \<longleftrightarrow>
     (\<forall>t. four_digits t \<longrightarrow> fst (f t) = moment t \<and> civil (snd (f t)) \<and> epoch (snd (f t)) = moment t)"

lemma standard_dates:
  assumes "posix_timegm (timegm pf)" and "regex_match s timeRegex"
  shows "standard_isValidTimeString pf s \<longleftrightarrow> civil (tm_of s)"
    and "civil (tm_of s) \<Longrightarrow> fst (timegm pf (standard_getTimeFromString s)) = epoch (tm_of s)"
proof -
  let ?t = "tm_of s"
  have small: "four_digits ?t" by (rule tm_of_four_digits [OF assms(2)])
  obtain r u where mk: "timegm pf ?t = (r, u)" by force
  with assms(1) small have r: "r = moment ?t" and u: "civil u" "epoch u = moment ?t"
    unfolding posix_timegm_def by (metis fst_conv snd_conv)+
  note same = civil_same_fields [OF u]
  define g where "g = fst (get_time time_fields s tm_zero)"
  have g: "get_time time_fields s tm_zero = (g, in_ranges 60 ?t)" "in_ranges 60 ?t \<Longrightarrow> g = ?t"
    using get_time_regex [OF assms(2)] by (simp_all add: g_def prod_eq_iff)
  have wide: "civil ?t \<Longrightarrow> in_ranges 60 ?t" using civil_in_ranges [of ?t] by (auto simp: in_ranges_def)
  show "standard_isValidTimeString pf s \<longleftrightarrow> civil ?t"
  proof (cases "in_ranges 60 ?t")
    case True
    with g(2) have "g = ?t" by simp
    with True mk g(1) same show ?thesis by (simp add: standard_isValidTimeString_def assms(2))
  next
    case False
    with g(1) wide show ?thesis
      by (auto simp: standard_isValidTimeString_def assms(2) split: prod.split)
  qed
  show "civil ?t \<Longrightarrow> fst (timegm pf (standard_getTimeFromString s)) = epoch ?t"
    using wide g mk r moment_civil [of ?t] by (simp add: standard_getTimeFromString_def)
qed

text \<open>
  C28: on a date of the documented form from 1900 on, the standard build, whose
  \<^verbatim>\<open>timegm\<close> is the one the C library documents, and the enclave build, with the string
  reader of \<^verbatim>\<open>TimeUtils.cpp\<close> and the hand-written \<^verbatim>\<open>sgxssl_mktime\<close> of
  \<^verbatim>\<open>GMTime.cpp\<close>, agree: the enclave's accepts it exactly when the other does (but
  for the second before the epoch, whose value is the error code), and then both give the same epoch
  time.
\<close>

theorem time_implementations_agree:
  assumes "posix_timegm (timegm pf)" and "regex_match s timeRegex" and "1900 \<le> number (slice 0 4 s)"
  shows "(isValidTimeString (pf\<lparr>SGX_TRUSTED := True\<rparr>) s \<longleftrightarrow>
      isValidTimeString (pf\<lparr>SGX_TRUSTED := False\<rparr>) s \<and>
      getEpochTimeFromString (pf\<lparr>SGX_TRUSTED := False\<rparr>) s \<noteq> -1) \<and>
    (isValidTimeString (pf\<lparr>SGX_TRUSTED := True\<rparr>) s \<longrightarrow>
      getEpochTimeFromString (pf\<lparr>SGX_TRUSTED := True\<rparr>) s =
      getEpochTimeFromString (pf\<lparr>SGX_TRUSTED := False\<rparr>) s)"
proof -
  have pm: "posix_timegm (timegm (pf\<lparr>SGX_TRUSTED := False\<rparr>))" using assms(1) by simp
  show ?thesis
    using enclave_dates_hold [OF assms(2,3)] standard_dates [OF pm assms(2)]
    by (auto simp: isValidTimeString_def getEpochTimeFromString_def getTimeFromString_def mktime_def)
qed

text \<open>
  A \<^verbatim>\<open>timegm\<close> that keeps the promise: the seconds the fields stand for, and their
  date by \<^verbatim>\<open>timesub\<close>, without the search of \<^verbatim>\<open>sgxssl_mktime\<close>.
\<close>

definition calendar_timegm :: "tm \<Rightarrow> time_t \<times> tm" where
  "calendar_timegm t = (moment t, snd (timesub (moment t) 0 tm_zero))"

lemma calendar_timegm_posix: "posix_timegm calendar_timegm"
proof -
  have "civil (snd (calendar_timegm t)) \<and> epoch (snd (calendar_timegm t)) = moment t" if "four_digits t" for t
  proof -
    have "\<bar>moment t\<bar> \<le> 70000000000000" by (rule moment_bound [OF four_digits_moderate [OF that]])
    then obtain u where "timesub (moment t) 0 tm_zero = (True, u)" "calendar_of (moment t) u"
      by (rule timesub_calendar)
    then show ?thesis by (simp add: calendar_timegm_def calendar_of_def)
  qed
  then show ?thesis by (simp add: posix_timegm_def calendar_timegm_def)
qed

lemma time_implementations_agree_witness:
  "\<exists>pf. posix_timegm (timegm pf) \<and>
   isValidTimeString (pf\<lparr>SGX_TRUSTED := True\<rparr>) ''2024-02-29T12:30:00Z'' \<and>
   isValidTimeString (pf\<lparr>SGX_TRUSTED := False\<rparr>) ''2024-02-29T12:30:00Z'' \<and>
   getEpochTimeFromString (pf\<lparr>SGX_TRUSTED := False\<rparr>) ''2024-02-29T12:30:00Z'' = 1709209800"
proof -
  let ?s = "''2024-02-29T12:30:00Z''"
  let ?pf = "\<lparr>SGX_TRUSTED = True, timegm = calendar_timegm, system_clock_now = 0\<rparr>"
  have re: "regex_match ?s timeRegex" "1900 \<le> number (slice 0 4 ?s)" by code_simp+
  have date: "civil (tm_of ?s)" "epoch (tm_of ?s) = 1709209800" by code_simp+
  have pm: "posix_timegm (timegm ?pf)" by (simp add: calendar_timegm_posix)
  have valid: "isValidTimeString (?pf\<lparr>SGX_TRUSTED := True\<rparr>) ?s"
    "getEpochTimeFromString (?pf\<lparr>SGX_TRUSTED := True\<rparr>) ?s = 1709209800"
    using enclave_dates_hold [OF re] date
    by (simp_all add: isValidTimeString_def getEpochTimeFromString_def getTimeFromString_def mktime_def)
  show ?thesis
    using time_implementations_agree [OF pm re] valid pm by (intro exI [of _ ?pf]) simp
qed

text \<open>
  The implementation of the enclave takes more than the documented form: it does not check that the
  characters are digits, nor that the date ends after the \<^verbatim>\<open>'Z'\<close>.
\<close>

definition malformed_date :: string where
  "malformed_date = ''2019-05-1/T00:00:00Z trailing''"

definition may_9_2019 :: tm where
  "may_9_2019 = tm_zero\<lparr>tm_year := 119, tm_mon := 4, tm_mday := 9, tm_isdst := -1\<rparr>"

lemma enclave_takes_malformed:
  "isValidTimeString (pf\<lparr>SGX_TRUSTED := True\<rparr>) malformed_date \<and>
    \<not> isValidTimeString (pf\<lparr>SGX_TRUSTED := False\<rparr>) malformed_date"
proof -
  have fields: "field_at malformed_date 0 4 = 2019" "field_at malformed_date 5 2 = 5"
    "field_at malformed_date 8 2 = 9" "field_at malformed_date 11 2 = 0" "field_at malformed_date 14 2 = 0"
    "field_at malformed_date 17 2 = 0"
    by code_simp+
  have marks: "\<not> length malformed_date < 20" "malformed_date ! 4 = CHR ''-''" "malformed_date ! 7 = CHR ''-''"
    "malformed_date ! 10 = CHR ''T''" "malformed_date ! 13 = CHR '':''" "malformed_date ! 16 = CHR '':''"
    "malformed_date ! 19 = CHR ''Z''"
    by code_simp+
  have date: "moderate may_9_2019" "civil may_9_2019" "moment may_9_2019 \<noteq> -1" by code_simp+
  obtain r u where mk: "enclave_mktime may_9_2019 = (r, u)" by fastforce
  with enclave_mktime_date [OF date(1)] date(2,3) have ru: "r \<noteq> -1" "same_fields may_9_2019 u" by simp_all
  have "\<not> regex_match malformed_date timeRegex" by code_simp
  then show ?thesis
    using mk ru by (simp add: isValidTimeString_def enclave_isValidTimeString_def qvlStringToTime_def Let_def
        fields marks may_9_2019_def tm_zero_def same_fields_def standard_isValidTimeString_def)
qed

section \<open>Sample\<close>

text \<open>A calendar with months of 31 days; normalising only says that a time is out of range.\<close>

definition sample_mktime :: "tm \<Rightarrow> time_t \<times> tm" where
  "sample_mktime t =
     (if in_ranges 59 t then
        ((((((tm_year t - 70) * 12 + tm_mon t) * 31 + tm_mday t - 1) * 24 + tm_hour t) * 60 + tm_min t) * 60 +
           tm_sec t, t\<lparr>tm_wday := 0, tm_yday := 0, tm_isdst := 0\<rparr>)
      else (0, tm_zero))"

definition sample_time :: time_platform where
  "sample_time = \<lparr>SGX_TRUSTED = False, timegm = sample_mktime, system_clock_now = 1000\<rparr>"

end
