(* ===== verification/JsonModel.thy ===== *)
theory JsonModel
  imports TimeUtils ByteOperands
begin

text \<open>
  \<^verbatim>\<open>AttestationParsers/src/Json/JsonParser.cpp\<close>: reading typed fields out of a JSON
  document, and the iterative check of its depth.  The reader and the writer of documents are
  rapidjson's and are fields of \<open>json_library\<close>; a document is a value of \<open>json\<close>.  Numbers that
  are written as integers are \<open>JInt\<close>; \<^verbatim>\<open>IsUint\<close> and \<^verbatim>\<open>IsInt\<close> test the range
  of 32 bits.  A member is looked up by its first occurrence.
\<close>

section \<open>Documents\<close>

datatype json =
    JNull
  | JBool bool
  | JInt int
  | JDouble "64 word"
  | JString string
  | JArray "json list"
  | JObject "(string \<times> json) list"

record json_library =
  json_Parse :: "string \<Rightarrow> json option"
  json_Accept :: "nat option \<Rightarrow> json \<Rightarrow> bytes"
  json_time :: time_platform

fun IsObject :: "json \<Rightarrow> bool" where
  "IsObject (JObject _) = True"
| "IsObject _ = False"

fun IsArray :: "json \<Rightarrow> bool" where
  "IsArray (JArray _) = True"
| "IsArray _ = False"

fun elements :: "json \<Rightarrow> json list" where
  "elements (JArray xs) = xs"
| "elements _ = []"

definition member :: "json \<Rightarrow> string \<Rightarrow> json option" where
  "member v fieldName = (case v of JObject ms \<Rightarrow> map_of ms fieldName | _ \<Rightarrow> None)"

section \<open>The depth limit\<close>

fun json_nodes :: "json \<Rightarrow> nat" where
  "json_nodes (JArray xs) = Suc (sum_list (map json_nodes xs))"
| "json_nodes (JObject ms) = Suc (sum_list (map (\<lambda>m. json_nodes (snd m)) ms))"
| "json_nodes _ = 1"

text \<open>The stack of the loop, its back first.\<close>

function depth_loop :: "nat \<Rightarrow> (json \<times> nat) list \<Rightarrow> bool" where
  "depth_loop maxDepth [] = True"
| "depth_loop maxDepth ((node, depth) # stack) =
     (case node of
        JObject ms \<Rightarrow>
          if ms \<noteq> [] \<and> depth \<ge> maxDepth then False
          else depth_loop maxDepth (rev (map (\<lambda>m. (snd m, depth + 1)) ms) @ stack)
      | JArray xs \<Rightarrow>
          if xs \<noteq> [] \<and> depth \<ge> maxDepth then False
          else depth_loop maxDepth (rev (map (\<lambda>x. (x, depth + 1)) xs) @ stack)
      | _ \<Rightarrow> depth_loop maxDepth stack)"
  by pat_completeness auto
termination
  by (relation "measure (\<lambda>(_, stack). sum_list (map (\<lambda>e. json_nodes (fst e)) stack))")
    (simp_all add: comp_def flip: rev_map)

definition isWithinJsonDepthLimit :: "json \<Rightarrow> nat \<Rightarrow> bool" where
  "isWithinJsonDepthLimit v maxDepth = depth_loop maxDepth [(v, 1)]"

section \<open>JsonParser\<close>

datatype parse_status = PS_OK | PS_Missing | PS_Invalid

text \<open>The document \<^verbatim>\<open>JsonParser::parse\<close> leaves when it returns true.\<close>

definition JsonParser_parse :: "json_library \<Rightarrow> string \<Rightarrow> json option" where
  "JsonParser_parse lib json =
     (if json = [] then None
      else case json_Parse lib (c_str json) of
        None \<Rightarrow> None
      | Some document \<Rightarrow> if IsObject document then Some document else None)"

definition getField :: "json \<Rightarrow> string \<Rightarrow> json option" where
  "getField document fieldName = member document fieldName"

text \<open>
  The common shape of the getters: the value they return with \<open>PS_Missing\<close> and
  \<open>PS_Invalid\<close> is the default of its type.
\<close>

definition getFieldOf :: "'a \<Rightarrow> (json \<Rightarrow> 'a option) \<Rightarrow> json \<Rightarrow> string \<Rightarrow> ('a \<times> parse_status) outcome" where
  "getFieldOf initial convert parent fieldName =
     (if \<not> IsObject parent then Inl FormatException
      else case member parent fieldName of
        None \<Rightarrow> Inr (initial, PS_Missing)
      | Some property_v \<Rightarrow>
          (case convert property_v of
             None \<Rightarrow> Inr (initial, PS_Invalid)
           | Some a \<Rightarrow> Inr (a, PS_OK)))"

definition json_string :: "json \<Rightarrow> string option" where
  "json_string v = (case v of JString s \<Rightarrow> Some (c_str s) | _ \<Rightarrow> None)"

definition getStringFieldOf :: "json \<Rightarrow> string \<Rightarrow> (string \<times> parse_status) outcome" where
  "getStringFieldOf = getFieldOf [] json_string"

text \<open>With \<open>PS_Invalid\<close> the strings read so far are returned; no caller looks at them.\<close>

fun string_elements :: "json list \<Rightarrow> string list \<times> parse_status" where
  "string_elements [] = ([], PS_OK)"
| "string_elements (v # vs) =
     (case json_string v of
        None \<Rightarrow> ([], PS_Invalid)
      | Some s \<Rightarrow> (case string_elements vs of (ss, st) \<Rightarrow> (s # ss, st)))"

definition getStringVecFieldOf :: "json \<Rightarrow> string \<Rightarrow> (string list \<times> parse_status) outcome" where
  "getStringVecFieldOf parent fieldName =
     (if \<not> IsObject parent then Inl FormatException
      else case member parent fieldName of
        None \<Rightarrow> Inr ([], PS_Missing)
      | Some (JArray vs) \<Rightarrow> Inr (string_elements vs)
      | Some _ \<Rightarrow> Inr ([], PS_Invalid))"

definition isValidHexstring :: "string \<Rightarrow> bool" where
  "isValidHexstring hexString \<longleftrightarrow> List.find (\<lambda>c. \<not> isxdigit c) hexString = None"

definition json_bytes :: "nat \<Rightarrow> json \<Rightarrow> bytes option" where
  "json_bytes len v =
     (case v of
        JString s \<Rightarrow>
          let propertyStr = c_str s in
          if length propertyStr = len \<and> isValidHexstring propertyStr
          then Some (hexStringToBytes propertyStr) else None
      | _ \<Rightarrow> None)"

definition getBytesFieldOf :: "json \<Rightarrow> string \<Rightarrow> nat \<Rightarrow> (bytes \<times> parse_status) outcome" where
  "getBytesFieldOf parent fieldName len = getFieldOf [] (json_bytes len) parent fieldName"

definition json_date :: "time_platform \<Rightarrow> json \<Rightarrow> time_t option" where
  "json_date pf v =
     (case v of
        JString s \<Rightarrow>
          if \<not> isValidTimeString pf (c_str s) then None
          else Some (getEpochTimeFromString pf (c_str s))
      | _ \<Rightarrow> None)"

definition getDateFieldOf :: "json_library \<Rightarrow> json \<Rightarrow> string \<Rightarrow> (time_t \<times> parse_status) outcome" where
  "getDateFieldOf lib = getFieldOf 0 (json_date (json_time lib))"

definition json_uint :: "json \<Rightarrow> u32 option" where
  "json_uint v =
     (case v of JInt i \<Rightarrow> if 0 \<le> i \<and> i < 2 ^ 32 then Some (word_of_int i) else None | _ \<Rightarrow> None)"

definition getUintFieldOf :: "json \<Rightarrow> string \<Rightarrow> (u32 \<times> parse_status) outcome" where
  "getUintFieldOf = getFieldOf 0 json_uint"

definition json_int :: "json \<Rightarrow> int option" where
  "json_int v =
     (case v of JInt i \<Rightarrow> if - (2 ^ 31) \<le> i \<and> i < 2 ^ 31 then Some i else None | _ \<Rightarrow> None)"

definition getIntFieldOf :: "json \<Rightarrow> string \<Rightarrow> (int \<times> parse_status) outcome" where
  "getIntFieldOf = getFieldOf 0 json_int"

section \<open>Depth\<close>

text \<open>The depth of a document: leaves and empty containers have depth one.\<close>

fun json_depth :: "json \<Rightarrow> nat" where
  "json_depth (JArray xs) = Suc (Max (insert 0 (set (map json_depth xs))))"
| "json_depth (JObject ms) = Suc (Max (insert 0 (set (map (\<lambda>m. json_depth (snd m)) ms))))"
| "json_depth _ = 1"

lemma json_depth_pos: "1 \<le> json_depth v"
  by (cases v) simp_all

lemma Suc_Max_le:
  assumes "d < m"
  shows "Suc (Max (insert 0 (set ns))) + d \<le> m \<longleftrightarrow> (\<forall>n\<in>set ns. n + Suc d \<le> m)"
proof -
  have "Suc (Max (insert 0 (set ns))) + d \<le> m \<longleftrightarrow> Max (insert 0 (set ns)) \<le> m - Suc d"
    using assms by linarith
  also have "\<dots> \<longleftrightarrow> (\<forall>n\<in>set ns. n \<le> m - Suc d)"
    by (subst Max_le_iff) simp_all
  also have "\<dots> \<longleftrightarrow> (\<forall>n\<in>set ns. n + Suc d \<le> m)"
    using assms by (intro ball_cong) auto
  finally show ?thesis .
qed

lemma Suc_Max_gt:
  assumes "ns \<noteq> []" "\<forall>n\<in>set ns. 1 \<le> n" "m \<le> d"
  shows "\<not> Suc (Max (insert 0 (set ns))) + d \<le> Suc m"
proof -
  obtain n where "n \<in> set ns" using assms(1) by (cases ns) auto
  then have "n \<le> Max (insert 0 (set ns))" by simp
  moreover have "1 \<le> n" using assms(2) \<open>n \<in> set ns\<close> by blast
  ultimately show ?thesis using assms(3) by linarith
qed

abbreviation within :: "nat \<Rightarrow> (json \<times> nat) list \<Rightarrow> bool" where
  "within m stack \<equiv> \<forall>e\<in>set stack. json_depth (fst e) + snd e \<le> Suc m"

lemma depth_loop_iff:
  "\<forall>e\<in>set stack. snd e \<le> m \<Longrightarrow> depth_loop m stack \<longleftrightarrow> within m stack"
proof (induction m stack rule: depth_loop.induct)
  case (1 m)
  then show ?case by simp
next
  case (2 m node d stack)
  have bounds: "d \<le> m" and below: "\<forall>e\<in>set stack. snd e \<le> m"
    using "2.prems" by simp_all
  show ?case
  proof (cases node)
    case (JArray xs)
    show ?thesis
    proof (cases "xs \<noteq> [] \<and> m \<le> d")
      case True
      then have "\<not> json_depth node + d \<le> Suc m"
        using JArray Suc_Max_gt[of "map json_depth xs" m d] json_depth_pos by simp
      then show ?thesis using JArray True by simp
    next
      case False
      let ?pushed = "rev (map (\<lambda>x. (x, d + 1)) xs) @ stack"
      have "xs = [] \<or> d < m" using False by auto
      then have pushed: "within m ?pushed \<longleftrightarrow>
          json_depth node + d \<le> Suc m \<and> within m stack"
        using JArray bounds below Suc_Max_le[of d "Suc m" "map json_depth xs"] by (auto simp: ball_Un)
      have "depth_loop m ?pushed \<longleftrightarrow> within m ?pushed"
        by (rule "2.IH"(6)[OF JArray False]) (use False bounds below in auto)
      moreover have "depth_loop m ((node, d) # stack) = depth_loop m ?pushed"
        by (simp only: JArray depth_loop.simps json.case if_not_P[OF False])
      ultimately show ?thesis using pushed by (simp del: depth_loop.simps json_depth.simps)
    qed
  next
    case (JObject ms)
    show ?thesis
    proof (cases "ms \<noteq> [] \<and> m \<le> d")
      case True
      then have "\<not> json_depth node + d \<le> Suc m"
        using JObject Suc_Max_gt[of "map (\<lambda>e. json_depth (snd e)) ms" m d] json_depth_pos by simp
      then show ?thesis using JObject True by simp
    next
      case False
      let ?pushed = "rev (map (\<lambda>e. (snd e, d + 1)) ms) @ stack"
      have "ms = [] \<or> d < m" using False by auto
      then have pushed: "within m ?pushed \<longleftrightarrow>
          json_depth node + d \<le> Suc m \<and> within m stack"
        using JObject bounds below Suc_Max_le[of d "Suc m" "map (\<lambda>e. json_depth (snd e)) ms"]
        by (auto simp: ball_Un)
      have "depth_loop m ?pushed \<longleftrightarrow> within m ?pushed"
        by (rule "2.IH"(7)[OF JObject False]) (use False bounds below in auto)
      moreover have "depth_loop m ((node, d) # stack) = depth_loop m ?pushed"
        by (simp only: JObject depth_loop.simps json.case if_not_P[OF False])
      ultimately show ?thesis using pushed by (simp del: depth_loop.simps json_depth.simps)
    qed
  qed (use 2 bounds below in auto)
qed

lemma depth_limit_iff: "1 \<le> d \<Longrightarrow> isWithinJsonDepthLimit v d \<longleftrightarrow> json_depth v \<le> d"
  unfolding isWithinJsonDepthLimit_def by (subst depth_loop_iff) auto

text \<open>C31: the iterative check of a document's depth ends on every document, and with a limit of at
  least one accepts exactly the documents whose nesting, counted recursively, is within it.\<close>

theorem depth_limit_decides:
  assumes "1 \<le> d"
  shows "isWithinJsonDepthLimit v d \<longleftrightarrow> json_depth v \<le> d"
  using assms by (rule depth_limit_iff)

theorem depth_limit_decides_witness:
  "isWithinJsonDepthLimit (JObject [(''a'', JArray [JInt 1])]) 3 \<longleftrightarrow>
   json_depth (JObject [(''a'', JArray [JInt 1])]) \<le> 3"
  by (rule depth_limit_decides) simp

end
