(* ===== verification/CollateralParsers.thy ===== *)
theory CollateralParsers
  imports JsonModel EvaluateTcb PckExtensions "HOL-Library.Multiset"
begin

text \<open>
  \<^verbatim>\<open>AttestationParsers/src/Json\<close>: the constructors that read the TCB info and the
  enclave identity out of their JSON documents.  Every exception of the constructors is a branch,
  in the order of the code.  The theorems show that what the constructors accept has the sizes,
  statuses and orders on which the evaluation relies, so that the well-formedness the evaluation
  theorems assume holds of every parsed document.
\<close>

section \<open>Steps the constructors share\<close>

text \<open>The \<^verbatim>\<open>switch\<close> on the status of a field that is required, and of one that is not.\<close>

definition required :: "exn \<Rightarrow> exn \<Rightarrow> ('a \<times> parse_status) outcome \<Rightarrow> 'a outcome" where
  "required missing invalid field =
     bindE field (\<lambda>(value, status).
       case status of PS_Missing \<Rightarrow> Inl missing | PS_Invalid \<Rightarrow> Inl invalid | PS_OK \<Rightarrow> Inr value)"

definition optional :: "exn \<Rightarrow> ('a \<times> parse_status) outcome \<Rightarrow> 'a outcome" where
  "optional invalid field =
     bindE field (\<lambda>(value, status). case status of PS_Invalid \<Rightarrow> Inl invalid | _ \<Rightarrow> Inr value)"

fun read_all :: "(json \<Rightarrow> 'a outcome) \<Rightarrow> json list \<Rightarrow> 'a list outcome" where
  "read_all read [] = Inr []"
| "read_all read (v # vs) = bindE (read v) (\<lambda>x. bindE (read_all read vs) (\<lambda>xs. Inr (x # xs)))"

fun emplace_all ::
  "('a \<Rightarrow> 'a \<Rightarrow> bool) \<Rightarrow> exn \<Rightarrow> (json \<Rightarrow> 'a outcome) \<Rightarrow> json list \<Rightarrow> 'a list \<Rightarrow> 'a list outcome" where
  "emplace_all before duplicate read [] s = Inr s"
| "emplace_all before duplicate read (v # vs) s =
     bindE (read v) (\<lambda>x.
       case set_emplace before x s of
         (s', inserted) \<Rightarrow>
           if \<not> inserted then Inl duplicate else emplace_all before duplicate read vs s')"

section \<open>TcbComponent, TdxModule and TdxModuleIdentity\<close>

definition TcbComponent :: "json \<Rightarrow> tcb_component outcome" where
  "TcbComponent tcbComponent =
     bindE (throw_if (\<not> IsObject tcbComponent) FormatException) (\<lambda>_.
     bindE (required FormatException FormatException (getUintFieldOf tcbComponent ''svn'')) (\<lambda>svnTemporary.
     bindE (optional FormatException (getStringFieldOf tcbComponent ''category'')) (\<lambda>category.
     bindE (optional FormatException (getStringFieldOf tcbComponent ''type'')) (\<lambda>type.
       Inr \<lparr>comp_svn = ucast svnTemporary, comp_category = category, comp_type = type\<rparr>))))"

definition TdxModule :: "json \<Rightarrow> tdx_module outcome" where
  "TdxModule tdxModule =
     bindE (throw_if (\<not> IsObject tdxModule) FormatException) (\<lambda>_.
     bindE (required FormatException FormatException (getBytesFieldOf tdxModule ''mrsigner'' 96)) (\<lambda>mrsigner.
     bindE (required FormatException FormatException (getBytesFieldOf tdxModule ''attributes'' 16)) (\<lambda>attributes.
     bindE (required FormatException FormatException (getBytesFieldOf tdxModule ''attributesMask'' 16)) (\<lambda>attributesMask.
       Inr \<lparr>tdxm_mrsigner = mrsigner, tdxm_attributes = attributes, tdxm_attributesMask = attributesMask\<rparr>))))"

definition TdxModuleTcb :: "json \<Rightarrow> tdx_module_tcb outcome" where
  "TdxModuleTcb tdxModuleTcb =
     bindE (required FormatException FormatException (getIntFieldOf tdxModuleTcb ''isvsvn'')) (\<lambda>isvsvn.
     bindE (throw_if (isvsvn < 0 \<or> isvsvn > 65535) FormatException) (\<lambda>_.
       Inr \<lparr>tdxt_isvsvn = word_of_int isvsvn\<rparr>))"

definition TdxModuleTcbLevel :: "json_library \<Rightarrow> json \<Rightarrow> tdx_module_tcb_level outcome" where
  "TdxModuleTcbLevel lib tdxModuleTcbLevel =
     bindE (throw_if (\<not> IsObject tdxModuleTcbLevel) FormatException) (\<lambda>_.
     case member tdxModuleTcbLevel ''tcb'' of
       None \<Rightarrow> Inl FormatException
     | Some tcb_v \<Rightarrow>
     bindE (TdxModuleTcb tcb_v) (\<lambda>tcb.
     bindE (required FormatException FormatException (getDateFieldOf lib tdxModuleTcbLevel ''tcbDate'')) (\<lambda>tcbDate.
     bindE (required FormatException FormatException (getStringFieldOf tdxModuleTcbLevel ''tcbStatus'')) (\<lambda>tcbStatus.
     bindE (optional FormatException (getStringVecFieldOf tdxModuleTcbLevel ''advisoryIDs'')) (\<lambda>advisoryIDs.
       Inr \<lparr>tdxl_tcb = tcb, tdxl_tcbDate = tcbDate, tdxl_tcbStatus = tcbStatus,
            tdxl_advisoryIDs = advisoryIDs\<rparr>)))))"

definition TdxModuleIdentity :: "json_library \<Rightarrow> json \<Rightarrow> tdx_module_identity outcome" where
  "TdxModuleIdentity lib tdxModuleIdentity =
     bindE (required FormatException FormatException (getStringFieldOf tdxModuleIdentity ''id'')) (\<lambda>id_v.
     bindE (required FormatException FormatException (getBytesFieldOf tdxModuleIdentity ''mrsigner'' 96)) (\<lambda>mrsigner.
     bindE (required FormatException FormatException (getBytesFieldOf tdxModuleIdentity ''attributes'' 16)) (\<lambda>attributes.
     bindE (required FormatException FormatException (getBytesFieldOf tdxModuleIdentity ''attributesMask'' 16)) (\<lambda>attributesMask.
     case member tdxModuleIdentity ''tcbLevels'' of
       None \<Rightarrow> Inl FormatException
     | Some tcbLevels_v \<Rightarrow>
     bindE (throw_if (\<not> IsArray tcbLevels_v) FormatException) (\<lambda>_.
     bindE (emplace_all tdxModuleTcbLevel_greater FormatException (TdxModuleTcbLevel lib) (elements tcbLevels_v) []) (\<lambda>tcbLevels.
     bindE (throw_if (tcbLevels = []) FormatException) (\<lambda>_.
       Inr \<lparr>tdxi_id = id_v, tdxi_mrsigner = mrsigner, tdxi_attributes = attributes,
            tdxi_attributesMask = attributesMask, tdxi_tcbLevels = tcbLevels\<rparr>)))))))"

section \<open>TcbLevel\<close>

definition validStatuses :: "string list" where
  "validStatuses = [''UpToDate'', ''OutOfDate'', ''ConfigurationNeeded'', ''Revoked'',
     ''OutOfDateConfigurationNeeded'', ''SWHardeningNeeded'', ''ConfigurationAndSWHardeningNeeded'']"

definition parseStatus :: "json \<Rightarrow> string list \<Rightarrow> string \<Rightarrow> string outcome" where
  "parseStatus tcbLevel valid filedName =
     (case member tcbLevel filedName of
        None \<Rightarrow> Inl FormatException
      | Some status_v \<Rightarrow>
          (case json_string status_v of
             None \<Rightarrow> Inl FormatException
           | Some status \<Rightarrow> if status \<notin> set valid then Inl InvalidExtensionException else Inr status))"

definition sgxTcbSvnComponentsNames :: "string list" where
  "sgxTcbSvnComponentsNames = [
     ''sgxtcbcomp01svn'', ''sgxtcbcomp02svn'', ''sgxtcbcomp03svn'', ''sgxtcbcomp04svn'',
     ''sgxtcbcomp05svn'', ''sgxtcbcomp06svn'', ''sgxtcbcomp07svn'', ''sgxtcbcomp08svn'',
     ''sgxtcbcomp09svn'', ''sgxtcbcomp10svn'', ''sgxtcbcomp11svn'', ''sgxtcbcomp12svn'',
     ''sgxtcbcomp13svn'', ''sgxtcbcomp14svn'', ''sgxtcbcomp15svn'', ''sgxtcbcomp16svn'']"

fun cpu_svns :: "json \<Rightarrow> string list \<Rightarrow> bytes outcome" where
  "cpu_svns tcb [] = Inr []"
| "cpu_svns tcb (componentName # names) =
     bindE (required FormatException InvalidExtensionException (getUintFieldOf tcb componentName)) (\<lambda>componentValue.
     bindE (cpu_svns tcb names) (\<lambda>svns. Inr (ucast componentValue # svns)))"

definition setCpuSvn :: "json \<Rightarrow> tcb_level \<Rightarrow> tcb_level outcome" where
  "setCpuSvn tcb l =
     bindE (throw_if (\<not> IsObject tcb) FormatException) (\<lambda>_.
     bindE (cpu_svns tcb sgxTcbSvnComponentsNames) (\<lambda>svns.
       Inr (l\<lparr>tl_cpuSvn := svns, tl_cpuSvnComponents := map component_of_svn svns\<rparr>)))"

definition parseSvns :: "json \<Rightarrow> tcb_level \<Rightarrow> tcb_level outcome" where
  "parseSvns tcbLevel l =
     (case member tcbLevel ''tcb'' of
        None \<Rightarrow> Inl FormatException
      | Some tcb \<Rightarrow>
          bindE (setCpuSvn tcb l) (\<lambda>l.
          bindE (required FormatException FormatException (getUintFieldOf tcb ''pcesvn'')) (\<lambda>pceSvn.
            Inr (l\<lparr>tl_pceSvn := pceSvn\<rparr>))))"

definition parseTcbLevelCommon :: "json_library \<Rightarrow> json \<Rightarrow> tcb_level \<Rightarrow> tcb_level outcome" where
  "parseTcbLevelCommon lib tcbLevel l =
     bindE (throw_if (\<not> IsObject tcbLevel) FormatException) (\<lambda>_.
     bindE (required FormatException InvalidExtensionException (getDateFieldOf lib tcbLevel ''tcbDate'')) (\<lambda>tcbDate.
     bindE (optional InvalidExtensionException (getStringVecFieldOf tcbLevel ''advisoryIDs'')) (\<lambda>advisoryIDs.
     bindE (parseStatus tcbLevel validStatuses ''tcbStatus'') (\<lambda>status.
       Inr (l\<lparr>tl_tcbDate := tcbDate, tl_advisoryIDs := advisoryIDs, tl_status := status\<rparr>)))))"

definition parseTcbLevelV2 :: "json_library \<Rightarrow> json \<Rightarrow> tcb_level \<Rightarrow> tcb_level outcome" where
  "parseTcbLevelV2 lib tcbLevel l = bindE (parseTcbLevelCommon lib tcbLevel l) (parseSvns tcbLevel)"

definition SGX_TCB_SVN_COMP_COUNT :: nat where
  "SGX_TCB_SVN_COMP_COUNT = 16"

definition component_array :: "json \<Rightarrow> string \<Rightarrow> tcb_component list outcome" where
  "component_array tcb fieldName =
     (case member tcb fieldName of
        None \<Rightarrow> Inl FormatException
      | Some componentsArray \<Rightarrow>
          bindE (throw_if (\<not> IsArray componentsArray) FormatException) (\<lambda>_.
          bindE (throw_if (length (elements componentsArray) \<noteq> SGX_TCB_SVN_COMP_COUNT) FormatException) (\<lambda>_.
            read_all TcbComponent (elements componentsArray))))"

definition setTcbComponents :: "json \<Rightarrow> tcb_level \<Rightarrow> tcb_level outcome" where
  "setTcbComponents tcb l =
     bindE (component_array tcb ''sgxtcbcomponents'') (\<lambda>sgxComponents.
     let l = l\<lparr>tl_sgxTcbComponents := sgxComponents, tl_cpuSvn := map comp_svn sgxComponents,
               tl_cpuSvnComponents := sgxComponents\<rparr> in
     if tl_id l = TDX_ID then
       bindE (component_array tcb ''tdxtcbcomponents'') (\<lambda>tdxComponents.
         Inr (l\<lparr>tl_tdxTcbComponents := tdxComponents\<rparr>))
     else Inr l)"

definition parseTcbLevelV3 :: "json_library \<Rightarrow> json \<Rightarrow> tcb_level \<Rightarrow> tcb_level outcome" where
  "parseTcbLevelV3 lib tcbLevel l =
     bindE (parseTcbLevelCommon lib tcbLevel l) (\<lambda>l.
     case member tcbLevel ''tcb'' of
       None \<Rightarrow> Inl FormatException
     | Some tcb \<Rightarrow>
     bindE (throw_if (\<not> IsObject tcb) FormatException) (\<lambda>_.
     bindE (required FormatException FormatException (getUintFieldOf tcb ''pcesvn'')) (\<lambda>pceSvn.
       setTcbComponents tcb (l\<lparr>tl_pceSvn := pceSvn\<rparr>))))"

definition tcb_level_new :: "u32 \<Rightarrow> string \<Rightarrow> tcb_level" where
  "tcb_level_new version_v id_v = \<lparr>tl_id = id_v, tl_version = version_v, tl_cpuSvn = [],
     tl_cpuSvnComponents = [], tl_sgxTcbComponents = [], tl_tdxTcbComponents = [], tl_pceSvn = 0,
     tl_status = [], tl_tcbDate = 0, tl_advisoryIDs = []\<rparr>"

definition TcbLevel :: "json_library \<Rightarrow> u32 \<Rightarrow> string \<Rightarrow> json \<Rightarrow> tcb_level outcome" where
  "TcbLevel lib version_v id_v tcbLevel =
     (if version_v = 2 then parseTcbLevelV2 lib tcbLevel (tcb_level_new version_v id_v)
      else if version_v = 3 then parseTcbLevelV3 lib tcbLevel (tcb_level_new version_v id_v)
      else Inl InvalidExtensionException)"

section \<open>TcbInfo\<close>

definition PARSER_SIGNATURE_BYTE_LEN :: nat where [simp]: "PARSER_SIGNATURE_BYTE_LEN = 64"
definition MAX_TCB_INFO_JSON_DEPTH :: nat where [simp]: "MAX_TCB_INFO_JSON_DEPTH = 32"

definition signature_bytes :: "json \<Rightarrow> bytes outcome" where
  "signature_bytes signatureField =
     (case signatureField of
        JString s \<Rightarrow>
          if length s \<noteq> PARSER_SIGNATURE_BYTE_LEN * 2 then Inl InvalidExtensionException
          else Inr (hexStringToBytes (c_str s))
      | _ \<Rightarrow> Inl InvalidExtensionException)"

definition info_identifier :: "json \<Rightarrow> u32 \<Rightarrow> string outcome" where
  "info_identifier tcbInfo version_v =
     (if version_v = TcbInfo_V3 then
        bindE (required FormatException InvalidExtensionException (getStringFieldOf tcbInfo ''id'')) (\<lambda>id_v.
        bindE (throw_if (id_v \<noteq> SGX_ID \<and> id_v \<noteq> TDX_ID) InvalidExtensionException) (\<lambda>_. Inr id_v))
      else Inr SGX_ID)"

definition parsePartV2 :: "json \<Rightarrow> tcb_info \<Rightarrow> tcb_info outcome" where
  "parsePartV2 tcbInfo t =
     bindE (required FormatException InvalidExtensionException (getIntFieldOf tcbInfo ''tcbType'')) (\<lambda>tcbType.
     bindE (throw_if (tcbType \<noteq> 0) InvalidExtensionException) (\<lambda>_.
     bindE (required FormatException InvalidExtensionException (getUintFieldOf tcbInfo ''tcbEvaluationDataNumber'')) (\<lambda>dataNumber.
       Inr (t\<lparr>ti_tcbType := tcbType, ti_tcbEvaluationDataNumber := dataNumber\<rparr>))))"

definition module_identities :: "json_library \<Rightarrow> json \<Rightarrow> tcb_info \<Rightarrow> tcb_info outcome" where
  "module_identities lib tdxModuleIdentities t =
     bindE (throw_if (\<not> IsArray tdxModuleIdentities) InvalidExtensionException) (\<lambda>_.
     bindE (read_all (TdxModuleIdentity lib) (elements tdxModuleIdentities)) (\<lambda>identities.
     bindE (throw_if (identities = []) InvalidExtensionException) (\<lambda>_.
       Inr (t\<lparr>ti_tdxModuleIdentities := identities\<rparr>))))"

definition parsePartV3 :: "json_library \<Rightarrow> json \<Rightarrow> tcb_info \<Rightarrow> tcb_info outcome" where
  "parsePartV3 lib tcbInfo t =
     (if ti_id t = SGX_ID then
        bindE (throw_if (member tcbInfo ''tdxModule'' \<noteq> None) InvalidExtensionException) (\<lambda>_.
        bindE (throw_if (member tcbInfo ''tdxModuleIdentities'' \<noteq> None) InvalidExtensionException) (\<lambda>_. Inr t))
      else if ti_id t = TDX_ID then
        (case member tcbInfo ''tdxModule'' of
           None \<Rightarrow> Inl InvalidExtensionException
         | Some tdxModuleJson \<Rightarrow>
             bindE (throw_if (\<not> IsObject tdxModuleJson) FormatException) (\<lambda>_.
             bindE (TdxModule tdxModuleJson) (\<lambda>tdxModule.
             let t = t\<lparr>ti_tdxModule := tdxModule\<rparr> in
             case member tcbInfo ''tdxModuleIdentities'' of
               None \<Rightarrow> Inr t
             | Some identities_v \<Rightarrow> module_identities lib identities_v t)))
      else Inr t)"

definition tcb_info_new :: tcb_info where
  "tcb_info_new = \<lparr>ti_id = [], ti_version = 0, ti_issueDate = 0, ti_nextUpdate = 0, ti_fmspc = [],
     ti_pceId = [], ti_tcbLevels = [], ti_signature = [], ti_infoBody = [],
     ti_tdxModule = \<lparr>tdxm_mrsigner = [], tdxm_attributes = [], tdxm_attributesMask = []\<rparr>,
     ti_tdxModuleIdentities = [], ti_tcbType = 0, ti_tcbEvaluationDataNumber = 0\<rparr>"

text \<open>The fields up to the signature.\<close>

definition info_header :: "json_library \<Rightarrow> json \<Rightarrow> json \<Rightarrow> tcb_info outcome" where
  "info_header lib tcbInfo signatureField =
     bindE (required FormatException InvalidExtensionException (getUintFieldOf tcbInfo ''version'')) (\<lambda>version_v.
     bindE (throw_if (version_v \<noteq> TcbInfo_V2 \<and> version_v \<noteq> TcbInfo_V3) InvalidExtensionException) (\<lambda>_.
     bindE (info_identifier tcbInfo version_v) (\<lambda>id_v.
     bindE (required FormatException InvalidExtensionException (getDateFieldOf lib tcbInfo ''issueDate'')) (\<lambda>issueDate.
     bindE (required FormatException InvalidExtensionException (getDateFieldOf lib tcbInfo ''nextUpdate'')) (\<lambda>nextUpdate.
     bindE (required FormatException InvalidExtensionException (getBytesFieldOf tcbInfo ''fmspc'' (FMSPC_BYTE_LEN * 2))) (\<lambda>fmspc.
     bindE (required FormatException InvalidExtensionException (getBytesFieldOf tcbInfo ''pceId'' (PCEID_BYTE_LEN * 2))) (\<lambda>pceId.
     bindE (signature_bytes signatureField) (\<lambda>sig.
       Inr (tcb_info_new\<lparr>ti_version := version_v, ti_id := id_v, ti_issueDate := issueDate,
         ti_nextUpdate := nextUpdate, ti_fmspc := fmspc, ti_pceId := pceId, ti_signature := sig\<rparr>)))))))))"

definition info_levels :: "json_library \<Rightarrow> json \<Rightarrow> tcb_info \<Rightarrow> tcb_info outcome" where
  "info_levels lib tcbs t =
     bindE (throw_if (\<not> IsArray tcbs) InvalidExtensionException) (\<lambda>_.
     bindE (emplace_all tcbLevel_greater InvalidExtensionException (TcbLevel lib (ti_version t) (ti_id t))
              (elements tcbs) []) (\<lambda>tcbLevels.
     bindE (throw_if (tcbLevels = []) InvalidExtensionException) (\<lambda>_.
       Inr (t\<lparr>ti_tcbLevels := tcbLevels\<rparr>))))"

definition info_parts :: "json_library \<Rightarrow> json \<Rightarrow> tcb_info \<Rightarrow> tcb_info outcome" where
  "info_parts lib tcbInfo t =
     bindE (if ti_version t \<ge> TcbInfo_V2 then parsePartV2 tcbInfo t else Inr t) (\<lambda>t.
       if ti_version t \<ge> TcbInfo_V3 then parsePartV3 lib tcbInfo t else Inr t)"

definition tcbInfo_of :: "json_library \<Rightarrow> json \<Rightarrow> json \<Rightarrow> tcb_info outcome" where
  "tcbInfo_of lib tcbInfo signatureField =
     bindE (info_header lib tcbInfo signatureField) (\<lambda>t.
     case member tcbInfo ''tcbLevels'' of
       None \<Rightarrow> Inl InvalidExtensionException
     | Some tcbs \<Rightarrow>
     bindE (info_parts lib tcbInfo t) (\<lambda>t.
     bindE (info_levels lib tcbs t) (\<lambda>t.
     bindE (throw_if (\<not> isWithinJsonDepthLimit tcbInfo MAX_TCB_INFO_JSON_DEPTH) InvalidExtensionException) (\<lambda>_.
       Inr (t\<lparr>ti_infoBody := json_Accept lib (Some 25) tcbInfo\<rparr>)))))"

definition TcbInfo_parse :: "json_library \<Rightarrow> string \<Rightarrow> tcb_info outcome" where
  "TcbInfo_parse lib jsonString =
     (case JsonParser_parse lib jsonString of
        None \<Rightarrow> Inl FormatException
      | Some document \<Rightarrow>
          (case getField document ''tcbInfo'' of
             None \<Rightarrow> Inl FormatException
           | Some tcbInfo \<Rightarrow>
               if \<not> IsObject tcbInfo then Inl FormatException
               else case getField document ''signature'' of
                 None \<Rightarrow> Inl InvalidExtensionException
               | Some signatureField \<Rightarrow> tcbInfo_of lib tcbInfo signatureField))"

section \<open>IdentityTcbLevel\<close>

definition parseStringToTcbStatus :: "string \<Rightarrow> tcb_status outcome" where
  "parseStringToTcbStatus status =
     (case map_of [(''UpToDate'', TS_UpToDate), (''ConfigurationNeeded'', TS_ConfigurationNeeded),
        (''OutOfDate'', TS_OutOfDate), (''OutOfDateConfigurationNeeded'', TS_OutOfDateConfigurationNeeded),
        (''Revoked'', TS_Revoked)] status of
        None \<Rightarrow> Inl StdRuntimeError
      | Some s \<Rightarrow> Inr s)"

definition identity_status :: "string \<Rightarrow> tcb_status outcome" where
  "identity_status tcbStatusStr =
     (if tcbStatusStr \<notin> set [''UpToDate'', ''OutOfDate'', ''Revoked''] then Inl InvalidExtensionException
      else parseStringToTcbStatus tcbStatusStr)"

definition IdentityTcbLevel :: "json_library \<Rightarrow> json \<Rightarrow> identity_tcb_level outcome" where
  "IdentityTcbLevel lib tcbLevel =
     bindE (throw_if (\<not> IsObject tcbLevel) FormatException) (\<lambda>_.
     case member tcbLevel ''tcb'' of
       None \<Rightarrow> Inl FormatException
     | Some tcb \<Rightarrow>
     bindE (required FormatException InvalidExtensionException (getUintFieldOf tcb ''isvsvn'')) (\<lambda>isvSvn.
     bindE (required FormatException InvalidExtensionException (getDateFieldOf lib tcbLevel ''tcbDate'')) (\<lambda>tcbDate.
     bindE (required FormatException InvalidExtensionException (getStringFieldOf tcbLevel ''tcbStatus'')) (\<lambda>tcbStatusStr.
     bindE (identity_status tcbStatusStr) (\<lambda>tcbStatus.
     bindE (optional InvalidExtensionException (getStringVecFieldOf tcbLevel ''advisoryIDs'')) (\<lambda>advisoryIds.
       Inr \<lparr>il_isvSvn = isvSvn, il_tcbDate = tcbDate, il_tcbStatus = tcbStatus,
            il_advisoryIds = advisoryIds\<rparr>))))))"

section \<open>EnclaveIdentity\<close>

definition checkParseStatus :: "('a \<times> parse_status) outcome \<Rightarrow> 'a outcome" where
  "checkParseStatus field =
     bindE field (\<lambda>(value, status). if status \<noteq> PS_OK then Inl InvalidExtensionException else Inr value)"

definition stringToIdMap :: "(string \<times> enclave_id) list" where
  "stringToIdMap = [(''QE'', QE), (''QVE'', QVE), (''TD_QE'', TD_QE)]"

definition MISCSELECT_BYTE_LEN :: nat where [simp]: "MISCSELECT_BYTE_LEN = 4"
definition ATTRIBUTES_BYTE_LEN :: nat where [simp]: "ATTRIBUTES_BYTE_LEN = 16"
definition MRSIGNER_BYTE_LEN :: nat where [simp]: "MRSIGNER_BYTE_LEN = 32"
definition MAX_ENCLAVE_IDENTITY_JSON_DEPTH :: nat where [simp]: "MAX_ENCLAVE_IDENTITY_JSON_DEPTH = 32"

definition identity_fields :: "json_library \<Rightarrow> json \<Rightarrow> enclave_identity outcome" where
  "identity_fields lib enclaveIdentity =
     bindE (checkParseStatus (getStringFieldOf enclaveIdentity ''id'')) (\<lambda>idStr.
     case map_of stringToIdMap idStr of
       None \<Rightarrow> Inl InvalidExtensionException
     | Some id_v \<Rightarrow>
     bindE (checkParseStatus (getUintFieldOf enclaveIdentity ''version'')) (\<lambda>version_v.
     bindE (throw_if (version_v \<noteq> 2) InvalidVersionException) (\<lambda>_.
     bindE (checkParseStatus (getDateFieldOf lib enclaveIdentity ''issueDate'')) (\<lambda>issueDate.
     bindE (checkParseStatus (getDateFieldOf lib enclaveIdentity ''nextUpdate'')) (\<lambda>nextUpdate.
     bindE (checkParseStatus (getUintFieldOf enclaveIdentity ''tcbEvaluationDataNumber'')) (\<lambda>dataNumber.
     bindE (checkParseStatus (getBytesFieldOf enclaveIdentity ''miscselect'' (MISCSELECT_BYTE_LEN * 2))) (\<lambda>miscselect.
     bindE (checkParseStatus (getBytesFieldOf enclaveIdentity ''miscselectMask'' (MISCSELECT_BYTE_LEN * 2))) (\<lambda>miscselectMask.
     bindE (checkParseStatus (getBytesFieldOf enclaveIdentity ''attributes'' (ATTRIBUTES_BYTE_LEN * 2))) (\<lambda>attributes.
     bindE (checkParseStatus (getBytesFieldOf enclaveIdentity ''attributesMask'' (ATTRIBUTES_BYTE_LEN * 2))) (\<lambda>attributesMask.
     bindE (checkParseStatus (getBytesFieldOf enclaveIdentity ''mrsigner'' (MRSIGNER_BYTE_LEN * 2))) (\<lambda>mrSigner.
     bindE (checkParseStatus (getUintFieldOf enclaveIdentity ''isvprodid'')) (\<lambda>isvProdId.
       Inr \<lparr>ei_id = id_v, ei_version = version_v, ei_issueDate = issueDate, ei_nextUpdate = nextUpdate,
            ei_tcbEvaluationDataNumber = dataNumber, ei_attributes = attributes,
            ei_attributesMask = attributesMask, ei_miscselect = miscselect,
            ei_miscselectMask = miscselectMask, ei_mrSigner = mrSigner, ei_isvProdId = isvProdId,
            ei_identityTcbLevels = [], ei_body = [], ei_signature = []\<rparr>))))))))))))"

definition enclaveIdentity_of :: "json_library \<Rightarrow> json \<Rightarrow> json \<Rightarrow> enclave_identity outcome" where
  "enclaveIdentity_of lib enclaveIdentity signatureField =
     bindE (identity_fields lib enclaveIdentity) (\<lambda>e.
     bindE (signature_bytes signatureField) (\<lambda>sig.
     case member enclaveIdentity ''tcbLevels'' of
       None \<Rightarrow> Inl InvalidExtensionException
     | Some identityTcbs \<Rightarrow>
     bindE (throw_if (\<not> IsArray identityTcbs) InvalidExtensionException) (\<lambda>_.
     bindE (emplace_all identityTcbLevel_greater InvalidExtensionException (IdentityTcbLevel lib)
              (elements identityTcbs) []) (\<lambda>identityTcbLevels.
     bindE (throw_if (identityTcbLevels = []) InvalidExtensionException) (\<lambda>_.
     bindE (throw_if (\<not> isWithinJsonDepthLimit enclaveIdentity MAX_ENCLAVE_IDENTITY_JSON_DEPTH)
              InvalidExtensionException) (\<lambda>_.
       Inr (e\<lparr>ei_signature := sig, ei_identityTcbLevels := identityTcbLevels,
              ei_body := json_Accept lib None enclaveIdentity\<rparr>)))))))"

definition EnclaveIdentity_parse :: "json_library \<Rightarrow> string \<Rightarrow> enclave_identity outcome" where
  "EnclaveIdentity_parse lib jsonString =
     (case JsonParser_parse lib jsonString of
        None \<Rightarrow> Inl FormatException
      | Some document \<Rightarrow>
          (case getField document ''enclaveIdentity'' of
             None \<Rightarrow> Inl FormatException
           | Some enclaveIdentity \<Rightarrow>
               if \<not> IsObject enclaveIdentity then Inl FormatException
               else case getField document ''signature'' of
                 None \<Rightarrow> Inl FormatException
               | Some signatureField \<Rightarrow> enclaveIdentity_of lib enclaveIdentity signatureField))"

section \<open>What the shared steps give\<close>

lemma required_Inr [simp]: "(required m i f = Inr a) = (f = Inr (a, PS_OK))"
  by (cases f) (auto simp: required_def split: parse_status.splits)

lemma checkParseStatus_Inr [simp]: "(checkParseStatus f = Inr a) = (f = Inr (a, PS_OK))"
  by (cases f) (auto simp: checkParseStatus_def split: if_splits)

lemma optional_Inr [simp]: "(optional i f = Inr a) = (\<exists>st. f = Inr (a, st) \<and> st \<noteq> PS_Invalid)"
  by (cases f) (auto simp: optional_def split: parse_status.splits)

lemma getFieldOf_OK:
  "getFieldOf d conv parent f = Inr (a, PS_OK) \<longleftrightarrow>
   IsObject parent \<and> (\<exists>v. member parent f = Some v \<and> conv v = Some a)"
  by (auto simp: getFieldOf_def split: option.splits)

lemma isxdigit_value: "isxdigit c \<Longrightarrow> \<exists>v. asciiToValue c = Inr v"
  by (auto simp: asciiToValue_def isxdigit_def Let_def)

lemma hexLoop_valid:
  "list_all isxdigit s \<Longrightarrow> even (length s) \<Longrightarrow> \<exists>out. hexLoop s = Inr out \<and> length out = length s div 2"
proof (induction s rule: hexLoop.induct)
  case (3 c d rest)
  then obtain hi lo out where "asciiToValue c = Inr hi" "asciiToValue d = Inr lo"
    "hexLoop rest = Inr out" "length out = length rest div 2"
    using isxdigit_value [of c] isxdigit_value [of d] by auto
  then show ?case by simp
qed simp_all

lemma isValidHexstring_iff: "isValidHexstring s \<longleftrightarrow> list_all isxdigit s"
  by (auto simp: isValidHexstring_def find_None_iff list_all_iff)

lemma getBytesFieldOf_size:
  assumes "getBytesFieldOf parent f (n * 2) = Inr (bs, PS_OK)"
  shows "length bs = n"
proof -
  from assms obtain v where "json_bytes (n * 2) v = Some bs"
    by (auto simp: getBytesFieldOf_def getFieldOf_OK)
  then obtain s where s: "length s = n * 2" "list_all isxdigit s" "bs = hexStringToBytes s"
    by (cases v) (auto simp: json_bytes_def Let_def isValidHexstring_iff split: if_splits)
  then obtain out where "hexLoop s = Inr out" "length out = n" using hexLoop_valid [of s] by auto
  with s show ?thesis by (simp add: hexStringToBytes_def)
qed

lemma hexLoop_size: "hexLoop s = Inr out \<Longrightarrow> length out = length s div 2"
  by (induction s arbitrary: out rule: hexLoop.induct) auto

lemma read_all_Inr: "read_all r vs = Inr xs \<longleftrightarrow> list_all2 (\<lambda>v x. r v = Inr x) vs xs"
  by (induction vs arbitrary: xs) (auto simp: list_all2_Cons1)

lemma read_all_set:
  assumes "read_all r vs = Inr xs" and "x \<in> set xs"
  obtains v where "r v = Inr x"
proof -
  from assms(1) have "list_all2 (\<lambda>v x. r v = Inr x) vs xs" by (simp only: read_all_Inr)
  then have "\<forall>x\<in>set xs. \<exists>v. r v = Inr x" by (induction rule: list_all2_induct) auto
  with assms(2) that show ?thesis by blast
qed

lemma read_all_mset:
  assumes "mset vs = mset vs'" and "read_all r vs = Inr xs"
  shows "\<exists>xs'. read_all r vs' = Inr xs' \<and> mset xs' = mset xs"
  using assms list_all2_reorder_left_invariance by (metis read_all_Inr)

lemma set_emplace_mset:
  "snd (set_emplace before x s) \<Longrightarrow> mset (fst (set_emplace before x s)) = add_mset x (mset s)"
  by (induction s) (auto split: if_splits prod.splits)

lemma sorted_wrt_pairs:
  assumes "sorted_wrt R t" and "{#x, y#} \<subseteq># mset t"
  shows "R x y \<or> R y x"
  using assms
proof (induction t)
  case Nil
  then show ?case by simp
next
  case (Cons z t)
  then show ?case
    by (cases "x = z"; cases "y = z") (auto simp: insert_subset_eq_iff dest: mset_subset_eqD)
qed

text \<open>The levels are emplaced exactly when they have a strictly sorted permutation, and it is the set.\<close>

context ordered_set begin

lemma ordered_unique: "ordered t \<Longrightarrow> ordered t' \<Longrightarrow> mset t = mset t' \<Longrightarrow> t = t'"
proof (induction t arbitrary: t')
  case Nil
  then show ?case by simp
next
  case (Cons x xs)
  then obtain y ys where t': "t' = y # ys" by (cases t') auto
  have "x = y"
  proof (rule ccontr)
    assume "x \<noteq> y"
    moreover have "set (x # xs) = set (y # ys)" using Cons.prems(3) t' by (metis set_mset_mset)
    ultimately have "y \<in> set xs" "x \<in> set ys" by auto
    then have "before x y" "before y x" "carrier x" "carrier y" using Cons.prems t' by auto
    then show False using before_irrefl before_trans by blast
  qed
  with Cons t' show ?case by auto
qed

lemma emplace_all_iff:
  assumes "ordered s" and "\<And>v x. r v = Inr x \<Longrightarrow> carrier x"
  shows "emplace_all before dup r vs s = Inr t \<longleftrightarrow>
    (\<exists>xs. read_all r vs = Inr xs \<and> ordered t \<and> mset t = mset xs + mset s)"
  using assms(1)
proof (induction vs arbitrary: s)
  case Nil
  then show ?case using ordered_unique [of t s] by auto
next
  case (Cons v vs)
  show ?case
  proof (cases "r v")
    case (Inl e)
    then show ?thesis by simp
  next
    case (Inr x)
    then have x: "carrier x" using assms(2) by blast
    obtain s' ins where em: "set_emplace before x s = (s', ins)" by force
    show ?thesis
    proof (cases ins)
      case True
      then have "ordered s'" "mset s' = add_mset x (mset s)"
        using set_emplace_ordered [OF Cons.prems x] set_emplace_mset [of before x s] em by simp_all
      then show ?thesis using Cons.IH [of s'] Inr em True by auto
    next
      case False
      then obtain y where y: "y \<in> set s" "\<not> before x y" "\<not> before y x"
        using set_emplace_refused [OF Cons.prems x] em by auto
      have "\<not> sorted_wrt before t" if "mset t = add_mset x (A + mset s)" for A
      proof
        assume sorted: "sorted_wrt before t"
        obtain B where "mset s = add_mset y B" using y(1) by (metis insert_DiffM set_mset_mset)
        then have "{#x, y#} \<subseteq># mset t" using that by simp
        then have "before x y \<or> before y x" by (rule sorted_wrt_pairs [OF sorted])
        with y(2,3) show False by blast
      qed
      then have "\<not> (\<exists>xs. read_all r (v # vs) = Inr xs \<and> ordered t \<and> mset t = mset xs + mset s)"
        using Inr by force
      then show ?thesis using Inr em False by simp
    qed
  qed
qed

lemma emplace_all_permutation:
  assumes "\<And>v x. r v = Inr x \<Longrightarrow> carrier x" and "mset vs = mset vs'"
    and "emplace_all before dup r vs [] = Inr t"
  shows "emplace_all before dup r vs' [] = Inr t"
proof -
  have "ordered []" by simp
  note iff = emplace_all_iff [OF this assms(1)]
  from assms(3) obtain xs where xs: "read_all r vs = Inr xs" "ordered t" "mset t = mset xs"
    by (auto simp: iff)
  obtain xs' where "read_all r vs' = Inr xs'" "mset xs' = mset xs"
    using read_all_mset [OF assms(2) xs(1)] by blast
  with xs(2,3) have "read_all r vs' = Inr xs' \<and> ordered t \<and> mset t = mset xs' + mset []"
    by simp
  then show ?thesis by (intro iff [THEN iffD2] exI [of _ xs'])
qed

end

section \<open>What the TCB info constructor accepts\<close>

lemma component_array_size: "component_array tcb f = Inr cs \<Longrightarrow> length cs = 16"
  by (auto simp: component_array_def SGX_TCB_SVN_COMP_COUNT_def read_all_Inr
      dest: list_all2_lengthD split: option.splits)

lemma cpu_svns_size: "cpu_svns tcb names = Inr svns \<Longrightarrow> length svns = length names"
  by (induction names arbitrary: svns) auto

lemma parseStatus_valid: "parseStatus v valid f = Inr s \<Longrightarrow> s \<in> set valid"
  by (auto simp: parseStatus_def split: option.splits if_splits)

lemma common_level:
  assumes "parseTcbLevelCommon lib v l = Inr l'"
  shows "tl_id l' = tl_id l \<and> tl_version l' = tl_version l \<and> tl_status l' \<in> fst ` set VALID_TCB_INFO_STATUSES"
proof -
  from assms obtain d ids s where
    "parseStatus v validStatuses ''tcbStatus'' = Inr s"
    "l' = l\<lparr>tl_tcbDate := d, tl_advisoryIDs := ids, tl_status := s\<rparr>"
    unfolding parseTcbLevelCommon_def by fastforce
  moreover have "set validStatuses \<subseteq> fst ` set VALID_TCB_INFO_STATUSES"
    by (simp add: validStatuses_def VALID_TCB_INFO_STATUSES_def)
  ultimately show ?thesis using parseStatus_valid by auto
qed

lemma setCpuSvn_size:
  "setCpuSvn tcb l = Inr l' \<Longrightarrow> tl_id l' = tl_id l \<and> tl_version l' = tl_version l \<and>
     tl_status l' = tl_status l \<and> length (tl_cpuSvn l') = 16 \<and> length (tl_cpuSvnComponents l') = 16"
  by (auto simp: setCpuSvn_def sgxTcbSvnComponentsNames_def simp del: cpu_svns.simps dest!: cpu_svns_size)

lemma setTcbComponents_size:
  "setTcbComponents tcb l = Inr l' \<Longrightarrow> tl_id l' = tl_id l \<and> tl_version l' = tl_version l \<and>
     tl_status l' = tl_status l \<and> length (tl_cpuSvn l') = 16 \<and> length (tl_sgxTcbComponents l') = 16 \<and>
     (tl_id l = TDX_ID \<longrightarrow> length (tl_tdxTcbComponents l') = 16)"
  by (cases "tl_id l = TDX_ID") (clarsimp simp: setTcbComponents_def Let_def component_array_size)+

lemma TcbLevel_wf:
  assumes "TcbLevel lib v i j = Inr l"
  shows "level_of v i l \<and> wf_level l \<and> length (tl_cpuSvn l) = 16"
proof -
  let ?new = "tcb_level_new v i"
  have new: "tl_id ?new = i" "tl_version ?new = v" by (simp_all add: tcb_level_new_def)
  from assms consider "v = 2" "parseTcbLevelV2 lib j ?new = Inr l"
    | "v = 3" "parseTcbLevelV3 lib j ?new = Inr l"
    by (auto simp: TcbLevel_def split: if_splits)
  then show ?thesis
  proof cases
    case 1
    then obtain l1 tcb l2 p where steps: "parseTcbLevelCommon lib j ?new = Inr l1"
      "setCpuSvn tcb l1 = Inr l2" "l = l2\<lparr>tl_pceSvn := p\<rparr>"
      by (auto simp: parseTcbLevelV2_def parseSvns_def split: option.splits)
    show ?thesis
      using 1(1) steps(3) common_level [OF steps(1)] setCpuSvn_size [OF steps(2)] new
      by (simp add: level_of_def wf_level_def)
  next
    case 2
    then obtain l1 tcb p where steps: "parseTcbLevelCommon lib j ?new = Inr l1"
      "setTcbComponents tcb (l1\<lparr>tl_pceSvn := p\<rparr>) = Inr l"
      by (auto simp: parseTcbLevelV3_def split: option.splits)
    show ?thesis
      using 2(1) common_level [OF steps(1)] setTcbComponents_size [OF steps(2)] new
      by (simp add: level_of_def wf_level_def)
  qed
qed

text \<open>Sizes and orders of the TDX module data.\<close>

definition wf_module :: "tdx_module \<Rightarrow> bool" where
  "wf_module m \<longleftrightarrow> length (tdxm_mrsigner m) = 48 \<and> length (tdxm_attributes m) = 8 \<and>
     length (tdxm_attributesMask m) = 8"

definition wf_module_identity :: "tdx_module_identity \<Rightarrow> bool" where
  "wf_module_identity m \<longleftrightarrow> length (tdxi_mrsigner m) = 48 \<and> length (tdxi_attributes m) = 8 \<and>
     length (tdxi_attributesMask m) = 8 \<and> tdxi_tcbLevels m \<noteq> [] \<and>
     sorted_wrt tdxModuleTcbLevel_greater (tdxi_tcbLevels m)"

lemmas bytes_sizes = getBytesFieldOf_size [where n = 48, simplified] getBytesFieldOf_size [where n = 8, simplified]

lemma TdxModule_wf: "TdxModule j = Inr m \<Longrightarrow> wf_module m"
  by (auto simp: TdxModule_def wf_module_def bytes_sizes)

lemma TdxModuleIdentity_wf:
  assumes "TdxModuleIdentity lib j = Inr m"
  shows "wf_module_identity m"
proof -
  have fields: "length (tdxi_mrsigner m) = 48 \<and> length (tdxi_attributes m) = 8 \<and>
     length (tdxi_attributesMask m) = 8 \<and> tdxi_tcbLevels m \<noteq> []"
    using assms by (auto simp: TdxModuleIdentity_def bytes_sizes split: option.splits)
  from assms obtain vs where
    "emplace_all tdxModuleTcbLevel_greater FormatException (TdxModuleTcbLevel lib) vs [] = Inr (tdxi_tcbLevels m)"
    by (auto simp: TdxModuleIdentity_def split: option.splits)
  then have "sorted_wrt tdxModuleTcbLevel_greater (tdxi_tcbLevels m)"
    by (subst (asm) module_levels.emplace_all_iff) auto
  with fields show ?thesis by (simp add: wf_module_identity_def)
qed

lemma info_levels_iff:
  "info_levels lib tcbs t = Inr t' \<longleftrightarrow>
   IsArray tcbs \<and> (\<exists>xs ls. read_all (TcbLevel lib (ti_version t) (ti_id t)) (elements tcbs) = Inr xs \<and>
     mset ls = mset xs \<and> tcb_levels.ordered (ti_version t) (ti_id t) ls \<and> ls \<noteq> [] \<and>
     t' = t\<lparr>ti_tcbLevels := ls\<rparr>)"
proof -
  have "emplace_all tcbLevel_greater InvalidExtensionException (TcbLevel lib (ti_version t) (ti_id t))
          (elements tcbs) [] = Inr ls \<longleftrightarrow>
        (\<exists>xs. read_all (TcbLevel lib (ti_version t) (ti_id t)) (elements tcbs) = Inr xs \<and>
          tcb_levels.ordered (ti_version t) (ti_id t) ls \<and> mset ls = mset xs + mset [])" for ls
    by (rule tcb_levels.emplace_all_iff) (use TcbLevel_wf in auto)
  then show ?thesis unfolding info_levels_def by auto
qed

lemma info_header_fields:
  assumes "info_header lib v sigf = Inr t"
  shows "ti_version t \<in> {2, 3} \<and> ti_id t \<in> {SGX_ID, TDX_ID} \<and> (ti_version t = 2 \<longrightarrow> ti_id t = SGX_ID) \<and>
    length (ti_fmspc t) = 6 \<and> length (ti_pceId t) = 2 \<and> signature_bytes sigf = Inr (ti_signature t) \<and>
    ti_tdxModuleIdentities t = []"
proof -
  from assms obtain ver i d n f p s where
    ver: "\<not> (ver \<noteq> TcbInfo_V2 \<and> ver \<noteq> TcbInfo_V3)" "info_identifier v ver = Inr i"
    and bytes: "getBytesFieldOf v ''fmspc'' (FMSPC_BYTE_LEN * 2) = Inr (f, PS_OK)"
    "getBytesFieldOf v ''pceId'' (PCEID_BYTE_LEN * 2) = Inr (p, PS_OK)"
    and sig: "signature_bytes sigf = Inr s"
    and t: "Inr (tcb_info_new\<lparr>ti_version := ver, ti_id := i, ti_issueDate := d,
         ti_nextUpdate := n, ti_fmspc := f, ti_pceId := p, ti_signature := s\<rparr>) = (Inr t :: tcb_info outcome)"
    unfolding info_header_def bindE_eq_Inr required_Inr throw_if_Inr by (elim exE conjE) (rule that; assumption)
  from ver have "ver \<in> {2, 3}" "i \<in> {SGX_ID, TDX_ID}" "ver = 2 \<longrightarrow> i = SGX_ID"
    by (auto simp: info_identifier_def split: if_splits)
  moreover from bytes have "length f = 6" "length p = 2" by (simp_all only: FMSPC_BYTE_LEN_def PCEID_BYTE_LEN_def getBytesFieldOf_size)
  ultimately show ?thesis using t sig by (auto simp: tcb_info_new_def)
qed

text \<open>The fields the version dependent parts leave alone.\<close>

definition same_header :: "tcb_info \<Rightarrow> tcb_info \<Rightarrow> bool" where
  "same_header t t' \<longleftrightarrow> ti_version t' = ti_version t \<and> ti_id t' = ti_id t \<and> ti_fmspc t' = ti_fmspc t \<and>
     ti_pceId t' = ti_pceId t \<and> ti_signature t' = ti_signature t \<and> ti_issueDate t' = ti_issueDate t \<and>
     ti_nextUpdate t' = ti_nextUpdate t"

text \<open>
  The fields of a TCB info are those of one object of the document: \<open>header_reads\<close> for every
  version, \<open>part_reads\<close> for the parts of versions 2 and 3.
\<close>

definition header_reads :: "json_library \<Rightarrow> json \<Rightarrow> tcb_info \<Rightarrow> bool" where
  "header_reads lib v t \<longleftrightarrow>
     getUintFieldOf v ''version'' = Inr (ti_version t, PS_OK) \<and>
     (if ti_version t = 3 then getStringFieldOf v ''id'' = Inr (ti_id t, PS_OK) else ti_id t = SGX_ID) \<and>
     getDateFieldOf lib v ''issueDate'' = Inr (ti_issueDate t, PS_OK) \<and>
     getDateFieldOf lib v ''nextUpdate'' = Inr (ti_nextUpdate t, PS_OK) \<and>
     getBytesFieldOf v ''fmspc'' 12 = Inr (ti_fmspc t, PS_OK) \<and>
     getBytesFieldOf v ''pceId'' 4 = Inr (ti_pceId t, PS_OK)"

definition module_reads :: "json_library \<Rightarrow> json \<Rightarrow> tcb_info \<Rightarrow> bool" where
  "module_reads lib v t \<longleftrightarrow>
     (if ti_id t = TDX_ID then
        (case member v ''tdxModule'' of None \<Rightarrow> False | Some m \<Rightarrow> TdxModule m = Inr (ti_tdxModule t)) \<and>
        (case member v ''tdxModuleIdentities'' of
           None \<Rightarrow> ti_tdxModuleIdentities t = []
         | Some w \<Rightarrow> read_all (TdxModuleIdentity lib) (elements w) = Inr (ti_tdxModuleIdentities t))
      else ti_tdxModule t = ti_tdxModule tcb_info_new \<and> ti_tdxModuleIdentities t = [])"

definition part_reads :: "json_library \<Rightarrow> json \<Rightarrow> tcb_info \<Rightarrow> bool" where
  "part_reads lib v t \<longleftrightarrow>
     getIntFieldOf v ''tcbType'' = Inr (ti_tcbType t, PS_OK) \<and>
     getUintFieldOf v ''tcbEvaluationDataNumber'' = Inr (ti_tcbEvaluationDataNumber t, PS_OK) \<and>
     module_reads lib v t"

lemma same_header_reads: "same_header t t' \<Longrightarrow> header_reads lib v t' = header_reads lib v t"
  by (simp add: same_header_def header_reads_def)

lemma info_header_reads:
  assumes "info_header lib v sigf = Inr t"
  shows "header_reads lib v t" and "ti_tdxModule t = ti_tdxModule tcb_info_new"
proof -
  from assms obtain ver i d n f p s where
    ver: "getUintFieldOf v ''version'' = Inr (ver, PS_OK)" "\<not> (ver \<noteq> TcbInfo_V2 \<and> ver \<noteq> TcbInfo_V3)"
    "info_identifier v ver = Inr i"
    and rest: "getDateFieldOf lib v ''issueDate'' = Inr (d, PS_OK)" "getDateFieldOf lib v ''nextUpdate'' = Inr (n, PS_OK)"
    "getBytesFieldOf v ''fmspc'' (FMSPC_BYTE_LEN * 2) = Inr (f, PS_OK)"
    "getBytesFieldOf v ''pceId'' (PCEID_BYTE_LEN * 2) = Inr (p, PS_OK)"
    and sig: "signature_bytes sigf = Inr s"
    and t: "Inr (tcb_info_new\<lparr>ti_version := ver, ti_id := i, ti_issueDate := d,
         ti_nextUpdate := n, ti_fmspc := f, ti_pceId := p, ti_signature := s\<rparr>) = (Inr t :: tcb_info outcome)"
    unfolding info_header_def bindE_eq_Inr required_Inr throw_if_Inr by (elim exE conjE) (rule that; assumption)
  from ver(3) have "if ver = 3 then getStringFieldOf v ''id'' = Inr (i, PS_OK) else i = SGX_ID"
    by (auto simp: info_identifier_def split: if_splits)
  with ver rest t show "header_reads lib v t" by (auto simp: header_reads_def)
  from t show "ti_tdxModule t = ti_tdxModule tcb_info_new" by auto
qed

definition wf_modules :: "tcb_info \<Rightarrow> bool" where
  "wf_modules t \<longleftrightarrow> (ti_id t = TDX_ID \<longrightarrow> wf_module (ti_tdxModule t)) \<and>
     (ti_id t = SGX_ID \<longrightarrow> ti_tdxModuleIdentities t = []) \<and>
     (\<forall>m\<in>set (ti_tdxModuleIdentities t). wf_module_identity m)"

lemma parsePartV2_fields:
  "parsePartV2 v t = Inr t' \<Longrightarrow> same_header t t' \<and> ti_tcbType t' = 0 \<and>
     ti_tdxModuleIdentities t' = ti_tdxModuleIdentities t"
  by (auto simp: parsePartV2_def same_header_def)

lemma module_identities_fields:
  assumes "module_identities lib v t = Inr t'"
  shows "same_header t t' \<and> ti_tcbType t' = ti_tcbType t \<and> ti_tdxModule t' = ti_tdxModule t \<and>
    (\<forall>m\<in>set (ti_tdxModuleIdentities t'). wf_module_identity m)"
proof -
  from assms obtain ms where ms: "read_all (TdxModuleIdentity lib) (elements v) = Inr ms"
    and t': "t' = t\<lparr>ti_tdxModuleIdentities := ms\<rparr>"
    by (auto simp: module_identities_def)
  have "\<forall>m\<in>set ms. wf_module_identity m" using read_all_set [OF ms] TdxModuleIdentity_wf by blast
  with t' show ?thesis by (simp add: same_header_def)
qed

lemma parsePartV3_fields:
  assumes "parsePartV3 lib v t = Inr t'" and "ti_id t \<in> {SGX_ID, TDX_ID}" and "ti_tdxModuleIdentities t = []"
  shows "same_header t t' \<and> ti_tcbType t' = ti_tcbType t \<and> wf_modules t'"
proof (cases "ti_id t = SGX_ID")
  case True
  then show ?thesis using assms by (simp add: parsePartV3_def same_header_def wf_modules_def SGX_ID_def TDX_ID_def)
next
  case False
  then have tdx: "ti_id t = TDX_ID" "TDX_ID \<noteq> SGX_ID" using assms(2) by (auto simp: SGX_ID_def TDX_ID_def)
  obtain m where m: "TdxModule (the (member v ''tdxModule'')) = Inr m" and rest:
    "case member v ''tdxModuleIdentities'' of
       None \<Rightarrow> t' = t\<lparr>ti_tdxModule := m\<rparr>
     | Some w \<Rightarrow> module_identities lib w (t\<lparr>ti_tdxModule := m\<rparr>) = Inr t'"
    using assms(1) tdx by (auto simp: parsePartV3_def Let_def split: option.splits)
  show ?thesis
  proof (cases "member v ''tdxModuleIdentities''")
    case None
    then show ?thesis using rest tdx assms(3) TdxModule_wf [OF m] by (simp add: same_header_def wf_modules_def)
  next
    case (Some w)
    then have "module_identities lib w (t\<lparr>ti_tdxModule := m\<rparr>) = Inr t'" using rest by simp
    from module_identities_fields [OF this] show ?thesis
      using tdx TdxModule_wf [OF m] by (simp add: same_header_def wf_modules_def)
  qed
qed

definition valid_tcb_info :: "tcb_info \<Rightarrow> bool" where
  "valid_tcb_info t \<longleftrightarrow>
     wf_levels t \<and> ti_tcbLevels t \<noteq> [] \<and> ti_version t \<in> {2, 3} \<and> ti_id t \<in> {SGX_ID, TDX_ID} \<and>
     (ti_version t = 2 \<longrightarrow> ti_id t = SGX_ID) \<and> length (ti_fmspc t) = 6 \<and> length (ti_pceId t) = 2 \<and>
     length (ti_signature t) \<le> 64 \<and> ti_tcbType t = 0 \<and>
     wf_modules t"

lemma signature_bytes_size:
  assumes "signature_bytes v = Inr sig"
  shows "length sig \<le> 64"
proof -
  from assms obtain s where s: "length s = 128" "sig = hexStringToBytes (c_str s)"
    by (cases v) (auto simp: signature_bytes_def split: if_splits)
  have "length (c_str s) \<le> length s" by (simp add: c_str_def length_takeWhile_le)
  with s show ?thesis
    by (auto simp: hexStringToBytes_def dest: hexLoop_size split: sum.split)
qed

lemma info_parts_fields:
  assumes "info_parts lib v t = Inr t'" and "ti_version t \<in> {2, 3}" "ti_id t \<in> {SGX_ID, TDX_ID}"
    and "ti_version t = 2 \<longrightarrow> ti_id t = SGX_ID" and "ti_tdxModuleIdentities t = []"
  shows "same_header t t' \<and> ti_tcbType t' = 0 \<and> wf_modules t'"
proof -
  have "TcbInfo_V2 \<le> ti_version t" using assms(2) by auto
  with assms(1) obtain t1 where t1: "parsePartV2 v t = Inr t1" and
    rest: "(if TcbInfo_V3 \<le> ti_version t1 then parsePartV3 lib v t1 else Inr t1) = Inr t'"
    by (auto simp: info_parts_def)
  note h = parsePartV2_fields [OF t1]
  show ?thesis
  proof (cases "TcbInfo_V3 \<le> ti_version t1")
    case True
    with rest have "parsePartV3 lib v t1 = Inr t'" by simp
    from parsePartV3_fields [OF this] h assms(3,5) show ?thesis by (simp add: same_header_def)
  next
    case False
    then have "ti_id t = SGX_ID" using assms(2,4) h by (auto simp: same_header_def)
    then show ?thesis
      using False rest h assms(5) by (simp add: same_header_def wf_modules_def SGX_ID_def TDX_ID_def)
  qed
qed

lemma parsePartV3_reads:
  assumes "parsePartV3 lib v t = Inr t'" and "ti_id t \<in> {SGX_ID, TDX_ID}" and "ti_tdxModuleIdentities t = []"
    and "ti_tdxModule t = ti_tdxModule tcb_info_new"
  shows "module_reads lib v t' \<and> ti_tcbEvaluationDataNumber t' = ti_tcbEvaluationDataNumber t"
proof (cases "ti_id t = SGX_ID")
  case True
  then show ?thesis using assms by (simp add: parsePartV3_def module_reads_def SGX_ID_def TDX_ID_def)
next
  case False
  then have tdx: "ti_id t = TDX_ID" "TDX_ID \<noteq> SGX_ID" using assms(2) by (auto simp: SGX_ID_def TDX_ID_def)
  then obtain w m where w: "member v ''tdxModule'' = Some w" "TdxModule w = Inr m" and rest:
    "case member v ''tdxModuleIdentities'' of
       None \<Rightarrow> t' = t\<lparr>ti_tdxModule := m\<rparr>
     | Some w \<Rightarrow> module_identities lib w (t\<lparr>ti_tdxModule := m\<rparr>) = Inr t'"
    using assms(1) by (auto simp: parsePartV3_def Let_def split: option.splits)
  show ?thesis
    using rest w tdx assms(3) by (auto simp: module_reads_def module_identities_def split: option.splits)
qed

lemma info_parts_reads:
  assumes "info_parts lib v t = Inr t'" and "ti_version t \<in> {2, 3}" "ti_id t \<in> {SGX_ID, TDX_ID}"
    and "ti_version t = 2 \<longrightarrow> ti_id t = SGX_ID" and "ti_tdxModuleIdentities t = []"
    and "ti_tdxModule t = ti_tdxModule tcb_info_new"
  shows "part_reads lib v t'"
proof -
  have "TcbInfo_V2 \<le> ti_version t" using assms(2) by auto
  with assms(1) obtain t1 where t1: "parsePartV2 v t = Inr t1" and
    rest: "(if TcbInfo_V3 \<le> ti_version t1 then parsePartV3 lib v t1 else Inr t1) = Inr t'"
    by (auto simp: info_parts_def)
  have read: "getIntFieldOf v ''tcbType'' = Inr (ti_tcbType t1, PS_OK)"
    "getUintFieldOf v ''tcbEvaluationDataNumber'' = Inr (ti_tcbEvaluationDataNumber t1, PS_OK)"
    "ti_tdxModule t1 = ti_tdxModule t" using t1 by (auto simp: parsePartV2_def)
  note h = parsePartV2_fields [OF t1]
  show ?thesis
  proof (cases "TcbInfo_V3 \<le> ti_version t1")
    case True
    with rest have "parsePartV3 lib v t1 = Inr t'" by simp
    note p = parsePartV3_reads [OF this] parsePartV3_fields [OF this]
    show ?thesis using p h read assms(3,5,6) by (simp add: part_reads_def same_header_def)
  next
    case False
    then have "ti_id t = SGX_ID" using assms(2,4) h by (auto simp: same_header_def)
    then show ?thesis
      using False rest h read assms(5,6)
      by (simp add: part_reads_def module_reads_def same_header_def SGX_ID_def TDX_ID_def)
  qed
qed

text \<open>What the constructor read, from the document to the fields.\<close>

lemma tcbInfo_parse_cases:
  assumes "TcbInfo_parse lib s = Inr t"
  obtains document tcbInfo sigf tcbs xs where
    "JsonParser_parse lib s = Some document" "getField document ''tcbInfo'' = Some tcbInfo"
    "IsObject tcbInfo" "getField document ''signature'' = Some sigf"
    "signature_bytes sigf = Inr (ti_signature t)" "member tcbInfo ''tcbLevels'' = Some tcbs"
    "read_all (TcbLevel lib (ti_version t) (ti_id t)) (elements tcbs) = Inr xs"
    "mset (ti_tcbLevels t) = mset xs" "json_depth tcbInfo \<le> 32"
    "ti_infoBody t = json_Accept lib (Some 25) tcbInfo" "valid_tcb_info t"
    "header_reads lib tcbInfo t" "part_reads lib tcbInfo t"
proof -
  from assms obtain document tcbInfo sigf where doc: "JsonParser_parse lib s = Some document"
    "getField document ''tcbInfo'' = Some tcbInfo" "IsObject tcbInfo"
    "getField document ''signature'' = Some sigf" and of: "tcbInfo_of lib tcbInfo sigf = Inr t"
    by (auto simp: TcbInfo_parse_def split: option.splits if_splits)
  from of obtain t1 tcbs t2 t3 where steps: "info_header lib tcbInfo sigf = Inr t1"
    "member tcbInfo ''tcbLevels'' = Some tcbs" "info_parts lib tcbInfo t1 = Inr t2"
    "info_levels lib tcbs t2 = Inr t3"
    "isWithinJsonDepthLimit tcbInfo MAX_TCB_INFO_JSON_DEPTH"
    "t = t3\<lparr>ti_infoBody := json_Accept lib (Some 25) tcbInfo\<rparr>"
    by (auto simp: tcbInfo_of_def simp del: MAX_TCB_INFO_JSON_DEPTH_def split: option.splits)
  note h = info_header_fields [OF steps(1)]
  have parts: "same_header t1 t2" "ti_tcbType t2 = 0" "wf_modules t2"
    using info_parts_fields [OF steps(3)] h by blast+
  from steps(4) obtain xs ls where levels:
    "read_all (TcbLevel lib (ti_version t2) (ti_id t2)) (elements tcbs) = Inr xs" "mset ls = mset xs"
    "tcb_levels.ordered (ti_version t2) (ti_id t2) ls" "ls \<noteq> []" "t3 = t2\<lparr>ti_tcbLevels := ls\<rparr>"
    unfolding info_levels_iff by blast
  have "wf_level l" if "l \<in> set ls" for l
  proof -
    have "l \<in> set xs" using that levels(2) by (metis set_mset_mset)
    from read_all_set [OF levels(1) this] obtain v where "TcbLevel lib (ti_version t2) (ti_id t2) v = Inr l" .
    then show ?thesis using TcbLevel_wf by blast
  qed
  moreover have same: "ti_version t = ti_version t1" "ti_id t = ti_id t1" "ti_fmspc t = ti_fmspc t1"
    "ti_pceId t = ti_pceId t1" "ti_signature t = ti_signature t1" "ti_tcbType t = 0" "wf_modules t"
    "ti_tcbLevels t = ls" "ti_version t2 = ti_version t1" "ti_id t2 = ti_id t1"
    using parts levels(5) steps(6) by (simp_all add: same_header_def wf_modules_def)
  moreover have "length (ti_signature t1) \<le> 64" using h signature_bytes_size by blast
  ultimately have "valid_tcb_info t"
    using h levels(3,4)
    by (simp add: valid_tcb_info_def wf_levels_def wf_tcb_info_def wf_modules_def wf_module_identity_def)
  moreover have "json_depth tcbInfo \<le> 32" using depth_limit_iff [of 32 tcbInfo] steps(5) by simp
  moreover have "ti_infoBody t = json_Accept lib (Some 25) tcbInfo" using steps(6) by simp
  moreover have "header_reads lib tcbInfo t"
  proof -
    have "same_header t1 t" using parts(1) levels(5) steps(6) by (simp add: same_header_def)
    then show ?thesis using same_header_reads info_header_reads(1) [OF steps(1)] by blast
  qed
  moreover have "part_reads lib tcbInfo t"
  proof -
    have "part_reads lib tcbInfo t2"
      using info_parts_reads [OF steps(3)] h info_header_reads(2) [OF steps(1)] by blast
    then show ?thesis using levels(5) steps(6) by (simp add: part_reads_def module_reads_def split: option.splits if_splits)
  qed
  ultimately show ?thesis
    using that [OF doc _ steps(2)] h levels(1,2) same by simp
qed

section \<open>What the enclave identity constructor accepts\<close>

definition valid_enclave_identity :: "enclave_identity \<Rightarrow> bool" where
  "valid_enclave_identity e \<longleftrightarrow>
     wf_enclave_identity e \<and> ei_identityTcbLevels e \<noteq> [] \<and> ei_version e = 2 \<and>
     length (ei_miscselect e) = 4 \<and> length (ei_miscselectMask e) = 4 \<and>
     length (ei_attributes e) = 16 \<and> length (ei_attributesMask e) = 16 \<and>
     length (ei_mrSigner e) = 32 \<and> length (ei_signature e) \<le> 64 \<and>
     (\<forall>l\<in>set (ei_identityTcbLevels e). il_tcbStatus l \<in> {TS_UpToDate, TS_OutOfDate, TS_Revoked})"

lemma identity_status_cases:
  "identity_status s \<in> {Inl InvalidExtensionException, Inr TS_UpToDate, Inr TS_OutOfDate, Inr TS_Revoked}"
  by (auto simp: identity_status_def parseStringToTcbStatus_def)

lemma IdentityTcbLevel_status:
  assumes "IdentityTcbLevel lib v = Inr l"
  shows "il_tcbStatus l \<in> {TS_UpToDate, TS_OutOfDate, TS_Revoked}"
proof -
  from assms obtain s where "identity_status s = Inr (il_tcbStatus l)"
    by (auto simp: IdentityTcbLevel_def split: option.splits)
  with identity_status_cases [of s] show ?thesis by auto
qed

lemma identity_fields_wf:
  assumes "identity_fields lib v = Inr e"
  shows "ei_version e = 2 \<and> length (ei_miscselect e) = 4 \<and> length (ei_miscselectMask e) = 4 \<and>
     length (ei_attributes e) = 16 \<and> length (ei_attributesMask e) = 16 \<and> length (ei_mrSigner e) = 32"
proof -
  have sizes: "getBytesFieldOf v f 8 = Inr (b, PS_OK) \<Longrightarrow> length b = 4"
    "getBytesFieldOf v f 32 = Inr (b, PS_OK) \<Longrightarrow> length b = 16"
    "getBytesFieldOf v f 64 = Inr (b, PS_OK) \<Longrightarrow> length b = 32" for f b
    using getBytesFieldOf_size [of v f _ b] by fastforce+
  from assms show ?thesis
    by (auto simp: identity_fields_def split: option.splits) (erule sizes)+
qed

text \<open>The fields of an enclave identity are those of one object of the document.\<close>

definition identity_reads :: "json_library \<Rightarrow> json \<Rightarrow> enclave_identity \<Rightarrow> bool" where
  "identity_reads lib v e \<longleftrightarrow>
     (\<exists>name. getStringFieldOf v ''id'' = Inr (name, PS_OK) \<and> map_of stringToIdMap name = Some (ei_id e)) \<and>
     getUintFieldOf v ''version'' = Inr (ei_version e, PS_OK) \<and>
     getDateFieldOf lib v ''issueDate'' = Inr (ei_issueDate e, PS_OK) \<and>
     getDateFieldOf lib v ''nextUpdate'' = Inr (ei_nextUpdate e, PS_OK) \<and>
     getUintFieldOf v ''tcbEvaluationDataNumber'' = Inr (ei_tcbEvaluationDataNumber e, PS_OK) \<and>
     getBytesFieldOf v ''miscselect'' 8 = Inr (ei_miscselect e, PS_OK) \<and>
     getBytesFieldOf v ''miscselectMask'' 8 = Inr (ei_miscselectMask e, PS_OK) \<and>
     getBytesFieldOf v ''attributes'' 32 = Inr (ei_attributes e, PS_OK) \<and>
     getBytesFieldOf v ''attributesMask'' 32 = Inr (ei_attributesMask e, PS_OK) \<and>
     getBytesFieldOf v ''mrsigner'' 64 = Inr (ei_mrSigner e, PS_OK) \<and>
     getUintFieldOf v ''isvprodid'' = Inr (ei_isvProdId e, PS_OK)"

lemma identity_fields_reads: "identity_fields lib v = Inr e \<Longrightarrow> identity_reads lib v e"
  by (auto simp: identity_fields_def identity_reads_def split: option.splits)

text \<open>What the constructor read, from the document to the fields.\<close>

lemma enclaveIdentity_parse_cases:
  assumes "EnclaveIdentity_parse lib s = Inr e"
  obtains document enclaveIdentity sigf tcbs xs where
    "JsonParser_parse lib s = Some document" "getField document ''enclaveIdentity'' = Some enclaveIdentity"
    "IsObject enclaveIdentity" "getField document ''signature'' = Some sigf"
    "signature_bytes sigf = Inr (ei_signature e)" "member enclaveIdentity ''tcbLevels'' = Some tcbs"
    "read_all (IdentityTcbLevel lib) (elements tcbs) = Inr xs"
    "mset (ei_identityTcbLevels e) = mset xs" "json_depth enclaveIdentity \<le> 32"
    "ei_body e = json_Accept lib None enclaveIdentity" "valid_enclave_identity e"
    "identity_reads lib enclaveIdentity e"
proof -
  from assms obtain document enclaveIdentity sigf where doc: "JsonParser_parse lib s = Some document"
    "getField document ''enclaveIdentity'' = Some enclaveIdentity" "IsObject enclaveIdentity"
    "getField document ''signature'' = Some sigf" and of: "enclaveIdentity_of lib enclaveIdentity sigf = Inr e"
    by (auto simp: EnclaveIdentity_parse_def split: option.splits if_splits)
  from of obtain e1 sig tcbs ls where steps: "identity_fields lib enclaveIdentity = Inr e1"
    "signature_bytes sigf = Inr sig" "member enclaveIdentity ''tcbLevels'' = Some tcbs"
    "emplace_all identityTcbLevel_greater InvalidExtensionException (IdentityTcbLevel lib) (elements tcbs) [] = Inr ls"
    "ls \<noteq> []" "isWithinJsonDepthLimit enclaveIdentity MAX_ENCLAVE_IDENTITY_JSON_DEPTH"
    "e = e1\<lparr>ei_signature := sig, ei_identityTcbLevels := ls, ei_body := json_Accept lib None enclaveIdentity\<rparr>"
    by (auto simp: enclaveIdentity_of_def simp del: MAX_ENCLAVE_IDENTITY_JSON_DEPTH_def split: option.splits)
  from steps(4) have "\<exists>xs. read_all (IdentityTcbLevel lib) (elements tcbs) = Inr xs \<and>
      identity_levels.ordered ls \<and> mset ls = mset xs + mset []"
    by (subst (asm) identity_levels.emplace_all_iff) auto
  then obtain xs where levels: "read_all (IdentityTcbLevel lib) (elements tcbs) = Inr xs"
    "sorted_wrt identityTcbLevel_greater ls" "mset ls = mset xs" by auto
  have "il_tcbStatus l \<in> {TS_UpToDate, TS_OutOfDate, TS_Revoked}" if "l \<in> set ls" for l
  proof -
    have "l \<in> set xs" using that levels(3) by (metis set_mset_mset)
    from read_all_set [OF levels(1) this] show ?thesis using IdentityTcbLevel_status by blast
  qed
  then have "valid_enclave_identity e"
    using identity_fields_wf [OF steps(1)] signature_bytes_size [OF steps(2)] steps(5,7) levels(2)
    by (simp add: valid_enclave_identity_def wf_enclave_identity_def)
  moreover have "json_depth enclaveIdentity \<le> 32" using depth_limit_iff [of 32 enclaveIdentity] steps(6) by simp
  moreover have "identity_reads lib enclaveIdentity e"
    using identity_fields_reads [OF steps(1)] steps(7) by (simp add: identity_reads_def)
  ultimately show ?thesis
    using that [OF doc _ steps(3) levels(1)] levels(3) steps(2,7) by simp
qed

section \<open>Exceptions of the constructors\<close>

abbreviation parser_exns :: "exn set" where
  "parser_exns \<equiv> {FormatException, InvalidExtensionException}"

lemma throws_required [throws]:
  "throws_only S f \<Longrightarrow> m \<in> S \<Longrightarrow> i \<in> S \<Longrightarrow> throws_only S (required m i f)"
  by (cases f) (auto simp: required_def throws_only_def split: parse_status.splits)

lemma throws_optional [throws]: "throws_only S f \<Longrightarrow> i \<in> S \<Longrightarrow> throws_only S (optional i f)"
  by (cases f) (auto simp: optional_def throws_only_def split: parse_status.splits)

lemma throws_checkParseStatus [throws]:
  "throws_only S f \<Longrightarrow> InvalidExtensionException \<in> S \<Longrightarrow> throws_only S (checkParseStatus f)"
  by (cases f) (auto simp: checkParseStatus_def throws_only_def split: if_splits)

lemma throws_getters [simp]:
  assumes "FormatException \<in> S"
  shows "throws_only S (getStringFieldOf j f)" "throws_only S (getUintFieldOf j f)"
    "throws_only S (getIntFieldOf j f)" "throws_only S (getBytesFieldOf j f n)"
    "throws_only S (getDateFieldOf lib j f)" "throws_only S (getStringVecFieldOf j f)"
  using assms
  by (auto simp: throws_only_def getStringFieldOf_def getUintFieldOf_def getIntFieldOf_def getBytesFieldOf_def
      getDateFieldOf_def getStringVecFieldOf_def getFieldOf_def split: if_splits option.splits json.splits)

lemma throws_read_all [throws]: "(\<And>v. throws_only S (r v)) \<Longrightarrow> throws_only S (read_all r vs)"
  by (induction vs) (auto intro!: throws)

lemma throws_emplace_all [throws]:
  "(\<And>v. throws_only S (r v)) \<Longrightarrow> dup \<in> S \<Longrightarrow> throws_only S (emplace_all before dup r vs s)"
  by (induction vs arbitrary: s) (auto intro!: throws split: prod.split)

lemma throws_cpu_svns [simp]: "throws_only parser_exns (cpu_svns tcb names)"
  by (induction names) (auto intro!: throws)

lemma throws_component [simp]: "throws_only parser_exns (TcbComponent j)"
  by (auto simp: TcbComponent_def intro!: throws)

lemma throws_component_array [simp]: "throws_only parser_exns (component_array tcb f)"
  by (auto simp: component_array_def intro!: throws split: option.split)

lemma throws_level [simp]: "throws_only parser_exns (TcbLevel lib v i j)"
proof -
  have "throws_only parser_exns (parseTcbLevelCommon lib j l)" for l
    by (auto simp: parseTcbLevelCommon_def parseStatus_def intro!: throws split: option.split)
  moreover have "throws_only parser_exns (parseSvns j l)" for l
    by (auto simp: parseSvns_def setCpuSvn_def intro!: throws split: option.split)
  moreover have "throws_only parser_exns (setTcbComponents tcb l)" for tcb l
    by (auto simp: setTcbComponents_def Let_def intro!: throws)
  ultimately show ?thesis
    by (auto simp: TcbLevel_def parseTcbLevelV2_def parseTcbLevelV3_def intro!: throws split: option.split)
qed

lemma throws_module [simp]: "throws_only parser_exns (TdxModule j)"
  by (auto simp: TdxModule_def intro!: throws)

lemma throws_module_level [simp]: "throws_only parser_exns (TdxModuleTcbLevel lib j)"
  by (auto simp: TdxModuleTcbLevel_def TdxModuleTcb_def intro!: throws split: option.split)

lemma throws_module_identity [simp]: "throws_only parser_exns (TdxModuleIdentity lib j)"
  by (auto simp: TdxModuleIdentity_def intro!: throws split: option.split)

lemma throws_signature [simp]: "InvalidExtensionException \<in> S \<Longrightarrow> throws_only S (signature_bytes j)"
  by (auto simp: signature_bytes_def split: json.split)

lemma throws_info_levels [simp]: "throws_only parser_exns (info_levels lib v t)"
  by (auto simp: info_levels_def intro!: throws)

lemma throws_info_parts [simp]: "throws_only parser_exns (info_parts lib v t)"
proof -
  have "throws_only parser_exns (parsePartV2 v t)" for t
    by (auto simp: parsePartV2_def intro!: throws)
  moreover have "throws_only parser_exns (parsePartV3 lib v t)" for t
    by (auto simp: parsePartV3_def module_identities_def Let_def intro!: throws split: option.split)
  ultimately show ?thesis by (auto simp: info_parts_def intro!: throws)
qed

lemma throws_info_header [simp]: "throws_only parser_exns (info_header lib v sigf)"
  by (auto simp: info_header_def info_identifier_def intro!: throws)

lemma throws_tcbInfo_parse: "throws_only parser_exns (TcbInfo_parse lib s)"
  by (auto simp: TcbInfo_parse_def tcbInfo_of_def intro!: throws split: option.split)

abbreviation identity_exns :: "exn set" where
  "identity_exns \<equiv> {FormatException, InvalidExtensionException, InvalidVersionException}"

lemma throws_identity_level [simp]: "throws_only identity_exns (IdentityTcbLevel lib v)"
proof -
  have "throws_only identity_exns (identity_status s)" for s
    using identity_status_cases [of s] by auto
  then show ?thesis by (auto simp: IdentityTcbLevel_def intro!: throws split: option.split)
qed

lemma throws_identity_fields [simp]: "throws_only identity_exns (identity_fields lib v)"
  by (auto simp: identity_fields_def intro!: throws split: option.split)

lemma throws_enclaveIdentity_parse: "throws_only identity_exns (EnclaveIdentity_parse lib s)"
  by (auto simp: EnclaveIdentity_parse_def enclaveIdentity_of_def intro!: throws split: option.split)

section \<open>Properties\<close>

text \<open>
  C32: whatever the text, the TCB info constructor either throws \<^verbatim>\<open>FormatException\<close> or
  \<^verbatim>\<open>InvalidExtensionException\<close>, and the enclave identity constructor one of these or
  \<^verbatim>\<open>InvalidVersionException\<close>, or they give collateral with the sizes, versions, statuses
  and strictly descending level sets the evaluation relies on.  (The comments of
  \<^verbatim>\<open>AttestationParsers.h\<close> promise \<^verbatim>\<open>FormatException\<close> alone.)
\<close>

theorem collateral_parse_valid:
  "(case TcbInfo_parse lib s of
      Inl x \<Rightarrow> x \<in> {FormatException, InvalidExtensionException}
    | Inr t \<Rightarrow> valid_tcb_info t) \<and>
   (case EnclaveIdentity_parse lib s of
      Inl x \<Rightarrow> x \<in> {FormatException, InvalidExtensionException, InvalidVersionException}
    | Inr e \<Rightarrow> valid_enclave_identity e)"
proof
  show "case TcbInfo_parse lib s of Inl x \<Rightarrow> x \<in> parser_exns | Inr t \<Rightarrow> valid_tcb_info t"
    using throws_tcbInfo_parse [of lib s] tcbInfo_parse_cases
    by (cases "TcbInfo_parse lib s") (auto simp: throws_only_def)
  show "case EnclaveIdentity_parse lib s of Inl x \<Rightarrow> x \<in> identity_exns | Inr e \<Rightarrow> valid_enclave_identity e"
    using throws_enclaveIdentity_parse [of lib s] enclaveIdentity_parse_cases
    by (cases "EnclaveIdentity_parse lib s") (auto simp: throws_only_def)
qed

text \<open>
  C33: the level set of a TCB info is the strictly descending arrangement of all levels of the
  array, whatever their order in the document; when there is none, because two levels are
  equivalent, or a level cannot be read, or there is no level, the document is refused.
\<close>

theorem tcb_levels_sorted_permutation:
  "info_levels lib tcbs t = Inr t' \<longleftrightarrow>
   IsArray tcbs \<and> (\<exists>xs ls. read_all (TcbLevel lib (ti_version t) (ti_id t)) (elements tcbs) = Inr xs \<and>
     mset ls = mset xs \<and> sorted_wrt tcbLevel_greater ls \<and> ls \<noteq> [] \<and> t' = t\<lparr>ti_tcbLevels := ls\<rparr>)"
proof -
  have "\<forall>l\<in>set ls. level_of (ti_version t) (ti_id t) l"
    if "read_all (TcbLevel lib (ti_version t) (ti_id t)) (elements tcbs) = Inr xs" "mset ls = mset xs" for xs ls
  proof
    fix l assume "l \<in> set ls"
    then have "l \<in> set xs" using that(2) by (metis set_mset_mset)
    from read_all_set [OF that(1) this] obtain v where "TcbLevel lib (ti_version t) (ti_id t) v = Inr l" .
    then show "level_of (ti_version t) (ti_id t) l" using TcbLevel_wf by blast
  qed
  then show ?thesis unfolding info_levels_iff by blast
qed

text \<open>
  C34: the bytes whose signature is checked are the serialisation of the very member from which each
  field of the parsed collateral is read: for the TCB info the version, the identifier, the dates, the
  FMSPC, the PCE identifier, the type, the evaluation number, the TDX module data and every level; for
  the enclave identity all its fields and every level.  Only the signature is read outside of it.
\<close>

theorem collateral_signed_body:
  assumes "TcbInfo_parse lib s = Inr t" and "EnclaveIdentity_parse lib s' = Inr e"
  shows "(\<exists>document tcbInfo sigf tcbs xs. JsonParser_parse lib s = Some document \<and>
      getField document ''tcbInfo'' = Some tcbInfo \<and> getField document ''signature'' = Some sigf \<and>
      signature_bytes sigf = Inr (ti_signature t) \<and> header_reads lib tcbInfo t \<and> part_reads lib tcbInfo t \<and>
      member tcbInfo ''tcbLevels'' = Some tcbs \<and>
      read_all (TcbLevel lib (ti_version t) (ti_id t)) (elements tcbs) = Inr xs \<and>
      mset (ti_tcbLevels t) = mset xs \<and> json_depth tcbInfo \<le> 32 \<and>
      ti_infoBody t = json_Accept lib (Some 25) tcbInfo) \<and>
    (\<exists>document enclaveIdentity sigf tcbs xs. JsonParser_parse lib s' = Some document \<and>
      getField document ''enclaveIdentity'' = Some enclaveIdentity \<and> getField document ''signature'' = Some sigf \<and>
      signature_bytes sigf = Inr (ei_signature e) \<and> identity_reads lib enclaveIdentity e \<and>
      member enclaveIdentity ''tcbLevels'' = Some tcbs \<and>
      read_all (IdentityTcbLevel lib) (elements tcbs) = Inr xs \<and>
      mset (ei_identityTcbLevels e) = mset xs \<and> json_depth enclaveIdentity \<le> 32 \<and>
      ei_body e = json_Accept lib None enclaveIdentity)"
  by (rule tcbInfo_parse_cases [OF assms(1)], rule enclaveIdentity_parse_cases [OF assms(2)])
    (intro conjI exI; assumption)

section \<open>Sample documents\<close>

definition sample_level_json :: "int \<Rightarrow> string \<Rightarrow> json" where
  "sample_level_json n st = JObject [
     (''tcb'', JObject [(''pcesvn'', JInt n),
        (''sgxtcbcomponents'', JArray (replicate 16 (JObject [(''svn'', JInt n)])))]),
     (''tcbDate'', JString ''2024-01-01T00:00:00Z''), (''tcbStatus'', JString st)]"

definition sample_info_json :: json where
  "sample_info_json = JObject [
     (''id'', JString ''SGX''), (''version'', JInt 3), (''issueDate'', JString ''1970-01-01T00:00:10Z''),
     (''nextUpdate'', JString ''1970-01-01T00:00:30Z''), (''fmspc'', JString ''000000000000''),
     (''pceId'', JString ''0000''), (''tcbType'', JInt 0), (''tcbEvaluationDataNumber'', JInt 5),
     (''tcbLevels'', JArray [sample_level_json 1 ''OutOfDate'', sample_level_json 5 ''UpToDate''])]"

definition sample_identity_json :: json where
  "sample_identity_json = JObject [
     (''id'', JString ''QE''), (''version'', JInt 2), (''issueDate'', JString ''1970-01-01T00:00:10Z''),
     (''nextUpdate'', JString ''1970-01-01T00:00:30Z''), (''tcbEvaluationDataNumber'', JInt 5),
     (''miscselect'', JString ''00000000''), (''miscselectMask'', JString ''FFFFFFFF''),
     (''attributes'', JString (replicate 32 CHR ''0'')), (''attributesMask'', JString (replicate 32 CHR ''0'')),
     (''mrsigner'', JString (replicate 64 CHR ''0'')), (''isvprodid'', JInt 1),
     (''tcbLevels'', JArray [JObject [(''tcb'', JObject [(''isvsvn'', JInt 2)]),
        (''tcbDate'', JString ''2024-01-01T00:00:00Z''), (''tcbStatus'', JString ''UpToDate'')]])]"

definition sample_document :: "string \<Rightarrow> json \<Rightarrow> json" where
  "sample_document field v = JObject [(field, v), (''signature'', JString (replicate 128 CHR ''0''))]"

definition sample_library :: json_library where
  "sample_library = \<lparr>
     json_Parse = (\<lambda>s. if s = ''info'' then Some (sample_document ''tcbInfo'' sample_info_json)
       else if s = ''identity'' then Some (sample_document ''enclaveIdentity'' sample_identity_json) else None),
     json_Accept = (\<lambda>_ _. [1, 2, 3]), json_time = sample_time\<rparr>"

lemma sample_info_parses: "\<not> isl (TcbInfo_parse sample_library ''info'')"
  by code_simp

lemma sample_identity_parses: "\<not> isl (EnclaveIdentity_parse sample_library ''identity'')"
  by code_simp

theorem collateral_signed_body_witness:
  "\<exists>t. TcbInfo_parse sample_library ''info'' = Inr t \<and> ti_infoBody t = [1, 2, 3]"
proof -
  obtain t e where "TcbInfo_parse sample_library ''info'' = Inr t"
    "EnclaveIdentity_parse sample_library ''identity'' = Inr e"
    using sample_info_parses sample_identity_parses by (metis isl_def sum.exhaust)
  with collateral_signed_body [OF this] show ?thesis by (auto simp: sample_library_def)
qed

lemma TcbComponent_truncates:
  "case TcbComponent (JObject [(''svn'', JInt 256)]) of Inl _ \<Rightarrow> False | Inr c \<Rightarrow> comp_svn c = 0"
  by code_simp

end
