(* ===== verification/CrlParser.thy ===== *)
theory CrlParser
  imports CertificateParser ByteOperands
begin

text \<open>
  \<^verbatim>\<open>PckParser/PckParser.cpp\<close> and \<^verbatim>\<open>CrlStore::parse\<close>:
  from the text of a revocation list to a \<open>crl_store\<close>.  The record \<open>x509_crl\<close> holds what
  OpenSSL's accessors return for a list, with \<open>None\<close> for a null pointer or a failed conversion;
  reading PEM and DER is a parameter.  The exceptions are those of the namespace
  \<^verbatim>\<open>pckparser\<close>, which \<^verbatim>\<open>CrlStore::parse\<close> catches.  The file has its
  own copies of the helpers of \<^verbatim>\<open>ParserUtils.cpp\<close> and \<^verbatim>\<open>Extension.cpp\<close>
  (theory CertificateParser); the lemmas at the end show that they agree.
\<close>

section \<open>What OpenSSL returns\<close>

text \<open>
  An entry of the list: its serial number and the printed date (empty where it cannot be printed).
\<close>

record revoked_object =
  ro_serialNumber :: "bytes option"
  ro_revocationDate :: "string option"

record x509_crl =
  xc_encoding :: bytes
  xc_issuer :: "name_object option"
  xc_lastUpdate :: "asn1_time option"
  xc_nextUpdate :: "asn1_time option"
  xc_extensions :: "extension_object list"
  xc_revokedStack :: "revoked_object option list option"
  xc_sig :: "bytes option"
  xc_alg :: bool
  xc_crlNumber :: "int option"
  xc_version :: int
  xc_ext_count :: int

record crl_reader =
  d2i_X509_CRL_bio :: "bytes \<Rightarrow> x509_crl option"
  PEM_read_bio_X509_CRL :: "string \<Rightarrow> x509_crl option"

section \<open>Reading the parts\<close>

definition PEM_STRING_X509_CRL :: string where
  "PEM_STRING_X509_CRL = ''X509 CRL''"

text \<open>\<^verbatim>\<open>rfind(s, 12)\<close> looks for an occurrence that starts at 12 or before.\<close>

definition rfind_upto :: "string \<Rightarrow> string \<Rightarrow> nat \<Rightarrow> nat option" where
  "rfind_upto s pat pos =
     List.find (\<lambda>i. take (length pat) (drop i s) = pat) (rev [0..<min (Suc pos) (Suc (length s))])"

definition str2X509Crl :: "crl_reader \<Rightarrow> string \<Rightarrow> x509_crl outcome" where
  "str2X509Crl crd str =
     (if rfind_upto str PEM_STRING_X509_CRL 12 = None then
        let bytes = hexStringToBytes str in
        if length bytes < 1 then Inl FormatException
        else (case d2i_X509_CRL_bio crd bytes of None \<Rightarrow> Inl FormatException | Some ret \<Rightarrow> Inr ret)
      else if length (c_str str) < 1 then Inl FormatException
      else (case PEM_read_bio_X509_CRL crd (c_str str) of
              None \<Rightarrow> Inl FormatException | Some ret \<Rightarrow> Inr ret))"

definition crl_x509NameToString :: "name_object option \<Rightarrow> string" where
  "crl_x509NameToString name =
     (case name of
        None \<Rightarrow> []
      | Some n \<Rightarrow> let data = no_rfc2253 n in if length data \<le> 0 then [] else data)"

definition crl_getNameEntry :: "name_object option \<Rightarrow> name_nid \<Rightarrow> string" where
  "crl_getNameEntry name n =
     (case name of
        None \<Rightarrow> []
      | Some nm \<Rightarrow>
          if length (no_entries nm) \<le> 0 then []
          else (case List.find (\<lambda>e. ne_nid e = n) (no_entries nm) of
                  None \<Rightarrow> []
                | Some entry \<Rightarrow>
                    let asn1EstimatedStrLen = ne_estimatedLen entry in
                    if asn1EstimatedStrLen \<le> 0 then []
                    else (case ne_utf8 entry of
                            None \<Rightarrow> []
                          | Some strBuff \<Rightarrow>
                              if asn1EstimatedStrLen \<noteq> int (length strBuff) then [] else strBuff)))"

definition crl_asn1TimeToTimet :: "asn1_time \<Rightarrow> time_t outcome" where
  "crl_asn1TimeToTimet asn1Time =
     (let resultTime = 0 in
      case asn1Time of
        None \<Rightarrow> Inl FormatException
      | Some (pday, psec) \<Rightarrow> Inr (resultTime + pday * (24 * 60 * 60) + psec))"

definition asn1TimePeriodToValidity :: "asn1_time \<Rightarrow> asn1_time \<Rightarrow> validity outcome" where
  "asn1TimePeriodToValidity validityBegin validityEnd =
     bindE (crl_asn1TimeToTimet validityBegin) (\<lambda>notBefore.
     bindE (crl_asn1TimeToTimet validityEnd) (\<lambda>notAfter.
     Inr \<lparr>notBeforeTime = notBefore, notAfterTime = notAfter\<rparr>))"

definition crl_getExtension :: "extension_object \<Rightarrow> x509_extension outcome" where
  "crl_getExtension ex =
     (if eo_nid ex = NID_undef then
        (let extName = eo_oidText ex in
         case eo_data ex of
           None \<Rightarrow> Inl FormatException
         | Some val \<Rightarrow> Inr \<lparr>ext_nid = eo_nid ex, ext_name = extName, ext_value = val\<rparr>)
      else
        (case eo_printed ex of
           None \<Rightarrow> Inr \<lparr>ext_nid = eo_nid ex, ext_name = eo_longName ex, ext_value = the (eo_data ex)\<rparr>
         | Some bptr \<Rightarrow>
             Inr \<lparr>ext_nid = eo_nid ex, ext_name = eo_longName ex,
               ext_value = (let kept = filter (\<lambda>chr. chr \<noteq> 13 \<and> chr \<noteq> 10) bptr
                 in kept @ drop (length kept) (replicate (length bptr) 0))\<rparr>))"

definition getVersion :: "x509_crl \<Rightarrow> int" where
  "getVersion crl = xc_version crl + 1"

definition getExtensionCount :: "x509_crl \<Rightarrow> int outcome" where
  "getExtensionCount crl = (if xc_ext_count crl < 0 then Inl FormatException else Inr (xc_ext_count crl))"

primrec generate_extensions :: "extension_object list \<Rightarrow> x509_extension list outcome" where
  "generate_extensions [] = Inr []"
| "generate_extensions (ex # exs) =
     bindE (crl_getExtension ex) (\<lambda>e. bindE (generate_extensions exs) (\<lambda>es. Inr (e # es)))"

definition getIssuer :: "x509_crl \<Rightarrow> crl_issuer outcome" where
  "getIssuer crl =
     (let issuer = xc_issuer crl in
      if issuer = None then Inl FormatException
      else Inr \<lparr>
        iss_raw = crl_x509NameToString issuer,
        iss_commonName = crl_getNameEntry issuer NID_commonName,
        iss_countryName = crl_getNameEntry issuer NID_countryName,
        iss_organizationName = crl_getNameEntry issuer NID_organizationName,
        iss_locationName = crl_getNameEntry issuer NID_localityName,
        iss_stateName = crl_getNameEntry issuer NID_stateOrProvinceName\<rparr>)"

definition getValidity :: "x509_crl \<Rightarrow> validity outcome" where
  "getValidity crl =
     (case xc_lastUpdate crl of
        None \<Rightarrow> Inl FormatException
      | Some lastUpdate \<Rightarrow>
          (case xc_nextUpdate crl of
             None \<Rightarrow> Inl FormatException
           | Some nextUpdate \<Rightarrow> asn1TimePeriodToValidity lastUpdate nextUpdate))"

definition getExtensions :: "x509_crl \<Rightarrow> x509_extension list outcome" where
  "getExtensions crl = generate_extensions (xc_extensions crl)"

text \<open>An entry that cannot be read becomes an empty one.\<close>

definition revoked_of :: "revoked_object option \<Rightarrow> crl_revoked" where
  "revoked_of revoked =
     (let empty = \<lparr>rev_dateStr = [], rev_serialNumber = []\<rparr> in
      case revoked of
        None \<Rightarrow> empty
      | Some r \<Rightarrow>
          (case (ro_serialNumber r, ro_revocationDate r) of
             (Some serialNumber, Some time) \<Rightarrow>
               if serialNumber = [] then empty
               else \<lparr>rev_dateStr = time, rev_serialNumber = serialNumber\<rparr>
           | _ \<Rightarrow> empty))"

definition getRevokedCount :: "x509_crl \<Rightarrow> nat outcome" where
  "getRevokedCount crl =
     (case xc_revokedStack crl of None \<Rightarrow> Inr 0 | Some revokedStack \<Rightarrow> Inr (length revokedStack))"

definition getRevoked :: "x509_crl \<Rightarrow> crl_revoked list outcome" where
  "getRevoked crl =
     (case xc_revokedStack crl of
        None \<Rightarrow> Inr []
      | Some revokedStack \<Rightarrow>
          bindE (getRevokedCount crl) (\<lambda>revCount.
            if revCount = 0 then Inr [] else Inr (map (\<lambda>index. revoked_of (revokedStack ! index)) [0..<revCount])))"

definition crl_bits_signature :: "x509_reader \<Rightarrow> bytes \<Rightarrow> x509_signature" where
  "crl_bits_signature rd psig =
     (let rawDerSequence = psig in
      case d2i_ECDSA_SIG rd rawDerSequence of
        None \<Rightarrow> \<lparr>sig_rawDer = rawDerSequence, sig_r = [], sig_s = []\<rparr>
      | Some (r, s) \<Rightarrow> \<lparr>sig_rawDer = rawDerSequence, sig_r = r, sig_s = s\<rparr>)"

definition getSignature :: "x509_reader \<Rightarrow> x509_crl \<Rightarrow> x509_signature outcome" where
  "getSignature rd crl =
     (case xc_sig crl of
        None \<Rightarrow> Inl FormatException
      | Some psig \<Rightarrow>
          if \<not> xc_alg crl then Inl FormatException
          else if psig = [] then Inr \<lparr>sig_rawDer = [], sig_r = [], sig_s = []\<rparr>
          else Inr (crl_bits_signature rd psig))"

definition getCrlNum :: "x509_crl \<Rightarrow> int outcome" where
  "getCrlNum crl = (case xc_crlNumber crl of None \<Rightarrow> Inl FormatException | Some n \<Rightarrow> Inr n)"

section \<open>CrlStore::parse\<close>

text \<open>
  The members are assigned one after the other; an exception leaves the earlier ones assigned.
\<close>

fun assign_members :: "(crl_store \<Rightarrow> crl_store outcome) list \<Rightarrow> crl_store \<Rightarrow> bool \<times> crl_store" where
  "assign_members [] st = (True, st)"
| "assign_members (f # fs) st =
     (case f st of Inl _ \<Rightarrow> (False, st) | Inr st' \<Rightarrow> assign_members fs st')"

definition crl_parse :: "x509_reader \<Rightarrow> crl_reader \<Rightarrow> string \<Rightarrow> crl_store \<Rightarrow> bool \<times> crl_store" where
  "crl_parse rd crd crlString st =
     (case str2X509Crl crd crlString of
        Inl _ \<Rightarrow> (False, st)
      | Inr crl \<Rightarrow> assign_members [
          \<lambda>st. Inr (st\<lparr>crl_object := xc_encoding crl\<rparr>),
          \<lambda>st. bindE (getIssuer crl) (\<lambda>v. Inr (st\<lparr>crl_issuer' := v\<rparr>)),
          \<lambda>st. bindE (getValidity crl) (\<lambda>v. Inr (st\<lparr>crl_validity := v\<rparr>)),
          \<lambda>st. bindE (getExtensions crl) (\<lambda>v. Inr (st\<lparr>crl_extensions := v\<rparr>)),
          \<lambda>st. bindE (getRevoked crl) (\<lambda>v. Inr (st\<lparr>crl_revokedList := v\<rparr>)),
          \<lambda>st. bindE (getSignature rd crl) (\<lambda>v. Inr (st\<lparr>crl_signature := v\<rparr>)),
          \<lambda>st. bindE (getCrlNum crl) (\<lambda>v. Inr (st\<lparr>crl_crlNum := v\<rparr>))] st)"

text \<open>\<open>empty_crl\<close> is the encoding of the list \<^verbatim>\<open>X509_CRL_new\<close> makes.\<close>

definition crl_store_new :: "bytes \<Rightarrow> crl_store" where
  "crl_store_new empty_crl = \<lparr>crl_object = empty_crl,
     crl_issuer' = \<lparr>iss_raw = [], iss_commonName = [], iss_countryName = [], iss_organizationName = [],
       iss_locationName = [], iss_stateName = []\<rparr>,
     crl_validity = \<lparr>notBeforeTime = 0, notAfterTime = 0\<rparr>, crl_revokedList = [], crl_extensions = [],
     crl_signature = \<lparr>sig_rawDer = [], sig_r = [], sig_s = []\<rparr>, crl_crlNum = 0\<rparr>"

section \<open>The copies of the helpers\<close>

lemma crl_names_agree:
  "crl_x509NameToString (Some n) = no_rfc2253 n" "crl_getNameEntry (Some n) k = getNameEntry n k"
  by (simp_all add: crl_x509NameToString_def crl_getNameEntry_def getNameEntry_def Let_def split: option.split)

lemma crl_times_agree:
  "crl_asn1TimeToTimet = asn1TimeToTimet"
  "asn1TimePeriodToValidity b e = bindE (asn1TimePeriodToCTime b e) (\<lambda>(x, y). Inr \<lparr>notBeforeTime = x, notAfterTime = y\<rparr>)"
proof -
  show "crl_asn1TimeToTimet = asn1TimeToTimet"
    by (simp add: fun_eq_iff crl_asn1TimeToTimet_def asn1TimeToTimet_def split: option.split)
  then show "asn1TimePeriodToValidity b e =
      bindE (asn1TimePeriodToCTime b e) (\<lambda>(x, y). Inr \<lparr>notBeforeTime = x, notAfterTime = y\<rparr>)"
    by (cases "asn1TimeToTimet b"; cases "asn1TimeToTimet e")
      (simp_all add: asn1TimePeriodToValidity_def asn1TimePeriodToCTime_def)
qed

lemma crl_extensions_agree: "crl_getExtension = extension_of" "generate_extensions = extensions_of"
proof -
  show ext: "crl_getExtension = extension_of"
    by (simp add: fun_eq_iff crl_getExtension_def extension_of_def noNewLines_def Let_def split: option.split)
  have "generate_extensions es = extensions_of es" for es
    by (induction es) (simp_all add: ext)
  then show "generate_extensions = extensions_of" by (simp add: fun_eq_iff)
qed

lemma getRevoked_map:
  "getRevoked crl = Inr (map revoked_of (case xc_revokedStack crl of None \<Rightarrow> [] | Some stack \<Rightarrow> stack))"
proof (cases "xc_revokedStack crl")
  case (Some stack)
  have "map (\<lambda>i. revoked_of (stack ! i)) [0..<length stack] = map revoked_of stack"
    by (rule nth_equalityI) simp_all
  with Some show ?thesis by (cases stack) (simp_all add: getRevoked_def getRevokedCount_def del: upt_Suc)
qed (simp add: getRevoked_def)

section \<open>What an accepted list is\<close>

text \<open>The serial numbers the list OpenSSL read revokes.\<close>

definition revoked_serials :: "x509_crl \<Rightarrow> bytes set" where
  "revoked_serials crl =
     {serialNumber. serialNumber \<noteq> [] \<and>
        (\<exists>r\<in>set (case xc_revokedStack crl of None \<Rightarrow> [] | Some stack \<Rightarrow> stack).
           \<exists>e date. r = Some e \<and> ro_serialNumber e = Some serialNumber \<and> ro_revocationDate e = Some date)}"

lemma revoked_of_serial:
  assumes "serialNumber \<noteq> []"
  shows "rev_serialNumber (revoked_of r) = serialNumber \<longleftrightarrow>
    (\<exists>e date. r = Some e \<and> ro_serialNumber e = Some serialNumber \<and> ro_revocationDate e = Some date)"
  using assms by (auto simp: revoked_of_def Let_def split: option.splits if_splits)

lemma getRevoked_serials:
  assumes "getRevoked crl = Inr rs" and "serialNumber \<noteq> []"
  shows "serialNumber \<in> rev_serialNumber ` set rs \<longleftrightarrow> serialNumber \<in> revoked_serials crl"
proof -
  let ?stack = "case xc_revokedStack crl of None \<Rightarrow> [] | Some stack \<Rightarrow> stack"
  have "rs = map revoked_of ?stack" using assms(1) by (simp add: getRevoked_map)
  then have "serialNumber \<in> rev_serialNumber ` set rs \<longleftrightarrow>
      (\<exists>r\<in>set ?stack. rev_serialNumber (revoked_of r) = serialNumber)"
    by (auto simp: image_iff)
  then show ?thesis unfolding revoked_of_serial [OF assms(2)] revoked_serials_def using assms(2) by simp
qed

lemma crl_parse_success:
  assumes "crl_parse rd crd s st = (True, crl)"
  obtains x where "str2X509Crl crd s = Inr x" "crl_object crl = xc_encoding x"
    "getIssuer x = Inr (crl_issuer' crl)" "getValidity x = Inr (crl_validity crl)"
    "getExtensions x = Inr (crl_extensions crl)" "getRevoked x = Inr (crl_revokedList crl)"
    "getSignature rd x = Inr (crl_signature crl)" "getCrlNum x = Inr (crl_crlNum crl)"
  using assms by (auto simp: crl_parse_def bindE_def split: sum.splits)

end
