(* ===== verification/Api.thy ===== *)
theory Api
  imports QuoteVerifier CollateralParsers CrlParser
begin

text \<open>
  \<^verbatim>\<open>AttestationLibrary/src/QuoteVerification.cpp\<close>: the functions the library
  exports.  A pointer argument is an option, and a C string its characters; an output buffer is
  given with its contents and returned with the new ones.  The result is the status, or the exception
  that escapes; EndToEnd shows that none does, but for the version of the enclave with a null buffer.
  All foreign code is in the record \<open>platform\<close>, and what the build fixes (the version string,
  whether it is a FIPS build) in \<open>version_build\<close>.
\<close>

section \<open>Parameters\<close>

record 'key platform =
  pf_ssl :: "'key openssl"
  pf_x509 :: x509_reader
  pf_crl :: crl_reader
  pf_asn1 :: asn1_decoder
  pf_json :: json_library
  pf_empty_crl :: bytes

definition EXPECTED_CERTIFICATE_COUNT_IN_PCK_CHAIN :: nat where
  [simp]: "EXPECTED_CERTIFICATE_COUNT_IN_PCK_CHAIN = 3"
definition EXPECTED_CERTIFICATE_COUNT_IN_TCB_CHAIN :: nat where
  [simp]: "EXPECTED_CERTIFICATE_COUNT_IN_TCB_CHAIN = 2"

section \<open>Exceptions the functions catch\<close>

definition catch_exns :: "(exn \<Rightarrow> status option) \<Rightarrow> status outcome \<Rightarrow> status outcome" where
  "catch_exns handler m =
     (case m of
        Inl e \<Rightarrow> (case handler e of None \<Rightarrow> Inl e | Some s \<Rightarrow> Inr s)
      | Inr s \<Rightarrow> Inr s)"

definition parse_handler :: "status \<Rightarrow> status \<Rightarrow> exn \<Rightarrow> status option" where
  "parse_handler on_format on_extension e =
     (if e = FormatException then Some on_format
      else if e = InvalidExtensionException then Some on_extension else None)"

definition identity_handler :: "status \<Rightarrow> status \<Rightarrow> status \<Rightarrow> exn \<Rightarrow> status option" where
  "identity_handler on_format on_extension on_version e =
     (if e = InvalidVersionException then Some on_version
      else parse_handler on_format on_extension e)"

text \<open>A parsed value, or the status a handler returns in place of the rest.\<close>

definition try_parse ::
  "(exn \<Rightarrow> status option) \<Rightarrow> 'a outcome \<Rightarrow> ('a \<Rightarrow> status outcome) \<Rightarrow> status outcome" where
  "try_parse handler m rest =
     (case m of
        Inl e \<Rightarrow> (case handler e of None \<Rightarrow> Inl e | Some s \<Rightarrow> Inr s)
      | Inr a \<Rightarrow> rest a)"

definition with_current_time :: "'key platform \<Rightarrow> time_t option \<Rightarrow> (time_t \<Rightarrow> status outcome) \<Rightarrow> status outcome" where
  "with_current_time pf expirationDate rest =
     try_parse (\<lambda>e. if e = StdRuntimeError then Some STATUS_INVALID_PARAMETER else None)
       (getCurrentTime (json_time (pf_json pf)) expirationDate) rest"

text \<open>A chain of the expected length.\<close>

definition with_chain :: "'key platform \<Rightarrow> nat \<Rightarrow> string \<Rightarrow> (cert_chain \<Rightarrow> status outcome) \<Rightarrow> status outcome" where
  "with_chain pf expected pemCertChain rest =
     bindE (chain_parse (pf_x509 pf) (pf_asn1 pf) pemCertChain chain_new) (\<lambda>(status, chain).
       if status \<noteq> STATUS_OK then Inr status
       else if chain_length chain \<noteq> expected then Inr STATUS_UNSUPPORTED_CERT_FORMAT
       else rest chain)"

definition with_crl :: "'key platform \<Rightarrow> status \<Rightarrow> string \<Rightarrow> (crl_store \<Rightarrow> status outcome) \<Rightarrow> status outcome" where
  "with_crl pf failure crlString rest =
     (case crl_parse (pf_x509 pf) (pf_crl pf) crlString (crl_store_new (pf_empty_crl pf)) of
        (ok, crl) \<Rightarrow> if \<not> ok then Inr failure else rest crl)"

section \<open>Certificates and revocation lists\<close>

definition sgxAttestationVerifyPCKCertificate ::
  "'key platform \<Rightarrow> string option \<Rightarrow> (string option \<times> string option) option \<Rightarrow> string option \<Rightarrow>
   time_t option \<Rightarrow> status outcome" where
  "sgxAttestationVerifyPCKCertificate pf pemCertChain crls pemRootCaCertificate expirationDate =
     with_current_time pf expirationDate (\<lambda>currentTime.
     case (pemCertChain, pemRootCaCertificate, crls) of
       (Some chainPem, Some rootPem, Some (Some crl0, Some crl1)) \<Rightarrow>
         with_chain pf EXPECTED_CERTIFICATE_COUNT_IN_PCK_CHAIN chainPem (\<lambda>chain.
         with_crl pf STATUS_SGX_CRL_UNSUPPORTED_FORMAT crl0 (\<lambda>rootCaCrl.
         with_crl pf STATUS_SGX_CRL_UNSUPPORTED_FORMAT crl1 (\<lambda>intermediateCrl.
         try_parse (parse_handler STATUS_TRUSTED_ROOT_CA_UNSUPPORTED_FORMAT STATUS_TRUSTED_ROOT_CA_UNSUPPORTED_FORMAT)
           (certificate_parse (pf_x509 pf) rootPem) (\<lambda>rootCa.
           Inr (pckCert_verify (pf_ssl pf) chain rootCaCrl intermediateCrl rootCa currentTime)))))
     | _ \<Rightarrow> Inr STATUS_UNSUPPORTED_CERT_FORMAT)"

definition sgxAttestationVerifyPCKRevocationList ::
  "'key platform \<Rightarrow> string option \<Rightarrow> string option \<Rightarrow> string option \<Rightarrow> status outcome" where
  "sgxAttestationVerifyPCKRevocationList pf crl pemCACertChain pemTrustedRootCaCert =
     (case (crl, pemCACertChain, pemTrustedRootCaCert) of
        (Some crlString, Some chainPem, Some rootPem) \<Rightarrow>
          with_crl pf STATUS_SGX_CRL_UNSUPPORTED_FORMAT crlString (\<lambda>x509Crl.
          bindE (chain_parse (pf_x509 pf) (pf_asn1 pf) chainPem chain_new) (\<lambda>(status, chain).
          if status \<noteq> STATUS_OK then Inr STATUS_SGX_CA_CERT_UNSUPPORTED_FORMAT
          else
          try_parse (parse_handler STATUS_TRUSTED_ROOT_CA_UNSUPPORTED_FORMAT STATUS_TRUSTED_ROOT_CA_UNSUPPORTED_FORMAT)
            (certificate_parse (pf_x509 pf) rootPem) (\<lambda>trustedRootCACert.
            Inr (crl_verify_chain (pf_ssl pf) x509Crl chain trustedRootCACert))))
      | _ \<Rightarrow> Inr STATUS_SGX_CRL_UNSUPPORTED_FORMAT)"

section \<open>Signed documents\<close>

definition sgxAttestationVerifyTCBInfo ::
  "'key platform \<Rightarrow> string option \<Rightarrow> string option \<Rightarrow> string option \<Rightarrow> string option \<Rightarrow>
   time_t option \<Rightarrow> status outcome" where
  "sgxAttestationVerifyTCBInfo pf tcbInfo pemCertChain stringRootCaCrl pemRootCaCertificate expirationDate =
     with_current_time pf expirationDate (\<lambda>currentTime.
     case (tcbInfo, pemCertChain, stringRootCaCrl, pemRootCaCertificate) of
       (Some info, Some chainPem, Some crlString, Some rootPem) \<Rightarrow>
         try_parse (parse_handler STATUS_SGX_TCB_INFO_UNSUPPORTED_FORMAT STATUS_SGX_TCB_INFO_INVALID)
           (TcbInfo_parse (pf_json pf) info) (\<lambda>tcbInfoJson.
         with_chain pf EXPECTED_CERTIFICATE_COUNT_IN_TCB_CHAIN chainPem (\<lambda>chain.
         with_crl pf STATUS_SGX_CRL_UNSUPPORTED_FORMAT crlString (\<lambda>rootCaCrl.
         try_parse (parse_handler STATUS_UNSUPPORTED_CERT_FORMAT STATUS_SGX_ROOT_CA_INVALID_EXTENSIONS)
           (certificate_parse (pf_x509 pf) rootPem) (\<lambda>trustedRootCa.
           Inr (tcbInfo_verify (pf_ssl pf) tcbInfoJson chain rootCaCrl trustedRootCa currentTime)))))
     | _ \<Rightarrow> Inr STATUS_UNSUPPORTED_CERT_FORMAT)"

definition sgxAttestationVerifyEnclaveIdentity ::
  "'key platform \<Rightarrow> string option \<Rightarrow> string option \<Rightarrow> string option \<Rightarrow> string option \<Rightarrow>
   time_t option \<Rightarrow> status outcome" where
  "sgxAttestationVerifyEnclaveIdentity pf enclaveIdentityString pemCertChain stringRootCaCrl pemRootCaCertificate
     expirationDate =
     with_current_time pf expirationDate (\<lambda>currentTime.
     case (enclaveIdentityString, pemCertChain, stringRootCaCrl, pemRootCaCertificate) of
       (Some identityString, Some chainPem, Some crlString, Some rootPem) \<Rightarrow>
         try_parse (identity_handler STATUS_SGX_ENCLAVE_IDENTITY_UNSUPPORTED_FORMAT
             STATUS_SGX_ENCLAVE_IDENTITY_INVALID STATUS_SGX_ENCLAVE_IDENTITY_UNSUPPORTED_VERSION)
           (EnclaveIdentity_parse (pf_json pf) identityString) (\<lambda>enclaveIdentity.
         with_chain pf EXPECTED_CERTIFICATE_COUNT_IN_TCB_CHAIN chainPem (\<lambda>chain.
         with_crl pf STATUS_SGX_CRL_UNSUPPORTED_FORMAT crlString (\<lambda>rootCaCrl.
         try_parse (parse_handler STATUS_UNSUPPORTED_CERT_FORMAT STATUS_SGX_ROOT_CA_INVALID_EXTENSIONS)
           (certificate_parse (pf_x509 pf) rootPem) (\<lambda>trustedRootCa.
           Inr (enclaveIdentity_verify (pf_ssl pf) enclaveIdentity chain rootCaCrl trustedRootCa currentTime)))))
     | _ \<Rightarrow> Inr STATUS_UNSUPPORTED_CERT_FORMAT)"

text \<open>The report is 384 bytes at the pointer.\<close>

definition sgxAttestationVerifyEnclaveReport ::
  "'key platform \<Rightarrow> bytes option \<Rightarrow> string option \<Rightarrow> status outcome" where
  "sgxAttestationVerifyEnclaveReport pf enclaveReport enclaveIdentity =
     (case (enclaveReport, enclaveIdentity) of
        (Some report, Some identityString) \<Rightarrow>
          let vecEnclaveReport = take ENCLAVE_REPORT_BYTE_LEN report in
          (case copyAndAdvance_struct enclaveReport_insert ENCLAVE_REPORT_BYTE_LEN vecEnclaveReport
                  (length vecEnclaveReport) (enclave_report_zero, 0) of
             (ok, eReport, from) \<Rightarrow>
               if \<not> ok then Inr STATUS_SGX_ENCLAVE_REPORT_UNSUPPORTED_FORMAT
               else if from \<noteq> length vecEnclaveReport then Inr STATUS_SGX_ENCLAVE_REPORT_UNSUPPORTED_FORMAT
               else
               try_parse (identity_handler STATUS_SGX_ENCLAVE_IDENTITY_UNSUPPORTED_FORMAT
                   STATUS_SGX_ENCLAVE_IDENTITY_INVALID STATUS_SGX_ENCLAVE_IDENTITY_UNSUPPORTED_VERSION)
                 (EnclaveIdentity_parse (pf_json pf) identityString) (\<lambda>enclaveIdentityParsed.
                 Inr (enclaveReport_verify enclaveIdentityParsed eReport)))
      | _ \<Rightarrow> Inr STATUS_SGX_ENCLAVE_REPORT_UNSUPPORTED_FORMAT)"

section \<open>Quotes\<close>

text \<open>
  The collateral information object of the call, its status, and what \<^verbatim>\<open>memcpy\<close>
  leaves in the caller's buffer.
\<close>

definition copy_to :: "nat \<Rightarrow> 'a list \<Rightarrow> 'a list \<Rightarrow> 'a list" where
  "copy_to n src dest = take n src @ drop n dest"

type_synonym ex_result = "status outcome \<times> bytes option"

definition quote_ex_handler :: "exn \<Rightarrow> status option" where
  "quote_ex_handler e =
     (if e = VerCollInfoSizeException then Some STATUS_INVALID_PARAMETER
      else parse_handler STATUS_UNSUPPORTED_PCK_CERT_FORMAT STATUS_INVALID_PCK_CERT e)"

text \<open>The \<^verbatim>\<open>try\<close> block: the certificate, the verification, and the output.\<close>

definition verify_and_fill ::
  "'key platform \<Rightarrow> quote \<Rightarrow> string \<Rightarrow> crl_store \<Rightarrow> tcb_info \<Rightarrow> enclave_identity option \<Rightarrow>
   bytes option \<Rightarrow> nat \<Rightarrow> ex_result" where
  "verify_and_fill pf q pemPckCertificate pckCrlStore tcbInfo enclaveIdentity buffer bufferSize =
     (case bindE (certificate_parse (pf_x509 pf) pemPckCertificate) (pckCertificate (pf_asn1 pf)) of
        Inl e \<Rightarrow> (Inl e, buffer)
      | Inr pckCert \<Rightarrow>
          (case quote_verify (pf_ssl pf) q pckCert pckCrlStore tcbInfo enclaveIdentity ver_coll_info_new of
             (Inl e, verCollInfoDataObj) \<Rightarrow> (Inl e, buffer)
           | (Inr status, verCollInfoDataObj) \<Rightarrow>
               (case buffer of
                  None \<Rightarrow> (Inr status, None)
                | Some dest \<Rightarrow>
                    if \<not> vci_isFilled verCollInfoDataObj then (Inr status, buffer)
                    else (case aggregateDataAndParseToVec verCollInfoDataObj of
                            Inl e \<Rightarrow> (Inl e, buffer)
                          | Inr verCollInfoVec \<Rightarrow>
                              (Inr status, Some (copy_to (min bufferSize (min (length verCollInfoVec) VCI_SIZE))
                                 verCollInfoVec dest))))))"

definition parse_identity :: "'key platform \<Rightarrow> string option \<Rightarrow> enclave_identity option outcome" where
  "parse_identity pf qeIdentityJson =
     (case qeIdentityJson of
        None \<Rightarrow> Inr None
      | Some json \<Rightarrow> bindE (EnclaveIdentity_parse (pf_json pf) json) (\<lambda>e. Inr (Some e)))"

definition sgxAttestationVerifyQuoteEx ::
  "'key platform \<Rightarrow> bytes option \<Rightarrow> u32 \<Rightarrow> string option \<Rightarrow> string option \<Rightarrow> string option \<Rightarrow>
   string option \<Rightarrow> bytes option \<Rightarrow> u32 \<Rightarrow> ex_result" where
  "sgxAttestationVerifyQuoteEx pf rawQuote quoteSize pemPckCertificate pckCrl tcbInfoJson qeIdentityJson
     verificationCollateralInfo verificationCollateralInfoSize =
     (let buffer = verificationCollateralInfo; size = unat verificationCollateralInfoSize in
      case (rawQuote, pemPckCertificate, pckCrl, tcbInfoJson) of
        (Some raw, Some pem, Some crlString, Some info) \<Rightarrow>
          let vecQuote = take (unat quoteSize) raw in
          if buffer = None \<and> size \<noteq> 0 \<or> buffer \<noteq> None \<and> size < VCI_SIZE then
            (Inr STATUS_INVALID_PARAMETER, buffer)
          else
          (case parse vecQuote quote_init of
             (ok, q) \<Rightarrow>
          if \<not> ok \<or> \<not> validate q then (Inr STATUS_UNSUPPORTED_QUOTE_FORMAT, buffer)
          else
          (case crl_parse (pf_x509 pf) (pf_crl pf) crlString (crl_store_new (pf_empty_crl pf)) of
             (crlOk, pckCrlStore) \<Rightarrow>
          if \<not> crlOk then (Inr STATUS_UNSUPPORTED_PCK_RL_FORMAT, buffer)
          else
          (case TcbInfo_parse (pf_json pf) info of
             Inl e \<Rightarrow> (catch_exns (parse_handler STATUS_UNSUPPORTED_TCB_INFO_FORMAT
                           STATUS_UNSUPPORTED_TCB_INFO_FORMAT) (Inl e), buffer)
           | Inr tcbInfo \<Rightarrow>
          (case parse_identity pf qeIdentityJson of
             Inl e \<Rightarrow> (catch_exns (identity_handler STATUS_UNSUPPORTED_QE_IDENTITY_FORMAT
                           STATUS_UNSUPPORTED_QE_IDENTITY_FORMAT STATUS_UNSUPPORTED_QE_IDENTITY_FORMAT) (Inl e), buffer)
           | Inr enclaveIdentity \<Rightarrow>
          (case verify_and_fill pf q pem pckCrlStore tcbInfo enclaveIdentity buffer size of
             (result, buffer') \<Rightarrow> (catch_exns quote_ex_handler result, buffer'))))))
      | _ \<Rightarrow> (Inr STATUS_MISSING_PARAMETERS, buffer))"

definition sgxAttestationVerifyQuote ::
  "'key platform \<Rightarrow> bytes option \<Rightarrow> u32 \<Rightarrow> string option \<Rightarrow> string option \<Rightarrow> string option \<Rightarrow>
   string option \<Rightarrow> status outcome" where
  "sgxAttestationVerifyQuote pf rawQuote quoteSize pemPckCertificate pckCrl tcbInfoJson qeIdentityJson =
     fst (sgxAttestationVerifyQuoteEx pf rawQuote quoteSize pemPckCertificate pckCrl tcbInfoJson qeIdentityJson
            None 0)"

section \<open>The certification data of a quote\<close>

definition sgxAttestationGetQECertificationDataSize :: "bytes option \<Rightarrow> u32 \<Rightarrow> u32 option \<Rightarrow> status \<times> u32 option" where
  "sgxAttestationGetQECertificationDataSize rawQuote quoteSize qeCertificationDataSize =
     (case (rawQuote, qeCertificationDataSize) of
        (Some raw, Some _) \<Rightarrow>
          (case parse (take (unat quoteSize) raw) quote_init of
             (ok, q) \<Rightarrow>
               if \<not> ok \<or> \<not> validate q then (STATUS_UNSUPPORTED_QUOTE_FORMAT, qeCertificationDataSize)
               else (STATUS_OK, Some (cd_parsedDataSize (q_certificationData q))))
      | _ \<Rightarrow> (STATUS_MISSING_PARAMETERS, qeCertificationDataSize))"

definition sgxAttestationGetQECertificationData ::
  "bytes option \<Rightarrow> u32 \<Rightarrow> u32 \<Rightarrow> bytes option \<Rightarrow> u16 option \<Rightarrow> status \<times> bytes option \<times> u16 option" where
  "sgxAttestationGetQECertificationData rawQuote quoteSize dataSize qeCertificationData qeCertificationDataType =
     (case (rawQuote, qeCertificationData, qeCertificationDataType) of
        (Some raw, Some dest, Some _) \<Rightarrow>
          (case parse (take (unat quoteSize) raw) quote_init of
             (ok, q) \<Rightarrow>
               if \<not> ok \<or> \<not> validate q then
                 (STATUS_UNSUPPORTED_QUOTE_FORMAT, qeCertificationData, qeCertificationDataType)
               else
                 let quoteCertificationData = q_certificationData q in
                 if dataSize \<noteq> cd_parsedDataSize quoteCertificationData then
                   (STATUS_INVALID_QE_CERTIFICATION_DATA_SIZE, qeCertificationData, qeCertificationDataType)
                 else (STATUS_OK,
                   Some (copy_to (length (cd_data quoteCertificationData)) (cd_data quoteCertificationData) dest),
                   Some (cd_type quoteCertificationData)))
      | _ \<Rightarrow> (STATUS_MISSING_PARAMETERS, qeCertificationData, qeCertificationDataType))"

section \<open>The version\<close>

text \<open>
  The version of the build without an enclave: a static buffer of 32 characters.  The text of
  \<^verbatim>\<open>VERSION\<close> comes from a generated header, and OpenSSL knows whether its FIPS provider
  is there.
\<close>

record version_build =
  VERSION :: string
  fips_available :: bool

definition snprintf :: "nat \<Rightarrow> string \<Rightarrow> string" where
  "snprintf n text = take (n - 1) text"

definition sgxAttestationGetVersion :: "version_build \<Rightarrow> string" where
  "sgxAttestationGetVersion vb =
     (let ver = snprintf 32 (c_str (VERSION vb))
      in if fips_available vb then ver @ snprintf (32 - length ver) (''+'' @ ''fips'') else ver)"

text \<open>\<^verbatim>\<open>None\<close> is a null pointer; the destination holds at least the length copied.\<close>

definition safeMemcpy :: "'a list option \<Rightarrow> 'a list option \<Rightarrow> nat \<Rightarrow> 'a list option outcome" where
  "safeMemcpy dest src srcLen =
     (case src of None \<Rightarrow> Inl StdRuntimeError
      | Some from \<Rightarrow>
          (case dest of None \<Rightarrow> Inl StdRuntimeError
           | Some to \<Rightarrow> Inr (Some (take srcLen from @ drop srcLen to))))"

definition sgxEnclaveAttestationGetVersion :: "version_build \<Rightarrow> string option \<Rightarrow> nat \<Rightarrow> string option outcome" where
  "sgxEnclaveAttestationGetVersion vb buffer len =
     (let ver = sgxAttestationGetVersion vb; strln = length ver in
      if strln > len then safeMemcpy buffer (Some ver) len
      else safeMemcpy buffer (Some ver) strln)"

section \<open>No exception escapes\<close>

abbreviation total :: "status outcome \<Rightarrow> bool" where
  "total m \<equiv> throws_only {} m"

lemma total_iff: "total m \<longleftrightarrow> (\<exists>s. m = Inr s)"
  by (cases m) (auto simp: throws_only_def)

lemma total_try_parse:
  assumes "throws_only S m" and "\<And>e. e \<in> S \<Longrightarrow> handler e \<noteq> None" and "\<And>a. m = Inr a \<Longrightarrow> total (rest a)"
  shows "total (try_parse handler m rest)"
proof (cases m)
  case (Inl e)
  with assms(1) have "e \<in> S" by (simp add: throws_only_def)
  with assms(2) obtain s where "handler e = Some s" by blast
  with Inl show ?thesis by (simp add: try_parse_def)
next
  case (Inr a)
  with assms(3) show ?thesis by (simp add: try_parse_def)
qed

lemma total_time: "(\<And>t. total (rest t)) \<Longrightarrow> total (with_current_time pf d rest)"
  unfolding with_current_time_def
  by (rule total_try_parse [of "{StdRuntimeError}"])
    (auto simp: getCurrentTime_def enclave_getCurrentTime_def standard_getCurrentTime_def split: option.split)

lemma total_chain_parse: "\<exists>s ch'. chain_parse rd d pem ch = Inr (s, ch')"
  using chain_parse_returns by blast

lemma total_with_chain: "(\<And>c. total (rest c)) \<Longrightarrow> total (with_chain pf n pem rest)"
  using total_chain_parse [of "pf_x509 pf" "pf_asn1 pf" pem chain_new] by (auto simp: with_chain_def)

lemma total_with_crl: "(\<And>c. total (rest c)) \<Longrightarrow> total (with_crl pf s str rest)"
  by (simp add: with_crl_def split: prod.split)

lemma total_certificate:
  "(\<And>c. total (rest c)) \<Longrightarrow> total (try_parse (parse_handler s1 s2) (certificate_parse rd pem) rest)"
  by (rule total_try_parse [OF throws_certificate_parse]) (auto simp: parse_handler_def)

lemma total_info:
  "(\<And>c. total (rest c)) \<Longrightarrow> total (try_parse (parse_handler s1 s2) (TcbInfo_parse lib str) rest)"
  by (rule total_try_parse [OF throws_tcbInfo_parse]) (auto simp: parse_handler_def)

lemma total_identity:
  "(\<And>c. total (rest c)) \<Longrightarrow> total (try_parse (identity_handler s1 s2 s3) (EnclaveIdentity_parse lib str) rest)"
  by (rule total_try_parse [OF throws_enclaveIdentity_parse]) (auto simp: parse_handler_def identity_handler_def)

lemmas total_steps = total_time total_with_chain total_with_crl total_certificate total_info total_identity

lemma total_verify_pck: "total (sgxAttestationVerifyPCKCertificate pf a b c d)"
  unfolding sgxAttestationVerifyPCKCertificate_def
  by (intro total_steps) (auto intro!: total_steps split: option.split prod.split)

lemma total_verify_crl: "total (sgxAttestationVerifyPCKRevocationList pf a b c)"
proof -
  have chain: "total (bindE (chain_parse (pf_x509 pf) (pf_asn1 pf) pem chain_new) (\<lambda>(st, chain).
      if st \<noteq> STATUS_OK then Inr s else rest chain))" if "\<And>c. total (rest c)" for pem s rest
    using that total_chain_parse [of "pf_x509 pf" "pf_asn1 pf" pem chain_new] by auto
  show ?thesis
    unfolding sgxAttestationVerifyPCKRevocationList_def
    by (auto intro!: total_steps chain split: option.split)
qed

lemma total_verify_info: "total (sgxAttestationVerifyTCBInfo pf a b c d e)"
  unfolding sgxAttestationVerifyTCBInfo_def
  by (intro total_steps) (auto intro!: total_steps split: option.split)

lemma total_verify_identity: "total (sgxAttestationVerifyEnclaveIdentity pf a b c d e)"
  unfolding sgxAttestationVerifyEnclaveIdentity_def
  by (intro total_steps) (auto intro!: total_steps split: option.split)

lemma total_verify_report: "total (sgxAttestationVerifyEnclaveReport pf a b)"
  unfolding sgxAttestationVerifyEnclaveReport_def Let_def
  by (auto intro!: total_steps split: option.split prod.split)

section \<open>The verdict of a quote\<close>

lemma verify_and_fill_shape:
  assumes "ti_version ti = 2 \<or> ti_version ti = 3"
  shows "(\<exists>e\<in>{FormatException, InvalidExtensionException, VerCollInfoSizeException}.
      verify_and_fill pf q pem store ti qe buffer n = (Inl e, buffer)) \<or>
    (\<exists>cert pck s v'. certificate_parse (pf_x509 pf) pem = Inr cert \<and> pckCertificate (pf_asn1 pf) cert = Inr pck \<and>
       quote_verify (pf_ssl pf) q pck store ti qe ver_coll_info_new = (Inr s, v') \<and>
       verify_and_fill pf q pem store ti qe buffer n =
         (Inr s, if s \<in> tcb_verdicts then map_option (copy_to (min n VCI_SIZE) (record_layout v')) buffer
                 else buffer))"
proof (cases "bindE (certificate_parse (pf_x509 pf) pem) (pckCertificate (pf_asn1 pf))")
  case (Inl e)
  have "throws_only parser_exceptions (bindE (certificate_parse (pf_x509 pf) pem) (pckCertificate (pf_asn1 pf)))"
    by (intro throws)
  with Inl show ?thesis by (auto simp: verify_and_fill_def throws_only_def)
next
  case (Inr pck)
  then obtain cert where cert: "certificate_parse (pf_x509 pf) pem = Inr cert"
    "pckCertificate (pf_asn1 pf) cert = Inr pck" by auto
  have "\<not> vci_isFilled ver_coll_info_new" by (simp add: ver_coll_info_new_def)
  from verify_recorded [OF vci_inv_new this assms, of "pf_ssl pf" q pck store qe] obtain s v' where
    run: "quote_verify (pf_ssl pf) q pck store ti qe ver_coll_info_new = (Inr s, v')" and inv: "vci_inv v'"
    and filled: "vci_isFilled v' \<longleftrightarrow> s \<in> tcb_verdicts" by blast
  show ?thesis
  proof (cases "s \<in> tcb_verdicts \<and> buffer \<noteq> None")
    case False
    then show ?thesis using Inr run filled cert by (auto simp: verify_and_fill_def split: option.split)
  next
    case True
    then have "has_data v'" using inv filled by (auto simp: vci_inv_def has_data_def)
    then have "aggregateDataAndParseToVec v' =
        (if strings_fit v' then Inr (record_layout v') else Inl VerCollInfoSizeException)"
      by (simp add: aggregate_eq)
    moreover from True obtain dest where "buffer = Some dest" by blast
    ultimately show ?thesis
      using Inr run filled True cert length_record_layout [of v']
      by (cases "strings_fit v'") (auto simp: verify_and_fill_def)
  qed
qed

end
