(* ===== verification/EndToEnd.thy ===== *)
theory EndToEnd
  imports Api
begin

text \<open>
  What the exported functions promise: every verification returns a status and no exception, a
  verdict on a quote rests on the bytes and documents the caller gave, and the two certification data
  functions hand over the bytes of the quote.
  The last section builds a platform whose certificate, revocation list, TCB info and quote pass
  every check.
\<close>

section \<open>The two outcomes of \<^verbatim>\<open>sgxAttestationVerifyQuoteEx\<close>\<close>

text \<open>A call is refused, and leaves the buffer alone, or every step succeeds.\<close>

definition quote_refusals :: "status set" where
  "quote_refusals = {STATUS_INVALID_PARAMETER, STATUS_UNSUPPORTED_PCK_CERT_FORMAT, STATUS_INVALID_PCK_CERT,
     STATUS_UNSUPPORTED_QUOTE_FORMAT, STATUS_UNSUPPORTED_PCK_RL_FORMAT, STATUS_UNSUPPORTED_TCB_INFO_FORMAT,
     STATUS_UNSUPPORTED_QE_IDENTITY_FORMAT, STATUS_MISSING_PARAMETERS}"

lemma quote_refusals_not: "s \<in> quote_refusals \<Longrightarrow> s \<notin> tcb_verdicts"
  by (auto simp: quote_refusals_def tcb_verdicts_def evaluation_statuses_def)

lemma refusal_members [simp]:
  "STATUS_INVALID_PARAMETER \<in> quote_refusals" "STATUS_UNSUPPORTED_PCK_CERT_FORMAT \<in> quote_refusals"
  "STATUS_INVALID_PCK_CERT \<in> quote_refusals" "STATUS_UNSUPPORTED_QUOTE_FORMAT \<in> quote_refusals"
  "STATUS_UNSUPPORTED_PCK_RL_FORMAT \<in> quote_refusals" "STATUS_UNSUPPORTED_TCB_INFO_FORMAT \<in> quote_refusals"
  "STATUS_UNSUPPORTED_QE_IDENTITY_FORMAT \<in> quote_refusals" "STATUS_MISSING_PARAMETERS \<in> quote_refusals"
  by (simp_all add: quote_refusals_def)

lemma throws_parse_identity: "throws_only identity_exns (parse_identity pf identity)"
  unfolding parse_identity_def
  using throws_enclaveIdentity_parse by (auto intro!: throws split: option.split)

lemma verifyQuoteEx_cases:
  obtains (refused) s where "sgxAttestationVerifyQuoteEx pf rawQ n pem crlT info identity buffer m = (Inr s, buffer)"
      "s \<notin> tcb_verdicts"
  | (verified) raw pemText crlText infoText q store ti qe cert pck s v' where
      "rawQ = Some raw" "pem = Some pemText" "crlT = Some crlText" "info = Some infoText"
      "parse (take (unat n) raw) quote_init = (True, q)" "validate q"
      "crl_parse (pf_x509 pf) (pf_crl pf) crlText (crl_store_new (pf_empty_crl pf)) = (True, store)"
      "TcbInfo_parse (pf_json pf) infoText = Inr ti" "parse_identity pf identity = Inr qe"
      "certificate_parse (pf_x509 pf) pemText = Inr cert" "pckCertificate (pf_asn1 pf) cert = Inr pck"
      "quote_verify (pf_ssl pf) q pck store ti qe ver_coll_info_new = (Inr s, v')" "s \<in> tcb_verdicts"
      "sgxAttestationVerifyQuoteEx pf rawQ n pem crlT info identity buffer m =
         (Inr s, map_option (copy_to VCI_SIZE (record_layout v')) buffer)"
proof (rule ccontr)
  let ?run = "sgxAttestationVerifyQuoteEx pf rawQ n pem crlT info identity buffer m"
  assume neg: "\<not> thesis"
  have go: "?run \<noteq> (Inr s, buffer)" if "s \<notin> tcb_verdicts" for s using neg refused that by blast
  have on: "?run \<noteq> (Inr s, buffer)" if "s \<in> quote_refusals" for s using go quote_refusals_not that by blast
  note run = sgxAttestationVerifyQuoteEx_def
  obtain raw pemText crlText infoText where args: "rawQ = Some raw" "pem = Some pemText"
      "crlT = Some crlText" "info = Some infoText"
    using on [of STATUS_MISSING_PARAMETERS]
    by (cases rawQ; cases pem; cases crlT; cases info) (simp_all add: run)
  have buf: "\<not> (buffer = None \<and> unat m \<noteq> 0 \<or> buffer \<noteq> None \<and> unat m < VCI_SIZE)"
    (is "\<not> ?bad")
  proof
    assume ?bad
    then have "?run = (Inr STATUS_INVALID_PARAMETER, buffer)"
      by (simp only: run args Let_def option.case prod.case if_True)
    with on [of STATUS_INVALID_PARAMETER] show False by simp
  qed
  obtain q where q: "parse (take (unat n) raw) quote_init = (True, q)" "validate q"
    using on [of STATUS_UNSUPPORTED_QUOTE_FORMAT] buf
    by (cases "parse (take (unat n) raw) quote_init") (auto simp: run args simp del: VCI_SIZE_def split: if_splits)
  obtain store where store: "crl_parse (pf_x509 pf) (pf_crl pf) crlText (crl_store_new (pf_empty_crl pf)) = (True, store)"
    using on [of STATUS_UNSUPPORTED_PCK_RL_FORMAT] buf q
    by (cases "crl_parse (pf_x509 pf) (pf_crl pf) crlText (crl_store_new (pf_empty_crl pf))")
      (auto simp: run args simp del: VCI_SIZE_def split: if_splits)
  obtain ti where ti: "TcbInfo_parse (pf_json pf) infoText = Inr ti"
    using on [of STATUS_UNSUPPORTED_TCB_INFO_FORMAT] buf q store throws_tcbInfo_parse [of "pf_json pf" infoText]
    by (cases "TcbInfo_parse (pf_json pf) infoText")
      (auto simp: run args throws_only_def catch_exns_def parse_handler_def simp del: VCI_SIZE_def)
  obtain qe where qe: "parse_identity pf identity = Inr qe"
    using on [of STATUS_UNSUPPORTED_QE_IDENTITY_FORMAT] buf q store ti throws_parse_identity [of pf identity]
    by (cases "parse_identity pf identity")
      (auto simp: run args throws_only_def catch_exns_def identity_handler_def parse_handler_def
        simp del: VCI_SIZE_def)
  have eq: "?run = (let r = verify_and_fill pf q pemText store ti qe buffer (unat m)
      in (catch_exns quote_ex_handler (fst r), snd r))"
    using buf
    by (simp only: run args q store ti qe Let_def option.case prod.case_eq_if fst_conv snd_conv sum.case
        simp_thms if_False)
  have version: "ti_version ti = 2 \<or> ti_version ti = 3"
    by (rule tcbInfo_parse_cases [OF ti]) (auto simp: valid_tcb_info_def)
  from verify_and_fill_shape [OF version, of pf q pemText store qe buffer "unat m"] show False
  proof (elim disjE bexE exE conjE)
    fix e assume "e \<in> {FormatException, InvalidExtensionException, VerCollInfoSizeException}"
      and "verify_and_fill pf q pemText store ti qe buffer (unat m) = (Inl e, buffer)"
    then show False
      using on [of STATUS_INVALID_PARAMETER] on [of STATUS_UNSUPPORTED_PCK_CERT_FORMAT] on [of STATUS_INVALID_PCK_CERT]
      by (auto simp: eq catch_exns_def quote_ex_handler_def parse_handler_def)
  next
    fix cert pck s v'
    assume *: "certificate_parse (pf_x509 pf) pemText = Inr cert" "pckCertificate (pf_asn1 pf) cert = Inr pck"
      "quote_verify (pf_ssl pf) q pck store ti qe ver_coll_info_new = (Inr s, v')"
      "verify_and_fill pf q pemText store ti qe buffer (unat m) =
        (Inr s, if s \<in> tcb_verdicts then map_option (copy_to (min (unat m) VCI_SIZE) (record_layout v')) buffer
                else buffer)"
    have s: "s \<in> tcb_verdicts" using go [of s] *(4) by (auto simp: eq catch_exns_def)
    have "map_option (copy_to (min (unat m) VCI_SIZE) (record_layout v')) buffer =
        map_option (copy_to VCI_SIZE (record_layout v')) buffer"
      using buf by (cases buffer) (simp_all add: min_def)
    with * s have "?run = (Inr s, map_option (copy_to VCI_SIZE (record_layout v')) buffer)"
      by (simp add: eq catch_exns_def del: VCI_SIZE_def)
    with verified [OF args q store ti qe *(1-3) s] neg show False by blast
  qed
qed

section \<open>Sizes of the certification data\<close>

lemma parse_v4_certification_size:
  assumes "fst (parse_auth_v4 raw n q p)" "p + unat n \<le> length raw" "length raw < 2 ^ 32"
  shows "let c = q_certificationData (fst (snd (parse_auth_v4 raw n q p)))
    in unat (cd_parsedDataSize c) = length (cd_data c)"
proof (cases "p_quoteV4AuthData raw (p + unat n) v4_zero p")
  case None
  with parse_auth_v4_spec [OF assms(2,3), of q] assms(1) show ?thesis by simp
next
  case (Some ap)
  obtain a p' where ap: "ap = (a, p')" by force
  from Some ap parse_auth_v4_spec [OF assms(2,3), of q] assms(1) obtain r where
    r: "v4_report_data a = Some r" by (auto split: option.splits)
  define d where "d = cd_data (v4_certificationData a)"
  from r obtain e where pq: "p_qeReportCertificationData d (length d) qrc_zero 0 = Some (r, e)"
    by (auto simp: v4_report_data_def Let_def d_def)
  then have "456 + unat (u16_le d 448) + unat (u32_le d (452 + unat (u16_le d 448))) \<le> length d"
    using p_qeReportCertificationData_iff [of d "length d" qrc_zero 0] by (simp add: Let_def)
  with p_qeReportCertificationData_value [OF pq] r Some ap parse_auth_v4_spec [OF assms(2,3), of q]
  show ?thesis by (simp add: Let_def length_slice)
qed

lemma parsed_certification_size:
  assumes "fst (parse raw q)" and "length raw < 2 ^ 32" and "version (raw_header raw) \<ge> 3"
  shows "unat (cd_parsedDataSize (q_certificationData (snd (parse raw q)))) =
    length (cd_data (q_certificationData (snd (parse raw q))))"
proof (rule parse_auth_of_success [OF assms(1,2) refl], goal_cases)
  case (1 q1)
  show ?case
  proof (cases "version (raw_header raw) = 3")
    case True
    with 1 assms(2) parse_v3_certification_size [of raw "u32_le raw (auth_offset raw)" q1 "auth_offset raw + 4"]
    show ?thesis by (simp add: parse_auth_v3_case Let_def add.assoc)
  next
    case False
    with assms(3) have "version (raw_header raw) > 3" by (simp add: order_less_le)
    with 1 assms(2) parse_v4_certification_size [of raw "u32_le raw (auth_offset raw)" q1 "auth_offset raw + 4"]
    show ?thesis by (simp add: parse_auth_v4_case Let_def add.assoc)
  qed
qed


lemma valid_certification_size:
  assumes "fst (parse raw q)" and "length raw < 2 ^ 32" and "validate (snd (parse raw q))"
  shows "length (cd_data (q_certificationData (snd (parse raw q)))) =
    unat (cd_parsedDataSize (q_certificationData (snd (parse raw q))))"
  using parsed_certification_size [OF assms(1,2) parse_signed_data(2) [OF assms]] by simp

text \<open>Where the certification data lie.\<close>

lemma u32_le_drop: "k + i + 3 < length xs \<Longrightarrow> u32_le (drop k xs) i = u32_le xs (k + i)"
  by (simp add: u32_le_def add.assoc)

lemma parse_certification:
  assumes "fst (parse raw q)" and "length raw < 2 ^ 32" and "version (raw_header raw) \<ge> 3"
  shows "let c = q_certificationData (snd (parse raw q)); block = qe_block raw; p = 450 + unat (u16_le block 448) in
    cd_type c = u16_le block p \<and> cd_data c = slice (p + 6) (unat (u32_le block (p + 2))) block \<and>
    p + 6 + unat (u32_le block (p + 2)) \<le> length block"
proof -
  let ?p = "auth_offset raw + 4"
  note h = parse_header [OF assms(1,2)]
  from assms(1) obtain b m where span: "report_span raw = Some (b, m)" "auth_accepted raw (b + m)"
    by (auto simp: parse_accepts [OF assms(2)] quote_accepted_def split: option.splits)
  then have auth: "auth_accepted raw (auth_offset raw)" by (simp add: auth_offset_def)
  show ?thesis
  proof (cases "version (raw_header raw) = 3")
    case True
    then have fits: "v3_fits raw ?p (?p + unat (u32_le raw (auth_offset raw)))"
      "?p + unat (u32_le raw (auth_offset raw)) \<le> length raw"
      using auth by (simp_all add: auth_accepted_def Let_def)
    let ?P = "auth_offset raw"
    define a where "a = unat (u16_le raw (?P + 580))"
    have len: "?P + (588 + (a + unat (u32_le raw (?P + (584 + a))))) \<le> length raw"
      using fits by (simp add: v3_fits_def Let_def a_def add.assoc)
    have "u16_le (drop (?P + 132) raw) 448 = u16_le raw (?P + 580)" using len by (simp add: u16_le_drop add.commute)
    moreover have "u16_le (drop (?P + 132) raw) (450 + a) = u16_le raw (?P + (582 + a))"
      "u32_le (drop (?P + 132) raw) (452 + a) = u32_le raw (?P + (584 + a))"
      using len u16_le_drop [of "?P + 132" "450 + a" raw] u32_le_drop [of "?P + 132" "452 + a" raw]
      by (simp_all add: ac_simps)
    ultimately show ?thesis
      using parse_v3_fields [OF assms(1,2)] h True len
      by (simp add: Let_def qe_block_def slice_drop add.assoc a_def)
  next
    case False
    with assms(3) have v: "version (raw_header raw) > 3" by (simp add: order.not_eq_order_implies_strict)
    have "qe_report_data_fits (qe_block raw)"
      using auth v False by (simp add: auth_accepted_def qe_block_def Let_def add.assoc)
    with parse_v4_fields [OF assms(1,2)] h v False show ?thesis
      by (simp add: Let_def qe_block_def qe_report_data_fits_def add.assoc)
  qed
qed

lemma take_u32: "length (take (unat (n :: u32)) raw) < 2 ^ 32"
proof -
  have "unat n < 2 ^ LENGTH(32)" by (rule unsigned_less)
  then show ?thesis by simp
qed

section \<open>Properties\<close>

text \<open>
  C1: a verdict on a quote, from the caller's bytes and texts to the output buffer.  When the call
  ends with a verdict on the TCB, the PCK certificate, the revocation list and the TCB info were all
  readable; the TCB info is well formed and for this platform; the list does not name the
  certificate; the attestation key in the quote signed the bytes before its authentication data, the
  QE report holds the hash of that key, and the certificate's key signed the bytes of the report;
  the verdict is that of the TCB evaluation; and the buffer, if there is one, holds the record of the
  collateral.
\<close>

theorem verified_quote_end_to_end:
  assumes "sgxAttestationVerifyQuoteEx pf (Some raw) n (Some pem) (Some crlText) (Some info) identity buffer m =
      (Inr s, buffer')" and "s \<in> tcb_verdicts"
  shows "\<exists>cert pck x ti qe v'. certificate_parse (pf_x509 pf) pem = Inr cert \<and>
    pckCertificate (pf_asn1 pf) cert = Inr pck \<and>
    str2X509Crl (pf_crl pf) crlText = Inr x \<and> cert_serialNumber pck \<notin> revoked_serials x \<and>
    TcbInfo_parse (pf_json pf) info = Inr ti \<and> valid_tcb_info ti \<and>
    pck_fmspc pck = ti_fmspc ti \<and> pck_pceId pck = ti_pceId ti \<and>
    parse_identity pf identity = Inr qe \<and>
    (let bytes = take (unat n) raw; q = snd (parse bytes quote_init);
         p = auth_offset bytes + 4; key = slice (p + 64) 64 bytes; block = qe_block bytes;
         report = slice 0 384 block in
       (\<forall>e\<in>set_option qe. identity_matches q e) \<and>
       signed_by (pf_ssl pf) (4 # key) (take (auth_offset bytes) bytes)
         (rawEcdsaSignatureToDER (pf_ssl pf) (slice p 64 bytes)) \<and>
       sha256Digest (pf_ssl pf) (key @ slice 450 (unat (u16_le block 448)) block) = slice 320 32 report \<and>
       signed_by (pf_ssl pf) (cert_pubKey pck) report
         (rawEcdsaSignatureToDER (pf_ssl pf) (slice 384 64 block)) \<and>
       tcb_evaluated ti pck q qe s (with_identity qe ver_coll_info_new) v') \<and>
    buffer' = map_option (copy_to VCI_SIZE (record_layout v')) buffer"
proof (cases rule: verifyQuoteEx_cases [of pf "Some raw" n "Some pem" "Some crlText" "Some info" identity buffer m])
  case (refused s')
  with assms show ?thesis by simp
next
  case (verified raw' pem' crl' info' q store ti qe cert pck s' v')
  let ?bytes = "take (unat n) raw"
  from verified(1,5,6) have parsed: "fst (parse ?bytes quote_init)" "validate (snd (parse ?bytes quote_init))"
    and q: "snd (parse ?bytes quote_init) = q" by simp_all
  from verified(14) assms(1) have s: "s' = s"
    and buffer: "buffer' = map_option (copy_to VCI_SIZE (record_layout v')) buffer"
    by (simp_all del: VCI_SIZE_def)
  have wf: "valid_tcb_info ti" using tcbInfo_parse_cases [OF verified(8)] by blast
  then have version: "ti_version ti = 2 \<or> ti_version ti = 3" by (auto simp: valid_tcb_info_def)
  have run: "quote_verify (pf_ssl pf) (snd (parse ?bytes quote_init)) pck store ti qe ver_coll_info_new = (Inr s, v')"
    using verified(12) s q by simp
  note bytes = authentic_bytes [OF parsed(1) take_u32 parsed(2) version run assms(2)]
  from verified(7) obtain x where x: "str2X509Crl (pf_crl pf) crl' = Inr x" "getRevoked x = Inr (crl_revokedList store)"
    by (rule crl_parse_success)
  have "length (q_attestKeyData q) = 64"
    using parse_qe_block [OF parsed(1) take_u32 parse_signed_data(2) [OF parsed(1) take_u32 parsed(2)], unfolded Let_def]
    unfolding q by blast
  from accepts_quote [OF version this, of "pf_ssl pf" pck store qe ver_coll_info_new s v'] run assms(2)
  have accepted: "not_revoked store pck" "pck_fmspc pck = ti_fmspc ti" "pck_pceId pck = ti_pceId ti"
    "\<forall>e\<in>set_option qe. identity_matches q e" "tcb_evaluated ti pck q qe s (with_identity qe ver_coll_info_new) v'"
    unfolding q accepts_def by blast+
  have "cert_serialNumber pck \<notin> revoked_serials x"
  proof
    assume *: "cert_serialNumber pck \<in> revoked_serials x"
    then have "cert_serialNumber pck \<noteq> []" by (simp add: revoked_serials_def)
    from getRevoked_serials [OF x(2) this] * accepted(1) show False by (simp add: not_revoked_def)
  qed
  with accepted verified bytes x wf buffer show ?thesis
    unfolding Let_def q by (intro exI [of _ cert] exI [of _ pck] exI [of _ x] exI [of _ ti] exI [of _ qe] exI [of _ v']) simp
qed

text \<open>
  C2: exceptions and outputs at the boundary of the library, whatever the arguments and the foreign
  code answers.  The five verifications without an output and the two of a quote return a status, and
  the output buffer of the extended one only changes on a verdict; the two certification data
  functions write their outputs only when they return \<^verbatim>\<open>STATUS_OK\<close>; and of the
  exported functions one lets an exception escape: \<^verbatim>\<open>sgxEnclaveAttestationGetVersion\<close>
  throws exactly when its buffer is null.  (The functions that set up logging return nothing and are
  not modelled; \<^verbatim>\<open>sgxAttestationGetVersion\<close> has no call that throws.)
\<close>

theorem no_exception_escapes:
  "(\<exists>s. sgxAttestationVerifyPCKCertificate pf pemChain crls rootPem time = Inr s) \<and>
   (\<exists>s. sgxAttestationVerifyPCKRevocationList pf crl pemChain rootPem = Inr s) \<and>
   (\<exists>s. sgxAttestationVerifyTCBInfo pf info pemChain crl rootPem time = Inr s) \<and>
   (\<exists>s. sgxAttestationVerifyEnclaveIdentity pf identity pemChain crl rootPem time = Inr s) \<and>
   (\<exists>s. sgxAttestationVerifyEnclaveReport pf report identity = Inr s) \<and>
   (\<exists>s. sgxAttestationVerifyQuote pf raw n pem crl info identity = Inr s) \<and>
   (\<exists>s buffer'. sgxAttestationVerifyQuoteEx pf raw n pem crl info identity buffer m = (Inr s, buffer') \<and>
      (s \<in> tcb_verdicts \<or> buffer' = buffer)) \<and>
   (\<exists>s sizeOut. sgxAttestationGetQECertificationDataSize raw n size_ptr = (s, sizeOut) \<and>
      (s = STATUS_OK \<or> sizeOut = size_ptr)) \<and>
   (\<exists>s dataOut typeOut. sgxAttestationGetQECertificationData raw n k data_buffer type_ptr = (s, dataOut, typeOut) \<and>
      (s = STATUS_OK \<or> dataOut = data_buffer \<and> typeOut = type_ptr)) \<and>
   (isl (sgxEnclaveAttestationGetVersion vb ver_buffer len) \<longleftrightarrow> ver_buffer = None)"
proof -
  have quote: "\<exists>s buffer'. sgxAttestationVerifyQuoteEx pf raw n pem crl info identity buffer m = (Inr s, buffer') \<and>
      (s \<in> tcb_verdicts \<or> buffer' = buffer)" for buffer m
    by (cases rule: verifyQuoteEx_cases [of pf raw n pem crl info identity buffer m]) blast+
  moreover have "\<exists>s. sgxAttestationVerifyQuote pf raw n pem crl info identity = Inr s"
    using quote [of None 0] by (auto simp: sgxAttestationVerifyQuote_def)
  moreover have "\<exists>s sizeOut. sgxAttestationGetQECertificationDataSize raw n size_ptr = (s, sizeOut) \<and>
      (s = STATUS_OK \<or> sizeOut = size_ptr)"
    by (auto simp: sgxAttestationGetQECertificationDataSize_def split: option.split prod.split)
  moreover have "\<exists>s dataOut typeOut.
      sgxAttestationGetQECertificationData raw n k data_buffer type_ptr = (s, dataOut, typeOut) \<and>
      (s = STATUS_OK \<or> dataOut = data_buffer \<and> typeOut = type_ptr)"
    by (auto simp: sgxAttestationGetQECertificationData_def Let_def split: option.split prod.split)
  moreover have "isl (sgxEnclaveAttestationGetVersion vb ver_buffer len) \<longleftrightarrow> ver_buffer = None"
    by (simp add: sgxEnclaveAttestationGetVersion_def safeMemcpy_def Let_def split: option.split)
  ultimately show ?thesis
    by (intro conjI total_verify_pck [unfolded total_iff] total_verify_crl [unfolded total_iff]
      total_verify_info [unfolded total_iff] total_verify_identity [unfolded total_iff]
      total_verify_report [unfolded total_iff])
qed

text \<open>
  C40: the protocol of the two certification data functions: the size the first one writes is the
  size field of the certification data in the quote, and a caller that passes it on with a buffer gets
  the very bytes of the quote that follow that field and the certification data type before it,
  whatever the version of the quote; the buffer behind the data is unchanged.
\<close>

theorem certification_data_protocol:
  assumes "sgxAttestationGetQECertificationDataSize (Some raw) n (Some k0) = (STATUS_OK, Some k)"
  shows "let block = qe_block (take (unat n) raw); p = 450 + unat (u16_le block 448) in
    k = u32_le block (p + 2) \<and> p + 6 + unat k \<le> length block \<and>
    sgxAttestationGetQECertificationData (Some raw) n k (Some dest) (Some t0) =
      (STATUS_OK, Some (slice (p + 6) (unat k) block @ drop (unat k) dest), Some (u16_le block p))"
proof -
  let ?bytes = "take (unat n) raw"
  let ?block = "qe_block ?bytes"
  let ?p = "450 + unat (u16_le ?block 448)"
  define q where "q = snd (parse ?bytes quote_init)"
  from assms have ok: "fst (parse ?bytes quote_init)" "validate q"
    and k: "k = cd_parsedDataSize (q_certificationData q)"
    by (auto simp: sgxAttestationGetQECertificationDataSize_def q_def split: prod.splits if_splits)
  have len: "length (cd_data (q_certificationData q)) = unat k"
    using valid_certification_size [OF ok(1) take_u32] ok(2) k by (simp add: q_def)
  note c = parse_certification [OF ok(1) take_u32 parse_signed_data(2) [OF ok(1) take_u32 ok(2) [unfolded q_def]],
      folded q_def, unfolded Let_def]
  have size: "k = u32_le ?block (?p + 2)" using c len by (simp add: length_slice word_unat_eq_iff)
  have "sgxAttestationGetQECertificationData (Some raw) n k (Some dest) (Some t0) =
      (STATUS_OK, Some (cd_data (q_certificationData q) @ drop (unat k) dest),
        Some (cd_type (q_certificationData q)))"
    using ok k len
    by (auto simp: sgxAttestationGetQECertificationData_def q_def copy_to_def Let_def split: prod.splits)
  with c size show ?thesis by (simp add: Let_def)
qed

section \<open>A platform that passes\<close>

definition sample_platform_json :: json where
  "sample_platform_json = JObject [
     (''id'', JString ''SGX''), (''version'', JInt 3), (''issueDate'', JString ''1970-01-01T00:00:10Z''),
     (''nextUpdate'', JString ''1970-01-01T00:00:30Z''), (''fmspc'', JString ''0E0E0E0E0E0E''),
     (''pceId'', JString ''0C0D''), (''tcbType'', JInt 0), (''tcbEvaluationDataNumber'', JInt 5),
     (''tcbLevels'', JArray [sample_level_json 1 ''UpToDate''])]"

text \<open>A list of one day that revokes the serial number 8, signed with the key of its issuer.\<close>

definition sample_crl_object :: "string \<Rightarrow> x509_crl" where
  "sample_crl_object issuer = \<lparr>xc_encoding = sample_key 0, xc_issuer = Some (sample_name_object issuer),
     xc_lastUpdate = Some (Some (0, 0)), xc_nextUpdate = Some (Some (1, 0)),
     xc_extensions = map sample_standard_extension CRL_REQUIRED_EXTENSIONS,
     xc_revokedStack = Some [Some \<lparr>ro_serialNumber = Some [8], ro_revocationDate = Some []\<rparr>],
     xc_sig = Some [1], xc_alg = True, xc_crlNumber = Some 1, xc_version = 1, xc_ext_count = 2\<rparr>"

definition sample_services :: "bytes platform" where
  "sample_services = \<lparr>pf_ssl = sample_ssl, pf_x509 = sample_reader,
     pf_crl = \<lparr>d2i_X509_CRL_bio = (\<lambda>_. None), PEM_read_bio_X509_CRL = (\<lambda>s.
       if s = ''X509 CRL'' \<or> s = ''-----BEGIN X509 CRL-----i'' then Some (sample_crl_object ''Intel SGX PCK Platform CA'')
       else if s = ''-----BEGIN X509 CRL-----r'' then Some (sample_crl_object ''Intel SGX Root CA'')
       else None)\<rparr>,
     pf_asn1 = sample_decoder,
     pf_json = sample_library\<lparr>json_Parse := \<lambda>s.
       if s = ''info'' then Some (sample_document ''tcbInfo'' sample_platform_json) else None,
       json_Accept := \<lambda>_ _. [0]\<rparr>,
     pf_empty_crl = []\<rparr>"


definition sample_platform_level :: tcb_level where
  "sample_platform_level = tcbLevel_v3 ''SGX'' (replicate 16 (component_of_svn 1)) [] 1 ''UpToDate'' 1735603200 []"

definition sample_platform_info :: tcb_info where
  "sample_platform_info = \<lparr>ti_id = ''SGX'', ti_version = 3, ti_issueDate = 10, ti_nextUpdate = 30,
     ti_fmspc = replicate 6 14, ti_pceId = [12, 13], ti_tcbLevels = [sample_platform_level],
     ti_signature = replicate 64 0, ti_infoBody = [0],
     ti_tdxModule = \<lparr>tdxm_mrsigner = [], tdxm_attributes = [], tdxm_attributesMask = []\<rparr>,
     ti_tdxModuleIdentities = [], ti_tcbType = 0, ti_tcbEvaluationDataNumber = 5\<rparr>"

lemma sample_platform_parse: "TcbInfo_parse (pf_json sample_services) ''info'' = Inr sample_platform_info"
proof -
  have "case TcbInfo_parse (pf_json sample_services) ''info'' of Inl _ \<Rightarrow> False | Inr t \<Rightarrow> t = sample_platform_info"
    by code_simp
  then show ?thesis by (simp only: case_outcome_eq)
qed

definition sample_store :: crl_store where
  "sample_store = snd (crl_parse sample_reader (pf_crl sample_services) ''X509 CRL'' (crl_store_new []))"

lemma sample_store_parse:
  "crl_parse sample_reader (pf_crl sample_services) ''X509 CRL'' (crl_store_new []) = (True, sample_store)"
proof -
  have "fst (crl_parse sample_reader (pf_crl sample_services) ''X509 CRL'' (crl_store_new []))"
    by code_simp
  then show ?thesis by (simp add: sample_store_def prod_eq_iff)
qed

lemma sample_platform_wf: "wf_levels sample_platform_info"
  using tcbInfo_parse_cases [OF sample_platform_parse] unfolding valid_tcb_info_def by blast


lemma sample_platform_fields:
  "ti_id sample_platform_info = ''SGX''" "ti_version sample_platform_info = 3"
  "ti_tcbLevels sample_platform_info = [sample_platform_level]"
  "ti_fmspc sample_platform_info = replicate 6 14" "ti_pceId sample_platform_info = [12, 13]"
  by (simp_all add: sample_platform_info_def)

lemma sample_platform_level_fields:
  "sgx_components sample_platform_level = replicate 16 (component_of_svn 1)"
  "tl_pceSvn sample_platform_level = 1" "tl_tcbDate sample_platform_level = 1735603200"
  "tl_advisoryIDs sample_platform_level = []" "level_status sample_platform_level = UpToDate"
  by (simp_all add: sample_platform_level_def sgx_components_def tcbLevel_v3_def level_status_def
      VALID_TCB_INFO_STATUSES_def)

lemma sample_components_length: "length (pt_cpuSvnComponents sample_tcb) = 16"
  by (simp add: sample_tcb_def)

lemma sample_components_reach: "j < 16 \<Longrightarrow> 1 \<le> pt_cpuSvnComponents sample_tcb ! j"
proof -
  have "\<forall>x\<in>set (pt_cpuSvnComponents sample_tcb). 1 \<le> x" by (simp add: sample_tcb_def)
  then show "j < 16 \<Longrightarrow> 1 \<le> pt_cpuSvnComponents sample_tcb ! j"
    by (simp add: sample_components_length)
qed

lemma sample_platform_matches:
  "sgx_matches (pt_cpuSvnComponents sample_tcb) (pt_pceSvn sample_tcb) sample_platform_level"
  using sample_components_reach
  by (simp add: sgx_matches_def svns_reach_def sample_platform_level_fields component_of_svn_def)
    (simp add: sample_tcb_def)

lemma sample_pck_fields_selectors:
  "pck_tcb' (sample_pck_fields c) = sample_tcb" "pck_fmspc (sample_pck_fields c) = replicate 6 14"
  "pck_pceId (sample_pck_fields c) = [12, 13]" "cert_pubKey (sample_pck_fields c) = cert_pubKey c"
  by (simp_all add: sample_pck_fields_def certificate.defs)

lemma sample_platform_tcb:
  "sgxEvaluateTCB (pt_cpuSvnComponents sample_tcb) (pt_pceSvn sample_tcb) n sample_platform_info None =
     (STATUS_OK, Some \<lparr>ev_tcbStatus = STATUS_OK, ev_tcbDate = 1735603200, ev_advisoryIds = []\<rparr>)"
  by (subst sgxEvaluateTCB_reference)
    (simp_all add: sample_platform_wf sample_components_length sgx_reference_def qe_part_def
      sample_platform_fields sample_platform_level_fields sample_platform_matches converge_ok_iff)

lemma sample_platform_evaluation:
  "launch_evaluation sample_platform_info (sample_pck_fields sample_leaf) sample_quote None =
     (STATUS_OK, Some \<lparr>ev_tcbStatus = STATUS_OK, ev_tcbDate = 1735603200, ev_advisoryIds = []\<rparr>)"
  by (simp add: launch_evaluation_def sample_quote_header sample_signed_header checkTcbLevel_sgx_def
      sample_pck_fields_selectors sample_platform_tcb)

definition sample_record :: ver_coll_info where
  "sample_record =
     (let e = \<lparr>ev_tcbStatus = STATUS_OK, ev_tcbDate = 1735603200, ev_advisoryIds = []\<rparr>
      in record_levels sample_platform_info e ''UpToDate'' e ''UpToDate'' ver_coll_info_new)"

lemma sample_platform_evaluated:
  "tcb_evaluated sample_platform_info (sample_pck_fields sample_leaf) sample_quote None STATUS_OK
     ver_coll_info_new sample_record"
proof -
  have "\<not> relaunches sample_quote"
    by (simp add: relaunches_def sample_quote_header sample_signed_header)
  moreover have "STATUS_OK \<in> tcb_verdicts" by (simp add: tcb_verdicts_def evaluation_statuses_def)
  moreover have "printTCBStatus STATUS_OK = Inr ''UpToDate''" by (simp add: printTCBStatus_def STATUS_TO_TCB_STRING_MAP_def)
  ultimately show ?thesis
    by (simp add: tcb_evaluated_def current_evaluation_def sample_platform_evaluation sample_quote_header
        sample_signed_header ALLOWED_TEE_TYPES_def sample_record_def Let_def)
qed

lemma sample_key_zero: "4 # replicate 64 0 = sample_key 0"
  by (simp add: sample_key_def)

lemma sample_der: "length s = 64 \<Longrightarrow> rawEcdsaSignatureToDER sample_ssl s = s"
  using slice_append [of 0 32 s 32] slice_all [of s] by (simp add: rawEcdsaSignatureToDER_def sample_ssl_def)

lemma sample_signatures:
  "signed_by sample_ssl (sample_key 0) (replicate 384 0) (rawEcdsaSignatureToDER sample_ssl (replicate 64 0))"
  "signed_by sample_ssl (sample_key 0) (take 432 sample_signed_v3)
     (rawEcdsaSignatureToDER sample_ssl (take 64 sample_signed_v3))"
  by (simp_all add: sample_signed sample_der sample_signed_fields sample_mac_def)

lemma sample_services_accept:
  "accepts (quote_verify sample_ssl sample_quote (sample_pck_fields sample_leaf) sample_store
     sample_platform_info None) ver_coll_info_new STATUS_OK sample_record"
proof -
  have names: "commonNameContains (cert_subject (sample_pck_fields sample_leaf)) SGX_PCK_CN_PHRASE"
    "crl_checkIssuer sample_store" "not_revoked sample_store (sample_pck_fields sample_leaf)"
    "iss_raw (crl_issuer' sample_store) = dn_raw (cert_issuer (sample_pck_fields sample_leaf))"
    by code_simp+
  have tee: "tee_matches sample_quote sample_platform_info" "seam_matches sample_quote sample_platform_info"
    by (simp_all add: tee_matches_def seam_matches_def sample_platform_fields TDX_ID_def SGX_ID_def
        sample_quote_header sample_signed_header)
  have key: "cert_pubKey sample_leaf = sample_key 0"
    by (simp add: sample_leaf_def sample_parsed_def sample_key_def)
  have binds: "reportData_binds_key sample_ssl sample_quote"
    by (simp add: binds_key_iff sample_quote_block sha256Digest_def sample_ssl_def)
  have data: "q_signedData sample_quote = take 432 sample_signed_v3"
    using parse_signed_data [of sample_signed_v3 quote_init] sample_quote_valid
    by (simp add: sample_quote_def sample_signed_parses sample_signed_fields auth_offset_def sample_signed_span)
  have v: "ti_version sample_platform_info = 2 \<or> ti_version sample_platform_info = 3"
    by (simp add: sample_platform_fields)
  from sample_platform_evaluated names tee key sample_signatures binds data
    sample_certification sample_key_zero
  show ?thesis
    by (subst accepts_quote [OF v])
      (simp_all add: sample_quote_block sample_pck_fields_selectors sample_platform_fields with_identity_def)
qed

lemma sample_record_fills:
  "verify_and_fill sample_services sample_quote (sample_pem ''p'') sample_store sample_platform_info None
     (Some dest) 1048 = (Inr STATUS_OK, Some (copy_to VCI_SIZE (record_layout sample_record) dest))"
proof -
  have leaf: "certificate_parse (pf_x509 sample_services) (sample_pem ''p'') = Inr sample_leaf"
    "pckCertificate (pf_asn1 sample_services) sample_leaf = Inr (sample_pck_fields sample_leaf)"
    by (simp_all add: sample_services_def sample_certificates sample_leaf_pck)
  have run: "quote_verify (pf_ssl sample_services) sample_quote (sample_pck_fields sample_leaf) sample_store
      sample_platform_info None ver_coll_info_new = (Inr STATUS_OK, sample_record)"
    using sample_services_accept by (simp add: accepts_def sample_services_def)
  have "has_data sample_record" "strings_fit sample_record" "vci_isFilled sample_record" by code_simp+
  moreover from this have "aggregateDataAndParseToVec sample_record = Inr (record_layout sample_record)"
    "length (record_layout sample_record) = VCI_SIZE"
    by (simp_all add: aggregate_eq length_record_layout)
  ultimately show ?thesis using leaf run by (simp add: verify_and_fill_def)
qed

lemma sample_services_verify:
  "sgxAttestationVerifyQuoteEx sample_services (Some sample_signed_v3) 1020 (Some (sample_pem ''p''))
     (Some ''X509 CRL'') (Some ''info'') None (Some (replicate 1048 0)) 1048 =
       (Inr STATUS_OK, Some (copy_to VCI_SIZE (record_layout sample_record) (replicate 1048 0)))"
proof -
  have "take (unat (1020 :: u32)) sample_signed_v3 = sample_signed_v3" by (simp add: sample_signed_fields)
  moreover have "parse sample_signed_v3 quote_init = (True, sample_quote)"
    using sample_signed_parses by (simp add: sample_quote_def prod_eq_iff)
  moreover have "parse_identity sample_services None = Inr None" by (simp add: parse_identity_def)
  moreover have "pf_x509 sample_services = sample_reader" "pf_empty_crl sample_services = []"
    by (simp_all add: sample_services_def)
  ultimately show ?thesis
    using sample_quote_valid sample_store_parse sample_platform_parse
    by (simp add: sgxAttestationVerifyQuoteEx_def sample_record_fills catch_exns_def)
qed

lemma verified_quote_end_to_end_witness:
  "\<exists>x. str2X509Crl (pf_crl sample_services) ''X509 CRL'' = Inr x \<and> [7] \<notin> revoked_serials x \<and>
     sgxAttestationVerifyQuoteEx sample_services (Some sample_signed_v3) 1020 (Some (sample_pem ''p''))
       (Some ''X509 CRL'') (Some ''info'') None (Some (replicate 1048 0)) 1048 =
       (Inr STATUS_OK, Some (copy_to VCI_SIZE (record_layout sample_record) (replicate 1048 0)))"
proof -
  have "STATUS_OK \<in> tcb_verdicts" by (simp add: tcb_verdicts_def evaluation_statuses_def)
  from verified_quote_end_to_end [OF sample_services_verify this] obtain cert pck x where
    *: "certificate_parse (pf_x509 sample_services) (sample_pem ''p'') = Inr cert"
    "pckCertificate (pf_asn1 sample_services) cert = Inr pck"
    "str2X509Crl (pf_crl sample_services) ''X509 CRL'' = Inr x" "cert_serialNumber pck \<notin> revoked_serials x"
    by blast
  then have "pck = sample_pck_fields sample_leaf"
    by (simp add: sample_services_def sample_certificates sample_leaf_pck)
  then have "cert_serialNumber pck = [7]"
    by (simp add: sample_pck_fields_def certificate.defs sample_leaf_def sample_parsed_def)
  with * sample_services_verify show ?thesis by auto
qed

text \<open>The quote with three bytes of certification data.\<close>

definition sample_certified_v3 :: bytes where
  "sample_certified_v3 = [3, 0, 2, 0] @ replicate 8 0 @ INTEL_QE_VENDOR_ID @ replicate 404 0 @
     [0x4B, 2, 0, 0] @ replicate 578 0 @ [5, 0, 3, 0, 0, 0, 10, 11, 12]"

lemma sample_certified_fields:
  "length sample_certified_v3 = 1023" "u16_le sample_certified_v3 0 = 3" "u16_le sample_certified_v3 2 = 2"
  "u32_le sample_certified_v3 4 = 0" "u32_le sample_certified_v3 432 = 587"
  "u16_le sample_certified_v3 1012 = 0" "u32_le sample_certified_v3 1016 = 3" "u16_le sample_certified_v3 1014 = 5"
  "slice 1020 3 sample_certified_v3 = [10, 11, 12]" "slice 12 16 sample_certified_v3 = INTEL_QE_VENDOR_ID"
  by code_simp+

lemma sample_certified_header:
  "version (raw_header sample_certified_v3) = 3" "teeType (raw_header sample_certified_v3) = 0"
  "attestationKeyType (raw_header sample_certified_v3) = 2"
  "qeVendorId (raw_header sample_certified_v3) = INTEL_QE_VENDOR_ID"
  by (simp_all add: raw_header_def fill_header_def u16_le_slice u32_le_slice slice_slice
      sample_certified_fields sample_certified_fields(3) [unfolded numeral_2_eq_2])

lemma sample_certified_span: "report_span sample_certified_v3 = Some (48, 384)"
  by (simp add: report_span_def sample_certified_header Let_def)

lemma sample_certified_parses: "fst (parse sample_certified_v3 q)"
  by (simp add: parse_accepts sample_certified_fields quote_accepted_def body_accepted_def sample_certified_span
      sample_certified_header auth_accepted_def v3_fits_def Let_def)

lemma sample_certified_block:
  "u16_le (qe_block sample_certified_v3) 448 = 0" "u16_le (qe_block sample_certified_v3) 450 = 5"
  "u32_le (qe_block sample_certified_v3) 452 = 3" "slice 456 3 (qe_block sample_certified_v3) = [10, 11, 12]"
proof -
  have block: "qe_block sample_certified_v3 = drop 564 sample_certified_v3"
    by (simp add: qe_block_def sample_certified_header auth_offset_def sample_certified_span)
  then show "slice 456 3 (qe_block sample_certified_v3) = [10, 11, 12]"
    by (simp add: slice_drop sample_certified_fields)
  show "u16_le (qe_block sample_certified_v3) 448 = 0" "u16_le (qe_block sample_certified_v3) 450 = 5"
    by (simp_all add: block u16_le_drop sample_certified_fields)
  show "u32_le (qe_block sample_certified_v3) 452 = 3"
    unfolding block by code_simp
qed

lemma certification_data_protocol_witness:
  "sgxAttestationGetQECertificationDataSize (Some sample_certified_v3) 1023 (Some 1) = (STATUS_OK, Some 3) \<and>
   sgxAttestationGetQECertificationData (Some sample_certified_v3) 1023 3 (Some [9, 9, 9, 9]) (Some 1) =
     (STATUS_OK, Some [10, 11, 12, 9], Some 5)"
proof -
  let ?q = "snd (parse sample_certified_v3 quote_init)"
  have small: "length sample_certified_v3 < 2 ^ 32" by (simp add: sample_certified_fields)
  have whole: "take 1023 sample_certified_v3 = sample_certified_v3"
    by (simp add: sample_certified_fields)
  have header: "q_header ?q = raw_header sample_certified_v3"
    by (rule parse_header [OF sample_certified_parses small])
  have v3: "version (q_header ?q) = QUOTE_VERSION_3" by (simp add: header sample_certified_header)
  from parse_v3_fields [OF sample_certified_parses small v3]
  have "cd_type (q_certificationData ?q) = 5 \<and> v3_certificationData (q_authDataV3 ?q) = q_certificationData ?q"
    by (simp add: sample_certified_fields auth_offset_def sample_certified_span Let_def)
  then have valid: "validate ?q"
    by (simp add: validate_def header sample_certified_header ALLOWED_QUOTE_VERSIONS_def
        ALLOWED_ATTESTATION_KEY_TYPES_def ALLOWED_TEE_TYPES_def Let_def)
  obtain k where k: "sgxAttestationGetQECertificationDataSize (Some sample_certified_v3) 1023 (Some 1) = (STATUS_OK, Some k)"
    using sample_certified_parses [of quote_init] valid
    by (cases "parse sample_certified_v3 quote_init") (auto simp: sgxAttestationGetQECertificationDataSize_def whole)
  note run = certification_data_protocol [OF k, of "[9, 9, 9, 9]" 1, unfolded Let_def]
  from run have "k = 3" by (simp add: whole sample_certified_block)
  with run k show ?thesis by (simp add: whole sample_certified_block)
qed

end
