(* ===== verification/OptionalCell.thy ===== *)
theory OptionalCell
  imports Prelude
begin

text \<open>
  \<^verbatim>\<open>AttestationLibrary/src/Utils/Optional.h\<close>: the library's own
  \<^verbatim>\<open>Optional<T>\<close>, with the memory it owns.  The state holds the values allocated with
  \<^verbatim>\<open>new\<close> (by address) and the objects that are alive (by name: the address of an
  \<^verbatim>\<open>Optional\<close> is its name).  An operation is \<open>None\<close> where the C++ behaviour is
  undefined: deleting or reading a value that is not allocated, or using an object that is not alive.
  Addresses are not used again, which only hides errors an allocator could turn into worse ones.
\<close>

section \<open>State\<close>

record optional_cell =
  oc_internalValue :: "nat option"
  oc_hasValue :: bool

record 'a memory =
  me_values :: "nat \<rightharpoonup> 'a"
  me_unused :: nat
  me_objects :: "nat \<rightharpoonup> optional_cell"

definition memory_new :: "'a memory" where
  "memory_new = \<lparr>me_values = Map.empty, me_unused = 0, me_objects = Map.empty\<rparr>"

definition new_value :: "'a \<Rightarrow> 'a memory \<Rightarrow> nat \<times> 'a memory" where
  "new_value v m =
     (me_unused m, m\<lparr>me_values := (me_values m)(me_unused m \<mapsto> v), me_unused := Suc (me_unused m)\<rparr>)"

text \<open>Deleting a null pointer does nothing.\<close>

definition delete_value :: "nat option \<Rightarrow> 'a memory \<Rightarrow> 'a memory option" where
  "delete_value p m =
     (case p of
        None \<Rightarrow> Some m
      | Some a \<Rightarrow> (if me_values m a = None then None
                  else Some (m\<lparr>me_values := (me_values m)(a := None)\<rparr>)))"

definition read_value :: "nat option \<Rightarrow> 'a memory \<Rightarrow> 'a option" where
  "read_value p m = (case p of None \<Rightarrow> None | Some a \<Rightarrow> me_values m a)"

definition set_object :: "nat \<Rightarrow> optional_cell \<Rightarrow> 'a memory \<Rightarrow> 'a memory" where
  "set_object x c m = m\<lparr>me_objects := (me_objects m)(x \<mapsto> c)\<rparr>"

section \<open>Constructors, assignments and the destructor\<close>

definition optional_empty :: "nat \<Rightarrow> 'a memory \<Rightarrow> 'a memory option" where
  "optional_empty x m =
     (if me_objects m x \<noteq> None then None
      else Some (set_object x \<lparr>oc_internalValue = None, oc_hasValue = False\<rparr> m))"

definition optional_of :: "nat \<Rightarrow> 'a \<Rightarrow> 'a memory \<Rightarrow> 'a memory option" where
  "optional_of x val m =
     (if me_objects m x \<noteq> None then None
      else (case new_value val m of
              (a, m1) \<Rightarrow> Some (set_object x \<lparr>oc_internalValue = Some a, oc_hasValue = True\<rparr> m1)))"

definition optional_copy :: "nat \<Rightarrow> nat \<Rightarrow> 'a memory \<Rightarrow> 'a memory option" where
  "optional_copy x y m =
     (if me_objects m x \<noteq> None then None
      else (case me_objects m y of
              None \<Rightarrow> None
            | Some other \<Rightarrow>
                if oc_hasValue other then
                  (case read_value (oc_internalValue other) m of
                     None \<Rightarrow> None
                   | Some v \<Rightarrow> (case new_value v m of
                       (a, m1) \<Rightarrow> Some (set_object x \<lparr>oc_internalValue = Some a, oc_hasValue = True\<rparr> m1)))
                else Some (set_object x \<lparr>oc_internalValue = None, oc_hasValue = False\<rparr> m)))"

text \<open>
  When \<^verbatim>\<open>other\<close> is empty, \<^verbatim>\<open>internalValue\<close> keeps the address that was
  just deleted.
\<close>

definition optional_assign :: "nat \<Rightarrow> nat \<Rightarrow> 'a memory \<Rightarrow> 'a memory option" where
  "optional_assign x y m =
     (case (me_objects m x, me_objects m y) of
        (Some this, Some other) \<Rightarrow>
          if y = x then Some m
          else (case delete_value (oc_internalValue this) m of
                  None \<Rightarrow> None
                | Some m1 \<Rightarrow>
                    if oc_hasValue other then
                      (case read_value (oc_internalValue other) m1 of
                         None \<Rightarrow> None
                       | Some v \<Rightarrow> (case new_value v m1 of
                           (a, m2) \<Rightarrow> Some (set_object x \<lparr>oc_internalValue = Some a, oc_hasValue = True\<rparr> m2)))
                    else Some (set_object x (this\<lparr>oc_hasValue := False\<rparr>) m1))
      | _ \<Rightarrow> None)"

definition optional_move :: "nat \<Rightarrow> nat \<Rightarrow> 'a memory \<Rightarrow> 'a memory option" where
  "optional_move x y m =
     (if me_objects m x \<noteq> None then None
      else (case me_objects m y of
              None \<Rightarrow> None
            | Some other \<Rightarrow>
                Some (set_object y \<lparr>oc_internalValue = None, oc_hasValue = False\<rparr> (set_object x other m))))"

definition optional_move_assign :: "nat \<Rightarrow> nat \<Rightarrow> 'a memory \<Rightarrow> 'a memory option" where
  "optional_move_assign x y m =
     (case (me_objects m x, me_objects m y) of
        (Some this, Some other) \<Rightarrow>
          if y = x then Some m
          else (case delete_value (oc_internalValue this) m of
                  None \<Rightarrow> None
                | Some m1 \<Rightarrow>
                    Some (set_object y \<lparr>oc_internalValue = None, oc_hasValue = False\<rparr> (set_object x other m1)))
      | _ \<Rightarrow> None)"

definition optional_destroy :: "nat \<Rightarrow> 'a memory \<Rightarrow> 'a memory option" where
  "optional_destroy x m =
     (case me_objects m x of
        None \<Rightarrow> None
      | Some this \<Rightarrow>
          (case (if oc_internalValue this \<noteq> None then delete_value (oc_internalValue this) m else Some m) of
             None \<Rightarrow> None
           | Some m1 \<Rightarrow> Some (m1\<lparr>me_objects := (me_objects m1)(x := None)\<rparr>)))"

section \<open>Reading\<close>

text \<open>\<open>Inl ()\<close> is the exception \<^verbatim>\<open>std::logic_error\<close>.\<close>

definition optional_has_value :: "optional_cell \<Rightarrow> bool" where
  "optional_has_value this = oc_hasValue this"

definition optional_value :: "optional_cell \<Rightarrow> 'a memory \<Rightarrow> (unit + 'a) option" where
  "optional_value this m =
     (if oc_hasValue this then map_option Inr (read_value (oc_internalValue this) m) else Some (Inl ()))"

definition optional_not :: "optional_cell \<Rightarrow> bool" where
  "optional_not this = (\<not> oc_hasValue this)"

definition optional_arrow :: "optional_cell \<Rightarrow> unit + nat option" where
  "optional_arrow this = (if oc_hasValue this then Inr (oc_internalValue this) else Inl ())"

definition optional_eq :: "optional_cell \<Rightarrow> optional_cell \<Rightarrow> 'a memory \<Rightarrow> bool option" where
  "optional_eq this other m =
     (if oc_hasValue this \<noteq> oc_hasValue other then Some False
      else if \<not> oc_hasValue this then Some True
      else (case (read_value (oc_internalValue this) m, read_value (oc_internalValue other) m) of
              (Some v, Some w) \<Rightarrow> Some (v = w)
            | _ \<Rightarrow> None))"

definition optional_eq_value :: "optional_cell \<Rightarrow> 'a \<Rightarrow> 'a memory \<Rightarrow> bool option" where
  "optional_eq_value this val m =
     (if \<not> oc_hasValue this then Some False
      else map_option (\<lambda>v. v = val) (read_value (oc_internalValue this) m))"

definition optional_ne :: "optional_cell \<Rightarrow> optional_cell \<Rightarrow> 'a memory \<Rightarrow> bool option" where
  "optional_ne this other m = map_option Not (optional_eq this other m)"

definition optional_ne_value :: "optional_cell \<Rightarrow> 'a \<Rightarrow> 'a memory \<Rightarrow> bool option" where
  "optional_ne_value this val m = map_option Not (optional_eq_value this val m)"

section \<open>Programs over optionals, and what they mean\<close>

datatype 'a optional_op =
    Create nat
  | CreateOf nat 'a
  | CopyTo nat nat
  | Assign nat nat
  | MoveTo nat nat
  | MoveAssign nat nat
  | Destroy nat

fun op_run :: "'a optional_op \<Rightarrow> 'a memory \<Rightarrow> 'a memory option" where
  "op_run (Create x) = optional_empty x"
| "op_run (CreateOf x v) = optional_of x v"
| "op_run (CopyTo x y) = optional_copy x y"
| "op_run (Assign x y) = optional_assign x y"
| "op_run (MoveTo x y) = optional_move x y"
| "op_run (MoveAssign x y) = optional_move_assign x y"
| "op_run (Destroy x) = optional_destroy x"

fun ops_run :: "'a optional_op list \<Rightarrow> 'a memory \<Rightarrow> 'a memory option" where
  "ops_run [] m = Some m"
| "ops_run (p # ps) m = (case op_run p m of None \<Rightarrow> None | Some m1 \<Rightarrow> ops_run ps m1)"

text \<open>
  The specification: an object that is alive is a HOL option; a move empties its source.
\<close>

type_synonym 'a optionals = "nat \<rightharpoonup> 'a option"

fun op_spec :: "'a optional_op \<Rightarrow> 'a optionals \<Rightarrow> 'a optionals option" where
  "op_spec (Create x) s = (if s x \<noteq> None then None else Some (s(x \<mapsto> None)))"
| "op_spec (CreateOf x v) s = (if s x \<noteq> None then None else Some (s(x \<mapsto> Some v)))"
| "op_spec (CopyTo x y) s =
     (if s x \<noteq> None then None else (case s y of None \<Rightarrow> None | Some d \<Rightarrow> Some (s(x \<mapsto> d))))"
| "op_spec (Assign x y) s =
     (case (s x, s y) of (Some _, Some d) \<Rightarrow> Some (s(x \<mapsto> d)) | _ \<Rightarrow> None)"
| "op_spec (MoveTo x y) s =
     (if s x \<noteq> None then None else (case s y of None \<Rightarrow> None | Some d \<Rightarrow> Some (s(x \<mapsto> d, y \<mapsto> None))))"
| "op_spec (MoveAssign x y) s =
     (case (s x, s y) of
        (Some _, Some d) \<Rightarrow> if y = x then Some s else Some (s(x \<mapsto> d, y \<mapsto> None))
      | _ \<Rightarrow> None)"
| "op_spec (Destroy x) s = (case s x of None \<Rightarrow> None | Some _ \<Rightarrow> Some (s(x := None)))"

text \<open>The one operation that does not keep its promise: a copy of an empty optional over a full one.\<close>

fun op_safe :: "'a optional_op \<Rightarrow> 'a optionals \<Rightarrow> bool" where
  "op_safe (Assign x y) s = (s y = Some None \<longrightarrow> y = x \<or> s x = Some None)"
| "op_safe _ s = True"

fun ops_spec :: "'a optional_op list \<Rightarrow> 'a optionals \<Rightarrow> 'a optionals option" where
  "ops_spec [] s = Some s"
| "ops_spec (p # ps) s =
     (if \<not> op_safe p s then None else case op_spec p s of None \<Rightarrow> None | Some s1 \<Rightarrow> ops_spec ps s1)"

definition slot :: "'a memory \<Rightarrow> nat \<Rightarrow> nat option" where
  "slot m x = (case me_objects m x of None \<Rightarrow> None | Some c \<Rightarrow> oc_internalValue c)"

definition optionals_of :: "'a memory \<Rightarrow> 'a optionals" where
  "optionals_of m x = (case me_objects m x of
     None \<Rightarrow> None
   | Some c \<Rightarrow> Some (read_value (oc_internalValue c) m))"

text \<open>
  Every allocated value belongs to exactly one object that is alive, and the flag says whether an
  object has one.
\<close>

definition slots_ok :: "(nat \<rightharpoonup> nat) \<Rightarrow> (nat \<rightharpoonup> 'a) \<Rightarrow> nat \<Rightarrow> bool" where
  "slots_ok sl vals n \<longleftrightarrow>
     (\<forall>a. vals a \<noteq> None \<longleftrightarrow> (\<exists>x. sl x = Some a)) \<and>
     (\<forall>x y a. sl x = Some a \<longrightarrow> sl y = Some a \<longrightarrow> x = y) \<and>
     (\<forall>x a. sl x = Some a \<longrightarrow> a < n)"

definition owned :: "'a memory \<Rightarrow> bool" where
  "owned m \<longleftrightarrow>
     (\<forall>x c. me_objects m x = Some c \<longrightarrow> oc_hasValue c = (oc_internalValue c \<noteq> None)) \<and>
     slots_ok (slot m) (me_values m) (me_unused m)"

section \<open>The operations implement the specification\<close>

lemma slots_new: "slots_ok sl vals n \<Longrightarrow> sl x = None \<Longrightarrow> slots_ok (sl(x \<mapsto> n)) (vals(n \<mapsto> v)) (Suc n)"
  unfolding slots_ok_def by (auto simp: less_Suc_eq) (metis option.distinct(1))+

lemma slots_okD:
  assumes "slots_ok sl vals n"
  shows "vals a \<noteq> None \<longleftrightarrow> (\<exists>z. sl z = Some a)" "sl z = Some a \<Longrightarrow> sl w = Some a \<Longrightarrow> z = w"
    "sl z = Some a \<Longrightarrow> a < n"
  using assms unfolding slots_ok_def by blast+

lemma slots_okI:
  assumes "\<And>a. vals a \<noteq> None \<longleftrightarrow> (\<exists>z. sl z = Some a)"
    and "\<And>z w a. sl z = Some a \<Longrightarrow> sl w = Some a \<Longrightarrow> z = w" and "\<And>z a. sl z = Some a \<Longrightarrow> a < n"
  shows "slots_ok sl vals n"
  using assms unfolding slots_ok_def by blast

lemma slots_free:
  assumes "slots_ok sl vals n" "sl x = Some a"
  shows "slots_ok (sl(x := None)) (vals(a := None)) n"
proof (rule slots_okI)
  show "(vals(a := None)) b \<noteq> None \<longleftrightarrow> (\<exists>z. (sl(x := None)) z = Some b)" for b
  proof (cases "b = a")
    case True
    have "sl z = Some a \<Longrightarrow> z = x" for z using slots_okD(2) [OF assms(1) _ assms(2)] .
    then show ?thesis using True by auto
  next
    case False
    then have "(sl(x := None)) z = Some b \<longleftrightarrow> sl z = Some b" for z using assms(2) by auto
    with False show ?thesis using slots_okD(1) [OF assms(1), of b] by simp
  qed
qed (use slots_okD(2,3) [OF assms(1)] in \<open>auto split: if_splits\<close>)

lemma slots_move:
  assumes "slots_ok sl vals n" "sl x = None" "x \<noteq> y"
  shows "slots_ok (sl(x := sl y, y := None)) vals n"
proof -
  have at: "(sl(x := sl y, y := None)) z = Some a \<longleftrightarrow>
      z = x \<and> sl y = Some a \<or> z \<noteq> y \<and> sl z = Some a" for z a
    using assms(2,3) by auto
  show ?thesis
  proof (rule slots_okI)
    show "vals a \<noteq> None \<longleftrightarrow> (\<exists>z. (sl(x := sl y, y := None)) z = Some a)" for a
    proof -
      have "(\<exists>z. sl z = Some a) \<longleftrightarrow> (\<exists>z. (sl(x := sl y, y := None)) z = Some a)"
        unfolding at by metis
      then show ?thesis unfolding slots_okD(1) [OF assms(1)] .
    qed
    show "z = w" if "(sl(x := sl y, y := None)) z = Some a" "(sl(x := sl y, y := None)) w = Some a" for z w a
      using that slots_okD(2) [OF assms(1)] unfolding at by blast
    show "a < n" if "(sl(x := sl y, y := None)) z = Some a" for z a
      using that slots_okD(3) [OF assms(1)] unfolding at by blast
  qed
qed

text \<open>The empty object, and the steps every operation is made of.\<close>

abbreviation empty_cell :: optional_cell where
  "empty_cell \<equiv> \<lparr>oc_internalValue = None, oc_hasValue = False\<rparr>"

abbreviation full_cell :: "nat \<Rightarrow> optional_cell" where
  "full_cell a \<equiv> \<lparr>oc_internalValue = Some a, oc_hasValue = True\<rparr>"

lemma set_object_simps [simp]:
  "me_values (set_object x c m) = me_values m" "me_unused (set_object x c m) = me_unused m"
  "me_objects (set_object x c m) = (me_objects m)(x \<mapsto> c)"
  "slot (set_object x c m) = (slot m)(x := oc_internalValue c)"
  "set_object x d (set_object x c m) = set_object x d m"
  by (auto simp: set_object_def slot_def)

lemma new_value_simps [simp]:
  "me_objects (snd (new_value v m)) = me_objects m" "slot (snd (new_value v m)) = slot m"
  "me_values (snd (new_value v m)) = (me_values m)(fst (new_value v m) \<mapsto> v)"
  "me_unused (snd (new_value v m)) = Suc (me_unused m)" "fst (new_value v m) = me_unused m"
  by (auto simp: new_value_def slot_def)

lemma optionals_of_slot:
  "optionals_of m x = (if me_objects m x = None then None
     else Some (case slot m x of None \<Rightarrow> None | Some a \<Rightarrow> me_values m a))"
  by (auto simp: optionals_of_def slot_def read_value_def split: option.splits)

lemma owned_slot: "owned m \<Longrightarrow> slot m y = Some a \<Longrightarrow> a < me_unused m \<and> me_values m a \<noteq> None"
  unfolding owned_def slots_ok_def by blast

lemma alive [simp]: "optionals_of m x = None \<longleftrightarrow> me_objects m x = None"
  by (simp add: optionals_of_slot)

lemma owned_object:
  assumes "owned m" "me_objects m x = Some c"
  shows "oc_hasValue c \<longleftrightarrow> optionals_of m x \<noteq> Some None"
    and "read_value (oc_internalValue c) m = the (optionals_of m x)"
proof -
  have "oc_hasValue c \<longleftrightarrow> oc_internalValue c \<noteq> None" using assms unfolding owned_def by blast
  then show "oc_hasValue c \<longleftrightarrow> optionals_of m x \<noteq> Some None"
    using owned_slot [OF assms(1), of x] assms(2)
    by (auto simp: optionals_of_slot slot_def split: option.splits)
  show "read_value (oc_internalValue c) m = the (optionals_of m x)"
    by (simp add: optionals_of_def assms(2))
qed

lemma new_value_set_object [simp]:
  "snd (new_value v (set_object x c m)) = set_object x c (snd (new_value v m))"
  by (simp add: new_value_def set_object_def)

text \<open>A new value in an object that has none.\<close>

lemma fill_object:
  assumes "owned m" "slot m x = None"
  shows "owned (set_object x (full_cell (me_unused m)) (snd (new_value v m)))"
    and "optionals_of (set_object x (full_cell (me_unused m)) (snd (new_value v m))) = (optionals_of m)(x \<mapsto> Some v)"
proof -
  show "owned (set_object x (full_cell (me_unused m)) (snd (new_value v m)))"
    using assms slots_new [of "slot m" "me_values m" "me_unused m" x v] by (simp add: owned_def)
  show "optionals_of (set_object x (full_cell (me_unused m)) (snd (new_value v m))) = (optionals_of m)(x \<mapsto> Some v)"
    using owned_slot [OF assms(1)] by (intro ext) (auto simp: optionals_of_slot split: option.splits)
qed

lemma clear_object:
  assumes "owned m" "slot m x = None"
  shows "owned (set_object x empty_cell m)"
    and "optionals_of (set_object x empty_cell m) = (optionals_of m)(x \<mapsto> None)"
proof -
  have "(slot m)(x := None) = slot m" using assms(2) by auto
  then show "owned (set_object x empty_cell m)" using assms by (simp add: owned_def)
  show "optionals_of (set_object x empty_cell m) = (optionals_of m)(x \<mapsto> None)"
    by (intro ext) (auto simp: optionals_of_slot split: option.split)
qed

text \<open>Deleting the value of an object, and calling the object empty.\<close>

lemma delete_object:
  assumes "owned m" "me_objects m x = Some c"
  obtains m1 where "delete_value (oc_internalValue c) m = Some m1" "me_objects m1 = me_objects m"
    "owned (set_object x empty_cell m1)"
    "optionals_of (set_object x empty_cell m1) = (optionals_of m)(x \<mapsto> None)"
proof (cases "oc_internalValue c")
  case None
  then have "slot m x = None" using assms(2) by (simp add: slot_def)
  from that [of m] None clear_object [OF assms(1) this] show ?thesis by (simp add: delete_value_def)
next
  case (Some a)
  then have a: "slot m x = Some a" using assms(2) by (simp add: slot_def)
  let ?m = "m\<lparr>me_values := (me_values m)(a := None)\<rparr>"
  have sl: "slot ?m = slot m" by (auto simp: slot_def)
  from a assms(1) have "slots_ok ((slot m)(x := None)) ((me_values m)(a := None)) (me_unused m)"
    by (simp add: owned_def slots_free)
  then have "owned (set_object x empty_cell ?m)" using assms(1) by (simp add: owned_def sl)
  moreover have "slot m y \<noteq> Some a" if "y \<noteq> x" for y
    using a assms(1) that unfolding owned_def slots_ok_def by metis
  then have "optionals_of (set_object x empty_cell ?m) = (optionals_of m)(x \<mapsto> None)"
    by (intro ext) (auto simp: optionals_of_slot sl split: option.splits)
  ultimately show ?thesis using that [of ?m] Some owned_slot [OF assms(1) a] by (simp add: delete_value_def)
qed

lemma move_object:
  assumes "owned m" "me_objects m y = Some other" "slot m x = None" "x \<noteq> y"
  shows "owned (set_object y empty_cell (set_object x other m))"
    and "optionals_of (set_object y empty_cell (set_object x other m)) =
      (optionals_of m)(x := optionals_of m y, y \<mapsto> None)"
proof -
  have sl: "oc_internalValue other = slot m y" using assms(2) by (simp add: slot_def)
  from assms slots_move [of "slot m" "me_values m" "me_unused m" x y]
  show "owned (set_object y empty_cell (set_object x other m))"
    by (auto simp: owned_def sl)
  show "optionals_of (set_object y empty_cell (set_object x other m)) =
      (optionals_of m)(x := optionals_of m y, y \<mapsto> None)"
    using assms by (intro ext) (auto simp: optionals_of_slot sl split: option.split)
qed

lemma remove_object:
  assumes "owned (set_object x empty_cell m)"
  shows "owned (m\<lparr>me_objects := (me_objects m)(x := None)\<rparr>)"
    and "optionals_of (m\<lparr>me_objects := (me_objects m)(x := None)\<rparr>) = (optionals_of (set_object x empty_cell m))(x := None)"
proof -
  let ?m = "m\<lparr>me_objects := (me_objects m)(x := None)\<rparr>"
  have sl: "slot ?m = slot (set_object x empty_cell m)" by (auto simp: slot_def)
  with assms show "owned ?m" by (auto simp: owned_def split: if_splits)
  show "optionals_of ?m = (optionals_of (set_object x empty_cell m))(x := None)"
    by (intro ext) (auto simp: optionals_of_slot sl split: option.split)
qed

lemma step_create:
  assumes "owned m" "me_objects m x = None"
  shows "\<exists>m'. optional_empty x m = Some m' \<and> owned m' \<and> optionals_of m' = (optionals_of m)(x \<mapsto> None)"
proof -
  have "slot m x = None" using assms(2) by (simp add: slot_def)
  from clear_object [OF assms(1) this] assms(2) show ?thesis by (simp add: optional_empty_def)
qed

lemma step_create_of:
  assumes "owned m" "me_objects m x = None"
  shows "\<exists>m'. optional_of x v m = Some m' \<and> owned m' \<and> optionals_of m' = (optionals_of m)(x \<mapsto> Some v)"
proof -
  have "slot m x = None" using assms(2) by (simp add: slot_def)
  from fill_object [OF assms(1) this, of v] assms(2) show ?thesis
    by (simp add: optional_of_def split_def)
qed

lemma step_copy:
  assumes "owned m" "me_objects m x = None" "optionals_of m y = Some d"
  shows "\<exists>m'. optional_copy x y m = Some m' \<and> owned m' \<and> optionals_of m' = (optionals_of m)(x \<mapsto> d)"
proof -
  have x: "slot m x = None" using assms(2) by (simp add: slot_def)
  from assms(3) obtain other where other: "me_objects m y = Some other"
    by (auto simp: optionals_of_def split: option.splits)
  note read = owned_object [OF assms(1) other]
  show ?thesis
  proof (cases d)
    case None
    with read assms(3) clear_object [OF assms(1) x] show ?thesis
      by (simp add: optional_copy_def assms(2) other)
  next
    case (Some v)
    with read assms(3) fill_object [OF assms(1) x, of v] show ?thesis
      by (simp add: optional_copy_def assms(2) other split_def)
  qed
qed

lemma step_assign:
  assumes "owned m" "optionals_of m x = Some e" "optionals_of m y = Some d"
    and "d = None \<Longrightarrow> y = x \<or> e = None"
  shows "\<exists>m'. optional_assign x y m = Some m' \<and> owned m' \<and> optionals_of m' = (optionals_of m)(x \<mapsto> d)"
proof -
  from assms(2,3) obtain this other where cells: "me_objects m x = Some this" "me_objects m y = Some other"
    by (auto simp: optionals_of_def split: option.splits)
  show ?thesis
  proof (cases "y = x")
    case True
    then have "(optionals_of m)(x \<mapsto> d) = optionals_of m" using assms(3) by auto
    with True assms(1) cells show ?thesis by (simp add: optional_assign_def)
  next
    case False
    note read = owned_object [OF assms(1) cells(2)]
    from delete_object [OF assms(1) cells(1)] obtain m1 where
      m1: "delete_value (oc_internalValue this) m = Some m1" "me_objects m1 = me_objects m"
      "owned (set_object x empty_cell m1)" "optionals_of (set_object x empty_cell m1) = (optionals_of m)(x \<mapsto> None)"
      by blast
    let ?m = "set_object x empty_cell m1"
    show ?thesis
    proof (cases d)
      case None
      with False assms(4) have "e = None" by simp
      with owned_object [OF assms(1) cells(1)] assms(2) have "\<not> oc_hasValue this" by simp
      moreover from this have "oc_internalValue this = None"
        using assms(1) cells(1) unfolding owned_def by blast
      ultimately have "this = empty_cell" "m1 = m" using m1(1) by (simp_all add: delete_value_def)
      with None False read assms(3) m1 show ?thesis by (simp add: optional_assign_def cells)
    next
      case (Some v)
      have objects: "me_objects ?m y = Some other" using False m1(2) cells(2) by simp
      have "read_value (oc_internalValue other) m1 = read_value (oc_internalValue other) ?m"
        by (simp add: read_value_def split: option.split)
      also have "\<dots> = the (optionals_of ?m y)" by (rule owned_object(2) [OF m1(3) objects])
      also have "\<dots> = Some v" using m1(4) False assms(3) Some by simp
      finally have v: "read_value (oc_internalValue other) m1 = Some v" .
      have "slot ?m x = None" by simp
      from fill_object [OF m1(3) this, of v] have filled:
        "owned (set_object x (full_cell (me_unused m1)) (snd (new_value v m1)))"
        "optionals_of (set_object x (full_cell (me_unused m1)) (snd (new_value v m1))) = (optionals_of m)(x \<mapsto> d)"
        by (simp_all add: m1(4) Some)
      have "oc_hasValue other" using read(1) assms(3) Some by simp
      with filled show ?thesis by (simp add: optional_assign_def cells False m1(1) v split_def)
    qed
  qed
qed

lemma step_move:
  assumes "owned m" "me_objects m x = None" "optionals_of m y = Some d"
  shows "\<exists>m'. optional_move x y m = Some m' \<and> owned m' \<and> optionals_of m' = (optionals_of m)(x \<mapsto> d, y \<mapsto> None)"
proof -
  from assms(3) obtain other where other: "me_objects m y = Some other"
    by (auto simp: optionals_of_def split: option.splits)
  have "slot m x = None" "x \<noteq> y" using assms(2) other by (auto simp: slot_def)
  from move_object [OF assms(1) other this] assms(2,3) other show ?thesis by (simp add: optional_move_def)
qed

lemma step_move_assign:
  assumes "owned m" "optionals_of m x = Some e" "optionals_of m y = Some d" "y \<noteq> x"
  shows "\<exists>m'. optional_move_assign x y m = Some m' \<and> owned m' \<and>
    optionals_of m' = (optionals_of m)(x \<mapsto> d, y \<mapsto> None)"
proof -
  from assms(2,3) obtain this other where cells: "me_objects m x = Some this" "me_objects m y = Some other"
    by (auto simp: optionals_of_def split: option.splits)
  from delete_object [OF assms(1) cells(1)] obtain m1 where
    m1: "delete_value (oc_internalValue this) m = Some m1" "me_objects m1 = me_objects m"
    "owned (set_object x empty_cell m1)" "optionals_of (set_object x empty_cell m1) = (optionals_of m)(x \<mapsto> None)"
    by blast
  let ?m = "set_object x empty_cell m1"
  have "me_objects ?m y = Some other" "slot ?m x = None" "x \<noteq> y" using assms(4) m1(2) cells(2) by auto
  from move_object [OF m1(3) this] m1(4) assms(3,4) show ?thesis
    by (simp add: optional_move_assign_def cells m1(1)) 
qed

lemma step_destroy:
  assumes "owned m" "optionals_of m x = Some e"
  shows "\<exists>m'. optional_destroy x m = Some m' \<and> owned m' \<and> optionals_of m' = (optionals_of m)(x := None)"
proof -
  from assms(2) obtain self where self: "me_objects m x = Some self"
    by (auto simp: optionals_of_def split: option.splits)
  from delete_object [OF assms(1) self] obtain m1 where
    m1: "delete_value (oc_internalValue self) m = Some m1" "owned (set_object x empty_cell m1)"
    "optionals_of (set_object x empty_cell m1) = (optionals_of m)(x \<mapsto> None)" by blast
  have "(if oc_internalValue self \<noteq> None then delete_value (oc_internalValue self) m else Some m) = Some m1"
    using m1(1) by (auto simp: delete_value_def)
  with remove_object [OF m1(2)] m1(3) show ?thesis by (simp add: optional_destroy_def self)
qed

lemma op_refines:
  assumes "owned m" "op_safe p (optionals_of m)" "op_spec p (optionals_of m) = Some s"
  shows "\<exists>m'. op_run p m = Some m' \<and> owned m' \<and> optionals_of m' = s"
  using assms(2,3)
proof (cases p)
  case (MoveAssign x y)
  show ?thesis
  proof (cases "y = x")
    case True
    with assms(1,3) MoveAssign show ?thesis
      by (auto simp: optional_move_assign_def optionals_of_def split: option.splits if_splits)
  next
    case False
    with assms(3) MoveAssign step_move_assign [OF assms(1) _ _ False] show ?thesis
      by (auto split: option.splits)
  qed
next
  case (Assign x y)
  with assms(3) obtain e d where "optionals_of m x = Some e" "optionals_of m y = Some d"
    "s = (optionals_of m)(x \<mapsto> d)"
    by (auto split: option.splits)
  with Assign assms(2) step_assign [OF assms(1), of x e y d] show ?thesis by auto
qed (use assms(1) step_create step_create_of step_copy step_move step_destroy in
    \<open>auto split: option.splits if_splits\<close>)

lemma ops_refine:
  "owned m \<Longrightarrow> ops_spec ps (optionals_of m) = Some s \<Longrightarrow>
   \<exists>m'. ops_run ps m = Some m' \<and> owned m' \<and> optionals_of m' = s"
proof (induction ps arbitrary: m)
  case (Cons p ps)
  then obtain s1 where "op_safe p (optionals_of m)" "op_spec p (optionals_of m) = Some s1" "ops_spec ps s1 = Some s"
    by (auto split: if_splits option.splits)
  with op_refines [OF Cons.prems(1)] Cons.IH show ?case by fastforce
qed simp

section \<open>Properties\<close>

text \<open>What a program reads from its objects.\<close>

definition readings :: "'a memory \<Rightarrow> bool" where
  "readings m \<longleftrightarrow> (\<forall>x c. me_objects m x = Some c \<longrightarrow>
     optional_has_value c = (optionals_of m x \<noteq> Some None) \<and>
     optional_not c = (optionals_of m x = Some None) \<and>
     optional_value c m = Some (case the (optionals_of m x) of None \<Rightarrow> Inl () | Some v \<Rightarrow> Inr v) \<and>
     (case optional_arrow c of
        Inl _ \<Rightarrow> optionals_of m x = Some None
      | Inr p \<Rightarrow> read_value p m \<noteq> None \<and> optionals_of m x = Some (read_value p m)) \<and>
     (\<forall>v. optional_eq_value c v m = Some (optionals_of m x = Some (Some v)) \<and>
          optional_ne_value c v m = Some (optionals_of m x \<noteq> Some (Some v))) \<and>
     (\<forall>y d. me_objects m y = Some d \<longrightarrow>
        optional_eq c d m = Some (optionals_of m x = optionals_of m y) \<and>
        optional_ne c d m = Some (optionals_of m x \<noteq> optionals_of m y)))"

lemma owned_readings:
  assumes "owned m"
  shows "readings m"
proof -
  have object: "\<exists>e. optionals_of m x = Some e \<and> (oc_hasValue c \<longleftrightarrow> e \<noteq> None) \<and>
      read_value (oc_internalValue c) m = e" if c: "me_objects m x = Some c" for x c
  proof -
    have "optionals_of m x = Some (read_value (oc_internalValue c) m)" by (simp add: optionals_of_def c)
    with owned_object(1) [OF assms c] show ?thesis by simp
  qed
  show ?thesis
    unfolding readings_def
  proof (intro allI impI)
    fix x c assume "me_objects m x = Some c"
    from object [OF this] obtain e where x: "optionals_of m x = Some e" "oc_hasValue c \<longleftrightarrow> e \<noteq> None"
      "read_value (oc_internalValue c) m = e" by blast
    have "optional_eq c d m = Some (optionals_of m x = optionals_of m y)" if "me_objects m y = Some d" for y d
    proof -
      from object [OF that] obtain e' where "optionals_of m y = Some e'" "oc_hasValue d \<longleftrightarrow> e' \<noteq> None"
        "read_value (oc_internalValue d) m = e'" by blast
      with x show ?thesis by (cases e; cases e') (simp_all add: optional_eq_def)
    qed
    with x show "optional_has_value c = (optionals_of m x \<noteq> Some None) \<and>
     optional_not c = (optionals_of m x = Some None) \<and>
     optional_value c m = Some (case the (optionals_of m x) of None \<Rightarrow> Inl () | Some v \<Rightarrow> Inr v) \<and>
     (case optional_arrow c of
        Inl _ \<Rightarrow> optionals_of m x = Some None
      | Inr p \<Rightarrow> read_value p m \<noteq> None \<and> optionals_of m x = Some (read_value p m)) \<and>
     (\<forall>v. optional_eq_value c v m = Some (optionals_of m x = Some (Some v)) \<and>
          optional_ne_value c v m = Some (optionals_of m x \<noteq> Some (Some v))) \<and>
     (\<forall>y d. me_objects m y = Some d \<longrightarrow>
        optional_eq c d m = Some (optionals_of m x = optionals_of m y) \<and>
        optional_ne c d m = Some (optionals_of m x \<noteq> optionals_of m y))"
      by (cases e) (simp_all add: optional_has_value_def optional_not_def optional_value_def
          optional_arrow_def optional_eq_value_def optional_ne_value_def optional_ne_def)
  qed
qed

text \<open>
  C35: \<^verbatim>\<open>Optional<T>\<close> implements HOL's options.  Every program over optional
  objects that the specification allows, and that copies no empty optional over a full one, runs
  without undefined behaviour; its objects then hold what the specification says, every comparison
  and \<^verbatim>\<open>value()\<close> reads just that, and every allocated value belongs to exactly one object:
  no leak, no double deletion.
\<close>

theorem optional_refines_option:
  fixes ps :: "'a optional_op list"
  assumes "ops_spec ps Map.empty = Some s"
  shows "\<exists>m. ops_run ps memory_new = Some m \<and> optionals_of m = s \<and> owned m \<and> readings m"
proof -
  have "owned (memory_new :: 'a memory)" "optionals_of (memory_new :: 'a memory) = Map.empty"
    by (auto simp: owned_def slots_ok_def memory_new_def slot_def optionals_of_def)
  with ops_refine [of memory_new ps s] assms obtain m where
    "ops_run ps memory_new = Some m" "owned m" "optionals_of m = s" by auto
  with owned_readings show ?thesis by blast
qed

lemma optional_refines_option_witness:
  "\<exists>m. ops_run [CreateOf 0 (7 :: nat), Create 1, CopyTo 2 0, Assign 1 0, MoveAssign 0 1, Destroy 2] memory_new = Some m \<and>
     optionals_of m 0 = Some (Some 7) \<and> optionals_of m 1 = Some None \<and> optionals_of m 2 = None \<and> owned m"
proof -
  have "ops_spec [CreateOf 0 (7 :: nat), Create 1, CopyTo 2 0, Assign 1 0, MoveAssign 0 1, Destroy 2] Map.empty =
      Some ([0 \<mapsto> Some 7, 1 \<mapsto> None])"
    by (simp add: fun_eq_iff)
  from optional_refines_option [OF this] show ?thesis by (elim exE conjE) (intro exI conjI, assumption, simp_all)
qed

text \<open>
  C36: without the second condition it does not: copying an empty optional over a full one leaves the
  full one with the address of its deleted value, so whatever is done to it next, its destructor
  included, deletes that value again.
\<close>

theorem copy_of_empty_leaves_dangling:
  assumes "owned m" "optionals_of m x = Some (Some v)" "optionals_of m y = Some None"
  shows "\<exists>m1. optional_assign x y m = Some m1 \<and> optional_destroy x m1 = None \<and>
    (\<forall>z. z \<noteq> x \<longrightarrow> optional_assign x z m1 = None \<and> optional_move_assign x z m1 = None)"
proof -
  from assms(2,3) obtain self other where cells: "me_objects m x = Some self" "me_objects m y = Some other"
    by (auto simp: optionals_of_def split: option.splits)
  have "x \<noteq> y" using assms(2,3) by auto
  from assms(2) cells(1) obtain a where a: "oc_internalValue self = Some a" "me_values m a = Some v"
    by (auto simp: optionals_of_def read_value_def split: option.splits)
  have "\<not> oc_hasValue other" using owned_object(1) [OF assms(1) cells(2)] assms(3) by simp
  with a cells \<open>x \<noteq> y\<close> have "optional_assign x y m =
      Some (set_object x (self\<lparr>oc_hasValue := False\<rparr>) (m\<lparr>me_values := (me_values m)(a := None)\<rparr>))"
    by (simp add: optional_assign_def delete_value_def)
  with a show ?thesis
    by (simp add: optional_destroy_def optional_assign_def optional_move_assign_def delete_value_def
        split: option.split)
qed

lemma copy_of_empty_leaves_dangling_witness:
  "\<exists>m m1. ops_run [CreateOf 0 (7 :: nat), Create 1] memory_new = Some m \<and>
     optional_assign 0 1 m = Some m1 \<and> optional_destroy 0 m1 = None"
proof -
  have "ops_spec [CreateOf 0 (7 :: nat), Create 1] Map.empty = Some [0 \<mapsto> Some 7, 1 \<mapsto> None]" by simp
  moreover have "owned (memory_new :: nat memory)" "optionals_of (memory_new :: nat memory) = Map.empty"
    by (auto simp: owned_def slots_ok_def memory_new_def slot_def optionals_of_def)
  ultimately obtain m where m: "ops_run [CreateOf 0 (7 :: nat), Create 1] memory_new = Some m" "owned m"
    "optionals_of m = [0 \<mapsto> Some 7, 1 \<mapsto> None]"
    using ops_refine [of "memory_new :: nat memory"] by metis
  then have "optionals_of m 0 = Some (Some 7)" "optionals_of m 1 = Some None" by simp_all
  from copy_of_empty_leaves_dangling [OF m(2) this] m(1) show ?thesis by blast
qed

lemma copy_of_empty_double_free:
  "ops_run [CreateOf 0 (7 :: nat), Create 1, Assign 0 1] memory_new \<noteq> None \<and>
   ops_run [CreateOf 0 (7 :: nat), Create 1, Assign 0 1, Destroy 0] memory_new = None"
  by code_simp

end
