(* ===== verification/App.thy ===== *)
theory App
  imports EndToEnd
begin

text \<open>
  \<^verbatim>\<open>AttestationApp\<close>: the command line program.  \<^verbatim>\<open>FileReader.cpp\<close> over a file
  system that is part of the state, \<^verbatim>\<open>AttestationLibraryAdapter.cpp\<close> (here the build
  without an enclave, in Program the other one), \<^verbatim>\<open>StatusPrinter.cpp\<close>,
  \<^verbatim>\<open>AppCore.cpp\<close> over any adapter and \<^verbatim>\<open>AppOptionsParser.cpp\<close>, for which
  the vendored argument parser is a parameter.  A member function is a function on the state that
  may end with an exception, and \<^verbatim>\<open>logger\<close> is the text written to that stream.
\<close>

section \<open>State, files and exceptions\<close>

record app_state =
  files :: "string \<Rightarrow> bytes option"
  writable :: "string \<Rightarrow> bool"
  logger :: string

text \<open>
  An \<open>UndefinedBehaviour\<close>: \<^verbatim>\<open>readBinaryContent\<close> makes a vector of the file's size
  modulo 4 GB and then reads the whole file into it.
\<close>

datatype app_exn = ReadFileException string | LibraryException exn | RuntimeError string | UndefinedBehaviour

type_synonym 'a app = "app_state \<Rightarrow> (app_exn + 'a) \<times> app_state"

definition returnA :: "'a \<Rightarrow> 'a app" where
  "returnA a st = (Inr a, st)"

definition throwA :: "app_exn \<Rightarrow> 'a app" where
  "throwA e st = (Inl e, st)"

definition bindA :: "'a app \<Rightarrow> ('a \<Rightarrow> 'b app) \<Rightarrow> 'b app" where
  "bindA m f st = (case m st of (Inl e, st') \<Rightarrow> (Inl e, st') | (Inr a, st') \<Rightarrow> f a st')"

definition log_text :: "string \<Rightarrow> unit app" where
  "log_text s st = (Inr (), st\<lparr>logger := logger st @ s\<rparr>)"

definition chars_of :: "bytes \<Rightarrow> string" where
  "chars_of = map (\<lambda>b. char_of (unat b))"

definition quoted :: "string \<Rightarrow> string" where
  "quoted s = [CHR 0x22] @ s @ [CHR 0x22]"

definition readContent :: "string \<Rightarrow> string app" where
  "readContent filePath st =
     (case files st filePath of
        None \<Rightarrow> throwA (ReadFileException (''FileReader: failed to open '' @ quoted filePath @ '' file!'')) st
      | Some content \<Rightarrow> returnA (chars_of content) st)"

definition readBinaryContent :: "string \<Rightarrow> bytes app" where
  "readBinaryContent filePath st =
     (case files st filePath of
        None \<Rightarrow> throwA (ReadFileException (''FileReader: failed to open '' @ quoted filePath @ '' binary file!'')) st
      | Some content \<Rightarrow>
          let retVal_size = unat (word_of_nat (length content) :: u32)
          in if retVal_size < length content then throwA UndefinedBehaviour st else returnA content st)"

definition saveBinaryContent :: "string \<Rightarrow> bytes \<Rightarrow> unit app" where
  "saveBinaryContent filePath content st =
     (if \<not> writable st filePath then
        throwA (ReadFileException (''FileReader: failed to open '' @ quoted filePath @ '' binary file!'')) st
      else returnA () (st\<lparr>files := (files st)(filePath \<mapsto> content)\<rparr>))"

section \<open>The library behind its adapter\<close>

text \<open>\<^verbatim>\<open>IAttestationLibraryAdapter\<close>; the vector passed by reference is returned.\<close>

record library_adapter =
  getVersion_of :: "app_exn + string"
  verifyQuote_of :: "bytes \<Rightarrow> string \<Rightarrow> string \<Rightarrow> string \<Rightarrow> string \<Rightarrow> bytes \<Rightarrow> (app_exn + status) \<times> bytes"
  verifyPCKCertificate_of :: "string \<Rightarrow> string \<Rightarrow> string \<Rightarrow> string \<Rightarrow> time_t \<Rightarrow> app_exn + status"
  verifyTCBInfo_of :: "string \<Rightarrow> string \<Rightarrow> string \<Rightarrow> string \<Rightarrow> time_t \<Rightarrow> app_exn + status"
  verifyQeIdentity_of :: "string \<Rightarrow> string \<Rightarrow> string \<Rightarrow> string \<Rightarrow> time_t \<Rightarrow> app_exn + status"

text \<open>
  \<^verbatim>\<open>c_str\<close> of an argument ends at its first null character, and the data pointer of an
  empty vector is null, as in libstdc++.
\<close>

definition data_ptr :: "bytes \<Rightarrow> bytes option" where
  "data_ptr v = (if v = [] then None else Some v)"

definition verifyQuote ::
  "'key platform \<Rightarrow> bytes \<Rightarrow> string \<Rightarrow> string \<Rightarrow> string \<Rightarrow> string \<Rightarrow> bytes \<Rightarrow> (app_exn + status) \<times> bytes" where
  "verifyQuote pf quote pckCertChain pckCrl tcbInfo qeIdentity verificationCollateralInfo =
     (let qeIdentityRawPtr = (if qeIdentity = [] then None else Some (c_str qeIdentity));
          buffer = data_ptr verificationCollateralInfo in
      case sgxAttestationVerifyQuoteEx pf (data_ptr quote) (word_of_nat (length quote)) (Some (c_str pckCertChain))
             (Some (c_str pckCrl)) (Some (c_str tcbInfo)) qeIdentityRawPtr buffer
             (word_of_nat (length verificationCollateralInfo)) of
        (status, buffer') \<Rightarrow> (map_sum LibraryException id status,
           case buffer' of None \<Rightarrow> verificationCollateralInfo | Some b \<Rightarrow> b))"

definition verifyPCKCertificate ::
  "'key platform \<Rightarrow> string \<Rightarrow> string \<Rightarrow> string \<Rightarrow> string \<Rightarrow> time_t \<Rightarrow> app_exn + status" where
  "verifyPCKCertificate pf pemCertChain pemRootCaCRL intermediateCaCRL pemTrustedRootCaCertificate expirationDate =
     map_sum LibraryException id (sgxAttestationVerifyPCKCertificate pf (Some (c_str pemCertChain))
       (Some (Some (c_str pemRootCaCRL), Some (c_str intermediateCaCRL))) (Some (c_str pemTrustedRootCaCertificate))
       (Some expirationDate))"

definition verifyTCBInfo ::
  "'key platform \<Rightarrow> string \<Rightarrow> string \<Rightarrow> string \<Rightarrow> string \<Rightarrow> time_t \<Rightarrow> app_exn + status" where
  "verifyTCBInfo pf tcbInfo pemSigningChain pemRootCaCrl pemTrustedRootCaCertificate expirationDate =
     map_sum LibraryException id (sgxAttestationVerifyTCBInfo pf (Some (c_str tcbInfo)) (Some (c_str pemSigningChain))
       (Some (c_str pemRootCaCrl)) (Some (c_str pemTrustedRootCaCertificate)) (Some expirationDate))"

definition verifyQeIdentity ::
  "'key platform \<Rightarrow> string \<Rightarrow> string \<Rightarrow> string \<Rightarrow> string \<Rightarrow> time_t \<Rightarrow> app_exn + status" where
  "verifyQeIdentity pf qeIdentity pemSigningChain pemRootCaCrl pemTrustedRootCaCertificate expirationDate =
     map_sum LibraryException id (sgxAttestationVerifyEnclaveIdentity pf (Some (c_str qeIdentity))
       (Some (c_str pemSigningChain)) (Some (c_str pemRootCaCrl)) (Some (c_str pemTrustedRootCaCertificate))
       (Some expirationDate))"

definition AttestationLibraryAdapter :: "version_build \<Rightarrow> 'key platform \<Rightarrow> library_adapter" where
  "AttestationLibraryAdapter vb pf = \<lparr>getVersion_of = Inr (sgxAttestationGetVersion vb),
     verifyQuote_of = verifyQuote pf, verifyPCKCertificate_of = verifyPCKCertificate pf,
     verifyTCBInfo_of = verifyTCBInfo pf, verifyQeIdentity_of = verifyQeIdentity pf\<rparr>"

definition library_call :: "app_exn + 'a \<Rightarrow> 'a app" where
  "library_call r = (case r of Inl e \<Rightarrow> throwA e | Inr a \<Rightarrow> returnA a)"

section \<open>Printing\<close>

definition app_printStatus :: "status \<Rightarrow> string" where
  "app_printStatus s =
     (let statusNumberStr = ''('' @ digits (status_code s) @ '')''
      in if status_code s > status_code STATUS_TCB_TD_RELAUNCH_ADVISED_CONFIGURATION_NEEDED
         then ''Unknown status'' @ statusNumberStr
         else statusStrs ! status_code s @ statusNumberStr)"

definition app_bytesToHexString :: "bytes \<Rightarrow> string" where
  "app_bytesToHexString vector =
     (let hex = ''0123456789ABCDEF'' in concat (map (\<lambda>c. [hex ! (unat c div 16), hex ! (unat c mod 16)]) vector))"

definition endl :: string where
  "endl = [CHR 0x0A]"

definition outputResult :: "string \<Rightarrow> status \<Rightarrow> unit app" where
  "outputResult step status =
     (if status \<noteq> STATUS_OK then log_text (step @ '' verification failed with status: '' @ app_printStatus status @ endl)
      else log_text (step @ '' verification OK!'' @ endl))"

section \<open>AppCore\<close>

record app_options =
  pckCertificateFile :: string
  pckSigningChainFile :: string
  rootCaCrlFile :: string
  intermediateCaCrlFile :: string
  trustedRootCACertificateFile :: string
  tcbInfoFile :: string
  tcbSigningChainFile :: string
  quoteFile :: string
  qeIdentityFile :: string
  qveIdentityFile :: string
  verCollInfoFile :: string
  expirationDate :: time_t

definition PEM_HEADER_STRING_X509_CRL :: string where
  "PEM_HEADER_STRING_X509_CRL = ''-----BEGIN X509 CRL-----''"

text \<open>A revocation list that is not PEM is passed on in hexadecimal.\<close>

definition read_crl :: "string \<Rightarrow> string app" where
  "read_crl path =
     bindA (readContent path) (\<lambda>crl.
       if rfind_upto crl PEM_HEADER_STRING_X509_CRL 0 = None
       then bindA (readBinaryContent path) (\<lambda>der. returnA (app_bytesToHexString der))
       else returnA crl)"

text \<open>An identity file that is not given is not verified.\<close>

definition run_identity ::
  "library_adapter \<Rightarrow> string \<Rightarrow> string \<Rightarrow> string \<Rightarrow> string \<Rightarrow> string \<Rightarrow> time_t \<Rightarrow> (string \<times> status) app" where
  "run_identity lib step path tcbSigningCert rootCaCrl trustedRootCACert time =
     (if path = [] then returnA ([], STATUS_OK)
      else bindA (readContent path) (\<lambda>identity.
        bindA (library_call (verifyQeIdentity_of lib identity tcbSigningCert rootCaCrl trustedRootCACert time)) (\<lambda>status.
        bindA (outputResult step status) (\<lambda>_. returnA (identity, status)))))"

definition run_quote ::
  "library_adapter \<Rightarrow> app_options \<Rightarrow> string \<Rightarrow> string \<Rightarrow> string \<Rightarrow> string \<Rightarrow> status app" where
  "run_quote lib options pckCert intermediateCaCrl tcbInfo qeIdentity =
     bindA (readBinaryContent (quoteFile options)) (\<lambda>quote.
     case verifyQuote_of lib quote pckCert intermediateCaCrl tcbInfo qeIdentity (replicate VCI_SIZE 0) of
       (result, verCollInfo) \<Rightarrow>
     bindA (library_call result) (\<lambda>quoteVerifyStatus.
     bindA (if verCollInfoFile options \<noteq> [] \<and> verCollInfo \<noteq> replicate VCI_SIZE 0
            then saveBinaryContent (verCollInfoFile options) verCollInfo else returnA ()) (\<lambda>_.
     bindA (outputResult ''Quote'' quoteVerifyStatus) (\<lambda>_. returnA quoteVerifyStatus))))"

definition run_body :: "library_adapter \<Rightarrow> app_options \<Rightarrow> bool app" where
  "run_body lib options =
     (let time = expirationDate options in
     bindA (readContent (pckCertificateFile options)) (\<lambda>pckCert.
     bindA (readContent (pckSigningChainFile options)) (\<lambda>pckSigningChain.
     bindA (read_crl (rootCaCrlFile options)) (\<lambda>rootCaCrl.
     bindA (read_crl (intermediateCaCrlFile options)) (\<lambda>intermediateCaCrl.
     bindA (readContent (trustedRootCACertificateFile options)) (\<lambda>trustedRootCACert.
     bindA (library_call (verifyPCKCertificate_of lib (pckSigningChain @ pckCert) rootCaCrl intermediateCaCrl
              trustedRootCACert time)) (\<lambda>pckVerifyStatus.
     bindA (outputResult ''PCK certificate chain'' pckVerifyStatus) (\<lambda>_.
     bindA (readContent (tcbInfoFile options)) (\<lambda>tcbInfo.
     bindA (readContent (tcbSigningChainFile options)) (\<lambda>tcbSigningCert.
     bindA (library_call (verifyTCBInfo_of lib tcbInfo tcbSigningCert rootCaCrl trustedRootCACert time)) (\<lambda>tcbVerifyStatus.
     bindA (outputResult ''TCB info'' tcbVerifyStatus) (\<lambda>_.
     bindA (run_identity lib ''QeIdentity'' (qeIdentityFile options) tcbSigningCert rootCaCrl trustedRootCACert time)
       (\<lambda>(qeIdentity, qeIdentityVerifyStatus).
     bindA (run_identity lib ''QveIdentity'' (qveIdentityFile options) tcbSigningCert rootCaCrl trustedRootCACert time)
       (\<lambda>(_, qveIdentityVerifyStatus).
     bindA (run_quote lib options pckCert intermediateCaCrl tcbInfo qeIdentity) (\<lambda>quoteVerifyStatus.
     returnA (pckVerifyStatus = STATUS_OK \<and> tcbVerifyStatus = STATUS_OK \<and> quoteVerifyStatus = STATUS_OK \<and>
       qeIdentityVerifyStatus = STATUS_OK \<and> qveIdentityVerifyStatus = STATUS_OK))))))))))))))))"

definition runVerification :: "library_adapter \<Rightarrow> app_options \<Rightarrow> bool app" where
  "runVerification lib options st =
     (case run_body lib options st of
        (Inl (ReadFileException what), st') \<Rightarrow>
          bindA (log_text (''ERROR while trying to read input files: '' @ what)) (\<lambda>_. returnA False) st'
      | r \<Rightarrow> r)"

section \<open>The revocation lists the library is given\<close>

lemma app_hex: "app_bytesToHexString der = bytesToHexString der"
  by (simp add: app_bytesToHexString_def bytesToHexString_def hexDigits_def Let_def)

lemma hex_characters: "c \<in> set (bytesToHexString der) \<Longrightarrow> c \<in> set hexDigits"
proof -
  assume "c \<in> set (bytesToHexString der)"
  then obtain b :: u8 where "c = hexDigits ! (unat b div 16) \<or> c = hexDigits ! (unat b mod 16)"
    by (auto simp: bytesToHexString_def)
  moreover have "unat b div 16 < length hexDigits" "unat b mod 16 < length hexDigits"
    using unat_u8_less [of b] by (simp_all add: hexDigits_def)
  ultimately show ?thesis by (metis nth_mem)
qed

text \<open>A binary list reaches OpenSSL's DER reader as the bytes of the file.\<close>

lemma der_list_read:
  assumes "der \<noteq> []"
  shows "str2X509Crl crd (c_str (app_bytesToHexString der)) =
    (case d2i_X509_CRL_bio crd der of None \<Rightarrow> Inl FormatException | Some x \<Rightarrow> Inr x)"
proof -
  let ?s = "bytesToHexString der"
  have chars: "c \<noteq> CHR 0x00 \<and> c \<noteq> CHR ''X''" if "c \<in> set ?s" for c
    using hex_characters [OF that] by (auto simp: hexDigits_def)
  then have "c_str ?s = ?s" by (auto simp: c_str_def takeWhile_eq_all_conv)
  moreover have "rfind_upto ?s PEM_STRING_X509_CRL 12 = None"
  proof -
    have "take 8 (drop i ?s) \<noteq> PEM_STRING_X509_CRL" for i
    proof
      assume "take 8 (drop i ?s) = PEM_STRING_X509_CRL"
      then have "CHR ''X'' \<in> set (take 8 (drop i ?s))" by (simp add: PEM_STRING_X509_CRL_def)
      then have "CHR ''X'' \<in> set ?s" by (meson in_set_dropD in_set_takeD)
      with chars show False by blast
    qed
    moreover have "length PEM_STRING_X509_CRL = 8" by (simp add: PEM_STRING_X509_CRL_def)
    ultimately show ?thesis by (simp add: rfind_upto_def find_None_iff)
  qed
  moreover have "hexStringToBytes ?s = der"
    by (simp add: hexStringToBytes_def hexLoop_bytesToHexString)
  ultimately show ?thesis using assms
    by (cases der) (simp_all add: str2X509Crl_def app_hex)
qed

section \<open>What a step yields\<close>

text \<open>
  \<open>yields fs m r\<close>: on the files \<open>fs\<close>, which stay, \<open>m\<close> gives the value
  \<open>r\<close>, or fails to read a file when there is none.
\<close>

definition app_result :: "'a option \<Rightarrow> app_exn + 'a \<Rightarrow> bool" where
  "app_result r x \<longleftrightarrow> (case r of None \<Rightarrow> \<exists>what. x = Inl (ReadFileException what) | Some a \<Rightarrow> x = Inr a)"

definition yields :: "(string \<Rightarrow> bytes option) \<Rightarrow> 'a app \<Rightarrow> 'a option \<Rightarrow> bool" where
  "yields fs m r \<longleftrightarrow> (\<forall>st. files st = fs \<longrightarrow>
     (\<exists>x st'. m st = (x, st') \<and> app_result r x \<and> files st' = fs \<and> writable st' = writable st))"

named_theorems yields_intros \<open>rules for yields\<close>

lemma yields_return [yields_intros]: "yields fs (returnA a) (Some a)"
  by (simp add: yields_def returnA_def app_result_def)

lemma yields_bind [yields_intros]:
  assumes "yields fs m r" "\<And>a. r = Some a \<Longrightarrow> yields fs (f a) (g a)"
  shows "yields fs (bindA m f) (Option.bind r g)"
  unfolding yields_def
proof (intro allI impI)
  fix st :: app_state assume "files st = fs"
  with assms(1) obtain x st' where m: "m st = (x, st')" "app_result r x" "files st' = fs" "writable st' = writable st"
    unfolding yields_def by blast
  show "\<exists>x st'. bindA m f st = (x, st') \<and> app_result (Option.bind r g) x \<and> files st' = fs \<and> writable st' = writable st"
  proof (cases r)
    case None
    with m show ?thesis by (auto simp: bindA_def app_result_def)
  next
    case (Some a)
    with assms(2) m(3) obtain y st2 where "f a st' = (y, st2)" "app_result (g a) y" "files st2 = fs" "writable st2 = writable st'"
      unfolding yields_def by blast
    with Some m show ?thesis by (simp add: bindA_def app_result_def)
  qed
qed

lemma yields_log: "yields fs (log_text s) (Some ())"
  by (simp add: yields_def log_text_def app_result_def)

lemma yields_output [yields_intros]: "yields fs (outputResult step s) (Some ())"
  by (simp add: outputResult_def yields_log)

lemma yields_library [yields_intros]: "m = Inr a \<Longrightarrow> yields fs (library_call m) (Some a)"
  by (simp add: library_call_def yields_return)

definition text_at :: "(string \<Rightarrow> bytes option) \<Rightarrow> string \<Rightarrow> string option" where
  "text_at fs path = map_option chars_of (fs path)"

definition is_pem_crl :: "string \<Rightarrow> bool" where
  "is_pem_crl s \<longleftrightarrow> take (length PEM_HEADER_STRING_X509_CRL) s = PEM_HEADER_STRING_X509_CRL"

definition crl_at :: "(string \<Rightarrow> bytes option) \<Rightarrow> string \<Rightarrow> string option" where
  "crl_at fs path = map_option (\<lambda>b.
     if is_pem_crl (chars_of b) then chars_of b else app_bytesToHexString b) (fs path)"

lemma yields_read [yields_intros]: "yields fs (readContent path) (text_at fs path)"
  by (auto simp: yields_def readContent_def text_at_def app_result_def throwA_def returnA_def split: option.split)

definition small_files :: "(string \<Rightarrow> bytes option) \<Rightarrow> bool" where
  "small_files fs \<longleftrightarrow> (\<forall>path b. fs path = Some b \<longrightarrow> length b < 2 ^ 32)"

lemma yields_read_binary: "small_files fs \<Longrightarrow> yields fs (readBinaryContent path) (fs path)"
  by (auto simp: yields_def readBinaryContent_def app_result_def throwA_def returnA_def small_files_def
      unat_of_nat Let_def split: option.split)

lemma rfind_at_start: "rfind_upto s pat 0 = None \<longleftrightarrow> take (length pat) s \<noteq> pat"
  by (simp add: rfind_upto_def find_None_iff)

lemma yields_read_crl:
  assumes "small_files fs"
  shows "yields fs (read_crl path) (crl_at fs path)"
proof -
  have "yields fs (read_crl path) (Option.bind (text_at fs path) (\<lambda>crl.
      if rfind_upto crl PEM_HEADER_STRING_X509_CRL 0 = None
      then Option.bind (fs path) (\<lambda>der. Some (app_bytesToHexString der)) else Some crl))"
    unfolding read_crl_def by (auto intro!: yields_intros yields_read_binary assms)
  also have "\<dots> = crl_at fs path"
    by (cases "fs path") (auto simp: crl_at_def text_at_def rfind_at_start is_pem_crl_def)
  finally show ?thesis .
qed

text \<open>An identity that is not given, or is signed and in date.\<close>

definition identity_accepted ::
  "library_adapter \<Rightarrow> (string \<Rightarrow> bytes option) \<Rightarrow> string \<Rightarrow> string \<Rightarrow> string \<Rightarrow> string \<Rightarrow> time_t \<Rightarrow> string \<Rightarrow> bool" where
  "identity_accepted lib fs path tcbChain rootCrl trusted time identity \<longleftrightarrow>
     (if path = [] then identity = []
      else text_at fs path = Some identity \<and> verifyQeIdentity_of lib identity tcbChain rootCrl trusted time = Inr STATUS_OK)"

definition identity_value ::
  "library_adapter \<Rightarrow> (string \<Rightarrow> bytes option) \<Rightarrow> string \<Rightarrow> string \<Rightarrow> string \<Rightarrow> string \<Rightarrow> time_t \<Rightarrow> (string \<times> status) option" where
  "identity_value lib fs path tcbChain rootCrl trusted time =
     (if path = [] then Some ([], STATUS_OK)
      else map_option (\<lambda>identity. (identity, projr (verifyQeIdentity_of lib identity tcbChain rootCrl trusted time)))
        (text_at fs path))"

text \<open>
  What the program relies on in its adapter: every call ends with a status, and a quote's record stays
  empty without a verdict on the TCB.
\<close>

locale answering_adapter =
  fixes lib :: library_adapter
  assumes answers_pck: "\<exists>s. verifyPCKCertificate_of lib chain rootCrl interCrl trusted time = Inr s"
    and answers_tcb: "\<exists>s. verifyTCBInfo_of lib info chain rootCrl trusted time = Inr s"
    and answers_identity: "\<exists>s. verifyQeIdentity_of lib identity chain rootCrl trusted time = Inr s"
    and answers_quote: "\<exists>s rec. verifyQuote_of lib quote pck crl info qe (replicate VCI_SIZE 0) = (Inr s, rec) \<and>
      (s \<in> tcb_verdicts \<or> rec = replicate VCI_SIZE 0)"

section \<open>The verdict of the program\<close>

text \<open>
  What the program checks, on the contents of the files: the certificate chain with the two
  revocation lists, the TCB info, the identities that are given, and the quote; and that the record of
  the collateral, if there is one, can be written (\<open>w\<close>) to the file asked for.
\<close>

definition can_write :: "app_options \<Rightarrow> app_state \<Rightarrow> bool" where
  "can_write opts st \<longleftrightarrow> verCollInfoFile opts = [] \<or> writable st (verCollInfoFile opts)"

definition app_accepts :: "bool \<Rightarrow> library_adapter \<Rightarrow> app_options \<Rightarrow> (string \<Rightarrow> bytes option) \<Rightarrow> bool" where
  "app_accepts w lib opts fs \<longleftrightarrow>
     (\<exists>pck sign rootCrl interCrl trusted info tcbChain qe qve quote.
        text_at fs (pckCertificateFile opts) = Some pck \<and> text_at fs (pckSigningChainFile opts) = Some sign \<and>
        crl_at fs (rootCaCrlFile opts) = Some rootCrl \<and> crl_at fs (intermediateCaCrlFile opts) = Some interCrl \<and>
        text_at fs (trustedRootCACertificateFile opts) = Some trusted \<and> text_at fs (tcbInfoFile opts) = Some info \<and>
        text_at fs (tcbSigningChainFile opts) = Some tcbChain \<and> fs (quoteFile opts) = Some quote \<and>
        verifyPCKCertificate_of lib (sign @ pck) rootCrl interCrl trusted (expirationDate opts) = Inr STATUS_OK \<and>
        verifyTCBInfo_of lib info tcbChain rootCrl trusted (expirationDate opts) = Inr STATUS_OK \<and>
        identity_accepted lib fs (qeIdentityFile opts) tcbChain rootCrl trusted (expirationDate opts) qe \<and>
        identity_accepted lib fs (qveIdentityFile opts) tcbChain rootCrl trusted (expirationDate opts) qve \<and>
        fst (verifyQuote_of lib quote pck interCrl info qe (replicate VCI_SIZE 0)) = Inr STATUS_OK \<and>
        (w \<or> snd (verifyQuote_of lib quote pck interCrl info qe (replicate VCI_SIZE 0)) = replicate VCI_SIZE 0))"

text \<open>The files after the run: the record is the only one written, and only on a verdict.\<close>

definition record_written :: "library_adapter \<Rightarrow> app_options \<Rightarrow> (string \<Rightarrow> bytes option) \<Rightarrow> (string \<Rightarrow> bytes option) \<Rightarrow> bool" where
  "record_written lib opts fs fs' \<longleftrightarrow> fs' = fs \<or>
     (\<exists>quote pck crl info qe s rec. fs (quoteFile opts) = Some quote \<and> verCollInfoFile opts \<noteq> [] \<and>
        verifyQuote_of lib quote pck crl info qe (replicate VCI_SIZE 0) = (Inr s, rec) \<and> s \<in> tcb_verdicts \<and>
        fs' = fs(verCollInfoFile opts \<mapsto> rec))"

definition ends :: "bool \<Rightarrow> library_adapter \<Rightarrow> app_options \<Rightarrow> (string \<Rightarrow> bytes option) \<Rightarrow> 'a app \<Rightarrow> 'a option \<Rightarrow> bool" where
  "ends w lib opts fs m r \<longleftrightarrow> (\<forall>st. files st = fs \<and> can_write opts st = w \<longrightarrow>
     (\<exists>x st'. m st = (x, st') \<and> app_result r x \<and> record_written lib opts fs (files st')))"

lemma ends_yields: "yields fs m r \<Longrightarrow> ends w lib opts fs m r"
  unfolding ends_def yields_def record_written_def by metis

lemma ends_bind:
  assumes "yields fs m r" "\<And>a. r = Some a \<Longrightarrow> ends w lib opts fs (f a) (g a)"
  shows "ends w lib opts fs (bindA m f) (Option.bind r g)"
  unfolding ends_def
proof (intro allI impI)
  fix st :: app_state assume st: "files st = fs \<and> can_write opts st = w"
  with assms(1) obtain x st' where m: "m st = (x, st')" "app_result r x" "files st' = fs" "writable st' = writable st"
    unfolding yields_def by blast
  from m(4) st have w: "can_write opts st' = w" by (simp add: can_write_def)
  show "\<exists>x st'. bindA m f st = (x, st') \<and> app_result (Option.bind r g) x \<and> record_written lib opts fs (files st')"
  proof (cases r)
    case None
    with m show ?thesis by (auto simp: bindA_def app_result_def record_written_def)
  next
    case (Some a)
    with assms(2) m(3) w obtain y st2 where "f a st' = (y, st2)" "app_result (g a) y" "record_written lib opts fs (files st2)"
      unfolding ends_def by metis
    with Some m show ?thesis by (simp add: bindA_def app_result_def)
  qed
qed

definition quote_value :: "bool \<Rightarrow> (app_exn + status) \<times> bytes \<Rightarrow> status option" where
  "quote_value w r = (if \<not> w \<and> snd r \<noteq> replicate VCI_SIZE 0 then None else Some (projr (fst r)))"

definition body_value :: "bool \<Rightarrow> library_adapter \<Rightarrow> app_options \<Rightarrow> (string \<Rightarrow> bytes option) \<Rightarrow> bool option" where
  "body_value w lib opts fs =
     (let time = expirationDate opts in
     Option.bind (text_at fs (pckCertificateFile opts)) (\<lambda>pck.
     Option.bind (text_at fs (pckSigningChainFile opts)) (\<lambda>sign.
     Option.bind (crl_at fs (rootCaCrlFile opts)) (\<lambda>rootCrl.
     Option.bind (crl_at fs (intermediateCaCrlFile opts)) (\<lambda>interCrl.
     Option.bind (text_at fs (trustedRootCACertificateFile opts)) (\<lambda>trusted.
     Option.bind (Some (projr (verifyPCKCertificate_of lib (sign @ pck) rootCrl interCrl trusted time))) (\<lambda>pckStatus.
     Option.bind (Some ()) (\<lambda>_.
     Option.bind (text_at fs (tcbInfoFile opts)) (\<lambda>info.
     Option.bind (text_at fs (tcbSigningChainFile opts)) (\<lambda>tcbChain.
     Option.bind (Some (projr (verifyTCBInfo_of lib info tcbChain rootCrl trusted time))) (\<lambda>tcbStatus.
     Option.bind (Some ()) (\<lambda>_.
     Option.bind (identity_value lib fs (qeIdentityFile opts) tcbChain rootCrl trusted time) (\<lambda>(qe, qeStatus).
     Option.bind (identity_value lib fs (qveIdentityFile opts) tcbChain rootCrl trusted time) (\<lambda>(_, qveStatus).
     Option.bind (Option.bind (fs (quoteFile opts))
       (\<lambda>quote. quote_value w (verifyQuote_of lib quote pck interCrl info qe (replicate VCI_SIZE 0)))) (\<lambda>quoteStatus.
     Some (pckStatus = STATUS_OK \<and> tcbStatus = STATUS_OK \<and> quoteStatus = STATUS_OK \<and>
       qeStatus = STATUS_OK \<and> qveStatus = STATUS_OK))))))))))))))))"

lemma ends_bind_pair:
  assumes "yields fs m r" "\<And>a b. r = Some (a, b) \<Longrightarrow> ends w lib opts fs (f a b) (g a b)"
  shows "ends w lib opts fs (bindA m (\<lambda>(a, b). f a b)) (Option.bind r (\<lambda>(a, b). g a b))"
  using assms by (intro ends_bind) auto

lemma ends_final:
  assumes "ends w lib opts fs m r"
  shows "ends w lib opts fs (bindA m (\<lambda>a. returnA (f a))) (Option.bind r (\<lambda>a. Some (f a)))"
  unfolding ends_def
proof (intro allI impI)
  fix st :: app_state assume "files st = fs \<and> can_write opts st = w"
  with assms obtain x st' where "m st = (x, st')" "app_result r x" "record_written lib opts fs (files st')"
    unfolding ends_def by blast
  then show "\<exists>x st'. bindA m (\<lambda>a. returnA (f a)) st = (x, st') \<and>
      app_result (Option.bind r (\<lambda>a. Some (f a))) x \<and> record_written lib opts fs (files st')"
    by (cases r) (auto simp: bindA_def returnA_def app_result_def)
qed

lemma quote_value_Inr:
  "quote_value w (Inr s, rec) = (if \<not> w \<and> rec \<noteq> replicate VCI_SIZE 0 then None else Some s)"
  by (simp add: quote_value_def del: VCI_SIZE_def)

lemma library_call_bind: "bindA (library_call (Inr a)) f = f a"
  by (rule ext) (simp add: library_call_def bindA_def returnA_def)

context answering_adapter
begin

lemma identity_value_accepted:
  "identity_value lib fs path tcbChain rootCrl trusted time = Some (identity, STATUS_OK) \<longleftrightarrow>
     identity_accepted lib fs path tcbChain rootCrl trusted time identity"
  using answers_identity [of identity tcbChain rootCrl trusted time]
  by (auto simp: identity_value_def identity_accepted_def)

lemma yields_identity [yields_intros]:
  "yields fs (run_identity lib step path tcbChain rootCrl trusted time) (identity_value lib fs path tcbChain rootCrl trusted time)"
proof (cases "path = []")
  case True
  then show ?thesis by (simp add: run_identity_def identity_value_def yields_return)
next
  case False
  have call: "yields fs (library_call (verifyQeIdentity_of lib identity tcbChain rootCrl trusted time))
      (Some (projr (verifyQeIdentity_of lib identity tcbChain rootCrl trusted time)))" for identity
    using answers_identity [of identity tcbChain rootCrl trusted time] by (auto intro: yields_library)
  have "yields fs (run_identity lib step path tcbChain rootCrl trusted time) (Option.bind (text_at fs path) (\<lambda>identity.
      Option.bind (Some (projr (verifyQeIdentity_of lib identity tcbChain rootCrl trusted time))) (\<lambda>status.
      Option.bind (Some ()) (\<lambda>_. Some (identity, status)))))"
    unfolding run_identity_def by (simp only: False if_False) (intro yields_intros call)
  also have "\<dots> = identity_value lib fs path tcbChain rootCrl trusted time"
    using False by (cases "text_at fs path") (simp_all add: identity_value_def)
  finally show ?thesis .
qed

lemma ends_quote:
  assumes "small_files fs"
  shows "ends w lib opts fs (run_quote lib opts pck crl info qe)
    (Option.bind (fs (quoteFile opts)) (\<lambda>quote. quote_value w (verifyQuote_of lib quote pck crl info qe (replicate VCI_SIZE 0))))"
proof -
  have "ends w lib opts fs (case verifyQuote_of lib quote pck crl info qe (replicate VCI_SIZE 0) of
       (result, verCollInfo) \<Rightarrow>
     bindA (library_call result) (\<lambda>quoteVerifyStatus.
     bindA (if verCollInfoFile opts \<noteq> [] \<and> verCollInfo \<noteq> replicate VCI_SIZE 0
            then saveBinaryContent (verCollInfoFile opts) verCollInfo else returnA ()) (\<lambda>_.
     bindA (outputResult ''Quote'' quoteVerifyStatus) (\<lambda>_. returnA quoteVerifyStatus))))
       (quote_value w (verifyQuote_of lib quote pck crl info qe (replicate VCI_SIZE 0)))"
    if "fs (quoteFile opts) = Some quote" for quote
  proof -
    obtain s rec where v: "verifyQuote_of lib quote pck crl info qe (replicate VCI_SIZE 0) = (Inr s, rec)"
      "s \<in> tcb_verdicts \<or> rec = replicate VCI_SIZE 0" using answers_quote [of quote pck crl info qe] by blast
    let ?tail = "bindA (outputResult ''Quote'' s) (\<lambda>_. returnA s)"
    let ?save = "verCollInfoFile opts \<noteq> [] \<and> rec \<noteq> replicate VCI_SIZE 0"
    have "yields F ?tail (Option.bind (Some ()) (\<lambda>_. Some s))" for F by (intro yields_intros)
    then have tail: "\<exists>st'. ?tail st = (Inr s, st') \<and> files st' = files st" for st
      by (auto simp: yields_def app_result_def)
    have "ends w lib opts fs (bindA (if ?save then saveBinaryContent (verCollInfoFile opts) rec else returnA ()) (\<lambda>_. ?tail))
        (if \<not> w \<and> rec \<noteq> replicate VCI_SIZE 0 then None else Some s)"
    proof (cases ?save)
      case True
      have "record_written lib opts fs (fs(verCollInfoFile opts \<mapsto> rec))"
        using v that True unfolding record_written_def by blast
      moreover have "record_written lib opts fs fs" by (simp add: record_written_def)
      ultimately show ?thesis using True tail
        by (fastforce simp: ends_def bindA_def saveBinaryContent_def returnA_def throwA_def app_result_def can_write_def
            simp del: VCI_SIZE_def)
    next
      case False
      then have "\<not> (\<not> w \<and> rec \<noteq> replicate VCI_SIZE 0) \<or> (\<forall>st. can_write opts st)"
        by (auto simp: can_write_def simp del: VCI_SIZE_def)
      with False tail show ?thesis
        by (fastforce simp: ends_def bindA_def returnA_def app_result_def record_written_def simp del: VCI_SIZE_def)
    qed
    then show ?thesis
      by (simp add: v(1) library_call_bind quote_value_Inr del: VCI_SIZE_def split del: if_split)
  qed
  then show ?thesis unfolding run_quote_def by (intro ends_bind yields_read_binary assms)
qed

lemma yields_calls:
  "yields fs (library_call (verifyPCKCertificate_of lib chain rootCrl interCrl trusted time))
     (Some (projr (verifyPCKCertificate_of lib chain rootCrl interCrl trusted time)))"
  "yields fs (library_call (verifyTCBInfo_of lib info chain rootCrl trusted time))
     (Some (projr (verifyTCBInfo_of lib info chain rootCrl trusted time)))"
  using answers_pck [of chain rootCrl interCrl trusted time] answers_tcb [of info chain rootCrl trusted time]
  by (auto intro: yields_library)

lemma ends_body:
  assumes "small_files fs"
  shows "ends w lib opts fs (run_body lib opts) (body_value w lib opts fs)"
  unfolding run_body_def body_value_def Let_def
  by (intro ends_final ends_quote assms | rule ends_bind_pair [OF yields_identity] |
      rule ends_bind [OF yields_read] ends_bind [OF yields_read_crl [OF assms]] ends_bind [OF yields_calls(1)]
        ends_bind [OF yields_calls(2)] ends_bind [OF yields_output])+

lemma body_value_accepts: "body_value w lib opts fs = Some True \<longleftrightarrow> app_accepts w lib opts fs"
proof -
  have pck: "projr (verifyPCKCertificate_of lib a b c d time) = STATUS_OK \<longleftrightarrow> verifyPCKCertificate_of lib a b c d time = Inr STATUS_OK"
    for a b c d time using answers_pck [of a b c d time] by auto
  have tcb: "projr (verifyTCBInfo_of lib a b c d time) = STATUS_OK \<longleftrightarrow> verifyTCBInfo_of lib a b c d time = Inr STATUS_OK"
    for a b c d time using answers_tcb [of a b c d time] by auto
  have quote: "projr (fst (verifyQuote_of lib q a b c d (replicate VCI_SIZE 0))) = STATUS_OK \<longleftrightarrow>
      fst (verifyQuote_of lib q a b c d (replicate VCI_SIZE 0)) = Inr STATUS_OK"
    for q a b c d using answers_quote [of q a b c d] by (auto simp del: VCI_SIZE_def)
  show ?thesis
    unfolding body_value_def app_accepts_def Let_def
    by (auto simp: bind_eq_Some_conv identity_value_accepted [symmetric] pck tcb quote quote_value_def
        simp del: VCI_SIZE_def split: if_splits)
qed

lemma verdict:
  assumes "small_files (files st)"
  shows "\<exists>v st'. runVerification lib opts st = (Inr v, st') \<and>
    (v \<longleftrightarrow> app_accepts (can_write opts st) lib opts (files st)) \<and> record_written lib opts (files st) (files st')"
proof -
  define w where "w = can_write opts st"
  obtain x st' where run: "run_body lib opts st = (x, st')" "app_result (body_value w lib opts (files st)) x"
    "record_written lib opts (files st) (files st')"
    using ends_body [OF assms, of w opts] unfolding ends_def w_def by blast
  show ?thesis
  proof (cases "body_value w lib opts (files st)")
    case None
    with run obtain what where "x = Inl (ReadFileException what)" by (auto simp: app_result_def)
    with run None body_value_accepts [of w opts "files st"] show ?thesis
      by (simp add: runVerification_def bindA_def log_text_def returnA_def ex_bool_eq w_def)
  next
    case (Some v)
    with run body_value_accepts [of w opts "files st"] show ?thesis
      by (auto simp: runVerification_def app_result_def w_def)
  qed
qed

end

text \<open>The library itself is such an adapter.\<close>

lemma map_sum_total: "\<exists>s. m = Inr s \<Longrightarrow> \<exists>s. map_sum f id m = Inr s"
  by auto

lemma verifyQuote_total:
  "\<exists>s rec. verifyQuote pf quote pck crl info qe v = (Inr s, rec) \<and> (s \<in> tcb_verdicts \<or> rec = v)"
proof -
  let ?run = "sgxAttestationVerifyQuoteEx pf (data_ptr quote) (word_of_nat (length quote)) (Some (c_str pck))
    (Some (c_str crl)) (Some (c_str info)) (if qe = [] then None else Some (c_str qe)) (data_ptr v) (word_of_nat (length v))"
  obtain s buffer' where run: "?run = (Inr s, buffer')" "s \<in> tcb_verdicts \<or> buffer' = data_ptr v"
    by (cases rule: verifyQuoteEx_cases [of pf "data_ptr quote" "word_of_nat (length quote)" "Some (c_str pck)"
      "Some (c_str crl)" "Some (c_str info)" "if qe = [] then None else Some (c_str qe)" "data_ptr v"
      "word_of_nat (length v)"]) blast+
  then show ?thesis by (cases "v = []") (auto simp: verifyQuote_def Let_def data_ptr_def split: option.split)
qed

interpretation in_process: answering_adapter "AttestationLibraryAdapter vb pf"
proof unfold_locales
  fix chain rootCrl interCrl trusted info identity quote pck crl qe :: string and time and q
  show "\<exists>s. verifyPCKCertificate_of (AttestationLibraryAdapter vb pf) chain rootCrl interCrl trusted time = Inr s"
    by (simp add: AttestationLibraryAdapter_def verifyPCKCertificate_def map_sum_total
      total_verify_pck [unfolded total_iff])
  show "\<exists>s. verifyTCBInfo_of (AttestationLibraryAdapter vb pf) info chain rootCrl trusted time = Inr s"
    by (simp add: AttestationLibraryAdapter_def verifyTCBInfo_def map_sum_total
      total_verify_info [unfolded total_iff])
  show "\<exists>s. verifyQeIdentity_of (AttestationLibraryAdapter vb pf) identity chain rootCrl trusted time = Inr s"
    by (simp add: AttestationLibraryAdapter_def verifyQeIdentity_def map_sum_total
      total_verify_identity [unfolded total_iff])
  show "\<exists>s rec. verifyQuote_of (AttestationLibraryAdapter vb pf) q pck crl info qe (replicate VCI_SIZE 0) = (Inr s, rec) \<and>
      (s \<in> tcb_verdicts \<or> rec = replicate VCI_SIZE 0)"
    using verifyQuote_total [of pf q pck crl info qe "replicate VCI_SIZE 0"]
    by (simp add: AttestationLibraryAdapter_def del: VCI_SIZE_def)
qed

text \<open>
  C37: the verdict of the command line program, behind any adapter that answers.  Whatever the files
  hold (below 4 GB each) the run ends with a verdict and no exception leaves it: it is positive exactly
  when every file can be read and the certificate chain, the TCB info, the given identities and the
  quote are each accepted on the contents of the files, a binary revocation list being passed in
  hexadecimal, and the record of the collateral, when there is one, can be written where the options
  ask for it.  The only file written is that record, and only when the verification of a quote came
  to a verdict on the TCB.
\<close>

theorem app_verdict:
  assumes "answering_adapter lib" and "small_files (files st)"
  shows "\<exists>verdict st'. runVerification lib opts st = (Inr verdict, st') \<and>
    (verdict \<longleftrightarrow> app_accepts (can_write opts st) lib opts (files st)) \<and>
    record_written lib opts (files st) (files st')"
  using answering_adapter.verdict [OF assms] .

definition sample_options :: app_options where
  "sample_options = \<lparr>pckCertificateFile = ''pck'', pckSigningChainFile = ''sign'', rootCaCrlFile = ''root'',
     intermediateCaCrlFile = ''inter'', trustedRootCACertificateFile = ''trusted'', tcbInfoFile = ''info'',
     tcbSigningChainFile = ''chain'', quoteFile = ''quote'', qeIdentityFile = [], qveIdentityFile = [],
     verCollInfoFile = ''record'', expirationDate = 20\<rparr>"

text \<open>
  An adapter with the adapter's own answers for one set of files and a refusal of everything else, and
  a run over those files that ends with a positive verdict.
\<close>

definition sample_adapter :: library_adapter where
  "sample_adapter = \<lparr>getVersion_of = Inr ''1.0.0'',
     verifyQuote_of = (\<lambda>quote pck crl info qe v.
       if quote = [7] \<and> pck = ''1'' \<and> crl = ''31'' \<and> info = ''1'' then (Inr STATUS_OK, 1 # tl v)
       else (Inr STATUS_INVALID_QUOTE_SIGNATURE, v)),
     verifyPCKCertificate_of = (\<lambda>chain rootCrl interCrl trusted time.
       Inr (if chain = ''11'' \<and> rootCrl = ''31'' \<and> time \<le> 20 then STATUS_OK else STATUS_SGX_PCK_CERT_CHAIN_EXPIRED)),
     verifyTCBInfo_of = (\<lambda>info chain rootCrl trusted time.
       Inr (if info = ''1'' \<and> time \<le> 20 then STATUS_OK else STATUS_SGX_TCB_INFO_EXPIRED)),
     verifyQeIdentity_of = (\<lambda>identity chain rootCrl trusted time. Inr STATUS_SGX_ENCLAVE_IDENTITY_EXPIRED)\<rparr>"

definition sample_files :: "string \<Rightarrow> bytes option" where
  "sample_files = (\<lambda>_. Some [49])(''quote'' \<mapsto> [7])"

lemma app_verdict_witness:
  "\<exists>st'. runVerification sample_adapter sample_options
      \<lparr>files = sample_files, writable = (\<lambda>_. True), logger = []\<rparr> = (Inr True, st')"
proof -
  let ?st = "\<lparr>files = sample_files, writable = (\<lambda>_. True), logger = []\<rparr>"
  have "answering_adapter sample_adapter"
    by unfold_locales (simp_all add: sample_adapter_def tcb_verdicts_def evaluation_statuses_def)
  moreover have "small_files (files ?st)" by (simp add: small_files_def sample_files_def)
  moreover have "app_accepts True sample_adapter sample_options sample_files"
  proof -
    have one: "chars_of [49] = ''1''" by code_simp
    have hex: "app_bytesToHexString [49] = ''31''" by (simp add: app_bytesToHexString_def)
    show ?thesis
      by (simp add: app_accepts_def sample_options_def sample_files_def text_at_def crl_at_def one hex is_pem_crl_def
          PEM_HEADER_STRING_X509_CRL_def identity_accepted_def sample_adapter_def del: VCI_SIZE_def)
  qed
  ultimately show ?thesis using app_verdict [of sample_adapter ?st sample_options] by (auto simp: can_write_def)
qed

section \<open>The options\<close>

text \<open>The twelve strings the argument parser fills in.\<close>

record app_args =
  arg_trustedRootCaCert :: string
  arg_pckSignChain :: string
  arg_pckCert :: string
  arg_tcbSignChain :: string
  arg_tcbInfo :: string
  arg_qeIdentity :: string
  arg_qveIdentity :: string
  arg_rootCaCrl :: string
  arg_intermediateCaCrl :: string
  arg_quote :: string
  arg_verificationCollateralInfo :: string
  arg_expirationDate :: string

text \<open>
  The vendored argtable3: whether the table could be made, and for the command line and the default
  values the number of errors, how often help was asked for, and the values.
\<close>

record arg_library =
  arg_nullcheck :: bool
  arg_parse :: "string list \<Rightarrow> app_args \<Rightarrow> nat \<times> nat \<times> app_args"

definition to_string :: "int \<Rightarrow> string" where
  "to_string n = (if n < 0 then CHR ''-'' # digits (nat (- n)) else digits (nat n))"

definition isspace :: "char \<Rightarrow> bool" where
  "isspace c = (let n = (of_char c :: nat) in n = 32 \<or> 9 \<le> n \<and> n \<le> 13)"

text \<open>\<^verbatim>\<open>std::stoll\<close>: \<open>None\<close> is an exception; what follows the digits is ignored.\<close>

definition stoll :: "string \<Rightarrow> int option" where
  "stoll str =
     (let s = dropWhile isspace str;
          (negative, rest) = (case s of [] \<Rightarrow> (False, []) | c # cs \<Rightarrow>
             if c = CHR ''-'' then (True, cs) else if c = CHR ''+'' then (False, cs) else (False, s));
          ds = takeWhile is_digit rest;
          n = (if negative then - number ds else number ds)
      in if ds = [] \<or> n < - (2 ^ 63) \<or> n \<ge> 2 ^ 63 then None else Some n)"

definition default_args :: "time_t \<Rightarrow> app_args" where
  "default_args now = \<lparr>arg_trustedRootCaCert = ''trustedRootCaCert.pem'', arg_pckSignChain = ''pckSignChain.pem'',
     arg_pckCert = ''pckCert.pem'', arg_tcbSignChain = ''tcbSignChain.pem'', arg_tcbInfo = ''tcbInfo.json'',
     arg_qeIdentity = [], arg_qveIdentity = [], arg_rootCaCrl = ''rootCaCrl.der'',
     arg_intermediateCaCrl = ''intermediateCaCrl.der'', arg_quote = ''quote.dat'',
     arg_verificationCollateralInfo = [], arg_expirationDate = to_string now\<rparr>"

text \<open>What argtable and \<^verbatim>\<open>printf\<close> write to the standard output is not part of the model.\<close>

definition options_parse :: "arg_library \<Rightarrow> time_t \<Rightarrow> string list \<Rightarrow> app_options option app" where
  "options_parse lib now argv =
     (if \<not> arg_nullcheck lib then bindA (log_text (''Can't create argtable'' @ endl)) (\<lambda>_. returnA None)
      else
        (case arg_parse lib argv (default_args now) of
           (nerrors, help_count, a) \<Rightarrow>
             if nerrors > 0 then returnA None
             else if help_count > 0 then returnA None
             else
               (case stoll (arg_expirationDate a) of
                  None \<Rightarrow> returnA None
                | Some date \<Rightarrow> returnA (Some \<lparr>
                    pckCertificateFile = arg_pckCert a,
                    pckSigningChainFile = arg_pckSignChain a,
                    rootCaCrlFile = arg_rootCaCrl a,
                    intermediateCaCrlFile = arg_intermediateCaCrl a,
                    trustedRootCACertificateFile = arg_trustedRootCaCert a,
                    tcbInfoFile = arg_tcbInfo a,
                    tcbSigningChainFile = arg_tcbSignChain a,
                    quoteFile = arg_quote a,
                    qeIdentityFile = arg_qeIdentity a,
                    qveIdentityFile = arg_qveIdentity a,
                    verCollInfoFile = arg_verificationCollateralInfo a,
                    expirationDate = date\<rparr>))))"

text \<open>Printing a time and reading it back.\<close>

lemma digits_number: "digits n \<noteq> [] \<and> list_all is_digit (digits n) \<and> number (digits n) = int n"
proof (induction n rule: digits.induct)
  case (1 n)
  have digit: "is_digit (char_of (48 + k))" "digit_value (char_of (48 + k)) = int k" if "k < 10" for k :: nat
  proof -
    have code: "(of_char (char_of (48 + k) :: char) :: nat) = 48 + k" using that by (simp add: of_char_of)
    have "(of_char (char_of (48 + k) :: char) :: int) = int (of_char (char_of (48 + k) :: char))"
      by (simp only: of_nat_of_char)
    also have "\<dots> = 48 + int k" by (simp only: code of_nat_add of_nat_numeral)
    finally show "digit_value (char_of (48 + k)) = int k" by (simp add: digit_value_def)
    show "is_digit (char_of (48 + k))" using code that by (simp add: is_digit_def Let_def)
  qed
  show ?case
  proof (cases "n < 10")
    case True
    then show ?thesis by (simp add: digits.simps [of n] digit number_def)
  next
    case False
    moreover have "10 * int (n div 10) + int (n mod 10) = int n" by presburger
    ultimately show ?thesis using 1
      by (subst (1 2 3) digits.simps) (simp add: digit number_def)
  qed
qed

lemma is_digit_not: "is_digit c \<Longrightarrow> \<not> isspace c \<and> c \<noteq> CHR ''-'' \<and> c \<noteq> CHR ''+''"
  by (auto simp: is_digit_def isspace_def Let_def)

theorem stoll_to_string:
  assumes "- (2 ^ 63) \<le> n" "n < 2 ^ 63"
  shows "stoll (to_string n) = Some n"
proof -
  obtain c cs where ds: "digits (nat \<bar>n\<bar>) = c # cs" using digits_number [of "nat \<bar>n\<bar>"] by (cases "digits (nat \<bar>n\<bar>)") auto
  with digits_number [of "nat \<bar>n\<bar>"] have d: "is_digit c" "takeWhile is_digit cs = cs" "number (c # cs) = \<bar>n\<bar>"
    by (auto simp: takeWhile_eq_all_conv list_all_iff)
  have minus: "\<not> isspace CHR ''-''" by (simp add: isspace_def)
  show ?thesis
  proof (cases "n < 0")
    case True
    with ds have "to_string n = CHR ''-'' # c # cs" by (simp add: to_string_def)
    with True d minus assms show ?thesis by (simp add: stoll_def Let_def takeWhile_eq_all_conv [THEN iffD2])
  next
    case False
    with ds have "to_string n = c # cs" by (simp add: to_string_def)
    with False d is_digit_not [OF d(1)] assms show ?thesis
      by (simp add: stoll_def Let_def takeWhile_eq_all_conv [THEN iffD2])
  qed
qed

text \<open>Without arguments the time of verification is the current one.\<close>

lemma no_arguments:
  assumes "arg_nullcheck lib" "arg_parse lib argv (default_args now) = (0, 0, default_args now)"
    and "- (2 ^ 63) \<le> now" "now < 2 ^ 63"
  shows "\<exists>opts. (\<forall>st. options_parse lib now argv st = (Inr (Some opts), st)) \<and> expirationDate opts = now \<and> qeIdentityFile opts = []"
  using assms stoll_to_string [OF assms(3,4)] by (simp add: options_parse_def default_args_def returnA_def)

end
