(* ===== verification/Program.thy ===== *)
theory Program
  imports App
begin

text \<open>
  The executables of \<^verbatim>\<open>AttestationApp\<close>: \<^verbatim>\<open>main.cpp\<close> over any adapter, and
  \<^verbatim>\<open>EnclaveAdapter.cpp\<close>, which calls the library inside an enclave.  The edge routines
  that the SGX SDK generates from \<^verbatim>\<open>Enclave.edl\<close> are a parameter; each gives the status of the
  call beside its results, and nothing is assumed of them.  The verdict of each program is stated on
  the contents of its files; a run of \<^verbatim>\<open>main\<close> that accepts a platform is in SampleRun.
\<close>

section \<open>The enclave adapter\<close>

type_synonym sgx_status = nat

definition SGX_SUCCESS :: sgx_status where
  "SGX_SUCCESS = 0"

text \<open>
  The capability calls give a status and the state of the device, the calls into the enclave the
  status, the value of the function and the buffers it fills.
\<close>

record edge_routines =
  cap_get_status :: "sgx_status \<times> nat"
  cap_enable_device :: "sgx_status \<times> nat"
  create_enclave :: "string \<Rightarrow> sgx_status \<times> nat"
  edge_getVersion :: "nat \<Rightarrow> nat \<Rightarrow> sgx_status \<times> string"
  edge_verifyQuoteEx :: "nat \<Rightarrow> bytes option \<Rightarrow> u32 \<Rightarrow> string \<Rightarrow> string \<Rightarrow> string \<Rightarrow> string option \<Rightarrow>
    bytes option \<Rightarrow> u32 \<Rightarrow> sgx_status \<times> int \<times> bytes option"
  edge_verifyPCKCertificate :: "nat \<Rightarrow> string \<Rightarrow> string \<times> string \<Rightarrow> string \<Rightarrow> time_t \<Rightarrow> sgx_status \<times> int"
  edge_verifyTCBInfo :: "nat \<Rightarrow> string \<Rightarrow> string \<Rightarrow> string \<Rightarrow> string \<Rightarrow> time_t \<Rightarrow> sgx_status \<times> int"
  edge_verifyEnclaveIdentity :: "nat \<Rightarrow> string \<Rightarrow> string \<Rightarrow> string \<Rightarrow> string \<Rightarrow> time_t \<Rightarrow> sgx_status \<times> int"

definition ENCLAVE_FILE :: string where
  "ENCLAVE_FILE = ''../lib/libQuoteVerificationEnclave.signed.so''"

definition EnclaveAdapter :: "edge_routines \<Rightarrow> app_exn + nat" where
  "EnclaveAdapter edge =
     (case cap_get_status edge of (ret, status) \<Rightarrow>
      if ret \<noteq> SGX_SUCCESS then
        Inl (RuntimeError (''SGX capability check failed: ret('' @ digits ret @ '') status('' @ digits status @ '')''))
      else
     (case cap_enable_device edge of (ret, status) \<Rightarrow>
      if ret \<noteq> SGX_SUCCESS then
        Inl (RuntimeError (''Failed to enable SGX: ret('' @ digits ret @ '') status('' @ digits status @ '')''))
      else
     (case create_enclave edge ENCLAVE_FILE of (ret, eid) \<Rightarrow>
      if ret \<noteq> SGX_SUCCESS then Inl (RuntimeError (''Failed to create enclave: '' @ digits ret))
      else Inr eid)))"

definition ecall_failed :: "string \<Rightarrow> sgx_status \<Rightarrow> app_exn" where
  "ecall_failed what ret = RuntimeError (''Failed '' @ what @ ''ecall to enclave: '' @ digits ret)"

text \<open>
  The buffer of the version has ten characters; making a string out of it reads up to the first null
  character, beyond the buffer when there is none.
\<close>

definition enclave_getVersion :: "edge_routines \<Rightarrow> nat \<Rightarrow> app_exn + string" where
  "enclave_getVersion edge eid =
     (let len = 10 in
      case edge_getVersion edge eid len of (ret, ver) \<Rightarrow>
      if ret \<noteq> SGX_SUCCESS then Inl (ecall_failed [] ret)
      else if CHR 0x00 \<notin> set ver then Inl UndefinedBehaviour
      else Inr (c_str ver))"

definition enclave_verifyQuote ::
  "edge_routines \<Rightarrow> nat \<Rightarrow> bytes option \<Rightarrow> u32 \<Rightarrow> string \<Rightarrow> string \<Rightarrow> string \<Rightarrow> string option \<Rightarrow> bytes option \<Rightarrow> u32 \<Rightarrow>
   (app_exn + int) \<times> bytes option" where
  "enclave_verifyQuote edge eid rawQuote quoteSize pemPckCertificate pckCrl tcbInfoJson qeIdentityJson
     verificationCollateralInfo verificationCollateralInfoSize =
     (case edge_verifyQuoteEx edge eid rawQuote quoteSize pemPckCertificate pckCrl tcbInfoJson qeIdentityJson
        verificationCollateralInfo verificationCollateralInfoSize of
        (ret, status, buffer) \<Rightarrow>
          if ret \<noteq> SGX_SUCCESS then (Inl (ecall_failed ''verifyQuote '' ret), buffer) else (Inr status, buffer))"

definition enclave_verifyPCKCertificate ::
  "edge_routines \<Rightarrow> nat \<Rightarrow> string \<Rightarrow> string \<times> string \<Rightarrow> string \<Rightarrow> time_t \<Rightarrow> app_exn + int" where
  "enclave_verifyPCKCertificate edge eid pemCertChain crls pemRootCaCertificate time =
     (case edge_verifyPCKCertificate edge eid pemCertChain crls pemRootCaCertificate time of
        (ret, status) \<Rightarrow>
          if ret \<noteq> SGX_SUCCESS then Inl (ecall_failed ''verifyPCKCertificate '' ret) else Inr status)"

definition enclave_verifyTCBInfo ::
  "edge_routines \<Rightarrow> nat \<Rightarrow> string \<Rightarrow> string \<Rightarrow> string \<Rightarrow> string \<Rightarrow> time_t \<Rightarrow> app_exn + int" where
  "enclave_verifyTCBInfo edge eid tcbInfo pemCertChain pemRootCaCrl pemRootCaCertificate time =
     (case edge_verifyTCBInfo edge eid tcbInfo pemCertChain pemRootCaCrl pemRootCaCertificate time of
        (ret, status) \<Rightarrow>
          if ret \<noteq> SGX_SUCCESS then Inl (ecall_failed ''verifyTCBInfo '' ret) else Inr status)"

definition enclave_verifyQEIdentity ::
  "edge_routines \<Rightarrow> nat \<Rightarrow> string \<Rightarrow> string \<Rightarrow> string \<Rightarrow> string \<Rightarrow> time_t \<Rightarrow> app_exn + int" where
  "enclave_verifyQEIdentity edge eid qeIdentity pemCertChain pemRootCaCrl pemRootCaCertificate time =
     (case edge_verifyEnclaveIdentity edge eid qeIdentity pemCertChain pemRootCaCrl pemRootCaCertificate time of
        (ret, status) \<Rightarrow>
          if ret \<noteq> SGX_SUCCESS then Inl (ecall_failed ''verifyEnclaveIdentity '' ret) else Inr status)"

text \<open>
  The library adapter of the enclave build casts the answers to \<^verbatim>\<open>Status\<close>; a value that is not
  an enumerator is undefined.
\<close>

definition cast_Status :: "int \<Rightarrow> app_exn + status" where
  "cast_Status n =
     (if 0 \<le> n \<and> nat n < length status_list then Inr (status_list ! nat n) else Inl UndefinedBehaviour)"

definition cast_result :: "app_exn + int \<Rightarrow> app_exn + status" where
  "cast_result r = (case r of Inl e \<Rightarrow> Inl e | Inr n \<Rightarrow> cast_Status n)"

definition trusted_verifyQuote ::
  "edge_routines \<Rightarrow> nat \<Rightarrow> bytes \<Rightarrow> string \<Rightarrow> string \<Rightarrow> string \<Rightarrow> string \<Rightarrow> bytes \<Rightarrow> (app_exn + status) \<times> bytes" where
  "trusted_verifyQuote edge eid quote pckCertChain pckCrl tcbInfo qeIdentity verificationCollateralInfo =
     (let qeIdentityRawPtr = (if qeIdentity = [] then None else Some (c_str qeIdentity)) in
      case enclave_verifyQuote edge eid (data_ptr quote) (word_of_nat (length quote)) (c_str pckCertChain)
             (c_str pckCrl) (c_str tcbInfo) qeIdentityRawPtr (data_ptr verificationCollateralInfo)
             (word_of_nat (length verificationCollateralInfo)) of
        (result, buffer) \<Rightarrow> (cast_result result,
           case buffer of None \<Rightarrow> verificationCollateralInfo | Some b \<Rightarrow> b))"

definition EnclaveLibraryAdapter :: "edge_routines \<Rightarrow> nat \<Rightarrow> library_adapter" where
  "EnclaveLibraryAdapter edge eid = \<lparr>getVersion_of = enclave_getVersion edge eid,
     verifyQuote_of = trusted_verifyQuote edge eid,
     verifyPCKCertificate_of = (\<lambda>pemCertChain pemRootCaCRL intermediateCaCRL pemTrustedRootCaCertificate time.
       cast_result (enclave_verifyPCKCertificate edge eid (c_str pemCertChain)
         (c_str pemRootCaCRL, c_str intermediateCaCRL) (c_str pemTrustedRootCaCertificate) time)),
     verifyTCBInfo_of = (\<lambda>tcbInfo pemSigningChain pemRootCaCrl pemTrustedRootCaCertificate time.
       cast_result (enclave_verifyTCBInfo edge eid (c_str tcbInfo) (c_str pemSigningChain) (c_str pemRootCaCrl)
         (c_str pemTrustedRootCaCertificate) time)),
     verifyQeIdentity_of = (\<lambda>qeIdentity pemSigningChain pemRootCaCrl pemTrustedRootCaCertificate time.
       cast_result (enclave_verifyQEIdentity edge eid (c_str qeIdentity) (c_str pemSigningChain) (c_str pemRootCaCrl)
         (c_str pemTrustedRootCaCertificate) time))\<rparr>"

section \<open>main\<close>

text \<open>
  \<^verbatim>\<open>main\<close>: the standard output it writes itself, and the exit code, or the exception that ends
  the process.  The adapter is made first; in the build without logging nothing else is set up.
\<close>

definition boolalpha :: "bool \<Rightarrow> string" where
  "boolalpha b = (if b then ''true'' else ''false'')"

definition report :: "string \<Rightarrow> bool \<Rightarrow> string \<Rightarrow> string" where
  "report ver result logs = ''Running QVL version: '' @ ver @ endl @
     ''Verification results: '' @ boolalpha result @ endl @ endl @ ''AppLogs:'' @ endl @ logs @ endl"

definition main_program ::
  "app_exn + library_adapter \<Rightarrow> arg_library \<Rightarrow> time_t \<Rightarrow> string list \<Rightarrow> app_state \<Rightarrow>
   (app_exn + int) \<times> string \<times> app_state" where
  "main_program adapter args now argv st =
     (case adapter of
        Inl e \<Rightarrow> (Inl e, [], st)
      | Inr libAdapter \<Rightarrow>
          (case options_parse args now argv (st\<lparr>logger := []\<rparr>) of
             (Inl e, st1) \<Rightarrow> (Inl e, [], st1)
           | (Inr None, st1) \<Rightarrow> (Inr 0, logger st1, st1)
           | (Inr (Some options), st1) \<Rightarrow>
               (case getVersion_of libAdapter of
                  Inl e \<Rightarrow> (Inl e, ''Running QVL version: '', st1)
                | Inr ver \<Rightarrow>
                    (case runVerification libAdapter options st1 of
                       (Inl e, st2) \<Rightarrow> (Inl e, ''Running QVL version: '' @ ver @ endl, st2)
                     | (Inr result, st2) \<Rightarrow> (Inr 0, report ver result (logger st2), st2)))))"

definition main_untrusted ::
  "version_build \<Rightarrow> 'key platform \<Rightarrow> arg_library \<Rightarrow> time_t \<Rightarrow> string list \<Rightarrow> app_state \<Rightarrow> (app_exn + int) \<times> string \<times> app_state" where
  "main_untrusted vb pf = main_program (Inr (AttestationLibraryAdapter vb pf))"

definition main_enclave ::
  "edge_routines \<Rightarrow> arg_library \<Rightarrow> time_t \<Rightarrow> string list \<Rightarrow> app_state \<Rightarrow> (app_exn + int) \<times> string \<times> app_state" where
  "main_enclave edge = main_program (map_sum id (EnclaveLibraryAdapter edge) (EnclaveAdapter edge))"

section \<open>The version text\<close>

lemma version_length: "length (sgxAttestationGetVersion vb) \<le> 31"
  by (auto simp: sgxAttestationGetVersion_def snprintf_def Let_def)

lemma snprintf_clean: "CHR 0x00 \<notin> set s \<Longrightarrow> CHR 0x00 \<notin> set (snprintf n s)"
  by (auto simp: snprintf_def dest: in_set_takeD)

lemma version_clean: "CHR 0x00 \<notin> set (sgxAttestationGetVersion vb)"
proof -
  have "CHR 0x00 \<notin> set (c_str (VERSION vb))" by (auto simp: c_str_def dest: set_takeWhileD)
  then show ?thesis
    using snprintf_clean [of "c_str (VERSION vb)" 32] snprintf_clean [of "''+'' @ ''fips''"]
    by (auto simp: sgxAttestationGetVersion_def Let_def)
qed

section \<open>The version behind the boundary of the enclave\<close>

text \<open>
  With an edge routine that hands the enclave a zeroed buffer of the given length and copies it back,
  the version arrives only when it leaves room for the terminating null character in the adapter's
  buffer of ten.
\<close>

theorem enclave_version:
  assumes "sgxEnclaveAttestationGetVersion vb (Some (replicate 10 (CHR 0x00))) 10 = Inr (Some buffer)"
    and "edge_getVersion edge eid 10 = (SGX_SUCCESS, buffer)"
  shows "getVersion_of (EnclaveLibraryAdapter edge eid) =
    (if length (sgxAttestationGetVersion vb) < 10 then Inr (sgxAttestationGetVersion vb) else Inl UndefinedBehaviour)"
proof -
  let ?v = "sgxAttestationGetVersion vb"
  have "c_str (?v @ replicate n (CHR 0x00)) = ?v" if "0 < n" for n
    using version_clean [of vb] that by (cases n) (auto simp: c_str_def takeWhile_append)
  then show ?thesis using assms version_clean [of vb]
    by (auto simp: EnclaveLibraryAdapter_def enclave_getVersion_def sgxEnclaveAttestationGetVersion_def
        safeMemcpy_def Let_def dest: in_set_takeD split: if_splits)
qed

lemma fips_version_overruns:
  assumes "sgxEnclaveAttestationGetVersion \<lparr>VERSION = ''1.0.0'', fips_available = True\<rparr>
      (Some (replicate 10 (CHR 0x00))) 10 = Inr (Some buffer)"
    and "edge_getVersion edge eid 10 = (SGX_SUCCESS, buffer)"
  shows "getVersion_of (EnclaveLibraryAdapter edge eid) = Inl UndefinedBehaviour"
  by (simp add: enclave_version [OF assms] sgxAttestationGetVersion_def snprintf_def c_str_def)

section \<open>A positive verdict behind any adapter\<close>

text \<open>
  \<open>steps st m v\<close>: from the files of \<open>st\<close>, whatever has been logged, \<open>m\<close> gives the value
  \<open>v\<close>, or an exception when there is none, and writes nothing but the log.
  \<open>succeeds st m b P\<close>: it gives the value \<open>b\<close> exactly when \<open>P\<close>.
\<close>

definition logged :: "app_state \<Rightarrow> app_state \<Rightarrow> bool" where
  "logged st st' \<longleftrightarrow> files st' = files st \<and> writable st' = writable st"

definition steps :: "app_state \<Rightarrow> 'a app \<Rightarrow> 'a option \<Rightarrow> bool" where
  "steps st m v \<longleftrightarrow> (\<forall>st1. logged st st1 \<longrightarrow>
     (\<exists>x st2. m st1 = (x, st2) \<and> logged st1 st2 \<and> (case v of None \<Rightarrow> isl x | Some a \<Rightarrow> x = Inr a)))"

definition succeeds :: "app_state \<Rightarrow> 'a app \<Rightarrow> 'a \<Rightarrow> bool \<Rightarrow> bool" where
  "succeeds st m b P \<longleftrightarrow> (\<forall>st1. logged st st1 \<longrightarrow> ((\<exists>st2. m st1 = (Inr b, st2)) \<longleftrightarrow> P))"

named_theorems steps_intros \<open>rules for steps\<close>

lemma logged_refl [simp]: "logged st st"
  by (simp add: logged_def)

lemma logged_trans: "logged a b \<Longrightarrow> logged b c \<Longrightarrow> logged a c"
  by (simp add: logged_def)

lemma steps_return [steps_intros]: "steps st (returnA a) (Some a)"
  by (simp add: steps_def returnA_def)

lemma steps_output [steps_intros]: "steps st (outputResult step s) (Some ())"
  by (simp add: steps_def outputResult_def log_text_def logged_def)

definition value_of :: "app_exn + 'a \<Rightarrow> 'a option" where
  "value_of r = (case r of Inl _ \<Rightarrow> None | Inr a \<Rightarrow> Some a)"

lemma value_of_Some [simp]: "value_of r = Some a \<longleftrightarrow> r = Inr a"
  by (cases r) (simp_all add: value_of_def)

lemma steps_library [steps_intros]: "steps st (library_call r) (value_of r)"
  by (cases r) (simp_all add: steps_def library_call_def throwA_def returnA_def value_of_def)

lemma steps_read [steps_intros]: "steps st (readContent path) (text_at (files st) path)"
  by (cases "files st path") (auto simp: steps_def readContent_def text_at_def throwA_def returnA_def logged_def)

lemma steps_read_binary:
  "small_files (files st) \<Longrightarrow> steps st (readBinaryContent path) (files st path)"
  by (cases "files st path") (auto simp: steps_def readBinaryContent_def throwA_def returnA_def logged_def
      small_files_def unat_of_nat Let_def)

lemma steps_bind [steps_intros]:
  assumes "steps st m v" "\<And>a. v = Some a \<Longrightarrow> steps st (f a) (g a)"
  shows "steps st (bindA m f) (Option.bind v g)"
  unfolding steps_def
proof (intro allI impI)
  fix st1 assume "logged st st1"
  with assms(1) obtain x st2 where m: "m st1 = (x, st2)" "logged st1 st2" "logged st st2"
    "case v of None \<Rightarrow> isl x | Some a \<Rightarrow> x = Inr a"
    unfolding steps_def using logged_trans by blast
  show "\<exists>x st2. bindA m f st1 = (x, st2) \<and> logged st1 st2 \<and>
      (case Option.bind v g of None \<Rightarrow> isl x | Some a \<Rightarrow> x = Inr a)"
  proof (cases v)
    case None
    with m show ?thesis by (cases x) (simp_all add: bindA_def)
  next
    case (Some a)
    with assms(2) m(3) obtain y st3 where "f a st2 = (y, st3)" "logged st2 st3"
      "case g a of None \<Rightarrow> isl y | Some b \<Rightarrow> y = Inr b" unfolding steps_def by blast
    with Some m logged_trans show ?thesis by (auto simp: bindA_def)
  qed
qed

lemma steps_read_crl:
  assumes "small_files (files st)"
  shows "steps st (read_crl path) (crl_at (files st) path)"
proof -
  have "steps st (read_crl path) (Option.bind (text_at (files st) path) (\<lambda>crl.
      if rfind_upto crl PEM_HEADER_STRING_X509_CRL 0 = None
      then Option.bind (files st path) (\<lambda>der. Some (app_bytesToHexString der)) else Some crl))"
    unfolding read_crl_def by (auto intro!: steps_intros steps_read_binary assms)
  also have "\<dots> = crl_at (files st) path"
    by (cases "files st path") (auto simp: crl_at_def text_at_def rfind_at_start is_pem_crl_def)
  finally show ?thesis .
qed

definition identity_result ::
  "library_adapter \<Rightarrow> (string \<Rightarrow> bytes option) \<Rightarrow> string \<Rightarrow> string \<Rightarrow> string \<Rightarrow> string \<Rightarrow> time_t \<Rightarrow> (string \<times> status) option" where
  "identity_result lib fs path tcbChain rootCrl trusted time =
     (if path = [] then Some ([], STATUS_OK)
      else Option.bind (text_at fs path) (\<lambda>identity.
        Option.bind (value_of (verifyQeIdentity_of lib identity tcbChain rootCrl trusted time)) (\<lambda>status.
        Option.bind (Some ()) (\<lambda>_. Some (identity, status)))))"

lemma identity_result_OK:
  "identity_result lib fs path tcbChain rootCrl trusted time = Some (identity, STATUS_OK) \<longleftrightarrow>
     identity_accepted lib fs path tcbChain rootCrl trusted time identity"
  by (auto simp: identity_result_def identity_accepted_def bind_eq_Some_conv)

lemma steps_identity [steps_intros]:
  "steps st (run_identity lib step path tcbChain rootCrl trusted time)
     (identity_result lib (files st) path tcbChain rootCrl trusted time)"
  by (cases "path = []") (auto simp: run_identity_def identity_result_def simp del: Option.bind.simps
      intro!: steps_intros)

lemma succeeds_bind:
  assumes "steps st m v" "\<And>a. v = Some a \<Longrightarrow> succeeds st (f a) b (P a)"
  shows "succeeds st (bindA m f) b (\<exists>a. v = Some a \<and> P a)"
  unfolding succeeds_def
proof (intro allI impI)
  fix st1 assume "logged st st1"
  with assms(1) obtain x st2 where m: "m st1 = (x, st2)" "logged st st2"
    "case v of None \<Rightarrow> isl x | Some a \<Rightarrow> x = Inr a"
    unfolding steps_def using logged_trans by blast
  show "(\<exists>st2. bindA m f st1 = (Inr b, st2)) \<longleftrightarrow> (\<exists>a. v = Some a \<and> P a)"
  proof (cases v)
    case None
    with m show ?thesis by (cases x) (simp_all add: bindA_def)
  next
    case (Some a)
    with assms(2) m(2) have "(\<exists>st3. f a st2 = (Inr b, st3)) \<longleftrightarrow> P a" unfolding succeeds_def by blast
    with Some m show ?thesis by (simp add: bindA_def)
  qed
qed

lemma succeeds_bind_pair:
  assumes "steps st m v" "\<And>a c. v = Some (a, c) \<Longrightarrow> succeeds st (f a c) b (P a c)"
  shows "succeeds st (bindA m (\<lambda>(a, c). f a c)) b (\<exists>a c. v = Some (a, c) \<and> P a c)"
  using succeeds_bind [OF assms(1), of "\<lambda>(a, c). f a c" b "\<lambda>(a, c). P a c"] assms(2) by auto

definition quote_result :: "app_options \<Rightarrow> app_state \<Rightarrow> (app_exn + status) \<times> bytes \<Rightarrow> status option" where
  "quote_result opts st r =
     (if can_write opts st \<or> snd r = replicate VCI_SIZE 0 then value_of (fst r) else None)"

lemma bindA_assoc: "bindA (bindA m g) h = bindA m (\<lambda>a. bindA (g a) h)"
  by (rule ext) (auto simp: bindA_def split: prod.split sum.split)

text \<open>What follows the verification of the quote may write the record.\<close>

lemma succeeds_quote:
  assumes "small_files (files st)"
  shows "succeeds st (bindA (run_quote lib opts pck crl info qe) (\<lambda>s. returnA (f s))) b
    (\<exists>quote. files st (quoteFile opts) = Some quote \<and>
      (\<exists>s. quote_result opts st (verifyQuote_of lib quote pck crl info qe (replicate VCI_SIZE 0)) = Some s \<and> f s = b))"
proof -
  have "succeeds st (bindA (case verifyQuote_of lib quote pck crl info qe (replicate VCI_SIZE 0) of
       (result, verCollInfo) \<Rightarrow>
     bindA (library_call result) (\<lambda>quoteVerifyStatus.
     bindA (if verCollInfoFile opts \<noteq> [] \<and> verCollInfo \<noteq> replicate VCI_SIZE 0
            then saveBinaryContent (verCollInfoFile opts) verCollInfo else returnA ()) (\<lambda>_.
     bindA (outputResult ''Quote'' quoteVerifyStatus) (\<lambda>_. returnA quoteVerifyStatus)))) (\<lambda>s. returnA (f s))) b
     (\<exists>s. quote_result opts st (verifyQuote_of lib quote pck crl info qe (replicate VCI_SIZE 0)) = Some s \<and> f s = b)" for quote
  proof -
    obtain r rec where v: "verifyQuote_of lib quote pck crl info qe (replicate VCI_SIZE 0) = (r, rec)" by force
    have tail: "bindA (bindA (outputResult ''Quote'' s) (\<lambda>_. returnA s)) (\<lambda>s. returnA (f s)) st' =
        (Inr (f s), snd (outputResult ''Quote'' s st'))" for s st'
      by (simp add: bindA_def outputResult_def log_text_def returnA_def)
    show ?thesis
    proof (cases r)
      case (Inl e)
      then show ?thesis
        by (simp add: v succeeds_def bindA_def library_call_def throwA_def quote_result_def value_of_def del: VCI_SIZE_def)
    next
      case (Inr s)
      have "succeeds st (bindA (if verCollInfoFile opts \<noteq> [] \<and> rec \<noteq> replicate VCI_SIZE 0
          then saveBinaryContent (verCollInfoFile opts) rec else returnA ())
          (\<lambda>_. bindA (bindA (outputResult ''Quote'' s) (\<lambda>_. returnA s)) (\<lambda>s. returnA (f s)))) b
        ((can_write opts st \<or> rec = replicate VCI_SIZE 0) \<and> f s = b)"
        unfolding succeeds_def bindA_def [of "if _ then _ else _"]
        by (auto simp: tail saveBinaryContent_def throwA_def returnA_def logged_def can_write_def simp del: VCI_SIZE_def)
      moreover have "(\<exists>t. quote_result opts st (Inr s, rec) = Some t \<and> f t = b) \<longleftrightarrow>
          (can_write opts st \<or> rec = replicate VCI_SIZE 0) \<and> f s = b"
        by (simp add: quote_result_def del: VCI_SIZE_def)
      ultimately show ?thesis
        by (simp add: v Inr bindA_assoc library_call_bind del: VCI_SIZE_def split del: if_split)
    qed
  qed
  then show ?thesis
    unfolding run_quote_def bindA_assoc [of "readBinaryContent _"]
    by (intro succeeds_bind [OF steps_read_binary [OF assms]])
qed

lemma succeeds_run:
  assumes "small_files (files st)"
  shows "(\<exists>st'. runVerification lib opts st = (Inr True, st')) \<longleftrightarrow> app_accepts (can_write opts st) lib opts (files st)"
proof -
  let ?fs = "files st" and ?time = "expirationDate opts"
  have "succeeds st (run_body lib opts) True
    (\<exists>pck. text_at ?fs (pckCertificateFile opts) = Some pck \<and>
    (\<exists>sign. text_at ?fs (pckSigningChainFile opts) = Some sign \<and>
    (\<exists>rootCrl. crl_at ?fs (rootCaCrlFile opts) = Some rootCrl \<and>
    (\<exists>interCrl. crl_at ?fs (intermediateCaCrlFile opts) = Some interCrl \<and>
    (\<exists>trusted. text_at ?fs (trustedRootCACertificateFile opts) = Some trusted \<and>
    (\<exists>p. value_of (verifyPCKCertificate_of lib (sign @ pck) rootCrl interCrl trusted ?time) = Some p \<and>
    (\<exists>u. Some () = Some u \<and>
    (\<exists>info. text_at ?fs (tcbInfoFile opts) = Some info \<and>
    (\<exists>tcbChain. text_at ?fs (tcbSigningChainFile opts) = Some tcbChain \<and>
    (\<exists>t. value_of (verifyTCBInfo_of lib info tcbChain rootCrl trusted ?time) = Some t \<and>
    (\<exists>u. Some () = Some u \<and>
    (\<exists>qe qes. identity_result lib ?fs (qeIdentityFile opts) tcbChain rootCrl trusted ?time = Some (qe, qes) \<and>
    (\<exists>qve qves. identity_result lib ?fs (qveIdentityFile opts) tcbChain rootCrl trusted ?time = Some (qve, qves) \<and>
    (\<exists>quote. ?fs (quoteFile opts) = Some quote \<and>
    (\<exists>q. quote_result opts st (verifyQuote_of lib quote pck interCrl info qe (replicate VCI_SIZE 0)) = Some q \<and>
      (p = STATUS_OK \<and> t = STATUS_OK \<and> q = STATUS_OK \<and> qes = STATUS_OK \<and> qves = STATUS_OK) = True)))))))))))))))"
    unfolding run_body_def Let_def
    by (rule succeeds_quote [OF assms] | rule succeeds_bind_pair [OF steps_identity] |
        rule succeeds_bind [OF steps_read] succeeds_bind [OF steps_read_crl [OF assms]]
          succeeds_bind [OF steps_library] succeeds_bind [OF steps_output])+
  then have "(\<exists>st'. run_body lib opts st = (Inr True, st')) \<longleftrightarrow> app_accepts (can_write opts st) lib opts ?fs"
    unfolding succeeds_def app_accepts_def
    by (simp add: identity_result_OK [symmetric] quote_result_def del: VCI_SIZE_def) blast
  moreover have "runVerification lib opts st = (Inr True, st') \<longleftrightarrow> run_body lib opts st = (Inr True, st')" for st'
    by (auto simp: runVerification_def bindA_def log_text_def returnA_def split: prod.splits sum.splits app_exn.splits)
  ultimately show ?thesis by simp
qed

section \<open>The verdict of the enclave build\<close>

lemma cast_Status_OK: "cast_Status n = Inr STATUS_OK \<longleftrightarrow> n = 0"
proof -
  have "distinct status_list" by (simp add: status_list_def)
  moreover have "status_list ! 0 = STATUS_OK" "0 < length status_list" by (simp_all add: status_list_def)
  ultimately have "status_list ! nat n = STATUS_OK \<longleftrightarrow> nat n = 0" if "nat n < length status_list"
    using that nth_eq_iff_index_eq [of status_list "nat n" 0] by simp
  then show ?thesis using \<open>0 < length status_list\<close> by (auto simp: cast_Status_def)
qed

lemma cast_result_OK: "cast_result r = Inr STATUS_OK \<longleftrightarrow> r = Inr 0"
  by (cases r) (simp_all add: cast_result_def cast_Status_OK)

lemma enclave_calls_OK:
  "verifyPCKCertificate_of (EnclaveLibraryAdapter edge eid) chain rootCrl interCrl trusted time = Inr STATUS_OK \<longleftrightarrow>
     edge_verifyPCKCertificate edge eid (c_str chain) (c_str rootCrl, c_str interCrl) (c_str trusted) time = (SGX_SUCCESS, 0)"
  "verifyTCBInfo_of (EnclaveLibraryAdapter edge eid) info chain rootCrl trusted time = Inr STATUS_OK \<longleftrightarrow>
     edge_verifyTCBInfo edge eid (c_str info) (c_str chain) (c_str rootCrl) (c_str trusted) time = (SGX_SUCCESS, 0)"
  "verifyQeIdentity_of (EnclaveLibraryAdapter edge eid) identity chain rootCrl trusted time = Inr STATUS_OK \<longleftrightarrow>
     edge_verifyEnclaveIdentity edge eid (c_str identity) (c_str chain) (c_str rootCrl) (c_str trusted) time = (SGX_SUCCESS, 0)"
  by (simp_all add: EnclaveLibraryAdapter_def cast_result_OK enclave_verifyPCKCertificate_def enclave_verifyTCBInfo_def
      enclave_verifyQEIdentity_def split: prod.split)

text \<open>What the enclave is asked, on the contents of the files, and that it answers with no error.\<close>

definition enclave_identity_accepted ::
  "edge_routines \<Rightarrow> nat \<Rightarrow> (string \<Rightarrow> bytes option) \<Rightarrow> string \<Rightarrow> string \<Rightarrow> string \<Rightarrow> string \<Rightarrow> time_t \<Rightarrow> string \<Rightarrow> bool" where
  "enclave_identity_accepted edge eid fs path tcbChain rootCrl trusted time identity \<longleftrightarrow>
     (if path = [] then identity = []
      else text_at fs path = Some identity \<and>
        edge_verifyEnclaveIdentity edge eid (c_str identity) (c_str tcbChain) (c_str rootCrl) (c_str trusted) time =
          (SGX_SUCCESS, 0))"

definition enclave_quote_accepted ::
  "edge_routines \<Rightarrow> nat \<Rightarrow> bool \<Rightarrow> bytes \<Rightarrow> string \<Rightarrow> string \<Rightarrow> string \<Rightarrow> string \<Rightarrow> bool" where
  "enclave_quote_accepted edge eid w quote pck crl info qe \<longleftrightarrow>
     (\<exists>buffer. edge_verifyQuoteEx edge eid (data_ptr quote) (word_of_nat (length quote)) (c_str pck) (c_str crl)
        (c_str info) (if qe = [] then None else Some (c_str qe)) (Some (replicate VCI_SIZE 0)) (word_of_nat VCI_SIZE) =
          (SGX_SUCCESS, 0, buffer) \<and>
        (w \<or> buffer = None \<or> buffer = Some (replicate VCI_SIZE 0)))"

definition enclave_accepts :: "edge_routines \<Rightarrow> nat \<Rightarrow> app_options \<Rightarrow> app_state \<Rightarrow> bool" where
  "enclave_accepts edge eid opts st \<longleftrightarrow>
     (let fs = files st; time = expirationDate opts in
      \<exists>pck sign rootCrl interCrl trusted info tcbChain qe qve quote.
        text_at fs (pckCertificateFile opts) = Some pck \<and> text_at fs (pckSigningChainFile opts) = Some sign \<and>
        crl_at fs (rootCaCrlFile opts) = Some rootCrl \<and> crl_at fs (intermediateCaCrlFile opts) = Some interCrl \<and>
        text_at fs (trustedRootCACertificateFile opts) = Some trusted \<and> text_at fs (tcbInfoFile opts) = Some info \<and>
        text_at fs (tcbSigningChainFile opts) = Some tcbChain \<and> fs (quoteFile opts) = Some quote \<and>
        edge_verifyPCKCertificate edge eid (c_str (sign @ pck)) (c_str rootCrl, c_str interCrl) (c_str trusted) time =
          (SGX_SUCCESS, 0) \<and>
        edge_verifyTCBInfo edge eid (c_str info) (c_str tcbChain) (c_str rootCrl) (c_str trusted) time = (SGX_SUCCESS, 0) \<and>
        enclave_identity_accepted edge eid fs (qeIdentityFile opts) tcbChain rootCrl trusted time qe \<and>
        enclave_identity_accepted edge eid fs (qveIdentityFile opts) tcbChain rootCrl trusted time qve \<and>
        enclave_quote_accepted edge eid (can_write opts st) quote pck interCrl info qe)"

lemma enclave_quote_OK:
  "fst (verifyQuote_of (EnclaveLibraryAdapter edge eid) quote pck crl info qe (replicate VCI_SIZE 0)) = Inr STATUS_OK \<and>
     (w \<or> snd (verifyQuote_of (EnclaveLibraryAdapter edge eid) quote pck crl info qe (replicate VCI_SIZE 0)) =
        replicate VCI_SIZE 0) \<longleftrightarrow>
   enclave_quote_accepted edge eid w quote pck crl info qe"
proof -
  have ptr: "data_ptr (replicate VCI_SIZE 0) = Some (replicate VCI_SIZE 0)" by (simp add: data_ptr_def)
  obtain ret n buffer where run: "edge_verifyQuoteEx edge eid (data_ptr quote) (word_of_nat (length quote)) (c_str pck)
      (c_str crl) (c_str info) (if qe = [] then None else Some (c_str qe)) (Some (replicate VCI_SIZE 0))
      (word_of_nat VCI_SIZE) = (ret, n, buffer)" by (rule prod_cases3)
  show ?thesis
    by (auto simp: EnclaveLibraryAdapter_def trusted_verifyQuote_def enclave_verifyQuote_def Let_def ptr length_replicate
        run cast_result_OK enclave_quote_accepted_def simp del: VCI_SIZE_def split: option.split)
qed

text \<open>
  C38: the verdict of the program in the enclave build.  Whatever the routines of the SDK do (nothing
  is assumed of them), and on files below 4 GB, the verification is positive exactly when every file
  can be read, each call into the enclave (for the certificate chain, the TCB info, every given
  identity and the quote, each on the contents of the files) succeeded and returned zero, and the
  record that came back, if any, can be written where the options ask for it.  So a call that fails,
  and an answer that is no enumerator, never count as an acceptance.
\<close>

theorem enclave_verdict:
  assumes "small_files (files st)"
  shows "(\<exists>st'. runVerification (EnclaveLibraryAdapter edge eid) opts st = (Inr True, st')) \<longleftrightarrow>
    enclave_accepts edge eid opts st"
  unfolding succeeds_run [OF assms] app_accepts_def enclave_accepts_def Let_def enclave_calls_OK
    identity_accepted_def enclave_identity_accepted_def enclave_quote_OK ..

text \<open>An enclave that accepts one set of files, before the time 20.\<close>

definition sample_edge :: edge_routines where
  "sample_edge = \<lparr>cap_get_status = (SGX_SUCCESS, 0), cap_enable_device = (SGX_SUCCESS, 0),
     create_enclave = (\<lambda>file. (SGX_SUCCESS, 2)),
     edge_getVersion = (\<lambda>eid len. (SGX_SUCCESS, ''1.0.0'' @ [CHR 0x00])),
     edge_verifyQuoteEx = (\<lambda>eid quote quoteSize pck crl info qe buffer bufferSize.
       if quote = Some [7] \<and> quoteSize = 1 \<and> pck = ''1'' \<and> crl = ''31'' \<and> info = ''1'' then (SGX_SUCCESS, 0, map_option (\<lambda>b. 1 # tl b) buffer)
       else (SGX_SUCCESS, int (status_code STATUS_INVALID_QUOTE_SIGNATURE), buffer)),
     edge_verifyPCKCertificate = (\<lambda>eid chain crls trusted time.
       if chain = ''11'' \<and> fst crls = ''31'' \<and> time \<le> 20 then (SGX_SUCCESS, 0) else (1, 0)),
     edge_verifyTCBInfo = (\<lambda>eid info chain crl trusted time.
       (SGX_SUCCESS, if info = ''1'' \<and> time \<le> 20 then 0 else int (status_code STATUS_SGX_TCB_INFO_EXPIRED))),
     edge_verifyEnclaveIdentity = (\<lambda>eid identity chain crl trusted time. (1, 0))\<rparr>"

lemma enclave_verdict_witness:
  "\<exists>st'. runVerification (EnclaveLibraryAdapter sample_edge 2) sample_options
      \<lparr>files = sample_files, writable = (\<lambda>_. True), logger = []\<rparr> = (Inr True, st')"
proof -
  let ?st = "\<lparr>files = sample_files, writable = (\<lambda>_. True), logger = []\<rparr>"
  have one: "chars_of [49] = ''1''" "app_bytesToHexString [49] = ''31''"
    by (code_simp, simp add: app_bytesToHexString_def)
  have strings: "c_str ''1'' = ''1''" "c_str ''11'' = ''11''" "c_str ''31'' = ''31''" by code_simp+
  have "enclave_accepts sample_edge 2 sample_options ?st"
    by (simp add: enclave_accepts_def sample_options_def sample_files_def text_at_def crl_at_def one strings is_pem_crl_def
        PEM_HEADER_STRING_X509_CRL_def enclave_identity_accepted_def enclave_quote_accepted_def data_ptr_def can_write_def
        sample_edge_def del: VCI_SIZE_def)
  moreover have "small_files (files ?st)" by (simp add: small_files_def sample_files_def)
  ultimately show ?thesis using enclave_verdict [of ?st sample_edge 2 sample_options] by blast
qed

section \<open>What a run of the program tells its caller\<close>

lemma options_keep_state:
  assumes "options_parse args now argv st = (Inr (Some opts), st1)"
  shows "st1 = st"
  using assms
  by (auto simp: options_parse_def bindA_def log_text_def returnA_def split: if_splits prod.splits option.splits)

lemma options_return: "\<exists>r st1. options_parse args now argv st = (Inr r, st1) \<and> files st1 = files st"
  by (auto simp: options_parse_def bindA_def log_text_def returnA_def split: prod.split option.split)

text \<open>
  C39: what a run of the program tells its caller, whatever the command line, on files below 4 GB.
  Without options (help was asked for, or they cannot be read) it writes no file and prints the log of
  the options parser.  With options it prints the version of the library, the verdict and the log; the
  verdict is true exactly when the library accepts the contents of all the files and the record of the
  collateral can be written where the options ask for it, and no other file is written.  The exit code
  is zero in every case.
\<close>

theorem main_reports:
  assumes "small_files (files st)"
  shows "case options_parse args now argv (st\<lparr>logger := []\<rparr>) of
      (Inl e, st1) \<Rightarrow> False
    | (Inr None, st1) \<Rightarrow> main_untrusted vb pf args now argv st = (Inr 0, logger st1, st1) \<and> files st1 = files st
    | (Inr (Some opts), st1) \<Rightarrow>
        (\<exists>verdict st'. main_untrusted vb pf args now argv st =
           (Inr 0, report (sgxAttestationGetVersion vb) verdict (logger st'), st') \<and>
         (verdict \<longleftrightarrow> app_accepts (can_write opts st) (AttestationLibraryAdapter vb pf) opts (files st)) \<and>
         record_written (AttestationLibraryAdapter vb pf) opts (files st) (files st'))"
proof -
  have ver: "getVersion_of (AttestationLibraryAdapter vb pf) = Inr (sgxAttestationGetVersion vb)"
    by (simp add: AttestationLibraryAdapter_def)
  obtain r st1 where options: "options_parse args now argv (st\<lparr>logger := []\<rparr>) = (Inr r, st1)" "files st1 = files st"
    using options_return [of args now argv "st\<lparr>logger := []\<rparr>"] by auto
  show ?thesis
  proof (cases r)
    case None
    with options show ?thesis by (simp add: main_untrusted_def main_program_def)
  next
    case (Some opts)
    with options_keep_state options(1) have "st1 = st\<lparr>logger := []\<rparr>" by blast
    moreover have "can_write opts (st\<lparr>logger := []\<rparr>) = can_write opts st" by (simp add: can_write_def)
    ultimately show ?thesis
      using in_process.verdict [where st = "st\<lparr>logger := []\<rparr>" and opts = opts and vb = vb and pf = pf] assms options Some ver
      by (auto simp: main_untrusted_def main_program_def)
  qed
qed

end
