(* ===== verification/SampleRun.thy ===== *)
theory SampleRun
  imports Program
begin

text \<open>
  A run of the program on the real library that ends with a positive verdict: a machine whose files
  are the certificates, revocation lists, TCB info and quote of the platform of EndToEnd, under the
  default names of the options.
\<close>

section \<open>The build and the command line\<close>

definition sample_build :: version_build where
  "sample_build = \<lparr>VERSION = ''1.0.0'', fips_available = False\<rparr>"

lemma sample_version: "sgxAttestationGetVersion sample_build = ''1.0.0''"
  by (simp add: sample_build_def sgxAttestationGetVersion_def snprintf_def c_str_def)

text \<open>A command line without arguments.\<close>

definition sample_args :: arg_library where
  "sample_args = \<lparr>arg_nullcheck = True, arg_parse = (\<lambda>argv defaults. (0, 0, defaults))\<rparr>"

section \<open>The certificates and lists of the machine\<close>

definition sample_tcb_leaf :: certificate where
  "sample_tcb_leaf = sample_parsed (sample_pem ''t'') ''Intel SGX TCB Signing'' ''Intel SGX Root CA''"

lemma sample_tcb_certificate: "certificate_parse sample_reader (sample_pem ''t'') = Inr sample_tcb_leaf"
proof -
  have "case certificate_parse sample_reader (sample_pem ''t'') of Inl _ \<Rightarrow> False | Inr c \<Rightarrow> c = sample_tcb_leaf"
    by code_simp
  then show ?thesis by (simp only: case_outcome_eq)
qed

definition sample_pck_text :: string where
  "sample_pck_text = pem_join [([], ''r''), ([CHR 0x0A], ''i''), ([CHR 0x0A], ''p'')]"

definition sample_tcb_text :: string where
  "sample_tcb_text = pem_join [([], ''r''), ([CHR 0x0A], ''t'')]"

lemma sample_splits:
  "splitChain sample_pck_text = Inr [sample_pem ''r'', sample_pem ''i'', sample_pem ''p'']"
  "splitChain sample_tcb_text = Inr [sample_pem ''r'', sample_pem ''t'']"
proof -
  have "splitChain (sample_pck_text @ []) = Inr (map (\<lambda>(s, b). pem_text b) [([], ''r''), ([CHR 0x0A], ''i''), ([CHR 0x0A], ''p'')])"
    unfolding sample_pck_text_def by (rule splitChain_join_eq) (simp_all add: pem_parts_def pem_body_def)
  then show "splitChain sample_pck_text = Inr [sample_pem ''r'', sample_pem ''i'', sample_pem ''p'']"
    by (simp add: pem_text_def sample_pem_def begCert_def endCert_def)
  have "splitChain (sample_tcb_text @ []) = Inr (map (\<lambda>(s, b). pem_text b) [([], ''r''), ([CHR 0x0A], ''t'')])"
    unfolding sample_tcb_text_def by (rule splitChain_join_eq) (simp_all add: pem_parts_def pem_body_def)
  then show "splitChain sample_tcb_text = Inr [sample_pem ''r'', sample_pem ''t'']"
    by (simp add: pem_text_def sample_pem_def begCert_def endCert_def)
qed

definition sample_tcb_chain :: cert_chain where
  "sample_tcb_chain = \<lparr>ch_certs = [sample_root, sample_tcb_leaf], ch_rootCert = Some sample_root,
     ch_topmostCert = Some sample_tcb_leaf, ch_pckCert = None\<rparr>"

lemma sample_tcb_classes:
  "\<not> self_issued sample_tcb_leaf" "\<not> named_pck sample_tcb_leaf"
  "signs_another [sample_root, sample_tcb_leaf] sample_root"
  "\<not> signs_another [sample_root, sample_tcb_leaf] sample_tcb_leaf"
  by code_simp+

lemma sample_chains:
  "chain_parse sample_reader sample_decoder sample_pck_text chain_new = Inr (STATUS_OK, sample_chain)"
  "chain_parse sample_reader sample_decoder sample_tcb_text chain_new = Inr (STATUS_OK, sample_tcb_chain)"
  using sample_classes sample_tcb_classes
  by (simp_all add: chain_parse_def sample_splits sample_certificates sample_tcb_certificate add_cert_def chain_new_def
      named_pck_def sample_leaf_pck Let_def chain_length_def sample_chain_def sample_tcb_chain_def)

definition sample_list :: "string \<Rightarrow> crl_store" where
  "sample_list issuer = \<lparr>crl_object = sample_key 0,
     crl_issuer' = \<lparr>iss_raw = ''CN='' @ issuer, iss_commonName = issuer, iss_countryName = ''US'',
       iss_organizationName = ''Intel Corporation'', iss_locationName = ''Santa Clara'', iss_stateName = ''CA''\<rparr>,
     crl_validity = \<lparr>notBeforeTime = 0, notAfterTime = 86400\<rparr>,
     crl_revokedList = [\<lparr>rev_dateStr = [], rev_serialNumber = [8]\<rparr>],
     crl_extensions = map (\<lambda>n. \<lparr>ext_nid = n, ext_name = ''X509v3'', ext_value = [85, 0]\<rparr>) CRL_REQUIRED_EXTENSIONS,
     crl_signature = \<lparr>sig_rawDer = [1], sig_r = [], sig_s = []\<rparr>, crl_crlNum = 1\<rparr>"

abbreviation root_list_text :: string where
  "root_list_text \<equiv> ''-----BEGIN X509 CRL-----r''"

abbreviation pck_list_text :: string where
  "pck_list_text \<equiv> ''-----BEGIN X509 CRL-----i''"

lemma sample_lists:
  "crl_parse sample_reader (pf_crl sample_services) root_list_text (crl_store_new []) =
     (True, sample_list ''Intel SGX Root CA'')"
  "crl_parse sample_reader (pf_crl sample_services) pck_list_text (crl_store_new []) =
     (True, sample_list ''Intel SGX PCK Platform CA'')"
  by code_simp+

lemma sample_store_list: "sample_store = sample_list ''Intel SGX PCK Platform CA''"
  by code_simp

lemma sample_list_of:
  "crl_of sample_ssl (sample_list ''Intel SGX Root CA'') sample_root"
  "crl_of sample_ssl (sample_list ''Intel SGX PCK Platform CA'') sample_intermediate"
proof -
  have key: "cert_pubKey sample_root = sample_key 0" "cert_pubKey sample_intermediate = sample_key 0"
    "crl_object (sample_list i) = sample_key 0" for i
    by (simp_all add: sample_root_def sample_intermediate_def sample_parsed_def sample_key_def sample_list_def)
  have named: "crl_named (sample_list ''Intel SGX Root CA'') (cert_subject sample_root)"
    "crl_named (sample_list ''Intel SGX PCK Platform CA'') (cert_subject sample_intermediate)"
    by code_simp+
  have "{NID_crl_number, NID_authority_key_identifier} \<subseteq> ext_nid ` set (crl_extensions (sample_list i))" for i
    by (simp add: sample_list_def CRL_REQUIRED_EXTENSIONS_def)
  then show "crl_of sample_ssl (sample_list ''Intel SGX Root CA'') sample_root"
    "crl_of sample_ssl (sample_list ''Intel SGX PCK Platform CA'') sample_intermediate"
    by (simp_all add: crl_of_def named key sample_signed)
qed

lemma sample_issuers:
  "issued_by sample_ssl sample_root sample_root" "issued_by sample_ssl sample_intermediate sample_root"
  "issued_by sample_ssl (sample_pck_fields sample_leaf) sample_intermediate"
  "issued_by sample_ssl sample_tcb_leaf sample_root"
proof -
  have key: "cert_pubKey sample_root = sample_key 0" "cert_pubKey sample_intermediate = sample_key 0"
    by (simp_all add: sample_root_def sample_intermediate_def sample_parsed_def sample_key_def)
  have signed: "cert_info c = [2] \<and> sig_rawDer (cert_signature c) = [1]"
    if "c \<in> {sample_root, sample_intermediate, sample_leaf, sample_tcb_leaf}" for c
    using that by (auto simp: sample_root_def sample_intermediate_def sample_leaf_def sample_tcb_leaf_def sample_parsed_def)
  have pck: "cert_info (sample_pck_fields c) = cert_info c" "cert_signature (sample_pck_fields c) = cert_signature c" for c
    by (simp_all add: sample_pck_fields_def certificate.defs)
  have names: "dn_eq (cert_issuer sample_root) (cert_subject sample_root)"
    "dn_eq (cert_issuer sample_intermediate) (cert_subject sample_root)"
    "dn_eq (cert_issuer (sample_pck_fields sample_leaf)) (cert_subject sample_intermediate)"
    "dn_eq (cert_issuer sample_tcb_leaf) (cert_subject sample_root)"
    by code_simp+
  then show "issued_by sample_ssl sample_root sample_root" "issued_by sample_ssl sample_intermediate sample_root"
    "issued_by sample_ssl (sample_pck_fields sample_leaf) sample_intermediate"
    "issued_by sample_ssl sample_tcb_leaf sample_root"
    by (simp_all add: issued_by_def key sample_signed signed pck)
qed

section \<open>The verifications\<close>

lemma sample_names:
  "commonNameContains (cert_subject sample_root) SGX_ROOT_CA_CN_PHRASE"
  "commonNameContains (cert_subject sample_intermediate) SGX_INTERMEDIATE_CN_PHRASE"
  "commonNameContains (cert_subject (sample_pck_fields sample_leaf)) SGX_PCK_CN_PHRASE"
  "commonNameContains (cert_subject sample_tcb_leaf) SGX_TCB_SIGNING_CN_PHRASE"
  "dn_eq (cert_subject sample_root) (cert_issuer sample_root)"
  "getIntermediateCert sample_chain = Some sample_intermediate"
  by code_simp+

lemma sample_dates:
  "notAfterTime (cert_validity sample_root) = 87400" "notAfterTime (cert_validity sample_intermediate) = 87400"
  "notAfterTime (cert_validity (sample_pck_fields sample_leaf)) = 87400" "notAfterTime (cert_validity sample_tcb_leaf) = 87400"
  "notBeforeTime (crl_validity (sample_list i)) = 0" "notAfterTime (crl_validity (sample_list i)) = 86400"
  by (simp_all add: sample_root_def sample_intermediate_def sample_leaf_def sample_tcb_leaf_def sample_parsed_def
      sample_pck_fields_def certificate.defs sample_list_def)

lemma sample_not_revoked:
  "cert_serialNumber sample_intermediate \<notin> rev_serialNumber ` set (crl_revokedList (sample_list i))"
  "cert_serialNumber (sample_pck_fields sample_leaf) \<notin> rev_serialNumber ` set (crl_revokedList (sample_list i))"
  "cert_serialNumber sample_tcb_leaf \<notin> rev_serialNumber ` set (crl_revokedList (sample_list i))"
  by (simp_all add: sample_root_def sample_intermediate_def sample_leaf_def sample_tcb_leaf_def sample_parsed_def
      sample_pck_fields_def certificate.defs sample_list_def)

lemma sample_chain_members:
  "ch_rootCert sample_chain = Some sample_root" "ch_pckCert sample_chain = Some (sample_pck_fields sample_leaf)"
  "chain_length sample_chain = 3" "ch_rootCert sample_tcb_chain = Some sample_root"
  "ch_topmostCert sample_tcb_chain = Some sample_tcb_leaf" "chain_length sample_tcb_chain = 2"
  by (simp_all add: sample_chain_def sample_tcb_chain_def chain_length_def)

lemma sample_platform_parts:
  "pf_ssl sample_services = sample_ssl" "pf_x509 sample_services = sample_reader" "pf_asn1 sample_services = sample_decoder"
  "pf_empty_crl sample_services = []" "json_time (pf_json sample_services) = sample_time"
  by (simp_all add: sample_services_def sample_library_def)

lemma sample_pck_accepted:
  "pckCert_verify sample_ssl sample_chain (sample_list ''Intel SGX Root CA'')
     (sample_list ''Intel SGX PCK Platform CA'') sample_root 20 = STATUS_OK"
  by (simp add: pckCert_verify_def passes verdicts pckCert_verify_crls_ok not_revoked_def crl_expired_not
      sample_chain_members sample_names sample_issuers sample_list_of sample_not_revoked sample_dates)

lemma sample_verifies_pck:
  "sgxAttestationVerifyPCKCertificate sample_services (Some sample_pck_text)
     (Some (Some root_list_text, Some pck_list_text)) (Some (sample_pem ''r'')) (Some 20) = Inr STATUS_OK"
  by (simp add: sgxAttestationVerifyPCKCertificate_def with_current_time_def try_parse_def getCurrentTime_def
      standard_getCurrentTime_def sample_time_def with_chain_def with_crl_def sample_platform_parts sample_chains
      sample_chain_members sample_lists sample_certificates sample_pck_accepted)

lemma sample_info_accepted:
  "tcbInfo_verify sample_ssl sample_platform_info sample_tcb_chain (sample_list ''Intel SGX Root CA'') sample_root 20 =
     STATUS_OK"
proof -
  have key: "cert_pubKey sample_tcb_leaf = sample_key 0"
    by (simp add: sample_tcb_leaf_def sample_parsed_def sample_key_def)
  have mac: "sample_mac (sample_key 0) [0] = replicate 64 0" by code_simp
  have "raw_signed_by sample_ssl (sample_key 0) (ti_infoBody sample_platform_info) (ti_signature sample_platform_info)"
    by (simp add: raw_signed_by_def sample_platform_info_def sample_der sample_signed mac)
  then show ?thesis
    by (simp add: tcb_document.accepts_iff tcbSigningChain_verify_ok sample_chain_members sample_names sample_issuers
        sample_list_of sample_not_revoked sample_dates key)
      (simp add: sample_platform_info_def)
qed

lemma sample_verifies_info:
  "sgxAttestationVerifyTCBInfo sample_services (Some ''info'') (Some sample_tcb_text) (Some root_list_text)
     (Some (sample_pem ''r'')) (Some 20) = Inr STATUS_OK"
  by (simp add: sgxAttestationVerifyTCBInfo_def with_current_time_def try_parse_def getCurrentTime_def
      standard_getCurrentTime_def sample_time_def with_chain_def with_crl_def sample_platform_parts sample_chains
      sample_chain_members sample_lists sample_certificates sample_info_accepted sample_platform_parse)

lemma sample_verifies_quote:
  "fst (sgxAttestationVerifyQuoteEx sample_services (Some sample_signed_v3) 1020 (Some (sample_pem ''p''))
     (Some pck_list_text) (Some ''info'') None (Some (replicate VCI_SIZE 0)) (word_of_nat VCI_SIZE)) = Inr STATUS_OK"
proof -
  have "take (unat (1020 :: u32)) sample_signed_v3 = sample_signed_v3" by (simp add: sample_signed_fields)
  moreover have "parse sample_signed_v3 quote_init = (True, sample_quote)"
    using sample_signed_parses by (simp add: sample_quote_def prod_eq_iff)
  moreover have "parse_identity sample_services None = Inr None" by (simp add: parse_identity_def)
  ultimately show ?thesis
    using sample_quote_valid sample_lists(2) sample_platform_parse
    by (simp add: sgxAttestationVerifyQuoteEx_def sample_record_fills [unfolded sample_store_list] catch_exns_def
        sample_platform_parts)
qed

section \<open>The machine\<close>

definition bytes_of :: "string \<Rightarrow> bytes" where
  "bytes_of = map (\<lambda>c. word_of_nat (of_char c))"

lemma chars_of_bytes_of: "chars_of (bytes_of s) = s"
proof -
  have "char_of (unat (word_of_nat (of_char c) :: u8)) = c" for c :: char
    using nat_of_char_less_256 [of c] by (simp add: unat_of_nat)
  then show ?thesis by (simp add: chars_of_def bytes_of_def comp_def)
qed

definition sample_disk :: app_state where
  "sample_disk = \<lparr>files = map_of [
       (''pckCert.pem'', bytes_of (sample_pem ''p'')),
       (''pckSignChain.pem'', bytes_of (sample_pem ''r'' @ [CHR 0x0A] @ sample_pem ''i'' @ [CHR 0x0A])),
       (''trustedRootCaCert.pem'', bytes_of (sample_pem ''r'')),
       (''tcbSignChain.pem'', bytes_of (sample_pem ''r'' @ [CHR 0x0A] @ sample_pem ''t'')),
       (''tcbInfo.json'', bytes_of ''info''),
       (''rootCaCrl.der'', bytes_of root_list_text), (''intermediateCaCrl.der'', bytes_of pck_list_text),
       (''quote.dat'', sample_signed_v3)],
     writable = (\<lambda>_. True), logger = []\<rparr>"

definition sample_run_options :: app_options where
  "sample_run_options = \<lparr>pckCertificateFile = ''pckCert.pem'', pckSigningChainFile = ''pckSignChain.pem'',
     rootCaCrlFile = ''rootCaCrl.der'', intermediateCaCrlFile = ''intermediateCaCrl.der'',
     trustedRootCACertificateFile = ''trustedRootCaCert.pem'', tcbInfoFile = ''tcbInfo.json'',
     tcbSigningChainFile = ''tcbSignChain.pem'', quoteFile = ''quote.dat'', qeIdentityFile = [],
     qveIdentityFile = [], verCollInfoFile = [], expirationDate = 20\<rparr>"

lemma sample_run_parse: "options_parse sample_args 20 [] st = (Inr (Some sample_run_options), st)"
  using stoll_to_string [of 20]
  by (simp add: options_parse_def sample_args_def default_args_def returnA_def sample_run_options_def)

lemma sample_texts:
  "text_at (files sample_disk) ''pckCert.pem'' = Some (sample_pem ''p'')"
  "text_at (files sample_disk) ''pckSignChain.pem'' = Some (sample_pem ''r'' @ [CHR 0x0A] @ sample_pem ''i'' @ [CHR 0x0A])"
  "text_at (files sample_disk) ''trustedRootCaCert.pem'' = Some (sample_pem ''r'')"
  "text_at (files sample_disk) ''tcbSignChain.pem'' = Some (sample_pem ''r'' @ [CHR 0x0A] @ sample_pem ''t'')"
  "text_at (files sample_disk) ''tcbInfo.json'' = Some ''info''"
  "files sample_disk ''quote.dat'' = Some sample_signed_v3"
  by (simp_all add: text_at_def sample_disk_def chars_of_bytes_of)

lemma sample_crls:
  "crl_at (files sample_disk) ''rootCaCrl.der'' = Some root_list_text"
  "crl_at (files sample_disk) ''intermediateCaCrl.der'' = Some pck_list_text"
  by (simp_all add: crl_at_def sample_disk_def chars_of_bytes_of is_pem_crl_def PEM_HEADER_STRING_X509_CRL_def)

lemma sample_strings:
  "c_str (sample_pem ''p'') = sample_pem ''p''" "c_str (sample_pem ''r'') = sample_pem ''r''"
  "c_str root_list_text = root_list_text" "c_str pck_list_text = pck_list_text" "c_str ''info'' = ''info''"
  "c_str ((sample_pem ''r'' @ [CHR 0x0A] @ sample_pem ''i'' @ [CHR 0x0A]) @ sample_pem ''p'') = sample_pck_text"
  "c_str (sample_pem ''r'' @ [CHR 0x0A] @ sample_pem ''t'') = sample_tcb_text"
  by code_simp+

lemma sample_run_selectors:
  "pckCertificateFile sample_run_options = ''pckCert.pem''" "pckSigningChainFile sample_run_options = ''pckSignChain.pem''"
  "rootCaCrlFile sample_run_options = ''rootCaCrl.der''" "intermediateCaCrlFile sample_run_options = ''intermediateCaCrl.der''"
  "trustedRootCACertificateFile sample_run_options = ''trustedRootCaCert.pem''" "tcbInfoFile sample_run_options = ''tcbInfo.json''"
  "tcbSigningChainFile sample_run_options = ''tcbSignChain.pem''" "quoteFile sample_run_options = ''quote.dat''"
  "qeIdentityFile sample_run_options = []" "qveIdentityFile sample_run_options = []"
  "verCollInfoFile sample_run_options = []" "expirationDate sample_run_options = 20"
  by (simp_all add: sample_run_options_def)

lemma adapter_selectors:
  "verifyQuote_of (AttestationLibraryAdapter vb pf) = verifyQuote pf"
  "verifyPCKCertificate_of (AttestationLibraryAdapter vb pf) = verifyPCKCertificate pf"
  "verifyTCBInfo_of (AttestationLibraryAdapter vb pf) = verifyTCBInfo pf"
  by (simp_all add: AttestationLibraryAdapter_def)

lemma app_acceptsI:
  assumes "text_at fs (pckCertificateFile opts) = Some pck" "text_at fs (pckSigningChainFile opts) = Some sign"
    "crl_at fs (rootCaCrlFile opts) = Some rootCrl" "crl_at fs (intermediateCaCrlFile opts) = Some interCrl"
    "text_at fs (trustedRootCACertificateFile opts) = Some trusted" "text_at fs (tcbInfoFile opts) = Some info"
    "text_at fs (tcbSigningChainFile opts) = Some tcbChain" "fs (quoteFile opts) = Some quote"
    "verifyPCKCertificate_of lib (sign @ pck) rootCrl interCrl trusted (expirationDate opts) = Inr STATUS_OK"
    "verifyTCBInfo_of lib info tcbChain rootCrl trusted (expirationDate opts) = Inr STATUS_OK"
    "identity_accepted lib fs (qeIdentityFile opts) tcbChain rootCrl trusted (expirationDate opts) qe"
    "identity_accepted lib fs (qveIdentityFile opts) tcbChain rootCrl trusted (expirationDate opts) qve"
    "fst (verifyQuote_of lib quote pck interCrl info qe (replicate VCI_SIZE 0)) = Inr STATUS_OK"
  shows "app_accepts True lib opts fs"
  unfolding app_accepts_def using assms by blast

lemma sample_run_accepted:
  "app_accepts True (AttestationLibraryAdapter vb sample_services) sample_run_options (files sample_disk)"
proof -
  have "data_ptr sample_signed_v3 = Some sample_signed_v3" "(word_of_nat (length sample_signed_v3) :: u32) = 1020"
    using sample_signed_fields(1) by (auto simp: data_ptr_def)
  moreover have "data_ptr (replicate VCI_SIZE 0) = Some (replicate VCI_SIZE 0)" by (simp add: data_ptr_def)
  moreover obtain b where "sgxAttestationVerifyQuoteEx sample_services (Some sample_signed_v3) 1020 (Some (sample_pem ''p''))
      (Some pck_list_text) (Some ''info'') None (Some (replicate VCI_SIZE 0)) (word_of_nat VCI_SIZE) = (Inr STATUS_OK, b)"
    using sample_verifies_quote by (metis prod.collapse)
  ultimately have quote: "fst (verifyQuote sample_services sample_signed_v3 (sample_pem ''p'') pck_list_text ''info'' []
      (replicate VCI_SIZE 0)) = Inr STATUS_OK"
    by (simp add: verifyQuote_def sample_strings Let_def length_replicate del: VCI_SIZE_def)
  have "verifyPCKCertificate sample_services
      ((sample_pem ''r'' @ [CHR 0x0A] @ sample_pem ''i'' @ [CHR 0x0A]) @ sample_pem ''p'') root_list_text pck_list_text
      (sample_pem ''r'') 20 = Inr STATUS_OK"
    by (simp only: verifyPCKCertificate_def sample_strings sample_verifies_pck map_sum.simps id_apply)
  moreover have "verifyTCBInfo sample_services ''info'' (sample_pem ''r'' @ [CHR 0x0A] @ sample_pem ''t'') root_list_text
      (sample_pem ''r'') 20 = Inr STATUS_OK"
    by (simp only: verifyTCBInfo_def sample_strings sample_verifies_info map_sum.simps id_apply)
  moreover have no_identity: "identity_accepted lib fs [] tcbChain rootCrl trusted time []" for lib fs tcbChain rootCrl trusted time
    by (simp add: identity_accepted_def)
  ultimately show ?thesis
    by (intro app_acceptsI [where qe = "[]" and qve = "[]"])
      (simp_all only: adapter_selectors sample_run_selectors sample_texts sample_crls no_identity,
        rule quote)
qed

lemma sample_small_files: "small_files (files sample_disk)"
  by (auto simp: small_files_def sample_disk_def bytes_of_def sample_pem_def sample_signed_fields split: if_splits)

lemma main_reports_witness:
  "(\<exists>st'. main_untrusted sample_build sample_services sample_args 20 [] sample_disk =
     (Inr 0, report ''1.0.0'' True (logger st'), st') \<and> files st' = files sample_disk) \<and>
   main_untrusted sample_build sample_services (sample_args\<lparr>arg_parse := \<lambda>argv defaults. (0, 1, defaults)\<rparr>) 20 [''--help'']
     sample_disk = (Inr 0, [], sample_disk\<lparr>logger := []\<rparr>)"
proof
  have "can_write sample_run_options sample_disk" by (simp add: can_write_def sample_run_selectors)
  with main_reports [OF sample_small_files, where args = sample_args and now = 20 and argv = "[]"
      and vb = sample_build and pf = sample_services]
  show "\<exists>st'. main_untrusted sample_build sample_services sample_args 20 [] sample_disk =
      (Inr 0, report ''1.0.0'' True (logger st'), st') \<and> files st' = files sample_disk"
    by (auto simp: sample_run_parse sample_version sample_run_accepted record_written_def sample_run_selectors)
  let ?args = "sample_args\<lparr>arg_parse := \<lambda>argv defaults. (0, 1, defaults)\<rparr>"
  have "options_parse ?args 20 [''--help''] st = (Inr None, st)" for st
    by (simp add: options_parse_def sample_args_def returnA_def)
  with main_reports [OF sample_small_files, where args = ?args and now = 20 and argv = "[''--help'']"
      and vb = sample_build and pf = sample_services]
  show "main_untrusted sample_build sample_services ?args 20 [''--help''] sample_disk =
      (Inr 0, [], sample_disk\<lparr>logger := []\<rparr>)"
    by simp
qed

end
