(* ===== verification/UtilsJson.thy ===== *)
theory UtilsJson
  imports JsonModel
begin

text \<open>
  \<^verbatim>\<open>AttestationLibrary/src/Utils/JsonParser.cpp\<close>: the library's own parser, which only its
  unit tests call, and how it differs from the parser of \<^verbatim>\<open>AttestationParsers\<close> that reads the
  collateral.  The member \<^verbatim>\<open>jsonDocument\<close> is the state; a document that could not be read is
  null.  \<^verbatim>\<open>None\<close> is a failed assertion of rapidjson.
\<close>

section \<open>The parser and its document\<close>

definition utils_parse :: "json_library \<Rightarrow> string \<Rightarrow> json \<Rightarrow> bool \<times> json" where
  "utils_parse lib json jsonDocument =
     (if json = [] then (False, jsonDocument)
      else case json_Parse lib (c_str json) of
        None \<Rightarrow> (False, JNull)
      | Some document \<Rightarrow> (IsObject document, document))"

definition getRoot :: "json \<Rightarrow> json" where
  "getRoot jsonDocument = jsonDocument"

definition utils_getField :: "json \<Rightarrow> string \<Rightarrow> json option" where
  "utils_getField jsonDocument fieldName =
     (if \<not> IsObject jsonDocument \<or> member jsonDocument fieldName = None then None
      else member jsonDocument fieldName)"

section \<open>Typed fields\<close>

definition utils_getStringFieldOf :: "json \<Rightarrow> string \<Rightarrow> (string \<times> parse_status) option" where
  "utils_getStringFieldOf parent fieldName =
     (if \<not> IsObject parent then None
      else case member parent fieldName of
        None \<Rightarrow> Some ([], PS_Missing)
      | Some (JString s) \<Rightarrow> Some (c_str s, PS_OK)
      | Some _ \<Rightarrow> Some ([], PS_Invalid))"

definition utils_isValidHexstring :: "string \<Rightarrow> bool" where
  "utils_isValidHexstring hexString \<longleftrightarrow> List.find (\<lambda>c. \<not> isxdigit c) hexString = None"

definition getHexstringFieldOf :: "json \<Rightarrow> string \<Rightarrow> nat \<Rightarrow> bytes \<times> parse_status" where
  "getHexstringFieldOf parent fieldName len =
     (if \<not> IsObject parent then ([], PS_Missing)
      else case member parent fieldName of
        None \<Rightarrow> ([], PS_Missing)
      | Some (JString s) \<Rightarrow>
          let propertyStr = c_str s in
          if length propertyStr = len \<and> utils_isValidHexstring propertyStr
          then (hexStringToBytes propertyStr, PS_OK) else ([], PS_Invalid)
      | Some _ \<Rightarrow> ([], PS_Invalid))"

definition utils_getDateFieldOf :: "json_library \<Rightarrow> json \<Rightarrow> string \<Rightarrow> tm \<times> parse_status" where
  "utils_getDateFieldOf lib parent fieldName =
     (if \<not> IsObject parent then (tm_zero, PS_Missing)
      else case member parent fieldName of
        None \<Rightarrow> (tm_zero, PS_Missing)
      | Some (JString s) \<Rightarrow>
          if \<not> isValidTimeString (json_time lib) (c_str s) then (tm_zero, PS_Invalid)
          else (getTimeFromString (json_time lib) (c_str s), PS_OK)
      | Some _ \<Rightarrow> (tm_zero, PS_Invalid))"

definition checkDateFieldOf :: "json_library \<Rightarrow> json \<Rightarrow> string \<Rightarrow> parse_status" where
  "checkDateFieldOf lib parent fieldName = snd (utils_getDateFieldOf lib parent fieldName)"

definition utils_getUintFieldOf :: "json \<Rightarrow> string \<Rightarrow> u32 \<times> parse_status" where
  "utils_getUintFieldOf parent fieldName =
     (if \<not> IsObject parent then (0, PS_Missing)
      else case member parent fieldName of
        None \<Rightarrow> (0, PS_Missing)
      | Some (JInt i) \<Rightarrow> if 0 \<le> i \<and> i < 2 ^ 32 then (word_of_int i, PS_OK) else (0, PS_Invalid)
      | Some _ \<Rightarrow> (0, PS_Invalid))"

definition utils_getIntFieldOf :: "json \<Rightarrow> string \<Rightarrow> int \<times> parse_status" where
  "utils_getIntFieldOf parent fieldName =
     (if \<not> IsObject parent then (0, PS_Missing)
      else case member parent fieldName of
        None \<Rightarrow> (0, PS_Missing)
      | Some (JInt i) \<Rightarrow> if - (2 ^ 31) \<le> i \<and> i < 2 ^ 31 then (i, PS_OK) else (0, PS_Invalid)
      | Some _ \<Rightarrow> (0, PS_Invalid))"

section \<open>The two parsers\<close>

text \<open>They accept the same texts, with the same document.\<close>

lemma parsers_accept_same:
  "JsonParser_parse lib json = (case utils_parse lib json d of (True, document) \<Rightarrow> Some document | _ \<Rightarrow> None)"
  by (simp add: JsonParser_parse_def utils_parse_def split: option.split)

text \<open>
  The field of an object has the same status in both; the value is the same but for dates, where one
  gives the calendar fields and the other their moment.
\<close>

lemma getters_agree:
  assumes "IsObject parent"
  shows "getStringFieldOf parent f = Inr (the (utils_getStringFieldOf parent f))"
    and "getBytesFieldOf parent f n = Inr (getHexstringFieldOf parent f n)"
    and "getUintFieldOf parent f = Inr (utils_getUintFieldOf parent f)"
    and "getIntFieldOf parent f = Inr (utils_getIntFieldOf parent f)"
    and "getDateFieldOf lib parent f = Inr (case utils_getDateFieldOf lib parent f of
      (t, status) \<Rightarrow> (if status = PS_OK then fst (mktime (json_time lib) t) else 0, status))"
proof -
  show "getStringFieldOf parent f = Inr (the (utils_getStringFieldOf parent f))"
    using assms by (simp add: getStringFieldOf_def utils_getStringFieldOf_def getFieldOf_def json_string_def
        split: option.split json.split)
  show "getBytesFieldOf parent f n = Inr (getHexstringFieldOf parent f n)"
    using assms by (simp add: getBytesFieldOf_def getHexstringFieldOf_def getFieldOf_def json_bytes_def Let_def
        isValidHexstring_def utils_isValidHexstring_def split: option.split json.split)
  show "getUintFieldOf parent f = Inr (utils_getUintFieldOf parent f)"
    using assms by (simp add: getUintFieldOf_def utils_getUintFieldOf_def getFieldOf_def json_uint_def
        split: option.split json.split)
  show "getIntFieldOf parent f = Inr (utils_getIntFieldOf parent f)"
    using assms by (simp add: getIntFieldOf_def utils_getIntFieldOf_def getFieldOf_def json_int_def
        split: option.split json.split)
  show "getDateFieldOf lib parent f = Inr (case utils_getDateFieldOf lib parent f of
      (t, status) \<Rightarrow> (if status = PS_OK then fst (mktime (json_time lib) t) else 0, status))"
    using assms by (simp add: getDateFieldOf_def utils_getDateFieldOf_def getFieldOf_def json_date_def
        getEpochTimeFromString_def split: option.split json.split)
qed

text \<open>
  Outside an object this parser says that the field is missing, where the other one throws, but for
  strings, where it runs into rapidjson's assertion.
\<close>

lemma getters_outside_object:
  assumes "\<not> IsObject parent"
  shows "utils_getStringFieldOf parent f = None" "snd (getHexstringFieldOf parent f n) = PS_Missing"
    "checkDateFieldOf lib parent f = PS_Missing" "snd (utils_getUintFieldOf parent f) = PS_Missing"
    "snd (utils_getIntFieldOf parent f) = PS_Missing" "getStringFieldOf parent f = Inl FormatException"
  using assms by (simp_all add: utils_getStringFieldOf_def getHexstringFieldOf_def checkDateFieldOf_def
      utils_getDateFieldOf_def utils_getUintFieldOf_def utils_getIntFieldOf_def getStringFieldOf_def getFieldOf_def)

text \<open>
  After a refused text no field is found, but for the empty text, which keeps the document before it.
\<close>

lemma refused_text:
  assumes "fst (utils_parse lib json d) = False"
  shows "json \<noteq> [] \<Longrightarrow> utils_getField (snd (utils_parse lib json d)) f = None"
    and "json = [] \<Longrightarrow> utils_getField (snd (utils_parse lib json d)) f = utils_getField d f"
  using assms by (auto simp: utils_parse_def utils_getField_def split: option.splits)

end
