(* ===== verification/Spec2Isabelle.thy ===== *)
theory Spec2Isabelle
  imports EndToEnd OptionalCell Program SampleRun UtilsJson
begin

text \<open>
  The Intel SGX and TDX quote verification library (\<^verbatim>\<open>src/Src\<close>).

  The library decides whether a quote, the signed statement of an enclave or a trust domain, comes
  from a genuine and up-to-date platform.  A caller hands over the quote and its collateral: the PCK
  certificate of the platform, a revocation list, a TCB info (which security version numbers are up
  to date) and the identity of the quoting enclave.  The pieces, in the order a call reaches them:

  \<^item> \<^verbatim>\<open>AttestationLibrary/src/QuoteVerification.cpp\<close>, the exported functions:
    theories Api (one definition per function, the two version functions among them) and EndToEnd
    (which calls may throw, what a verdict means, what the certification data functions hand over).
  \<^item> \<^verbatim>\<open>QuoteVerification/Quote*.cpp\<close>, the binary quote: QuoteStructures (the records
    and their \<^verbatim>\<open>insert\<close> methods over a buffer and an iterator), QuoteLayout (each
    method as a parser with fixed offsets), QuoteModel (\<^verbatim>\<open>Quote::parse\<close>,
    \<^verbatim>\<open>validate\<close> and the accessors).
  \<^item> \<^verbatim>\<open>AttestationParsers/src/Json\<close>, TCB info and enclave identity: JsonModel (typed
    fields of a document, the depth guard), CollateralParsers (the constructors), TcbModel (the parsed
    values and their order).
  \<^item> \<^verbatim>\<open>AttestationParsers/src/X509\<close>, \<^verbatim>\<open>PckParser\<close>,
    \<^verbatim>\<open>CertVerification\<close>: X509Model (parsed values), CertificateParser, PckExtensions
    (the SGX extensions of a PCK certificate), CrlParser, CertChain.
  \<^item> \<^verbatim>\<open>Verifiers\<close>: ChainVerifiers (certificates, revocation lists, the two chains),
    CollateralVerifiers (signed documents, enclave reports), QuoteVerifier (all checks of a quote and
    the record of the collateral), EvaluateTcb (matching the TCB levels), CollateralInfo (the record
    and its 1048 bytes).
  \<^item> \<^verbatim>\<open>AttestationApp\<close>, the command line program: App (files and log as state, the run over
    any adapter of the library, the adapter of the build without an enclave, the options) and Program
    (\<^verbatim>\<open>main\<close>, the adapter of the enclave build over any edge routines, and the verdict of
    that build).  SampleRun is a machine whose files \<^verbatim>\<open>main\<close> accepts with the real library.
  \<^item> \<^verbatim>\<open>AttestationLibrary/src/Utils/JsonParser.cpp\<close>, an older parser that only its
    unit tests use: UtilsJson, which compares it with the one of JsonModel.
  \<^item> Shared: Prelude, Statuses (status codes, exceptions as the left of a sum, how they are
    printed), ByteOperands (byte order, hexadecimal), OrderedSet (\<^verbatim>\<open>std::set\<close>),
    OpensslHelpers (keys, signatures, digests), GMTime and MkTime (the calendar of the enclave,
    \<^verbatim>\<open>GMTime.cpp\<close>), TimeUtils (the dates of the collateral, in the standard build over
    the C library and in the enclave over MkTime), OptionalCell
    (\<^verbatim>\<open>Utils/Optional.h\<close> with its memory).

  State and effects.  The library keeps state in three places: a quote under construction (the record
  \<open>quote\<close>, returned updated, with the iterator as an offset), the collateral record of one
  verification (\<open>ver_coll_info\<close>, threaded through the monad \<open>vci_run\<close>), and members
  assigned one after the other by the parsers; the program has its files and log (\<open>app_state\<close>).
  Exceptions are values of type \<open>exn\<close> in
  \<open>outcome\<close>; the handlers of the code are \<open>try_parse\<close>, \<open>catch_exns\<close>,
  \<open>catch_std\<close> and \<open>catch_runtime\<close>.  Fixed-width integers are words; times and the
  integers of JSON and ASN.1 are \<open>int\<close>, with the 32-bit range tests where the code makes them.

  Foreign code is a parameter.  \<open>openssl\<close> (keys, signatures, digests), \<open>asn1_decoder\<close>,
  \<open>x509_reader\<close> and \<open>crl_reader\<close> (what OpenSSL reads out of DER and PEM),
  \<open>json_library\<close> (rapidjson's reader and writer) and \<open>time_platform\<close> (\<^verbatim>\<open>timegm\<close> and the
  clock, for the standard build) are records of functions; \<open>platform\<close> bundles them for the exported functions.  The program has two
  more, \<open>arg_library\<close> (argtable3) and \<open>edge_routines\<close> (the calls into the enclave).  Every theorem holds
  for all of them unless it names a hypothesis: the comparison of the two builds on dates assumes that
  \<^verbatim>\<open>timegm\<close> counts the seconds of the calendar, as POSIX says (\<open>posix_timegm\<close>), and the verdict of
  the enclave build assumes nothing of the edge routines.

  What the lemmas show.  For each binary structure: the accepted inputs, the offsets of the fields,
  and the round trip with \<^verbatim>\<open>rawBlob\<close>.  For the parsers of certificates and
  documents: which inputs are accepted, that the result is well formed, and which exceptions can be
  thrown.  For the evaluation: the chosen level is the highest the platform reaches, and converged
  statuses are never better than their parts.  For the verifiers: the exact conditions of acceptance.
  The locale \<open>ordered_set\<close> of OrderedSet is interpreted on the level sets, the identity levels and
  the advisory ids; the locales of QuoteLayout carry the lemmas all report types share; the locale
  \<open>signed_document\<close> of CollateralVerifiers is interpreted on both documents, and the locale
  \<open>answering_adapter\<close> of App on the library as the program sees it.  EndToEnd joins the
  parts: a verdict of \<open>sgxAttestationVerifyQuoteEx\<close> rests on the bytes of the caller.  App and Program
  carry this to the program: its verdict is positive exactly when every file can be read, the library (or
  the enclave) accepts each part, and the record can be written where the options ask for it.

  Bounds.  The loops of the code are total functions with a termination proof, but for the search of
  \<^verbatim>\<open>sgxssl_mktime\<close>, which is a partial function with a proof that it returns when the
  fields of the date lie within half a million (those of a date of the collateral are below 200000);
  there is no fuel.  Quotes are below 4 GB, as their size is a 32-bit argument.

  Not modelled: logging with its two exported set-up functions and the texts of log messages, as no
  result depends on them; how the edge routines move arguments in and out of the enclave; the OpenSSL smart
  pointer wrappers and the texts OpenSSL prints for its objects and errors; the vendored rapidjson and
  argtable3, which are parameters; the help text of the options; the tests.
\<close>

end
